(* ===== verification/Prelude.thy ===== *)
theory Prelude
  imports Main "HOL-Library.Word"
begin

unbundle bit_operations_syntax

text \<open>
  Shared vocabulary of the development: the machine-integer types, the exception-and-state
  computations every stateful method is written in, a weakest-precondition calculus and an
  invariant calculus for them, and the generic facts on lists and words the components share.
\<close>

section \<open>Machine integers\<close>

type_synonym u8 = "8 word"
type_synonym u16 = "16 word"
type_synonym u32 = "32 word"
type_synonym u64 = "64 word"
type_synonym i16 = "16 word" \<comment> \<open>two's complement, read with \<open>sint\<close>\<close>
type_synonym i32 = "32 word" \<comment> \<open>two's complement, read with \<open>sint\<close>\<close>

section \<open>Computations that pass a state and may throw\<close>

text \<open>
  A C++ member function is a function of the state it can reach that returns either the thrown
  exception (\<open>Inl\<close>) or its result (\<open>Inr\<close>), together with the state it leaves behind. The state
  survives a throw, as it does in C++.
\<close>

type_synonym ('s, 'e, 'a) comp = "'s \<Rightarrow> ('e + 'a) \<times> 's"

definition returnM :: "'a \<Rightarrow> ('s, 'e, 'a) comp" where
  "returnM x s = (Inr x, s)"

definition throwM :: "'e \<Rightarrow> ('s, 'e, 'a) comp" where
  "throwM e s = (Inl e, s)"

definition bindM :: "('s, 'e, 'a) comp \<Rightarrow> ('a \<Rightarrow> ('s, 'e, 'b) comp) \<Rightarrow> ('s, 'e, 'b) comp" where
  "bindM m f s = (case m s of (Inl e, s') \<Rightarrow> (Inl e, s') | (Inr x, s') \<Rightarrow> f x s')"

definition seqM :: "('s, 'e, 'a) comp \<Rightarrow> ('s, 'e, 'b) comp \<Rightarrow> ('s, 'e, 'b) comp" where
  "seqM m k = bindM m (\<lambda>_. k)"

definition getM :: "('s \<Rightarrow> 'a) \<Rightarrow> ('s, 'e, 'a) comp" where
  "getM f s = (Inr (f s), s)"

definition modifyM :: "('s \<Rightarrow> 's) \<Rightarrow> ('s, 'e, unit) comp" where
  "modifyM f s = (Inr (), f s)"

definition handleM :: "('s, 'e, 'a) comp \<Rightarrow> ('e \<Rightarrow> ('s, 'e, 'a) comp) \<Rightarrow> ('s, 'e, 'a) comp" where
  "handleM m h s = (case m s of (Inl e, s') \<Rightarrow> h e s' | (Inr x, s') \<Rightarrow> (Inr x, s'))"

definition whenM :: "bool \<Rightarrow> ('s, 'e, unit) comp \<Rightarrow> ('s, 'e, unit) comp" where
  "whenM b m = (if b then m else returnM ())"

fun foreachM :: "'x list \<Rightarrow> ('x \<Rightarrow> ('s, 'e, unit) comp) \<Rightarrow> ('s, 'e, unit) comp" where
  "foreachM [] f = returnM ()"
| "foreachM (x # xs) f = seqM (f x) (foreachM xs f)"

fun mapM :: "('x \<Rightarrow> ('s, 'e, 'y) comp) \<Rightarrow> 'x list \<Rightarrow> ('s, 'e, 'y list) comp" where
  "mapM f [] = returnM []"
| "mapM f (x # xs) = bindM (f x) (\<lambda>y. bindM (mapM f xs) (\<lambda>ys. returnM (y # ys)))"

text \<open>An exception sum turned into a computation, and a pure environment step.\<close>

definition liftE :: "'e + 'a \<Rightarrow> ('s, 'e, 'a) comp" where
  "liftE r s = (r, s)"

named_theorems run_simps "equations that run a computation on a state"

lemma returnM_run [run_simps]: "returnM x s = (Inr x, s)"
  by (simp add: returnM_def)

lemma throwM_run [run_simps]: "throwM e s = (Inl e, s)"
  by (simp add: throwM_def)

lemma getM_run [run_simps]: "getM f s = (Inr (f s), s)"
  by (simp add: getM_def)

lemma modifyM_run [run_simps]: "modifyM f s = (Inr (), f s)"
  by (simp add: modifyM_def)

lemma liftE_run [run_simps]: "liftE r s = (r, s)"
  by (simp add: liftE_def)

lemma bindM_Inr: "m s = (Inr x, s') \<Longrightarrow> bindM m f s = f x s'"
  by (simp add: bindM_def)

lemma bindM_Inl: "m s = (Inl e, s') \<Longrightarrow> bindM m f s = (Inl e, s')"
  by (simp add: bindM_def)

lemma seqM_Inr: "m s = (Inr x, s') \<Longrightarrow> seqM m k s = k s'"
  by (simp add: seqM_def bindM_def)

lemma seqM_Inl: "m s = (Inl e, s') \<Longrightarrow> seqM m k s = (Inl e, s')"
  by (simp add: seqM_def bindM_def)

lemma bindM_returnM [simp]: "bindM (returnM x) f = f x"
  by (simp add: bindM_def returnM_def fun_eq_iff)

lemma liftE_Inr: "bindM (liftE (Inr x)) f = f x"
  by (simp add: bindM_def liftE_def fun_eq_iff)

lemma bindM_throwM [simp]: "bindM (throwM e) f = throwM e"
  by (simp add: bindM_def throwM_def fun_eq_iff)

lemma bindM_assoc: "bindM (bindM m f) g = bindM m (\<lambda>x. bindM (f x) g)"
  by (rule ext) (simp add: bindM_def split: prod.splits sum.splits)

lemma bindM_eq_Inr:
  "bindM m f s = (Inr y, t) \<longleftrightarrow> (\<exists>x s'. m s = (Inr x, s') \<and> f x s' = (Inr y, t))"
  by (auto simp: bindM_def split: prod.splits sum.splits)

lemma seqM_eq_Inr:
  "seqM m k s = (Inr y, t) \<longleftrightarrow> (\<exists>x s'. m s = (Inr x, s') \<and> k s' = (Inr y, t))"
  by (auto simp: seqM_def bindM_eq_Inr)

lemma foreachM_append:
  "foreachM (xs @ ys) f = seqM (foreachM xs f) (foreachM ys f)"
  by (induction xs) (auto simp: seqM_def bindM_assoc)

section \<open>Weakest preconditions\<close>

text \<open>
  \<open>wp m Q E s\<close>: running \<open>m\<close> from \<open>s\<close> either returns a value and a state that satisfy \<open>Q\<close> or throws
  an exception that, with the state it leaves, satisfies \<open>E\<close>. The rules in \<open>wp_simps\<close> turn the
  \<open>wp\<close> of a composed method into the \<open>wp\<close> of its parts.
\<close>

definition wp :: "('s, 'e, 'a) comp \<Rightarrow> ('a \<Rightarrow> 's \<Rightarrow> bool) \<Rightarrow> ('e \<Rightarrow> 's \<Rightarrow> bool) \<Rightarrow> 's \<Rightarrow> bool" where
  "wp m Q E s = (case m s of (Inl e, t) \<Rightarrow> E e t | (Inr x, t) \<Rightarrow> Q x t)"

named_theorems wp_simps "weakest preconditions of the combinators"

lemma wp_returnM [wp_simps]: "wp (returnM x) Q E s = Q x s"
  by (simp add: wp_def returnM_def)

lemma wp_throwM [wp_simps]: "wp (throwM e) Q E s = E e s"
  by (simp add: wp_def throwM_def)

lemma wp_bindM [wp_simps]: "wp (bindM m f) Q E s = wp m (\<lambda>x. wp (f x) Q E) E s"
  by (auto simp: wp_def bindM_def split: prod.splits sum.splits)

lemma wp_seqM [wp_simps]: "wp (seqM m k) Q E s = wp m (\<lambda>_. wp k Q E) E s"
  by (simp add: seqM_def wp_bindM)

lemma wp_getM [wp_simps]: "wp (getM f) Q E s = Q (f s) s"
  by (simp add: wp_def getM_def)

lemma wp_modifyM [wp_simps]: "wp (modifyM f) Q E s = Q () (f s)"
  by (simp add: wp_def modifyM_def)

lemma wp_handleM [wp_simps]: "wp (handleM m h) Q E s = wp m Q (\<lambda>e. wp (h e) Q E) s"
  by (auto simp: wp_def handleM_def split: prod.splits sum.splits)

lemma wp_whenM [wp_simps]: "wp (whenM b m) Q E s = (if b then wp m Q E s else Q () s)"
  by (simp add: whenM_def wp_returnM)

lemma wp_liftE [wp_simps]: "wp (liftE r) Q E s = (case r of Inl e \<Rightarrow> E e s | Inr x \<Rightarrow> Q x s)"
  by (simp add: wp_def liftE_def)

lemma wp_if: "wp (if b then m else k) Q E s = (if b then wp m Q E s else wp k Q E s)"
  by simp

lemma wp_mono:
  assumes "wp m Q E s" "\<And>x t. Q x t \<Longrightarrow> Q' x t" "\<And>e t. E e t \<Longrightarrow> E' e t"
  shows "wp m Q' E' s"
  using assms by (auto simp: wp_def split: prod.splits sum.splits)

lemma wp_conj: "wp m Q E s \<Longrightarrow> wp m Q' E' s \<Longrightarrow> wp m (\<lambda>x t. Q x t \<and> Q' x t) (\<lambda>e t. E e t \<and> E' e t) s"
  by (auto simp: wp_def split: prod.splits sum.splits)

lemma wp_run: "wp m Q E s \<Longrightarrow> m s = (r, t) \<Longrightarrow> (case r of Inl e \<Rightarrow> E e t | Inr x \<Rightarrow> Q x t)"
  by (auto simp: wp_def split: sum.splits)

lemma wp_Inr: "wp m Q E s \<Longrightarrow> m s = (Inr x, t) \<Longrightarrow> Q x t"
  by (auto simp: wp_def)

lemma wp_Inl: "wp m Q E s \<Longrightarrow> m s = (Inl e, t) \<Longrightarrow> E e t"
  by (auto simp: wp_def)

section \<open>Triples\<close>

text \<open>
  \<open>triple S c m r c'\<close>: from every state at stage \<open>c\<close> the method gives the result \<open>r\<close>, an exception
  or a value, and ends at stage \<open>c'\<close>. A stage is what a component's states are described by, such
  as the contents of a memory.
\<close>

definition triple :: "('c \<Rightarrow> 's \<Rightarrow> bool) \<Rightarrow> 'c \<Rightarrow> ('s, 'e, 'a) comp \<Rightarrow> 'e + 'a \<Rightarrow> 'c \<Rightarrow> bool" where
  "triple S c m r c' \<longleftrightarrow> (\<forall>s. S c s \<longrightarrow> (\<exists>t. m s = (r, t) \<and> S c' t))"

lemma tripleD: "triple S c m r c' \<Longrightarrow> S c s \<Longrightarrow> \<exists>t. m s = (r, t) \<and> S c' t"
  by (simp add: triple_def)

lemma triple_returnM: "triple S c (returnM x) (Inr x) c"
  by (simp add: triple_def returnM_def)

lemma triple_throwM: "triple S c (throwM e) (Inl e) c"
  by (simp add: triple_def throwM_def)

lemma triple_liftE: "triple S c (liftE r) r c"
  by (simp add: triple_def liftE_def)

lemma triple_bindM: "triple S c m (Inr x) c' \<Longrightarrow> triple S c' (f x) r c'' \<Longrightarrow> triple S c (bindM m f) r c''"
  by (fastforce simp: triple_def bindM_def)

lemma triple_seqM: "triple S c m (Inr x) c' \<Longrightarrow> triple S c' k r c'' \<Longrightarrow> triple S c (seqM m k) r c''"
  by (simp add: seqM_def triple_bindM)

lemma triple_bindM_Inl: "triple S c m (Inl e) c' \<Longrightarrow> triple S c (bindM m f) (Inl e) c'"
  by (fastforce simp: triple_def bindM_def)

lemma triple_handleM: "triple S c m (Inr x) c' \<Longrightarrow> triple S c (handleM m h) (Inr x) c'"
  by (fastforce simp: triple_def handleM_def)

lemma triple_foreachM:
  assumes "\<And>x c. x \<in> set xs \<Longrightarrow> triple S c (f x) (Inr ()) (g x c)"
  shows "triple S c (foreachM xs f) (Inr ()) (fold g xs c)"
  using assms by (induction xs arbitrary: c) (auto intro!: triple_returnM triple_seqM)

section \<open>Preserved invariants\<close>

text \<open>
  \<open>keeps I m\<close>: whatever \<open>m\<close> does, throwing included, it leads from states with \<open>I\<close> to states with
  \<open>I\<close>. The rules in \<open>keeps_intros\<close> follow the syntax of a method, so the invariant of a component
  is proved by \<open>(intro keeps_intros)\<close> from the invariant of the methods it calls.
\<close>

definition keeps :: "('s \<Rightarrow> bool) \<Rightarrow> ('s, 'e, 'a) comp \<Rightarrow> bool" where
  "keeps I m \<longleftrightarrow> (\<forall>s. I s \<longrightarrow> I (snd (m s)))"

named_theorems keeps_intros "invariant rules that follow the syntax of a method"

lemma keepsI: "(\<And>s r t. I s \<Longrightarrow> m s = (r, t) \<Longrightarrow> I t) \<Longrightarrow> keeps I m"
  unfolding keeps_def by (metis prod.collapse)

lemma keepsD: "keeps I m \<Longrightarrow> I s \<Longrightarrow> m s = (r, t) \<Longrightarrow> I t"
  by (force simp: keeps_def)

lemma keeps_returnM [keeps_intros]: "keeps I (returnM x)"
  by (simp add: keeps_def returnM_def)

lemma keeps_throwM [keeps_intros]: "keeps I (throwM e)"
  by (simp add: keeps_def throwM_def)

lemma keeps_getM [keeps_intros]: "keeps I (getM f)"
  by (simp add: keeps_def getM_def)

lemma keeps_liftE [keeps_intros]: "keeps I (liftE r)"
  by (simp add: keeps_def liftE_def)

lemma keeps_bindM [keeps_intros]: "keeps I m \<Longrightarrow> (\<And>x. keeps I (f x)) \<Longrightarrow> keeps I (bindM m f)"
  unfolding keeps_def bindM_def by (fastforce split: prod.splits sum.splits)

lemma keeps_seqM [keeps_intros]: "keeps I m \<Longrightarrow> keeps I k \<Longrightarrow> keeps I (seqM m k)"
  by (simp add: seqM_def keeps_bindM)

lemma keeps_handleM [keeps_intros]: "keeps I m \<Longrightarrow> (\<And>e. keeps I (h e)) \<Longrightarrow> keeps I (handleM m h)"
  unfolding keeps_def handleM_def by (fastforce split: prod.splits sum.splits)

lemma keeps_whenM [keeps_intros]: "keeps I m \<Longrightarrow> keeps I (whenM b m)"
  by (simp add: whenM_def keeps_returnM)

lemma keeps_if [keeps_intros]: "keeps I m \<Longrightarrow> keeps I k \<Longrightarrow> keeps I (if b then m else k)"
  by simp

lemma keeps_let [keeps_intros]: "(\<And>x. keeps I (f x)) \<Longrightarrow> keeps I (let x = y in f x)"
  by simp

lemma keeps_case_option [keeps_intros]:
  "keeps I m \<Longrightarrow> (\<And>x. keeps I (f x)) \<Longrightarrow> keeps I (case r of None \<Rightarrow> m | Some x \<Rightarrow> f x)"
  by (cases r) auto

lemma keeps_case_prod [keeps_intros]:
  "(\<And>x y. keeps I (f x y)) \<Longrightarrow> keeps I (case p of (x, y) \<Rightarrow> f x y)"
  by (cases p) auto

lemma keeps_case_list [keeps_intros]:
  "keeps I m \<Longrightarrow> (\<And>x xs. keeps I (f x xs)) \<Longrightarrow> keeps I (case r of [] \<Rightarrow> m | x # xs \<Rightarrow> f x xs)"
  by (cases r) auto

lemma keeps_modifyM: "(\<And>s. I s \<Longrightarrow> I (f s)) \<Longrightarrow> keeps I (modifyM f)"
  by (simp add: keeps_def modifyM_def)

lemma keeps_foreachM [keeps_intros]: "(\<And>x. keeps I (f x)) \<Longrightarrow> keeps I (foreachM xs f)"
  by (induction xs) (auto intro: keeps_intros)

lemma keeps_mapM [keeps_intros]: "(\<And>x. keeps I (f x)) \<Longrightarrow> keeps I (mapM f xs)"
  by (induction xs) (auto intro!: keeps_intros)

section \<open>Exceptions a method never ends with\<close>

text \<open>\<open>avoids E m\<close>: no run of \<open>m\<close> throws an exception in \<open>E\<close>.\<close>

definition avoids :: "('e \<Rightarrow> bool) \<Rightarrow> ('s, 'e, 'a) comp \<Rightarrow> bool" where
  "avoids E m \<longleftrightarrow> (\<forall>s e t. m s = (Inl e, t) \<longrightarrow> \<not> E e)"

named_theorems avoids_intros "rules for avoided exceptions that follow the syntax of a method"

lemma avoidsD: "avoids E m \<Longrightarrow> m s = (Inl e, t) \<Longrightarrow> \<not> E e"
  by (auto simp: avoids_def)

lemma avoids_returnM [avoids_intros]: "avoids E (returnM x)"
  by (simp add: avoids_def returnM_def)

lemma avoids_throwM: "\<not> E e \<Longrightarrow> avoids E (throwM e)"
  by (simp add: avoids_def throwM_def)

lemma avoids_getM [avoids_intros]: "avoids E (getM f)"
  by (simp add: avoids_def getM_def)

lemma avoids_modifyM [avoids_intros]: "avoids E (modifyM f)"
  by (simp add: avoids_def modifyM_def)

lemma avoids_bindM [avoids_intros]: "avoids E m \<Longrightarrow> (\<And>x. avoids E (f x)) \<Longrightarrow> avoids E (bindM m f)"
  unfolding avoids_def bindM_def by (fastforce split: prod.splits sum.splits)

lemma avoids_seqM [avoids_intros]: "avoids E m \<Longrightarrow> avoids E k \<Longrightarrow> avoids E (seqM m k)"
  by (simp add: seqM_def avoids_bindM)

lemma avoids_whenM [avoids_intros]: "avoids E m \<Longrightarrow> avoids E (whenM b m)"
  by (simp add: whenM_def avoids_returnM)

lemma avoids_if [avoids_intros]: "avoids E m \<Longrightarrow> avoids E k \<Longrightarrow> avoids E (if b then m else k)"
  by simp

lemma avoids_let [avoids_intros]: "(\<And>x. avoids E (f x)) \<Longrightarrow> avoids E (let x = y in f x)"
  by simp

lemma avoids_case_option [avoids_intros]:
  "avoids E m \<Longrightarrow> (\<And>x. avoids E (f x)) \<Longrightarrow> avoids E (case r of None \<Rightarrow> m | Some x \<Rightarrow> f x)"
  by (cases r) auto

lemma avoids_case_prod [avoids_intros]:
  "(\<And>x y. avoids E (f x y)) \<Longrightarrow> avoids E (case p of (x, y) \<Rightarrow> f x y)"
  by (cases p) auto

lemma avoids_foreachM [avoids_intros]: "(\<And>x. avoids E (f x)) \<Longrightarrow> avoids E (foreachM xs f)"
  by (induction xs) (auto intro: avoids_intros)

lemma avoids_mapM [avoids_intros]: "(\<And>x. avoids E (f x)) \<Longrightarrow> avoids E (mapM f xs)"
  by (induction xs) (auto intro!: avoids_intros)

lemma avoids_handleM:
  "(\<And>e. avoids E (h e)) \<Longrightarrow> avoids E (handleM m h)"
  unfolding avoids_def handleM_def by (fastforce split: prod.splits sum.splits)

end
