(* ===== verification/Errors.thy ===== *)
theory Errors
  imports Prelude
begin

text \<open>
  Status codes (\<open>APS2_errno.h\<close>), the API's enumerations (\<open>APS2_enums.h\<close>) and the exceptions a
  method of the driver can end with.
\<close>

section \<open>Status codes\<close>

datatype APS2_STATUS =
    APS2_OK | APS2_UNKNOWN_ERROR | APS2_NO_DEVICE_FOUND | APS2_UNCONNECTED
  | APS2_RESET_TIMEOUT | APS2_FILELOG_ERROR | APS2_SEQFILE_FAIL | APS2_PLL_LOST_LOCK
  | APS2_MMCM_LOST_LOCK | APS2_UNKNOWN_RUN_MODE | APS2_FAILED_TO_CONNECT | APS2_INVALID_DAC
  | APS2_NO_SUCH_BITFILE | APS2_MAC_ADDR_VALIDATION_FAILURE | APS2_IP_ADDR_VALIDATION_FAILURE
  | APS2_DHCP_VALIDATION_FAILURE | APS2_RECEIVE_TIMEOUT | APS2_SOCKET_FAILURE
  | APS2_INVALID_IP_ADDR | APS2_COMMS_ERROR | APS2_UNALIGNED_MEMORY_ACCESS
  | APS2_ERPOM_ERASE_FAILURE | APS2_BITFILE_VALIDATION_FAILURE | APS2_BAD_PLL_VALUE
  | APS2_NO_WFS | APS2_WAVEFORM_FREQ_OVERFLOW

fun status_code :: "APS2_STATUS \<Rightarrow> int" where
  "status_code APS2_OK = 0"
| "status_code APS2_UNKNOWN_ERROR = -1"
| "status_code APS2_NO_DEVICE_FOUND = -2"
| "status_code APS2_UNCONNECTED = -3"
| "status_code APS2_RESET_TIMEOUT = -4"
| "status_code APS2_FILELOG_ERROR = -5"
| "status_code APS2_SEQFILE_FAIL = -6"
| "status_code APS2_PLL_LOST_LOCK = -7"
| "status_code APS2_MMCM_LOST_LOCK = -8"
| "status_code APS2_UNKNOWN_RUN_MODE = -9"
| "status_code APS2_FAILED_TO_CONNECT = -10"
| "status_code APS2_INVALID_DAC = -11"
| "status_code APS2_NO_SUCH_BITFILE = -12"
| "status_code APS2_MAC_ADDR_VALIDATION_FAILURE = -13"
| "status_code APS2_IP_ADDR_VALIDATION_FAILURE = -14"
| "status_code APS2_DHCP_VALIDATION_FAILURE = -15"
| "status_code APS2_RECEIVE_TIMEOUT = -16"
| "status_code APS2_SOCKET_FAILURE = -17"
| "status_code APS2_INVALID_IP_ADDR = -18"
| "status_code APS2_COMMS_ERROR = -19"
| "status_code APS2_UNALIGNED_MEMORY_ACCESS = -20"
| "status_code APS2_ERPOM_ERASE_FAILURE = -21"
| "status_code APS2_BITFILE_VALIDATION_FAILURE = -22"
| "status_code APS2_BAD_PLL_VALUE = -23"
| "status_code APS2_NO_WFS = -24"
| "status_code APS2_WAVEFORM_FREQ_OVERFLOW = -25"

lemma status_code_inj: "status_code a = status_code b \<Longrightarrow> a = b"
  by (cases a; cases b; simp)

text \<open>The table \<open>messages\<close>: the codes it has no entry for map to \<open>None\<close>.\<close>

fun messages :: "APS2_STATUS \<Rightarrow> string option" where
  "messages APS2_NO_DEVICE_FOUND = Some ''Device failed to respond at requested IP address''"
| "messages APS2_UNCONNECTED = Some ''Attempt to run library function on unconnected APS2''"
| "messages APS2_SEQFILE_FAIL = Some ''Failed to load HDF5 sequence file. Check it is present and correctly formatted.''"
| "messages APS2_FILELOG_ERROR = Some ''Unable to open log file.''"
| "messages APS2_PLL_LOST_LOCK = Some ''The PLL chip has lost its lock.  Try power cycling the module.''"
| "messages APS2_MMCM_LOST_LOCK = Some ''The FPGA MMCM has lost its lock.  Try resetting the module.''"
| "messages APS2_UNKNOWN_RUN_MODE = Some ''Unknown APS2 run mode.  Available options are RUN_SEQUENCE, TRIG_WAVEFORM, CW_WAVEFORM''"
| "messages APS2_FAILED_TO_CONNECT = Some ''Unable to connect to requested APS2.  Make sure it is connected to network and that no other system is connected.''"
| "messages APS2_INVALID_DAC = Some ''API call requested invalid DAC channel.  Only 2 channels per module.''"
| "messages APS2_NO_SUCH_BITFILE = Some ''Could not find bitfile at location specified.''"
| "messages APS2_MAC_ADDR_VALIDATION_FAILURE = Some ''Failed to validate the update to the MAC address in flash memory.''"
| "messages APS2_IP_ADDR_VALIDATION_FAILURE = Some ''Failed to validate the update to the IP address in flash memory.''"
| "messages APS2_DHCP_VALIDATION_FAILURE = Some ''Failed to validate the update to the DHCP enable bit in flash memory.''"
| "messages APS2_RECEIVE_TIMEOUT = Some ''Timed out while waiting to receive data.''"
| "messages APS2_SOCKET_FAILURE = Some ''Failed to open ethernet socket. Verify that no dangling libaps2 processes are running.''"
| "messages APS2_INVALID_IP_ADDR = Some ''Requested conneciton to invalid IPv4 address.''"
| "messages APS2_COMMS_ERROR = Some ''Ethernet communications failed.''"
| "messages APS2_UNALIGNED_MEMORY_ACCESS = Some ''SDRAM memory must be accessed at 8 (configuration SDRAM) or 16 (sequence/waveform SDRAM) or 64k (flash erase) or 256 (flash write) byte boundaries.''"
| "messages APS2_ERPOM_ERASE_FAILURE = Some ''ERPOM erase command failed''"
| "messages APS2_BITFILE_VALIDATION_FAILURE = Some ''bitfile validation failed''"
| "messages APS2_BAD_PLL_VALUE = Some ''Unexpected PLL chip value''"
| "messages APS2_NO_WFS = Some ''Asked for waveform mode with no waveforms loaded''"
| "messages APS2_WAVEFORM_FREQ_OVERFLOW = Some ''Waveform frequency must be in range [-600MHz, 600MHz)''"
| "messages _ = None"

text \<open>\<open>get_error_msg\<close> of \<open>libaps2.cpp\<close>.\<close>

definition get_error_msg :: "APS2_STATUS \<Rightarrow> string" where
  "get_error_msg err =
     (case messages err of Some m \<Rightarrow> m | None \<Rightarrow> ''No error message for this status number.'')"

lemma messages_None_iff:
  "messages s = None \<longleftrightarrow> s \<in> {APS2_OK, APS2_UNKNOWN_ERROR, APS2_RESET_TIMEOUT}"
  by (cases s) simp_all

section \<open>Enumerations of the API\<close>

datatype APS2_TRIGGER_SOURCE = EXTERNAL | INTERNAL | SOFTWARE | SYSTEM

fun trigger_code :: "APS2_TRIGGER_SOURCE \<Rightarrow> u32" where
  "trigger_code EXTERNAL = 0"
| "trigger_code INTERNAL = 1"
| "trigger_code SOFTWARE = 2"
| "trigger_code SYSTEM = 3"

text \<open>A value of an unscoped C enum can lie outside the enumerators; \<open>set_run_mode\<close> and \<open>reset\<close>
  have a \<open>default\<close> branch for it, so the last constructor stands for such a value.\<close>

datatype APS2_RUN_MODE = RUN_SEQUENCE | TRIG_WAVEFORM | CW_WAVEFORM | OTHER_RUN_MODE int

datatype APS2_RUN_STATE = STOPPED | PLAYING

datatype APS2_HOST_TYPE = APS | TDM

datatype APS2_BITFILE_STORAGE_MEDIA = BITFILE_MEDIA_DRAM | BITFILE_MEDIA_EPROM

datatype APS2_BITFILE_WRITING_TASK = STARTING | ERASING | WRITING | VALIDATING | DONE

datatype APS2_RESET_MODE = RECONFIG_EPROM_USER | RECONFIG_EPROM_BASE | RESET_TCP | OTHER_RESET_MODE int

section \<open>Exceptions\<close>

text \<open>
  \<open>Thrown\<close> is a \<open>throw\<close> of a status code, \<open>OutOfRange\<close> is the \<open>std::out_of_range\<close> of
  \<open>map::at\<close>, \<open>SystemError\<close> the \<open>std::system_error\<close> of the socket library and \<open>RuntimeError\<close> a
  \<open>std::runtime_error\<close>. \<open>Undefined\<close> marks an operation whose behaviour the C++ standard leaves
  undefined (a null pointer, an index past the end of a vector, a conversion out of range): no
  handler catches it. \<open>Diverges\<close> marks a loop that has used up its fuel.
\<close>

datatype exn = Thrown APS2_STATUS | OutOfRange | SystemError | RuntimeError | Undefined | Diverges

text \<open>What \<open>catch (...)\<close> can catch.\<close>

fun catchable :: "exn \<Rightarrow> bool" where
  "catchable Undefined = False"
| "catchable Diverges = False"
| "catchable _ = True"

text \<open>\<open>try { m } catch (...) { h }\<close>\<close>

definition catch_all :: "('s, exn, 'a) comp \<Rightarrow> ('s, exn, 'a) comp \<Rightarrow> ('s, exn, 'a) comp" where
  "catch_all m h = handleM m (\<lambda>e. if catchable e then h else throwM e)"

lemma wp_catch_all [wp_simps]:
  "wp (catch_all m h) Q E s =
     wp m Q (\<lambda>e t. if catchable e then wp h Q E t else E e t) s"
proof -
  have h: "(\<lambda>e. wp (if catchable e then h else throwM e) Q E) =
      (\<lambda>e t. if catchable e then wp h Q E t else E e t)"
    by (intro ext) (simp add: wp_throwM)
  show ?thesis
    by (simp only: catch_all_def wp_handleM h)
qed

lemma keeps_catch_all [keeps_intros]: "keeps I m \<Longrightarrow> keeps I h \<Longrightarrow> keeps I (catch_all m h)"
  unfolding catch_all_def by (intro keeps_intros)

type_synonym ('s, 'a) meth = "('s, exn, 'a) comp"

text \<open>Reading element \<open>i\<close> of a vector: undefined past the end.\<close>

definition vec_at :: "'x list \<Rightarrow> nat \<Rightarrow> ('s, 'x) meth" where
  "vec_at xs i = (if i < length xs then returnM (xs ! i) else throwM Undefined)"

lemma keeps_vec_at [keeps_intros]: "keeps I (vec_at xs i)"
  unfolding vec_at_def by (intro keeps_intros)

lemma wp_vec_at [wp_simps]:
  "wp (vec_at xs i) Q E s = (if i < length xs then Q (xs ! i) s else E Undefined s)"
  by (simp add: vec_at_def wp_simps)

lemma vec_at_run [run_simps]:
  "vec_at xs i s = (if i < length xs then (Inr (xs ! i), s) else (Inl Undefined, s))"
  by (simp add: vec_at_def run_simps)

end
