(* ===== verification/Codec.thy ===== *)
theory Codec
  imports Errors
begin

text \<open>
  Byte and word encodings shared by the wire formats, the sequence file and the memory layout, and
  the two interfaces that recur in the driver: a fixed-width encoding (\<open>fixed_codec\<close>) and the
  splitting of a write into pieces (\<open>chunking\<close>).
\<close>

section \<open>Fixed-width encodings\<close>

text \<open>Decode consecutive blocks of \<open>w\<close> elements; a short rest is dropped.\<close>

function decode_all :: "nat \<Rightarrow> ('b list \<Rightarrow> 'a) \<Rightarrow> 'b list \<Rightarrow> 'a list" where
  "decode_all w dec bs =
     (if w = 0 \<or> length bs < w then [] else dec (take w bs) # decode_all w dec (drop w bs))"
  by pat_completeness auto
termination
  by (relation "measure (\<lambda>(w, dec, bs). length bs)") auto

declare decode_all.simps [simp del]

lemma decode_all_short [simp]: "length bs < w \<Longrightarrow> decode_all w dec bs = []"
  by (subst decode_all.simps) simp

lemma decode_all_step:
  "0 < w \<Longrightarrow> length b = w \<Longrightarrow> decode_all w dec (b @ bs) = dec b # decode_all w dec bs"
  by (subst decode_all.simps) simp

locale fixed_codec =
  fixes enc :: "'a \<Rightarrow> 'b list" and dec :: "'b list \<Rightarrow> 'a" and width :: nat
  assumes width_pos: "0 < width"
    and enc_length: "length (enc x) = width"
    and dec_enc: "dec (enc x) = x"
begin

lemma enc_inject: "enc x = enc y \<longleftrightarrow> x = y"
  by (metis dec_enc)

lemma concat_enc_length: "length (concat (map enc xs)) = width * length xs"
  by (induction xs) (simp_all add: enc_length)

lemma decode_all_enc_rest:
  "length rest < width \<Longrightarrow> decode_all width dec (concat (map enc xs) @ rest) = xs"
proof (induction xs)
  case Nil
  then show ?case by simp
next
  case (Cons x xs)
  then show ?case
    by (simp add: decode_all_step [OF width_pos enc_length] dec_enc)
qed

lemma decode_all_enc: "decode_all width dec (concat (map enc xs)) = xs"
  using decode_all_enc_rest [of "[]" xs] width_pos by simp

lemma decode_all_enc_append:
  "decode_all width dec (concat (map enc xs) @ bs) = xs @ decode_all width dec bs"
  by (induction xs) (simp_all add: decode_all_step [OF width_pos enc_length] dec_enc)

lemma concat_enc_inject: "concat (map enc xs) = concat (map enc ys) \<longleftrightarrow> xs = ys"
  by (metis decode_all_enc)

end

section \<open>Big-endian words: \<open>htons\<close>, \<open>htonl\<close> and back\<close>

definition be16 :: "u16 \<Rightarrow> u8 list" where
  "be16 w = [ucast (drop_bit 8 w), ucast w]"

definition be32 :: "u32 \<Rightarrow> u8 list" where
  "be32 w = [ucast (drop_bit 24 w), ucast (drop_bit 16 w), ucast (drop_bit 8 w), ucast w]"

definition of_be16 :: "u8 list \<Rightarrow> u16" where
  "of_be16 bs = push_bit 8 (ucast (bs ! 0)) OR ucast (bs ! 1)"

definition of_be32 :: "u8 list \<Rightarrow> u32" where
  "of_be32 bs = push_bit 24 (ucast (bs ! 0)) OR push_bit 16 (ucast (bs ! 1))
     OR push_bit 8 (ucast (bs ! 2)) OR ucast (bs ! 3)"

text \<open>Little-endian words: the host's memory layout, which the sequence file has.\<close>

definition le16 :: "u16 \<Rightarrow> u8 list" where
  "le16 w = [ucast w, ucast (drop_bit 8 w)]"

definition le32 :: "u32 \<Rightarrow> u8 list" where
  "le32 w = [ucast w, ucast (drop_bit 8 w), ucast (drop_bit 16 w), ucast (drop_bit 24 w)]"

definition le64 :: "u64 \<Rightarrow> u8 list" where
  "le64 w = map (\<lambda>i. ucast (drop_bit (8 * i) w)) [0, 1, 2, 3, 4, 5, 6, 7]"

definition of_le16 :: "u8 list \<Rightarrow> u16" where
  "of_le16 bs = ucast (bs ! 0) OR push_bit 8 (ucast (bs ! 1))"

definition of_le32 :: "u8 list \<Rightarrow> u32" where
  "of_le32 bs = ucast (bs ! 0) OR push_bit 8 (ucast (bs ! 1)) OR push_bit 16 (ucast (bs ! 2))
     OR push_bit 24 (ucast (bs ! 3))"

definition of_le64 :: "u8 list \<Rightarrow> u64" where
  "of_le64 bs = ucast (bs ! 0) OR push_bit 8 (ucast (bs ! 1)) OR push_bit 16 (ucast (bs ! 2))
     OR push_bit 24 (ucast (bs ! 3)) OR push_bit 32 (ucast (bs ! 4))
     OR push_bit 40 (ucast (bs ! 5)) OR push_bit 48 (ucast (bs ! 6))
     OR push_bit 56 (ucast (bs ! 7))"

text \<open>A word is put together from its bytes, one byte above the bits already there.\<close>

lemma byte_join:
  fixes w :: "'a::len word"
  shows "push_bit k (ucast (ucast (drop_bit k w) :: u8)) OR take_bit k w = take_bit (k + 8) w"
proof (rule bit_word_eqI)
  fix n
  assume "n < LENGTH('a)"
  then show "bit (push_bit k (ucast (ucast (drop_bit k w) :: u8)) OR take_bit k w) n
      = bit (take_bit (k + 8) w) n"
    by (cases "n < k") (auto simp: bit_simps)
qed

lemma byte_join_0: "ucast (ucast w :: u8) = take_bit 8 (w :: 'a::len word)"
  using byte_join [of 0 w] by simp

lemma of_be16_be16: "of_be16 (be16 w) = w"
  using byte_join [of 8 w] by (simp add: of_be16_def be16_def byte_join_0 take_bit_word_eq_self)

lemma of_le16_le16: "of_le16 (le16 w) = w"
  using byte_join [of 8 w]
  by (simp add: of_le16_def le16_def byte_join_0 take_bit_word_eq_self or.commute)

lemma bytes32:
  "push_bit 24 (ucast (ucast (drop_bit 24 w) :: u8)) OR push_bit 16 (ucast (ucast (drop_bit 16 w) :: u8))
     OR push_bit 8 (ucast (ucast (drop_bit 8 w) :: u8)) OR ucast (ucast w :: u8) = (w :: u32)"
  using byte_join [of 8 w] byte_join [of 16 w] byte_join [of 24 w]
  by (simp add: byte_join_0 take_bit_word_eq_self or.assoc)

lemma of_be32_be32: "of_be32 (be32 w) = w"
  using bytes32 [of w] by (simp add: of_be32_def be32_def)

lemma of_le32_le32: "of_le32 (le32 w) = w"
  using bytes32 [of w] by (simp add: of_le32_def le32_def or.assoc or.commute or.left_commute)

lemma of_le64_le64: "of_le64 (le64 w) = w"
  using byte_join [of 8 w] byte_join [of 16 w] byte_join [of 24 w] byte_join [of 32 w]
    byte_join [of 40 w] byte_join [of 48 w] byte_join [of 56 w]
  by (simp add: of_le64_def le64_def byte_join_0 take_bit_word_eq_self
      or.commute [of _ "take_bit _ w"] flip: or.assoc)

interpretation be16: fixed_codec be16 of_be16 2
  by unfold_locales (simp_all add: of_be16_be16, simp add: be16_def)

interpretation be32: fixed_codec be32 of_be32 4
  by unfold_locales (simp_all add: of_be32_be32, simp add: be32_def)

interpretation le16: fixed_codec le16 of_le16 2
  by unfold_locales (simp_all add: of_le16_le16, simp add: le16_def)

interpretation le32: fixed_codec le32 of_le32 4
  by unfold_locales (simp_all add: of_le32_le32, simp add: le32_def)

interpretation le64: fixed_codec le64 of_le64 8
  by unfold_locales (simp_all add: of_le64_le64, simp add: le64_def)

section \<open>Writes split into pieces\<close>

text \<open>Blocks of at most \<open>n\<close> elements: what every splitting loop of the driver computes.\<close>

function blocks :: "nat \<Rightarrow> 'a list \<Rightarrow> 'a list list" where
  "blocks n xs = (if n = 0 \<or> xs = [] then [] else take n xs # blocks n (drop n xs))"
  by pat_completeness auto
termination
  by (relation "measure (\<lambda>(n, xs). length xs)") auto

declare blocks.simps [simp del]

lemma blocks_Nil [simp]: "blocks n [] = []"
  by (subst blocks.simps) simp

lemma blocks_step: "0 < n \<Longrightarrow> xs \<noteq> [] \<Longrightarrow> blocks n xs = take n xs # blocks n (drop n xs)"
  by (subst blocks.simps) simp

lemma concat_blocks: "0 < n \<Longrightarrow> concat (blocks n xs) = xs"
proof (induction n xs rule: blocks.induct)
  case (1 n xs)
  then show ?case by (cases "xs = []") (simp_all add: blocks_step)
qed

lemma blocks_bounds:
  assumes "0 < n" shows "b \<in> set (blocks n xs) \<Longrightarrow> b \<noteq> [] \<and> length b \<le> n"
  using assms
proof (induction n xs rule: blocks.induct)
  case (1 n xs)
  then show ?case by (cases "xs = []") (auto simp: blocks_step)
qed

lemma length_blocks: "0 < n \<Longrightarrow> length (blocks n xs) = (length xs + n - 1) div n"
proof (induction n xs rule: blocks.induct)
  case (1 n xs)
  show ?case
  proof (cases "xs = []")
    case False
    with 1 have IH: "length (blocks n (drop n xs)) = (length xs - n + n - 1) div n" by simp
    show ?thesis
    proof (cases "length xs \<le> n")
      case True
      with False 1(2) have "(length xs + n - 1) div n = 1"
        by (intro div_nat_eqI) (cases xs; auto)+
      with IH True False 1(2) show ?thesis by (simp add: blocks_step)
    next
      case far: False
      then have "length xs + n - 1 = (length xs - n + n - 1) + n" by simp
      then have "(length xs + n - 1) div n = (length xs - n + n - 1) div n + 1"
        using 1(2) by (metis div_add_self2 less_numeral_extra(3))
      with IH False 1(2) show ?thesis by (simp add: blocks_step)
    qed
  qed (use 1(2) in \<open>simp add: div_less\<close>)
qed

text \<open>Word memory: a word per byte address, written upwards in steps of four.\<close>

type_synonym memory = "u32 \<Rightarrow> u32"

fun store :: "memory \<Rightarrow> u32 \<Rightarrow> u32 list \<Rightarrow> memory" where
  "store m a [] = m"
| "store m a (x # xs) = store (m(a := x)) (a + 4) xs"

fun load :: "memory \<Rightarrow> u32 \<Rightarrow> nat \<Rightarrow> u32 list" where
  "load m a 0 = []"
| "load m a (Suc n) = m a # load m (a + 4) n"

lemma store_append: "store m a (xs @ ys) = store (store m a xs) (a + 4 * of_nat (length xs)) ys"
  by (induction xs arbitrary: m a) (simp_all add: algebra_simps)

lemma length_load [simp]: "length (load m a n) = n"
  by (induction n arbitrary: a) simp_all

text \<open>The addresses of \<open>n\<close> words from \<open>a\<close> on; what a store leaves alone and what it can be read back.\<close>

definition words_at :: "u32 \<Rightarrow> nat \<Rightarrow> u32 set" where
  "words_at a n = set (map (\<lambda>i. a + 4 * of_nat i) [0..<n])"

lemma words_at_0 [simp]: "words_at a 0 = {}"
  by (simp add: words_at_def)

lemma words_at_append: "words_at a (m + n) = words_at a m \<union> words_at (a + 4 * of_nat m) n"
proof -
  have "[0..<m + n] = [0..<m] @ map (\<lambda>i. i + m) [0..<n]"
    using upt_add_eq_append [of 0 m n] by (simp add: map_add_upt add.commute)
  then show ?thesis
    by (auto simp: words_at_def algebra_simps)
qed

lemma words_at_Suc: "words_at a (Suc n) = insert a (words_at (a + 4) n)"
  using words_at_append [of a 1 n] by (simp add: words_at_def)

lemma store_outside: "b \<notin> words_at a (length ws) \<Longrightarrow> store m a ws b = m b"
  by (induction ws arbitrary: m a) (auto simp: words_at_Suc)

lemma words_at_not_before:
  assumes "n < 2 ^ 30" shows "a \<notin> words_at (a + 4) n"
proof
  assume "a \<in> words_at (a + 4) n"
  then obtain i where i: "i < n" "a = a + 4 + 4 * of_nat i" by (auto simp: words_at_def)
  then have "(of_nat (4 * (i + 1)) :: u32) = 0" by (simp add: algebra_simps)
  then have "2 ^ 32 dvd 4 * (i + 1)"
    unfolding word_of_nat_eq_0_iff by simp
  then have "2 ^ 32 \<le> 4 * (i + 1)" by (rule dvd_imp_le) simp
  with i assms show False by simp
qed

lemma load_store:
  assumes "length ws \<le> 2 ^ 30"
  shows "load (store m a ws) a (length ws) = ws"
  using assms
proof (induction ws arbitrary: m a)
  case (Cons w ws)
  have "store (m(a := w)) (a + 4) ws a = w"
    using store_outside [OF words_at_not_before [of "length ws" a]] Cons.prems by simp
  with Cons show ?case by simp
qed simp

lemma load_eq_Nil [simp]: "load m a n = [] \<longleftrightarrow> n = 0"
  by (cases n) simp_all

lemma load_append: "load m a (n + k) = load m a n @ load m (a + 4 * of_nat n) k"
  by (induction n arbitrary: a) (simp_all add: algebra_simps)

lemma load_part:
  assumes "i + k \<le> n"
  shows "take k (drop i (load m a n)) = load m (a + 4 * of_nat i) k"
proof -
  have n: "n = i + (k + (n - (i + k)))" using assms by simp
  show ?thesis by (subst n, unfold load_append) simp
qed

lemma words_at_part: "words_at a n \<subseteq> R \<Longrightarrow> i + k \<le> n \<Longrightarrow> words_at (a + 4 * of_nat i) k \<subseteq> R"
  using words_at_append [of a "i + k" "n - (i + k)"] words_at_append [of a i k] by auto

lemma load_cong: "(\<And>b. b \<in> words_at a n \<Longrightarrow> m b = m' b) \<Longrightarrow> load m a n = load m' a n"
  by (induction n arbitrary: a) (auto simp: words_at_Suc)

lemma words_at_range:
  assumes "unat a + 4 * n \<le> 2 ^ 32" "b \<in> words_at a n"
  shows "unat a \<le> unat b \<and> unat b < unat a + 4 * n"
proof -
  obtain i where i: "i < n" "b = a + 4 * of_nat i" using assms(2) by (auto simp: words_at_def)
  have "b = of_nat (unat a + 4 * i)" using i by simp
  moreover have "unat a + 4 * i < 2 ^ 32" using i assms(1) by simp
  ultimately have "unat b = unat a + 4 * i"
    by (simp only: unat_of_nat) (simp add: take_bit_nat_eq_self)
  then show ?thesis using i by simp
qed

text \<open>
  The contract of a splitting function: the payloads make up the data, none is longer than the
  limit, each is announced with its length and starts where the one before it ended. Then writing
  the pieces one by one, each at its own address, writes the data as a whole.
\<close>

locale chunking =
  fixes pieces :: "u32 \<Rightarrow> u32 list \<Rightarrow> 'p list"
    and payload_of :: "'p \<Rightarrow> u32 list" and addr_of :: "'p \<Rightarrow> u32" and count_of :: "'p \<Rightarrow> u16"
    and limit :: nat
  assumes pieces_payload: "concat (map payload_of (pieces a xs)) = xs"
    and pieces_limit: "p \<in> set (pieces a xs) \<Longrightarrow> length (payload_of p) \<le> limit"
    and pieces_count: "p \<in> set (pieces a xs) \<Longrightarrow> count_of p = of_nat (length (payload_of p))"
    and pieces_addr: "pieces a xs = ps @ p # qs \<Longrightarrow>
      addr_of p = a + 4 * of_nat (length (concat (map payload_of ps)))"
    and limit_fits: "limit < 2 ^ 16"
begin

lemma unat_count:
  assumes "p \<in> set (pieces a xs)"
  shows "unat (count_of p) = length (payload_of p)"
proof -
  have "length (payload_of p) < 2 ^ 16"
    using pieces_limit [OF assms] limit_fits by linarith
  then show ?thesis
    by (simp add: pieces_count [OF assms] unat_of_nat take_bit_nat_eq_self)
qed

text \<open>Any way of writing words that writes a list in parts writes it in these pieces.\<close>

lemma puts_all:
  assumes put: "\<And>m a. put m a [] = (m :: memory)"
    "\<And>m a xs ys. put m a (xs @ ys) = put (put m a xs) (a + 4 * of_nat (length xs)) ys"
  shows "fold (\<lambda>p m. put m (addr_of p) (payload_of p)) (pieces a xs) m = put m a xs"
proof -
  have "fold (\<lambda>p m. put m (addr_of p) (payload_of p)) ps m = put m a (concat (map payload_of ps))"
    if "pieces a xs = ps @ qs" for ps qs
    using that
  proof (induction ps arbitrary: qs rule: rev_induct)
    case (snoc p ps)
    from snoc.prems have ps: "pieces a xs = ps @ (p # qs)" by simp
    show ?case
      by (simp add: snoc.IH [OF ps] pieces_addr [OF ps] put(2))
  qed (simp add: put(1))
  from this [of "pieces a xs" "[]"] show ?thesis by (simp add: pieces_payload)
qed

lemma stores_all:
  "fold (\<lambda>p m. store m (addr_of p) (payload_of p)) (pieces a xs) m = store m a xs"
  by (rule puts_all) (simp_all add: store_append)

text \<open>The addresses of the pieces are addresses of the whole.\<close>

lemma pieces_words_at:
  assumes "p \<in> set (pieces a xs)"
  shows "words_at (addr_of p) (length (payload_of p)) \<subseteq> words_at a (length xs)"
proof -
  obtain ps qs where split: "pieces a xs = ps @ p # qs" using assms by (meson split_list)
  define k where "k = length (concat (map payload_of ps))"
  have "length xs = k + (length (payload_of p) + length (concat (map payload_of qs)))"
    using pieces_payload [of a xs] unfolding split k_def by (metis (no_types, lifting)
        concat.simps(2) concat_append length_append list.simps(9) map_append)
  moreover have "addr_of p = a + 4 * of_nat k"
    using pieces_addr [OF split] by (simp add: k_def)
  ultimately show ?thesis
    by (auto simp: words_at_append)
qed

end

end
