(* ===== verification/Bus.thy ===== *)
theory Bus
  imports Codec
begin

text \<open>
  Abstract specifications of methods and the interface of a register bus. A method refines an
  abstract method on an abstract state; the rules in \<open>refines_intros\<close> follow the syntax of a
  method, so that a driver method is refined by the same program on the abstract bus. The
  interface \<open>register_bus\<close> has the laws of word access; what follows for single registers and
  for read-modify-write is proved once, in it.
\<close>

section \<open>Refinement\<close>

text \<open>
  From a good state, the method gives the result of the abstract method, errors included, stays in
  good states and commutes with the abstraction. Where the abstract method is \<open>Undefined\<close>, it
  promises nothing.
\<close>

definition refines :: "('s \<Rightarrow> bool) \<Rightarrow> ('s \<Rightarrow> 'b) \<Rightarrow> ('s, 'a) meth \<Rightarrow> ('b, 'a) meth \<Rightarrow> bool" where
  "refines ok \<alpha> m g \<longleftrightarrow> (\<forall>s. ok s \<longrightarrow> fst (g (\<alpha> s)) \<noteq> Inl Undefined \<longrightarrow>
     fst (m s) = fst (g (\<alpha> s)) \<and> ok (snd (m s)) \<and> \<alpha> (snd (m s)) = snd (g (\<alpha> s)))"

named_theorems refines_intros "refinement rules that follow the syntax of a method"

lemma refinesD:
  assumes "refines ok \<alpha> m g" "ok s" "g (\<alpha> s) = (r, b)" "r \<noteq> Inl Undefined"
  obtains t where "m s = (r, t)" "ok t" "\<alpha> t = b"
  using assms unfolding refines_def by (metis fst_conv snd_conv prod.collapse)

lemma refines_run: "refines ok \<alpha> m g \<Longrightarrow> ok s \<Longrightarrow> g (\<alpha> s) = (r, b) \<Longrightarrow> r \<noteq> Inl Undefined \<Longrightarrow>
    \<exists>t. m s = (r, t) \<and> ok t \<and> \<alpha> t = b"
  using refinesD by metis

lemma refines_returnM [refines_intros]: "refines ok \<alpha> (returnM x) (returnM x)"
  by (simp add: refines_def returnM_def)

lemma refines_throwM [refines_intros]: "refines ok \<alpha> (throwM e) (throwM e)"
  by (simp add: refines_def throwM_def)

lemma refines_Undefined: "refines ok \<alpha> m (throwM Undefined)"
  by (simp add: refines_def throwM_def)

lemma refines_liftE [refines_intros]: "refines ok \<alpha> (liftE r) (liftE r)"
  by (simp add: refines_def liftE_def)

lemma refines_vec_at [refines_intros]: "refines ok \<alpha> (vec_at xs i) (vec_at xs i)"
  unfolding vec_at_def by (simp add: refines_returnM refines_throwM)

lemma refines_bindM [refines_intros]:
  assumes m: "refines ok \<alpha> m g" and f: "\<And>x. refines ok \<alpha> (f x) (h x)"
  shows "refines ok \<alpha> (bindM m f) (bindM g h)"
  unfolding refines_def
proof (intro allI impI)
  fix s
  assume s: "ok s" and d: "fst (bindM g h (\<alpha> s)) \<noteq> Inl Undefined"
  obtain r b where gr: "g (\<alpha> s) = (r, b)" by fastforce
  have r: "r \<noteq> Inl Undefined" using d by (auto simp: bindM_def gr)
  from refinesD [OF m s gr r] obtain t where t: "m s = (r, t)" "ok t" "\<alpha> t = b" .
  show "fst (bindM m f s) = fst (bindM g h (\<alpha> s)) \<and> ok (snd (bindM m f s))
      \<and> \<alpha> (snd (bindM m f s)) = snd (bindM g h (\<alpha> s))"
  proof (cases r)
    case (Inl e)
    then show ?thesis using t by (simp add: bindM_def gr)
  next
    case (Inr x)
    then have "fst (h x (\<alpha> t)) \<noteq> Inl Undefined" using d t by (simp add: bindM_def gr)
    then show ?thesis using f [of x] t Inr by (simp add: refines_def bindM_def gr)
  qed
qed

lemma refines_seqM [refines_intros]:
  "refines ok \<alpha> m g \<Longrightarrow> refines ok \<alpha> k h \<Longrightarrow> refines ok \<alpha> (seqM m k) (seqM g h)"
  by (simp add: seqM_def refines_bindM)

lemma refines_whenM [refines_intros]: "refines ok \<alpha> m g \<Longrightarrow> refines ok \<alpha> (whenM b m) (whenM b g)"
  by (simp add: whenM_def refines_returnM)

lemma refines_if [refines_intros]:
  "(b \<Longrightarrow> refines ok \<alpha> m g) \<Longrightarrow> (\<not> b \<Longrightarrow> refines ok \<alpha> k h) \<Longrightarrow>
    refines ok \<alpha> (if b then m else k) (if b then g else h)"
  by simp

section \<open>The bus\<close>

text \<open>The abstract state: the memory behind the bus, and the rest.\<close>

type_synonym 'o bus = "memory \<times> 'o"

definition bus_get :: "('o \<Rightarrow> 'a) \<Rightarrow> ('o bus, 'a) meth" where
  "bus_get f = getM (\<lambda>(m, o'). f o')"

definition bus_read :: "(u32 \<Rightarrow> nat \<Rightarrow> bool) \<Rightarrow> u32 \<Rightarrow> u32 \<Rightarrow> ('o bus, u32 list) meth" where
  "bus_read R a n = (\<lambda>(m, o').
     if R a (unat n) then (Inr (load m a (unat n)), (m, o')) else (Inl Undefined, (m, o')))"

definition bus_write :: "(u32 \<Rightarrow> nat \<Rightarrow> bool) \<Rightarrow> u32 \<Rightarrow> u32 list \<Rightarrow> ('o bus, unit) meth" where
  "bus_write W a ws = (\<lambda>(m, o').
     if W a (length ws) then (Inr (), (store m a ws, o')) else (Inl Undefined, (m, o')))"

text \<open>Single registers on the abstract bus.\<close>

definition bus_read1 :: "(u32 \<Rightarrow> nat \<Rightarrow> bool) \<Rightarrow> u32 \<Rightarrow> ('o bus, u32) meth" where
  "bus_read1 R a = (\<lambda>(m, o'). if R a 1 then (Inr (m a), (m, o')) else (Inl Undefined, (m, o')))"

definition bus_modify :: "(u32 \<Rightarrow> nat \<Rightarrow> bool) \<Rightarrow> (u32 \<Rightarrow> nat \<Rightarrow> bool) \<Rightarrow> u32 \<Rightarrow> (u32 \<Rightarrow> u32)
    \<Rightarrow> ('o bus, unit) meth" where
  "bus_modify R W a f = (\<lambda>(m, o').
     if R a 1 \<and> W a 1 then (Inr (), (m(a := f (m a)), o')) else (Inl Undefined, (m, o')))"

locale register_bus =
  fixes read_words :: "u32 \<Rightarrow> u32 \<Rightarrow> ('s, u32 list) meth"
    and write_words :: "u32 \<Rightarrow> u32 list \<Rightarrow> ('s, unit) meth"
    and ok :: "'s \<Rightarrow> bool" and view :: "'s \<Rightarrow> 'o bus"
    and readable :: "u32 \<Rightarrow> nat \<Rightarrow> bool" and writable :: "u32 \<Rightarrow> nat \<Rightarrow> bool"
  assumes read_law: "refines ok view (read_words a n) (bus_read readable a n)"
    and write_law: "refines ok view (write_words a ws) (bus_write writable a ws)"
begin

lemma read1_law:
  "refines ok view (bindM (read_words a 1) (\<lambda>ws. vec_at ws 0)) (bus_read1 readable a)"
proof -
  have b: "bindM (bus_read readable a 1) (\<lambda>ws. vec_at ws 0) = bus_read1 readable a"
    by (rule ext) (simp add: bindM_def bus_read_def bus_read1_def vec_at_run split: prod.split)
  show ?thesis
    unfolding b [symmetric] by (intro refines_bindM read_law refines_vec_at)
qed

lemma write1_law: "refines ok view (write_words a [w]) (bus_write writable a [w])"
  by (rule write_law)

text \<open>Read-modify-write of one register.\<close>

lemma modify_law:
  "refines ok view
     (bindM (bindM (read_words a 1) (\<lambda>ws. vec_at ws 0)) (\<lambda>w. write_words a [f w]))
     (bus_modify readable writable a f)"
proof -
  have b: "bindM (bus_read1 readable a) (\<lambda>w. bus_write writable a [f w])
      = (\<lambda>(m, o'). if \<not> readable a 1 then (Inl Undefined, (m, o'))
           else if writable a 1 then (Inr (), (m(a := f (m a)), o')) else (Inl Undefined, (m, o')))"
    by (rule ext) (simp add: bindM_def bus_read1_def bus_write_def split: prod.split)
  have "refines ok view
      (bindM (bindM (read_words a 1) (\<lambda>ws. vec_at ws 0)) (\<lambda>w. write_words a [f w]))
      (bindM (bus_read1 readable a) (\<lambda>w. bus_write writable a [f w]))"
    by (intro refines_bindM [OF read1_law] write1_law)
  then show ?thesis
    unfolding b by (auto simp: refines_def bus_modify_def split: prod.splits)
qed

lemma write_then_read:
  assumes "ok s" "writable a (length ws)" "readable a (length ws)" "length ws < 2 ^ 30"
  shows "\<exists>t u. write_words a ws s = (Inr (), t)
    \<and> read_words a (of_nat (length ws)) t = (Inr (load (store (fst (view s)) a ws) a (length ws)), u)"
proof -
  have n: "unat (of_nat (length ws) :: u32) = length ws"
    using assms(4) by (simp add: unat_of_nat take_bit_nat_eq_self)
  obtain m o' where v: "view s = (m, o')" by fastforce
  from refines_run [OF write_law assms(1), of a ws "Inr ()" "(store m a ws, o')"]
  obtain t where t: "write_words a ws s = (Inr (), t)" "ok t" "view t = (store m a ws, o')"
    using assms(2) by (auto simp: bus_write_def v)
  from refines_run [OF read_law t(2), of a "of_nat (length ws)" "Inr (load (store m a ws) a (length ws))"]
  show ?thesis
    using assms(3) t by (auto simp: bus_read_def n v)
qed

end

end
