(* ===== verification/Constants.thy ===== *)
theory Constants
  imports Errors
begin

text \<open>
  \<open>constants.h\<close>: sizes, the command set of the module, the bit-field unions of the SPI chip
  configuration commands, the register map, the control bits, the EPROM map and the canned
  configuration and instruction sequences. Numeric constants are collected in \<open>const_defs\<close>.
\<close>

named_theorems const_defs "numeric constants of constants.h"

section \<open>Sizes and limits\<close>

definition MAX_WF_LENGTH :: nat where [const_defs]: "MAX_WF_LENGTH = 67108864"
definition MAX_WF_AMP :: int where [const_defs]: "MAX_WF_AMP = 8191"
definition WF_MODULUS :: nat where [const_defs]: "WF_MODULUS = 4"
definition CORRECTION_MATRIX_SCALING :: int where [const_defs]: "CORRECTION_MATRIX_SCALING = 8192"
definition COMMS_TIMEOUT :: nat where [const_defs]: "COMMS_TIMEOUT = 3000" \<comment> \<open>milliseconds\<close>
definition MAX_DAC_CLOCK_PHASE_TEST_TRIES :: nat where
  [const_defs]: "MAX_DAC_CLOCK_PHASE_TEST_TRIES = 20"
definition NUM_ANALOG_CHANNELS :: int where [const_defs]: "NUM_ANALOG_CHANNELS = 2"

section \<open>The register map\<close>

definition CSR_AXI_OFFSET :: u32 where [const_defs]: "CSR_AXI_OFFSET = 0x44A00000"

definition PLL_STATUS_ADDR :: u32 where [const_defs]: "PLL_STATUS_ADDR = CSR_AXI_OFFSET + 0 * 4"
definition PHASE_COUNT_A_ADDR :: u32 where [const_defs]: "PHASE_COUNT_A_ADDR = CSR_AXI_OFFSET + 1 * 4"
definition PHASE_COUNT_B_ADDR :: u32 where [const_defs]: "PHASE_COUNT_B_ADDR = CSR_AXI_OFFSET + 2 * 4"
definition CACHE_STATUS_ADDR :: u32 where [const_defs]: "CACHE_STATUS_ADDR = CSR_AXI_OFFSET + 3 * 4"
definition CACHE_CONTROL_ADDR :: u32 where [const_defs]: "CACHE_CONTROL_ADDR = CSR_AXI_OFFSET + 4 * 4"
definition WFA_OFFSET_ADDR :: u32 where [const_defs]: "WFA_OFFSET_ADDR = CSR_AXI_OFFSET + 5 * 4"
definition WFB_OFFSET_ADDR :: u32 where [const_defs]: "WFB_OFFSET_ADDR = CSR_AXI_OFFSET + 6 * 4"
definition SEQ_OFFSET_ADDR :: u32 where [const_defs]: "SEQ_OFFSET_ADDR = CSR_AXI_OFFSET + 7 * 4"
definition RESETS_ADDR :: u32 where [const_defs]: "RESETS_ADDR = CSR_AXI_OFFSET + 8 * 4"
definition CONTROL_REG_ADDR :: u32 where [const_defs]: "CONTROL_REG_ADDR = CSR_AXI_OFFSET + 9 * 4"
definition CHANNEL_OFFSET_ADDR :: u32 where [const_defs]: "CHANNEL_OFFSET_ADDR = CSR_AXI_OFFSET + 10 * 4"
definition TRIGGER_WORD_ADDR :: u32 where [const_defs]: "TRIGGER_WORD_ADDR = CSR_AXI_OFFSET + 11 * 4"
definition TRIGGER_INTERVAL_ADDR :: u32 where [const_defs]: "TRIGGER_INTERVAL_ADDR = CSR_AXI_OFFSET + 12 * 4"
definition DAC_BIST_CHA_PH1_ADDR :: u32 where [const_defs]: "DAC_BIST_CHA_PH1_ADDR = CSR_AXI_OFFSET + 13 * 4"
definition DAC_BIST_CHA_PH2_ADDR :: u32 where [const_defs]: "DAC_BIST_CHA_PH2_ADDR = CSR_AXI_OFFSET + 14 * 4"
definition DAC_BIST_CHB_PH1_ADDR :: u32 where [const_defs]: "DAC_BIST_CHB_PH1_ADDR = CSR_AXI_OFFSET + 15 * 4"
definition DAC_BIST_CHB_PH2_ADDR :: u32 where [const_defs]: "DAC_BIST_CHB_PH2_ADDR = CSR_AXI_OFFSET + 16 * 4"
definition DMA_STATUS_ADDR :: u32 where [const_defs]: "DMA_STATUS_ADDR = CSR_AXI_OFFSET + 17 * 4"
definition SATA_STATUS_ADDR :: u32 where [const_defs]: "SATA_STATUS_ADDR = CSR_AXI_OFFSET + 18 * 4"
definition INIT_STATUS_ADDR :: u32 where [const_defs]: "INIT_STATUS_ADDR = CSR_AXI_OFFSET + 19 * 4"
definition UPTIME_SECONDS_ADDR :: u32 where [const_defs]: "UPTIME_SECONDS_ADDR = CSR_AXI_OFFSET + 20 * 4"
definition UPTIME_NANOSECONDS_ADDR :: u32 where [const_defs]: "UPTIME_NANOSECONDS_ADDR = CSR_AXI_OFFSET + 21 * 4"
definition FIRMWARE_VERSION_ADDR :: u32 where [const_defs]: "FIRMWARE_VERSION_ADDR = CSR_AXI_OFFSET + 22 * 4"
definition TEMPERATURE_ADDR :: u32 where [const_defs]: "TEMPERATURE_ADDR = CSR_AXI_OFFSET + 23 * 4"
definition FIRMWARE_GIT_SHA1_ADDR :: u32 where [const_defs]: "FIRMWARE_GIT_SHA1_ADDR = CSR_AXI_OFFSET + 24 * 4"
definition FIRMWARE_BUILD_TIMESTAMP_ADDR :: u32 where [const_defs]: "FIRMWARE_BUILD_TIMESTAMP_ADDR = CSR_AXI_OFFSET + 25 * 4"
definition CORRECTION_MATRIX_ROW0_ADDR :: u32 where [const_defs]: "CORRECTION_MATRIX_ROW0_ADDR = CSR_AXI_OFFSET + 26 * 4"
definition CORRECTION_MATRIX_ROW1_ADDR :: u32 where [const_defs]: "CORRECTION_MATRIX_ROW1_ADDR = CSR_AXI_OFFSET + 27 * 4"
definition CH_A_SCALE_ADDR :: u32 where [const_defs]: "CH_A_SCALE_ADDR = CSR_AXI_OFFSET + 28 * 4"
definition CH_B_SCALE_ADDR :: u32 where [const_defs]: "CH_B_SCALE_ADDR = CSR_AXI_OFFSET + 29 * 4"
definition MIXER_AMP_IMBALANCE_ADDR :: u32 where [const_defs]: "MIXER_AMP_IMBALANCE_ADDR = CSR_AXI_OFFSET + 30 * 4"
definition MIXER_PHASE_SKEW_ADDR :: u32 where [const_defs]: "MIXER_PHASE_SKEW_ADDR = CSR_AXI_OFFSET + 31 * 4"
definition CH_A_WF_LENGTH_ADDR :: u32 where [const_defs]: "CH_A_WF_LENGTH_ADDR = CSR_AXI_OFFSET + 32 * 4"
definition CH_B_WF_LENGTH_ADDR :: u32 where [const_defs]: "CH_B_WF_LENGTH_ADDR = CSR_AXI_OFFSET + 33 * 4"
definition WF_SSB_FREQ_ADDR :: u32 where [const_defs]: "WF_SSB_FREQ_ADDR = CSR_AXI_OFFSET + 34 * 4"
definition BITSLIP_A_ADDR :: u32 where [const_defs]: "BITSLIP_A_ADDR = CSR_AXI_OFFSET + 35 * 4"
definition BITSLIP_B_ADDR :: u32 where [const_defs]: "BITSLIP_B_ADDR = CSR_AXI_OFFSET + 36 * 4"

section \<open>Memory map, control bits, EPROM map, ports\<close>

definition MEMORY_ADDR :: u32 where [const_defs]: "MEMORY_ADDR = 0x00000000"
definition WFA_OFFSET :: u32 where [const_defs]: "WFA_OFFSET = 0"
definition WFB_OFFSET :: u32 where [const_defs]: "WFB_OFFSET = 0x10000000"
definition SEQ_OFFSET :: u32 where [const_defs]: "SEQ_OFFSET = 0x20000000"
definition SM_ENABLE_BIT :: nat where [const_defs]: "SM_ENABLE_BIT = 0"
definition SOFT_TRIG_BIT :: nat where [const_defs]: "SOFT_TRIG_BIT = 3"
definition TRIGGER_ENABLE_BIT :: nat where [const_defs]: "TRIGGER_ENABLE_BIT = 4"
definition CACHE_ENABLE_BIT :: nat where [const_defs]: "CACHE_ENABLE_BIT = 0"
definition PLL_CHA_RST_BIT :: nat where [const_defs]: "PLL_CHA_RST_BIT = 8"
definition PLL_CHB_RST_BIT :: nat where [const_defs]: "PLL_CHB_RST_BIT = 9"
definition IO_CHA_RST_BIT :: nat where [const_defs]: "IO_CHA_RST_BIT = 10"
definition IO_CHB_RST_BIT :: nat where [const_defs]: "IO_CHB_RST_BIT = 11"
definition DAC_BIST_CHA_RST_BIT :: nat where [const_defs]: "DAC_BIST_CHA_RST_BIT = 12"
definition DAC_BIST_CHB_RST_BIT :: nat where [const_defs]: "DAC_BIST_CHB_RST_BIT = 13"
definition APS2_HOST_TYPE_BIT :: nat where [const_defs]: "APS2_HOST_TYPE_BIT = 24"
definition MMCM_SYS_LOCK_BIT :: nat where [const_defs]: "MMCM_SYS_LOCK_BIT = 31"
definition MMCM_CFG_LOCK_BIT :: nat where [const_defs]: "MMCM_CFG_LOCK_BIT = 30"
definition MIG_C0_LOCK_BIT :: nat where [const_defs]: "MIG_C0_LOCK_BIT = 24"
definition MIG_C0_CAL_BIT :: nat where [const_defs]: "MIG_C0_CAL_BIT = 25"
definition MIG_C1_LOCK_BIT :: nat where [const_defs]: "MIG_C1_LOCK_BIT = 26"
definition MIG_C1_CAL_BIT :: nat where [const_defs]: "MIG_C1_CAL_BIT = 27"
definition AXI_RESET_BIT :: nat where [const_defs]: "AXI_RESET_BIT = 21"
definition AXI_RESETN_BIT :: nat where [const_defs]: "AXI_RESETN_BIT = 20"
definition TDM_TRIGGER_RESET_BIT :: nat where [const_defs]: "TDM_TRIGGER_RESET_BIT = 0"
definition DAC_SYNC_ADDR :: u8 where [const_defs]: "DAC_SYNC_ADDR = 0x0"
definition DAC_INTERRUPT_ADDR :: u8 where [const_defs]: "DAC_INTERRUPT_ADDR = 0x1"
definition DAC_MSDMHD_ADDR :: u8 where [const_defs]: "DAC_MSDMHD_ADDR = 0x4"
definition DAC_SD_ADDR :: u8 where [const_defs]: "DAC_SD_ADDR = 0x5"
definition DAC_CONTROLLERCLOCK_ADDR :: u8 where [const_defs]: "DAC_CONTROLLERCLOCK_ADDR = 0x16"
definition EPROM_SPI_CONFIG_ADDR :: u32 where [const_defs]: "EPROM_SPI_CONFIG_ADDR = 0x0"
definition EPROM_USER_IMAGE_ADDR :: u32 where [const_defs]: "EPROM_USER_IMAGE_ADDR = 0x00010000"
definition EPROM_BASE_IMAGE_ADDR :: u32 where [const_defs]: "EPROM_BASE_IMAGE_ADDR = 0x01000000"
definition EPROM_MACIP_ADDR :: u32 where [const_defs]: "EPROM_MACIP_ADDR = 0x00FF0000"
definition EPROM_IP_OFFSET :: u32 where [const_defs]: "EPROM_IP_OFFSET = 8"
definition EPROM_DHCP_OFFSET :: u32 where [const_defs]: "EPROM_DHCP_OFFSET = 12"
definition APS_PROTO :: u16 where [const_defs]: "APS_PROTO = 0xBB4E"
definition UDP_PORT_OLD :: u16 where [const_defs]: "UDP_PORT_OLD = 0xbb4e"
definition UDP_PORT :: u16 where [const_defs]: "UDP_PORT = 0xbb4f"
definition TCP_PORT :: u16 where [const_defs]: "TCP_PORT = 0xbb4e"
definition TRIGSRC_BIT :: nat where [const_defs]: "TRIGSRC_BIT = 1"
definition DAC_CONTROLLER_ADDR :: u8 where [const_defs]: "DAC_CONTROLLER_ADDR = 0x6"
definition DAC_FIFOSTAT_ADDR :: u8 where [const_defs]: "DAC_FIFOSTAT_ADDR = 0x7"
section \<open>Commands\<close>

text \<open>
  \<open>enum class APS_COMMANDS : uint32_t\<close>. Its underlying type is fixed, so the cast of a command
  nibble that names no enumerator is a value too: \<open>UNNAMED_COMMAND\<close>.
\<close>

datatype APS_COMMANDS =
    RESET | USERIO_ACK | USERIO_NACK | EPROMIO | CHIPCONFIGIO | RUNCHIPCONFIG
  | FPGACONFIG_ACK | FPGACONFIG_NACK | FPGACONFIG_CTRL | STATUS | UNNAMED_COMMAND "4 word"

fun command_code :: "APS_COMMANDS \<Rightarrow> 4 word" where
  "command_code RESET = 0x0"
| "command_code USERIO_ACK = 0x1"
| "command_code USERIO_NACK = 0x9"
| "command_code EPROMIO = 0x2"
| "command_code CHIPCONFIGIO = 0x3"
| "command_code RUNCHIPCONFIG = 0x4"
| "command_code FPGACONFIG_ACK = 0x5"
| "command_code FPGACONFIG_NACK = 0xD"
| "command_code FPGACONFIG_CTRL = 0x6"
| "command_code STATUS = 0x7"
| "command_code (UNNAMED_COMMAND c) = c"

text \<open>The cast \<open>APS_COMMANDS(cmd.cmd)\<close>.\<close>

definition to_command :: "4 word \<Rightarrow> APS_COMMANDS" where
  "to_command c =
     (if c = 0x0 then RESET else if c = 0x1 then USERIO_ACK else if c = 0x9 then USERIO_NACK
      else if c = 0x2 then EPROMIO else if c = 0x3 then CHIPCONFIGIO
      else if c = 0x4 then RUNCHIPCONFIG else if c = 0x5 then FPGACONFIG_ACK
      else if c = 0xD then FPGACONFIG_NACK else if c = 0x6 then FPGACONFIG_CTRL
      else if c = 0x7 then STATUS else UNNAMED_COMMAND c)"

lemma command_code_to_command [simp]: "command_code (to_command c) = c"
  by (simp add: to_command_def)

lemma to_command_code [simp]:
  "to_command (command_code RESET) = RESET"
  "to_command (command_code USERIO_ACK) = USERIO_ACK"
  "to_command (command_code USERIO_NACK) = USERIO_NACK"
  "to_command (command_code EPROMIO) = EPROMIO"
  "to_command (command_code CHIPCONFIGIO) = CHIPCONFIGIO"
  "to_command (command_code RUNCHIPCONFIG) = RUNCHIPCONFIG"
  "to_command (command_code FPGACONFIG_ACK) = FPGACONFIG_ACK"
  "to_command (command_code FPGACONFIG_NACK) = FPGACONFIG_NACK"
  "to_command (command_code FPGACONFIG_CTRL) = FPGACONFIG_CTRL"
  "to_command (command_code STATUS) = STATUS"
  by (simp_all add: to_command_def)

fun needs_address :: "APS_COMMANDS \<Rightarrow> bool" where
  "needs_address RESET = False"
| "needs_address STATUS = False"
| "needs_address _ = True"

section \<open>Modes and status values of the acknowledge word\<close>

definition APS_STATUS_HOST :: u8 where [const_defs]: "APS_STATUS_HOST = 0"
definition EPROM_RW :: u8 where [const_defs]: "EPROM_RW = 0"
definition EPROM_ERASE :: u8 where [const_defs]: "EPROM_ERASE = 1"
definition EPROM_SUCCESS :: u8 where [const_defs]: "EPROM_SUCCESS = 0"
definition CHIPCONFIG_SUCCESS :: u8 where [const_defs]: "CHIPCONFIG_SUCCESS = 0"
definition RUNCHIPCONFIG_SUCCESS :: u8 where [const_defs]: "RUNCHIPCONFIG_SUCCESS = 0"

datatype CHIPCONFIG_IO_TARGET =
    CHIPCONFIG_TARGET_PAUSE | CHIPCONFIG_TARGET_DAC_0 | CHIPCONFIG_TARGET_DAC_1
  | CHIPCONFIG_TARGET_PLL | CHIPCONFIG_TARGET_VCXO

definition CHIPCONFIG_IO_TARGET_PAUSE :: u8 where [const_defs]: "CHIPCONFIG_IO_TARGET_PAUSE = 0"
definition CHIPCONFIG_IO_TARGET_DAC_0 :: u8 where [const_defs]: "CHIPCONFIG_IO_TARGET_DAC_0 = 0xC0"
definition CHIPCONFIG_IO_TARGET_DAC_1 :: u8 where [const_defs]: "CHIPCONFIG_IO_TARGET_DAC_1 = 0xC1"
definition CHIPCONFIG_IO_TARGET_PLL :: u8 where [const_defs]: "CHIPCONFIG_IO_TARGET_PLL = 0xD0"
definition CHIPCONFIG_IO_TARGET_DAC_0_SINGLE :: u8 where
  [const_defs]: "CHIPCONFIG_IO_TARGET_DAC_0_SINGLE = 0xC8"
definition CHIPCONFIG_IO_TARGET_DAC_1_SINGLE :: u8 where
  [const_defs]: "CHIPCONFIG_IO_TARGET_DAC_1_SINGLE = 0xC9"
definition CHIPCONFIG_IO_TARGET_PLL_SINGLE :: u8 where
  [const_defs]: "CHIPCONFIG_IO_TARGET_PLL_SINGLE = 0xD8"
definition CHIPCONFIG_IO_TARGET_VCXO :: u8 where [const_defs]: "CHIPCONFIG_IO_TARGET_VCXO = 0xE0"
definition CHIPCONFIG_IO_TARGET_EOL :: u8 where [const_defs]: "CHIPCONFIG_IO_TARGET_EOL = 0xFF"

section \<open>Status registers\<close>

text \<open>
  \<open>APSStatusBank_t\<close> is a union of 16 named words and an array of 16 words; the named fields are
  the positions that \<open>STATUS_REGISTERS\<close> enumerates. A bank is the list of its initialised words.
\<close>

datatype STATUS_REGISTERS =
    HOST_FIRMWARE_VERSION | USER_FIRMWARE_VERSION | CONFIGURATION_SOURCE | USER_STATUS
  | DAC0_STATUS | DAC1_STATUS | PLL_STATUS | VCXO_STATUS | SEND_PACKET_COUNT
  | RECEIVE_PACKET_COUNT | SEQUENCE_SKIP_COUNT | SEQUENCE_DUP_COUNT | FCS_OVERRUN_COUNT
  | PACKET_OVERRUN_COUNT | UPTIME_SECONDS | UPTIME_NANOSECONDS

fun status_index :: "STATUS_REGISTERS \<Rightarrow> nat" where
  "status_index HOST_FIRMWARE_VERSION = 0"
| "status_index USER_FIRMWARE_VERSION = 1"
| "status_index CONFIGURATION_SOURCE = 2"
| "status_index USER_STATUS = 3"
| "status_index DAC0_STATUS = 4"
| "status_index DAC1_STATUS = 5"
| "status_index PLL_STATUS = 6"
| "status_index VCXO_STATUS = 7"
| "status_index SEND_PACKET_COUNT = 8"
| "status_index RECEIVE_PACKET_COUNT = 9"
| "status_index SEQUENCE_SKIP_COUNT = 10"
| "status_index SEQUENCE_DUP_COUNT = 11"
| "status_index FCS_OVERRUN_COUNT = 12"
| "status_index PACKET_OVERRUN_COUNT = 13"
| "status_index UPTIME_SECONDS = 14"
| "status_index UPTIME_NANOSECONDS = 15"

definition NUM_STATUS_REGISTERS :: nat where [const_defs]: "NUM_STATUS_REGISTERS = 16"

type_synonym APSStatusBank_t = "u32 list"

lemma status_index_less: "status_index r < NUM_STATUS_REGISTERS"
  by (cases r) (simp_all add: const_defs)

section \<open>Bit-field unions of the chip configuration commands\<close>

text \<open>Bit-fields are allocated from the least significant bit, in the order of declaration.\<close>

record APSChipConfigCommand =
  cc_instr :: u16
  cc_spicnt_data :: u8
  cc_target :: u8

definition cc_packed :: "APSChipConfigCommand \<Rightarrow> u32" where
  "cc_packed c = ucast (cc_instr c) OR push_bit 16 (ucast (cc_spicnt_data c))
     OR push_bit 24 (ucast (cc_target c))"

definition cc_unpack :: "u32 \<Rightarrow> APSChipConfigCommand" where
  "cc_unpack w = \<lparr>cc_instr = ucast w, cc_spicnt_data = ucast (drop_bit 16 w),
     cc_target = ucast (drop_bit 24 w)\<rparr>"

definition cc_init :: APSChipConfigCommand where
  "cc_init = \<lparr>cc_instr = 0, cc_spicnt_data = 0, cc_target = 0\<rparr>"

record PLLCommand =
  pll_addr :: "13 word"
  pll_W :: "2 word"
  pll_r_w :: bool

definition pll_packed :: "PLLCommand \<Rightarrow> u16" where
  "pll_packed c = ucast (pll_addr c) OR push_bit 13 (ucast (pll_W c))
     OR push_bit 15 (of_bool (pll_r_w c))"

record DACCommand =
  dac_addr :: "5 word"
  dac_N :: "2 word"
  dac_r_w :: bool

definition dac_packed :: "DACCommand \<Rightarrow> u8" where
  "dac_packed c = ucast (dac_addr c) OR push_bit 5 (ucast (dac_N c))
     OR push_bit 7 (of_bool (dac_r_w c))"

lemma cc_instr_packed [simp]: "ucast (cc_packed c) = cc_instr c"
  by (rule bit_word_eqI) (auto simp: cc_packed_def bit_simps)

lemma cc_spicnt_packed [simp]: "ucast (drop_bit 16 (cc_packed c)) = cc_spicnt_data c"
  by (rule bit_word_eqI) (auto simp: cc_packed_def bit_simps dest: bit_imp_le_length)

lemma cc_target_packed [simp]: "ucast (drop_bit 24 (cc_packed c)) = cc_target c"
  by (rule bit_word_eqI) (auto simp: cc_packed_def bit_simps dest: bit_imp_le_length)

lemma cc_unpack_packed [simp]: "cc_unpack (cc_packed c) = c"
  by (simp add: cc_unpack_def)

section \<open>Canned sequences\<close>

type_synonym SPI_AddrData = "u16 \<times> u8"

definition PLL_INIT :: "SPI_AddrData list" where
  "PLL_INIT = [(0x0, 0x99), (0x10, 0x7C), (0x11, 0x5), (0x14, 0x6), (0x16, 0x5), (0x17, 0xAD),
     (0x18, 0x74), (0x1A, 0x2D), (0x1B, 0xA5), (0x1C, 0x7), (0xF0, 0x00), (0xF1, 0x00),
     (0xF2, 0x02), (0xF3, 0x00), (0xF4, 0x02), (0xF5, 0x00), (0x190, 0x00), (0x191, 0x80),
     (0x193, 0x00), (0x196, 0x10), (0x1E0, 0x0), (0x1E1, 0x2), (0x232, 0x1), (0x18, 0x75),
     (0x232, 0x1)]"

definition PLL_SET_CAL_FLAG :: "SPI_AddrData list" where
  "PLL_SET_CAL_FLAG = [(0x18, 0x75), (0x232, 0x1)]"

definition PLL_CLEAR_CAL_FLAG :: "SPI_AddrData list" where
  "PLL_CLEAR_CAL_FLAG = [(0x18, 0x74), (0x232, 0x1)]"

definition VCXO_INIT :: "u8 list" where
  "VCXO_INIT = [0x8, 0x60, 0x0, 0x4, 0x64, 0x91, 0x0, 0x61]"

definition WF_SEQ_TRIG :: "u64 list" where
  "WF_SEQ_TRIG = [0xa100610000000000, 0xa100210000000000, 0x2100400000000000, 0x6000000000000001]"

definition WF_SEQ_CW :: "u64 list" where
  "WF_SEQ_CW = [0xa100610000000000, 0x9100800000000000, 0x6000000000000002]"

end
