(* ===== verification/Datagram.thy ===== *)
theory Datagram
  imports Codec Constants
begin

text \<open>
  \<open>APS2Datagram.h\<close> and \<open>APS2Datagram.cpp\<close>: the command word, the datagram (command, address,
  payload), its splitting, its serialisation and the check of an acknowledge datagram.
\<close>

section \<open>The command word\<close>

record APS2Command =
  c_cnt :: u16
  c_mode_stat :: u8
  c_cmd :: "4 word"
  c_r_w :: bool
  c_sel :: bool
  c_seq :: bool
  c_ack :: bool

text \<open>\<open>APS2Command()\<close> sets \<open>packed\<close> to 0, so every field is 0.\<close>

definition APS2Command_init :: APS2Command where
  "APS2Command_init = \<lparr>c_cnt = 0, c_mode_stat = 0, c_cmd = 0, c_r_w = False, c_sel = False,
     c_seq = False, c_ack = False\<rparr>"

text \<open>The union's view as one word, and back: bit-fields from the least significant bit.\<close>

definition packed :: "APS2Command \<Rightarrow> u32" where
  "packed c = ucast (c_cnt c) OR push_bit 16 (ucast (c_mode_stat c)) OR push_bit 24 (ucast (c_cmd c))
     OR push_bit 28 (of_bool (c_r_w c)) OR push_bit 29 (of_bool (c_sel c))
     OR push_bit 30 (of_bool (c_seq c)) OR push_bit 31 (of_bool (c_ack c))"

definition unpack :: "u32 \<Rightarrow> APS2Command" where
  "unpack w = \<lparr>c_cnt = ucast w, c_mode_stat = ucast (drop_bit 16 w), c_cmd = ucast (drop_bit 24 w),
     c_r_w = bit w 28, c_sel = bit w 29, c_seq = bit w 30, c_ack = bit w 31\<rparr>"

lemma cnt_packed [simp]: "ucast (packed c) = c_cnt c"
  by (rule bit_word_eqI) (auto simp: packed_def bit_simps)

lemma mode_stat_packed [simp]: "ucast (drop_bit 16 (packed c)) = c_mode_stat c"
  by (rule bit_word_eqI) (auto simp: packed_def bit_simps dest: bit_imp_le_length)

lemma cmd_packed [simp]: "ucast (drop_bit 24 (packed c)) = c_cmd c"
  by (rule bit_word_eqI) (auto simp: packed_def bit_simps dest: bit_imp_le_length)

lemma flags_packed [simp]:
  "bit (packed c) 28 = c_r_w c" "bit (packed c) 29 = c_sel c"
  "bit (packed c) 30 = c_seq c" "bit (packed c) 31 = c_ack c"
  by (auto simp: packed_def bit_simps dest: bit_imp_le_length)

lemma unpack_packed [simp]: "unpack (packed c) = c"
  by (simp add: unpack_def)

lemma packed_unpack [simp]: "packed (unpack w) = w"
proof (rule bit_word_eqI)
  fix n
  assume "n < LENGTH(32)"
  then have "n < 16 \<or> (16 \<le> n \<and> n < 24) \<or> (24 \<le> n \<and> n < 28) \<or> n = 28 \<or> n = 29 \<or> n = 30 \<or> n = 31"
    by auto
  then show "bit (packed (unpack w)) n = bit w n"
    by (elim disjE) (auto simp: packed_def unpack_def bit_simps)
qed

lemma packed_inject: "packed c = packed c' \<longleftrightarrow> c = c'"
  by (metis unpack_packed)

section \<open>Datagrams\<close>

record APS2Datagram =
  dg_cmd :: APS2Command
  dg_addr :: u32
  dg_payload :: "u32 list"

text \<open>
  \<open>APS2Datagram::chunk\<close>. The loop ends only when the chunk size is not 0: a chunk size of 0 with
  data left advances nothing, which the \<open>option\<close> of the definition shows as \<open>None\<close>.
\<close>

definition dg_piece :: "APS2Command \<Rightarrow> u32 \<Rightarrow> u32 list \<Rightarrow> APS2Datagram" where
  "dg_piece cmd addr ws = \<lparr>dg_cmd = cmd\<lparr>c_cnt := of_nat (length ws)\<rparr>, dg_addr = addr, dg_payload = ws\<rparr>"

partial_function (option) dg_chunk_loop ::
    "u16 \<Rightarrow> APS2Command \<Rightarrow> u32 \<Rightarrow> u32 list \<Rightarrow> APS2Datagram list \<Rightarrow> APS2Datagram list option" where
  "dg_chunk_loop chunk_size cmd addr data chunks =
     (if data = [] then Some chunks
      else let cur = (if length data > unat chunk_size then unat chunk_size else length data)
           in dg_chunk_loop chunk_size (cmd\<lparr>c_cnt := of_nat cur\<rparr>) (addr + 4 * of_nat cur)
                (drop cur data) (chunks @ [dg_piece cmd addr (take cur data)]))"

definition dg_chunk :: "APS2Command \<Rightarrow> u32 \<Rightarrow> u32 list \<Rightarrow> u16 \<Rightarrow> APS2Datagram list option" where
  "dg_chunk cmd addr data chunk_size = dg_chunk_loop chunk_size cmd addr data []"

text \<open>\<open>APS2Datagram::data\<close>\<close>

definition dg_data :: "APS2Datagram \<Rightarrow> u32 list" where
  "dg_data dg = packed (dg_cmd dg) # dg_addr dg # dg_payload dg"

text \<open>The split as a function of the whole data: the reference the loop is compared with.\<close>

fun dg_pieces :: "APS2Command \<Rightarrow> u32 \<Rightarrow> u32 list list \<Rightarrow> APS2Datagram list" where
  "dg_pieces cmd addr [] = []"
| "dg_pieces cmd addr (b # bs) = dg_piece cmd addr b # dg_pieces cmd (addr + 4 * of_nat (length b)) bs"

lemma dg_piece_cnt [simp]: "dg_piece (cmd\<lparr>c_cnt := n\<rparr>) addr b = dg_piece cmd addr b"
  by (simp add: dg_piece_def)

lemma dg_pieces_cnt [simp]: "dg_pieces (cmd\<lparr>c_cnt := n\<rparr>) addr bs = dg_pieces cmd addr bs"
  by (induction bs arbitrary: addr) simp_all

lemma dg_chunk_loop_blocks:
  assumes "chunk_size \<noteq> 0"
  shows "dg_chunk_loop chunk_size cmd addr data chunks
     = Some (chunks @ dg_pieces cmd addr (blocks (unat chunk_size) data))"
proof (induction "length data" arbitrary: cmd addr data chunks rule: less_induct)
  case less
  have pos: "0 < unat chunk_size"
    using assms by (simp add: unat_gt_0)
  show ?case
  proof (cases "data = []")
    case True
    then show ?thesis by (simp add: dg_chunk_loop.simps)
  next
    case False
    define cur where "cur = min (unat chunk_size) (length data)"
    have cur: "(if length data > unat chunk_size then unat chunk_size else length data) = cur"
      by (simp add: cur_def)
    have "length (drop (unat chunk_size) data) < length data"
      using False pos by simp
    note IH = less [OF this]
    have "take cur data = take (unat chunk_size) data" "drop cur data = drop (unat chunk_size) data"
      by (simp_all add: cur_def min_def)
    moreover have "length (take (unat chunk_size) data) = cur"
      by (simp add: cur_def)
    ultimately show ?thesis
      using False by (subst dg_chunk_loop.simps)
        (simp add: Let_def cur IH blocks_step [OF pos False])
  qed
qed

lemma dg_chunk_eq:
  "chunk_size \<noteq> 0 \<Longrightarrow>
    dg_chunk cmd addr data chunk_size = Some (dg_pieces cmd addr (blocks (unat chunk_size) data))"
  by (simp add: dg_chunk_def dg_chunk_loop_blocks)

lemma dg_pieces_payload: "map dg_payload (dg_pieces cmd addr bs) = bs"
  by (induction bs arbitrary: addr) (simp_all add: dg_piece_def)

lemma dg_pieces_count:
  "p \<in> set (dg_pieces cmd addr bs) \<Longrightarrow> c_cnt (dg_cmd p) = of_nat (length (dg_payload p))"
  by (induction bs arbitrary: addr) (auto simp: dg_piece_def)

lemma dg_pieces_piece:
  "p \<in> set (dg_pieces cmd a bs) \<Longrightarrow> p = dg_piece cmd (dg_addr p) (dg_payload p)"
  by (induction bs arbitrary: a) (auto simp: dg_piece_def)

lemma dg_pieces_cmd:
  "p \<in> set (dg_pieces cmd addr bs) \<Longrightarrow> (dg_cmd p)\<lparr>c_cnt := n\<rparr> = cmd\<lparr>c_cnt := n\<rparr>"
  by (induction bs arbitrary: addr) (auto simp: dg_piece_def)

lemma dg_pieces_addr:
  "dg_pieces cmd a bs = ps @ p # qs \<Longrightarrow>
    dg_addr p = a + 4 * of_nat (length (concat (map dg_payload ps)))"
proof (induction ps arbitrary: a bs)
  case Nil
  then show ?case by (cases bs) (auto simp: dg_piece_def)
next
  case (Cons p' ps)
  then obtain b bs' where bs: "bs = b # bs'" and p': "p' = dg_piece cmd a b"
    and rest: "dg_pieces cmd (a + 4 * of_nat (length b)) bs' = ps @ p # qs"
    by (cases bs) auto
  have "dg_addr p = a + 4 * of_nat (length b) + 4 * of_nat (length (concat (map dg_payload ps)))"
    by (rule Cons.IH [OF rest])
  then show ?case by (simp add: p' dg_piece_def algebra_simps)
qed

lemma dg_chunking:
  assumes that: "chunk_size \<noteq> 0"
  shows "chunking (\<lambda>a xs. dg_pieces cmd a (blocks (unat chunk_size) xs)) dg_payload dg_addr
    (\<lambda>p. c_cnt (dg_cmd p)) (unat (chunk_size :: u16))"
proof
  have pos: "0 < unat chunk_size" using that by (simp add: unat_gt_0)
  show "concat (map dg_payload (dg_pieces cmd a (blocks (unat chunk_size) xs))) = xs" for a xs
    by (simp add: dg_pieces_payload concat_blocks pos)
  show "length (dg_payload p) \<le> unat chunk_size"
    if "p \<in> set (dg_pieces cmd a (blocks (unat chunk_size) xs))" for p a xs
  proof -
    have "dg_payload p \<in> set (map dg_payload (dg_pieces cmd a (blocks (unat chunk_size) xs)))"
      using that by simp
    then show ?thesis by (simp add: dg_pieces_payload blocks_bounds pos)
  qed
  show "unat chunk_size < 2 ^ 16"
    by (rule order_less_le_trans [OF unsigned_less]) simp
qed (auto simp: dg_pieces_count dg_pieces_addr)

text \<open>The two chunk sizes the driver uses: 0xfffc words towards the SDRAM, 0x100 to the CPLD.\<close>

interpretation sdram: chunking
    "\<lambda>a xs. dg_pieces cmd a (blocks (unat (0xfffc :: u16)) xs)" dg_payload dg_addr
    "\<lambda>p. c_cnt (dg_cmd p)" "unat (0xfffc :: u16)" for cmd
  by (rule dg_chunking) simp

interpretation cpld: chunking
    "\<lambda>a xs. dg_pieces cmd a (blocks (unat (0x100 :: u16)) xs)" dg_payload dg_addr
    "\<lambda>p. c_cnt (dg_cmd p)" "unat (0x100 :: u16)" for cmd
  by (rule dg_chunking) simp

section \<open>Acknowledges\<close>

text \<open>\<open>APS2Datagram::check_ack\<close>: the five tests in order; each throws or falls through.\<close>

definition andThen :: "'e + unit \<Rightarrow> 'e + 'a \<Rightarrow> 'e + 'a" where
  "andThen r k = (case r of Inl e \<Rightarrow> Inl e | Inr _ \<Rightarrow> k)"

definition check_ack :: "APS2Datagram \<Rightarrow> APS2Datagram \<Rightarrow> bool \<Rightarrow> exn + unit" where
  "check_ack dg ack legacy_firmware =
     (let cmd = dg_cmd dg; command = to_command (c_cmd cmd); stat = c_mode_stat (dg_cmd ack) in
      andThen
        (if \<not> c_r_w cmd \<and> command = USERIO_ACK
         then let expected_mode_stat = (if legacy_firmware then 0x80 else 0x81);
                  expected_addr = (if legacy_firmware then 0 else dg_addr dg)
              in if stat \<noteq> expected_mode_stat then Inl (Thrown APS2_COMMS_ERROR)
                 else if dg_addr ack \<noteq> expected_addr then Inl (Thrown APS2_COMMS_ERROR)
                 else Inr ()
         else Inr ())
     (andThen
        (if \<not> c_r_w cmd \<and> command = FPGACONFIG_ACK \<and> stat \<noteq> 0x00
         then Inl (Thrown APS2_COMMS_ERROR) else Inr ())
     (andThen
        (if \<not> c_r_w cmd \<and> command = EPROMIO \<and> stat \<noteq> EPROM_SUCCESS
         then if c_mode_stat cmd = 0x01 then Inl (Thrown APS2_ERPOM_ERASE_FAILURE)
              else Inl (Thrown APS2_COMMS_ERROR)
         else Inr ())
     (andThen
        (if \<not> c_r_w cmd \<and> command = CHIPCONFIGIO \<and> stat \<noteq> CHIPCONFIG_SUCCESS
         then Inl (Thrown APS2_COMMS_ERROR) else Inr ())
        (if \<not> c_r_w cmd \<and> command = RUNCHIPCONFIG \<and> stat \<noteq> RUNCHIPCONFIG_SUCCESS
         then Inl (Thrown APS2_COMMS_ERROR) else Inr ())))))"

lemma andThen_simps [simp]: "andThen (Inl e) k = Inl e" "andThen (Inr u) k = k"
  by (simp_all add: andThen_def)

text \<open>The acknowledge a device sends for a datagram it has carried out.\<close>

definition ack_expected :: "APS2Datagram \<Rightarrow> bool \<Rightarrow> APS2Datagram \<Rightarrow> bool" where
  "ack_expected dg legacy ack \<longleftrightarrow>
     (case to_command (c_cmd (dg_cmd dg)) of
        USERIO_ACK \<Rightarrow> c_mode_stat (dg_cmd ack) = (if legacy then 0x80 else 0x81)
          \<and> dg_addr ack = (if legacy then 0 else dg_addr dg)
      | FPGACONFIG_ACK \<Rightarrow> c_mode_stat (dg_cmd ack) = 0
      | EPROMIO \<Rightarrow> c_mode_stat (dg_cmd ack) = 0
      | CHIPCONFIGIO \<Rightarrow> c_mode_stat (dg_cmd ack) = 0
      | RUNCHIPCONFIG \<Rightarrow> c_mode_stat (dg_cmd ack) = 0
      | _ \<Rightarrow> True)"

lemma check_ack_cases:
  "check_ack dg ack legacy =
     (if c_r_w (dg_cmd dg) \<or> ack_expected dg legacy ack then Inr ()
      else if to_command (c_cmd (dg_cmd dg)) = EPROMIO \<and> c_mode_stat (dg_cmd dg) = EPROM_ERASE
      then Inl (Thrown APS2_ERPOM_ERASE_FAILURE) else Inl (Thrown APS2_COMMS_ERROR))"
  by (cases "to_command (c_cmd (dg_cmd dg))")
     (auto simp: check_ack_def ack_expected_def Let_def const_defs)

end
