(* ===== verification/Texts.thy ===== *)
theory Texts
  imports Errors
begin

text \<open>
  Characters and numbers in texts as the input operators of the standard library read them:
  white space, an optional sign, for base 16 an optional prefix, and the digits.
\<close>

definition newline :: char where "newline = CHR 0x0A"

definition is_space :: "char \<Rightarrow> bool" where
  "is_space c \<longleftrightarrow> c = CHR '' '' \<or> (0x09 \<le> (of_char c :: nat) \<and> (of_char c :: nat) \<le> 0x0D)"

definition digit_value :: "char \<Rightarrow> nat option" where
  "digit_value c =
     (let n = of_char c in
      if 0x30 \<le> n \<and> n \<le> 0x39 then Some (n - 0x30)
      else if 0x61 \<le> n \<and> n \<le> 0x66 then Some (n - 0x57)
      else if 0x41 \<le> n \<and> n \<le> 0x46 then Some (n - 0x37)
      else None)"

definition is_digit :: "nat \<Rightarrow> char \<Rightarrow> bool" where
  "is_digit base c = (case digit_value c of None \<Rightarrow> False | Some d \<Rightarrow> d < base)"

definition number_of :: "nat \<Rightarrow> string \<Rightarrow> nat" where
  "number_of base ds = fold (\<lambda>c n. base * n + the (digit_value c)) ds 0"

definition skip_spaces :: "string \<Rightarrow> string" where
  "skip_spaces = dropWhile is_space"

definition split_sign :: "string \<Rightarrow> bool \<times> string" where
  "split_sign cs = (case cs of [] \<Rightarrow> (False, [])
     | c # rest \<Rightarrow> if c = CHR ''-'' then (True, rest) else if c = CHR ''+'' then (False, rest) else (False, cs))"

definition drop_prefix :: "nat \<Rightarrow> string \<Rightarrow> string" where
  "drop_prefix base cs = (if base = 16 \<and> (take 2 cs = ''0x'' \<or> take 2 cs = ''0X'') then drop 2 cs else cs)"

text \<open>The number a text starts with and the text after it; \<open>None\<close> if there is none.\<close>

definition scan_number :: "nat \<Rightarrow> string \<Rightarrow> (int \<times> string) option" where
  "scan_number base cs =
     (case split_sign (skip_spaces cs) of (neg, body) \<Rightarrow>
        let body' = drop_prefix base body; ds = takeWhile (is_digit base) body' in
        if ds = [] then None
        else Some (if neg then - int (number_of base ds) else int (number_of base ds), drop (length ds) body'))"

lemma split_sign_shorter: "split_sign xs = (neg, body) \<Longrightarrow> length body \<le> length xs"
  by (cases xs) (auto simp: split_sign_def split: if_splits)

lemma scan_number_shorter:
  assumes scan: "scan_number base cs = Some (k, rest)"
  shows "length rest < length cs"
proof -
  obtain neg body where split: "split_sign (skip_spaces cs) = (neg, body)" by fastforce
  define body' where "body' = drop_prefix base body"
  have "length body \<le> length (skip_spaces cs)"
    using split by (rule split_sign_shorter)
  moreover have "length (skip_spaces cs) \<le> length cs" by (simp add: skip_spaces_def length_dropWhile_le)
  moreover have "length body' \<le> length body" by (simp add: body'_def drop_prefix_def)
  moreover have "takeWhile (is_digit base) body' \<noteq> []" "rest = drop (length (takeWhile (is_digit base) body')) body'"
    using scan split by (auto simp: scan_number_def Let_def body'_def split: if_splits)
  moreover from this have "length rest < length body'"
    by (cases body') auto
  ultimately show ?thesis by simp
qed

lemma number_of_snoc: "number_of b (ds @ [c]) = b * number_of b ds + the (digit_value c)"
  by (simp add: number_of_def)

lemma skip_spaces_simps:
  "is_space c \<Longrightarrow> skip_spaces (c # cs) = skip_spaces cs"
  "\<not> is_space c \<Longrightarrow> skip_spaces (c # cs) = c # cs" "skip_spaces [] = []"
  by (simp_all add: skip_spaces_def)

text \<open>The digits as the output operators write them.\<close>

abbreviation digit_char :: "nat \<Rightarrow> char" where
  "digit_char d \<equiv> ''0123456789abcdef'' ! d"

lemma digit_char_facts:
  assumes "d < 16"
  shows "digit_value (digit_char d) = Some d" "\<not> is_space (digit_char d)"
    "digit_char d \<noteq> CHR ''-''" "digit_char d \<noteq> CHR ''+''" "digit_char d \<noteq> CHR ''x''" "digit_char d \<noteq> CHR ''X''"
proof -
  have "d \<in> {0, 1, 2, 3, 4, 5, 6, 7, 8, 9, 10, 11, 12, 13, 14, 15}" using assms by (simp; arith)
  then show "digit_value (digit_char d) = Some d" "\<not> is_space (digit_char d)"
    "digit_char d \<noteq> CHR ''-''" "digit_char d \<noteq> CHR ''+''" "digit_char d \<noteq> CHR ''x''" "digit_char d \<noteq> CHR ''X''"
    by (auto simp: digit_value_def is_space_def)
qed

text \<open>Reading back a text of digits that no digit follows.\<close>

lemma scan_unsigned:
  assumes "\<forall>c \<in> set ds. \<exists>d < base. c = digit_char d" "ds \<noteq> []" "base \<le> 16"
    and "cs = [] \<or> \<not> is_digit base (hd cs) \<and> hd cs \<noteq> CHR ''x'' \<and> hd cs \<noteq> CHR ''X''"
  shows "scan_number base (ds @ cs) = Some (int (number_of base ds), cs)"
    and "scan_number base (CHR ''-'' # ds @ cs) = Some (- int (number_of base ds), cs)"
proof -
  have digit: "is_digit base c \<and> \<not> is_space c \<and> c \<noteq> CHR ''-'' \<and> c \<noteq> CHR ''+'' \<and> c \<noteq> CHR ''x'' \<and> c \<noteq> CHR ''X''"
    if "c \<in> set ds" for c
  proof -
    from assms(1) that obtain d where d: "d < base" "c = digit_char d" by blast
    then have "d < 16" using assms(3) by simp
    from digit_char_facts [OF this] d show ?thesis by (simp add: is_digit_def)
  qed
  obtain c ds' where ds: "ds = c # ds'" using assms(2) by (cases ds) auto
  have "takeWhile (is_digit base) (ds @ cs) = ds @ takeWhile (is_digit base) cs"
    using digit by (intro takeWhile_append2) blast
  then have take: "takeWhile (is_digit base) (ds @ cs) = ds" using assms(4) by (cases cs) auto
  have "take 2 (ds @ cs) \<noteq> ''0x'' \<and> take 2 (ds @ cs) \<noteq> ''0X''"
  proof (cases ds')
    case Nil
    then show ?thesis using assms(4) ds by (cases cs) auto
  next
    case (Cons e es)
    then show ?thesis using digit [of e] ds by auto
  qed
  then have prefix: "drop_prefix base (ds @ cs) = ds @ cs" by (simp add: drop_prefix_def)
  have "skip_spaces (ds @ cs) = ds @ cs" "split_sign (ds @ cs) = (False, ds @ cs)"
    using digit [of c] ds by (simp_all add: skip_spaces_simps split_sign_def)
  then show "scan_number base (ds @ cs) = Some (int (number_of base ds), cs)"
    using take prefix assms(2) by (simp add: scan_number_def)
  have "skip_spaces (CHR ''-'' # ds @ cs) = CHR ''-'' # ds @ cs"
    by (simp add: skip_spaces_simps is_space_def)
  then have "split_sign (skip_spaces (CHR ''-'' # ds @ cs)) = (True, ds @ cs)"
    by (simp add: split_sign_def)
  then show "scan_number base (CHR ''-'' # ds @ cs) = Some (- int (number_of base ds), cs)"
    using take prefix assms(2) by (simp add: scan_number_def)
qed

lemma scan_number_space: "is_space c \<Longrightarrow> scan_number base (c # cs) = scan_number base cs"
  by (simp add: scan_number_def skip_spaces_simps)

end
