(* ===== verification/Packet.thy ===== *)
theory Packet
  imports Datagram Texts
begin

text \<open>
  \<open>MACAddr\<close> and \<open>APS2EthernetPacket\<close>: hardware addresses, the packet of the legacy UDP protocol,
  its byte format in both directions and the splitting of a write into packets.
\<close>

section \<open>MAC addresses\<close>

type_synonym MACAddr = "u8 list" \<comment> \<open>the vector \<open>addr\<close>\<close>

definition MAC_ADDR_LEN :: nat where [const_defs]: "MAC_ADDR_LEN = 6"

definition MACAddr_init :: MACAddr where
  "MACAddr_init = replicate MAC_ADDR_LEN 0"

text \<open>\<open>MACAddr(const uint8_t *)\<close> copies six bytes.\<close>

definition MACAddr_of_bytes :: "u8 list \<Rightarrow> MACAddr" where
  "MACAddr_of_bytes bytes = map (\<lambda>ct. bytes ! ct) [0..<6]"

definition hex_digit :: "u8 \<Rightarrow> char" where
  "hex_digit d = ''0123456789abcdef'' ! unat d"

definition hex2 :: "u8 \<Rightarrow> string" where
  "hex2 b = [hex_digit (drop_bit 4 b), hex_digit (take_bit 4 b)]"

definition mac_to_string :: "MACAddr \<Rightarrow> string" where
  "mac_to_string addr = butlast (concat (map (\<lambda>b. hex2 b @ '':'') addr))"

definition hex_value :: "char \<Rightarrow> u8" where
  "hex_value c = of_nat (length (takeWhile (\<lambda>d. d \<noteq> c) ''0123456789abcdef''))"

definition mac_byte :: "string \<Rightarrow> u8" where
  "mac_byte cs = push_bit 4 (hex_value (cs ! 0)) OR hex_value (cs ! 1)"

lemma hex_value_digit:
  assumes "unat d < 16" shows "hex_value (hex_digit d) = d"
proof -
  obtain n where n: "n < 16" "d = of_nat n"
    using assms by (intro that [of "unat d"]) simp_all
  have "\<forall>n \<in> {..<16}. hex_value (hex_digit (of_nat n)) = of_nat n"
    by (simp add: lessThan_nat_numeral hex_value_def hex_digit_def lessThan_Suc)
  with n show ?thesis by simp
qed

lemma mac_byte_hex2: "mac_byte (hex2 b @ '':'') = b"
proof -
  have "unat b < 256"
    by (rule order_less_le_trans [OF unsigned_less]) simp
  then have "unat (drop_bit 4 b) < 16"
    by (simp add: drop_bit_eq_div unat_div)
  moreover have "unat (take_bit 4 b) < 16"
    by (simp add: unsigned_take_bit_eq) (simp add: take_bit_eq_mod)
  ultimately have "mac_byte (hex2 b @ '':'') = push_bit 4 (drop_bit 4 b) OR take_bit 4 b"
    by (simp add: mac_byte_def hex2_def hex_value_digit)
  then show ?thesis
    by (simp add: bit_eq_iff bit_simps) auto
qed

interpretation mac_text: fixed_codec "\<lambda>b. hex2 b @ '':''" mac_byte 3
  by unfold_locales (simp_all add: mac_byte_hex2, simp add: hex2_def)

lemma mac_to_string_inject:
  assumes "mac_to_string a = mac_to_string b" "a \<noteq> []" "b \<noteq> []"
  shows "a = b"
proof -
  have tail: "concat (map (\<lambda>b. hex2 b @ '':'') xs) = mac_to_string xs @ '':''" if "xs \<noteq> []" for xs
  proof -
    have "last (concat (map (\<lambda>b. hex2 b @ '':'') xs)) = CHR '':''"
      using that by (induction xs rule: rev_induct) auto
    moreover have "concat (map (\<lambda>b. hex2 b @ '':'') xs) \<noteq> []"
      using that by (cases xs) auto
    ultimately show ?thesis
      unfolding mac_to_string_def by (metis append_butlast_last_id)
  qed
  show ?thesis
    using tail [OF assms(2)] tail [OF assms(3)] assms(1)
    by (metis mac_text.concat_enc_inject)
qed

text \<open>
  \<open>MACAddr(const string &)\<close>: six times a hexadecimal \<open>int\<close> and one more character. A number that is
  missing or out of range fails the stream after a value has been stored; what is read from a
  stream that has failed or ended stays uninitialised, so using it is undefined.
\<close>

fun mac_bytes :: "nat \<Rightarrow> string \<Rightarrow> exn + u8 list" where
  "mac_bytes 0 cs = Inr []"
| "mac_bytes (Suc n) cs =
     (let failed = (\<lambda>byte. if n = 0 then Inr [byte] else Inl Undefined) in
      if skip_spaces cs = [] then Inl Undefined
      else case scan_number 16 cs of
        None \<Rightarrow> failed 0
      | Some (byte, rest) \<Rightarrow>
          if byte < - 2147483648 then failed 0
          else if 2147483647 < byte then failed 0xff
          else case skip_spaces rest of
            [] \<Rightarrow> failed (word_of_int byte)
          | colon # rest' \<Rightarrow> (case mac_bytes n rest' of Inl e \<Rightarrow> Inl e | Inr bs \<Rightarrow> Inr (word_of_int byte # bs)))"

definition MACAddr_of_string :: "string \<Rightarrow> exn + MACAddr" where
  "MACAddr_of_string macStr = mac_bytes 6 macStr"

lemma hex2_digits:
  shows "\<forall>c \<in> set (hex2 b). \<exists>d < 16. c = digit_char d" "number_of 16 (hex2 b) = unat b"
proof -
  have "unat b < 256"
    by (rule order_less_le_trans [OF unsigned_less]) simp
  then have hi: "unat (drop_bit 4 b) = unat b div 16" "unat b div 16 < 16"
    by (simp_all add: drop_bit_eq_div unat_div)
  have lo: "unat (take_bit 4 b) = unat b mod 16" "unat b mod 16 < 16"
    by (simp_all add: unsigned_take_bit_eq) (simp add: take_bit_eq_mod)
  have "hex2 b = [digit_char (unat b div 16), digit_char (unat b mod 16)]"
    by (simp add: hex2_def hex_digit_def hi(1) lo(1))
  with hi(2) lo(2) show "\<forall>c \<in> set (hex2 b). \<exists>d < 16. c = digit_char d"
    by (metis empty_iff empty_set set_ConsD)
  show "number_of 16 (hex2 b) = unat b"
    using digit_char_facts(1) [OF hi(2)] digit_char_facts(1) [OF lo(2)]
    by (simp add: hex2_def hex_digit_def number_of_def hi(1) lo(1))
qed

lemma scan_hex2:
  assumes "cs = [] \<or> hd cs = CHR '':''"
  shows "scan_number 16 (hex2 b @ cs) = Some (int (unat b), cs)" "skip_spaces (hex2 b @ cs) \<noteq> []"
proof -
  have "\<not> is_digit 16 CHR '':''" by (simp add: is_digit_def digit_value_def)
  then have stop: "cs = [] \<or> \<not> is_digit 16 (hd cs) \<and> hd cs \<noteq> CHR ''x'' \<and> hd cs \<noteq> CHR ''X''"
    using assms by auto
  have "hex2 b \<noteq> []" by (simp add: hex2_def)
  have le: "(16 :: nat) \<le> 16" by simp
  have "scan_number 16 (hex2 b @ cs) = Some (int (number_of 16 (hex2 b)), cs)"
    by (rule scan_unsigned(1) [OF hex2_digits(1) \<open>hex2 b \<noteq> []\<close> le stop])
  then show "scan_number 16 (hex2 b @ cs) = Some (int (unat b), cs)" by (simp only: hex2_digits(2))
  obtain c ds where c: "hex2 b = c # ds" "c \<in> set (hex2 b)"
    using \<open>hex2 b \<noteq> []\<close> by (cases "hex2 b") auto
  from bspec [OF hex2_digits(1) c(2)] obtain d where "d < 16" "c = digit_char d" by blast
  then have "\<not> is_space c" by (simp only: digit_char_facts(2) not_False_eq_True)
  then show "skip_spaces (hex2 b @ cs) \<noteq> []" by (simp add: c(1) skip_spaces_simps)
qed

lemma mac_to_string_Cons: "ms \<noteq> [] \<Longrightarrow> mac_to_string (b # ms) = hex2 b @ CHR '':'' # mac_to_string ms"
  by (cases ms) (auto simp: mac_to_string_def hex2_def butlast_append)

lemma uint_byte: "uint (b :: u8) \<le> 2147483647" "\<not> uint b < - 2147483648"
proof -
  have "0 \<le> uint b" "uint b < 256" using unsigned_less [of b, where 'a = int] by simp_all
  then show "uint b \<le> 2147483647" "\<not> uint b < - 2147483648" by linarith+
qed

lemma mac_bytes_text: "m \<noteq> [] \<Longrightarrow> mac_bytes (length m) (mac_to_string m) = Inr m"
proof (induction m)
  case (Cons b ms)
  have byte: "uint b \<le> 2147483647" "\<not> uint b < - 2147483648" by (rule uint_byte)+
  show ?case
  proof (cases "ms = []")
    case True
    have "mac_to_string [b] = hex2 b @ []" by (simp add: mac_to_string_def hex2_def)
    then show ?thesis
      using scan_hex2 [of "[]" b] byte True by (simp add: skip_spaces_simps(3))
  next
    case False
    have "\<not> is_space CHR '':''" by (simp add: is_space_def)
    then show ?thesis
      using scan_hex2 [of "CHR '':'' # mac_to_string ms" b] byte Cons.IH False
      by (simp add: mac_to_string_Cons skip_spaces_simps(2))
  qed
qed simp

lemma mac_bytes_short: "m \<noteq> [] \<Longrightarrow> mac_bytes (Suc (n + length m)) (mac_to_string m) = Inl Undefined"
proof (induction m)
  case (Cons b ms)
  have byte: "uint b \<le> 2147483647" "\<not> uint b < - 2147483648" by (rule uint_byte)+
  show ?case
  proof (cases "ms = []")
    case True
    have "mac_to_string [b] = hex2 b @ []" by (simp add: mac_to_string_def hex2_def)
    then show ?thesis
      using scan_hex2 [of "[]" b] byte True by (simp add: skip_spaces_simps(3))
  next
    case False
    have "\<not> is_space CHR '':''" by (simp add: is_space_def)
    then show ?thesis
      using scan_hex2 [of "CHR '':'' # mac_to_string ms" b] byte Cons.IH False
      by (simp add: mac_to_string_Cons skip_spaces_simps(2))
  qed
qed simp

section \<open>Packets\<close>

record APS2EthernetHeader =
  h_dest :: MACAddr
  h_src :: MACAddr
  h_frameType :: u16
  h_seqNum :: u16
  h_command :: APS2Command
  h_addr :: u32

record APS2EthernetPacket =
  pk_header :: APS2EthernetHeader
  pk_payload :: "u32 list"

definition NUM_HEADER_BYTES :: nat where [const_defs]: "NUM_HEADER_BYTES = 24"

text \<open>The three constructors that take no bytes.\<close>

definition packet_full :: "MACAddr \<Rightarrow> MACAddr \<Rightarrow> APS2Command \<Rightarrow> u32 \<Rightarrow> APS2EthernetPacket" where
  "packet_full destMAC srcMAC command addr =
     \<lparr>pk_header = \<lparr>h_dest = destMAC, h_src = srcMAC, h_frameType = APS_PROTO, h_seqNum = 0,
        h_command = command, h_addr = addr\<rparr>, pk_payload = []\<rparr>"

definition packet_cmd :: "APS2Command \<Rightarrow> u32 \<Rightarrow> APS2EthernetPacket" where
  "packet_cmd command addr = packet_full MACAddr_init MACAddr_init command addr"

definition packet_init :: APS2EthernetPacket where
  "packet_init = packet_cmd APS2Command_init 0"

text \<open>\<open>numBytes\<close> and \<open>serialize\<close>: the fields in network order, zero-filled to \<open>numBytes\<close>.\<close>

definition has_address :: "APS2EthernetPacket \<Rightarrow> bool" where
  "has_address p = needs_address (to_command (c_cmd (h_command (pk_header p))))"

definition numBytes :: "APS2EthernetPacket \<Rightarrow> nat" where
  "numBytes p =
     (let trueSize = (if has_address p then NUM_HEADER_BYTES + 4 * length (pk_payload p)
                      else NUM_HEADER_BYTES - 4 + 4 * length (pk_payload p))
      in max trueSize 64)"

definition serialize :: "APS2EthernetPacket \<Rightarrow> u8 list" where
  "serialize p =
     (let h = pk_header p;
          content = h_dest h @ h_src h @ be16 (h_frameType h) @ be16 (h_seqNum h)
            @ be32 (packed (h_command h))
            @ (if has_address p then be32 (h_addr h) else [])
            @ concat (map be32 (pk_payload p))
      in content @ replicate (numBytes p - length content) 0)"

text \<open>
  The constructor from received bytes. The address field is only there for a command that needs
  one and is not an acknowledge. Reading past the end of \<open>packetData\<close> is undefined.
\<close>

fun payload_words :: "u8 list \<Rightarrow> exn + u32 list" where
  "payload_words [] = Inr []"
| "payload_words (a # b # c # d # bs) =
     (case payload_words bs of Inl e \<Rightarrow> Inl e | Inr ws \<Rightarrow> Inr (of_be32 [a, b, c, d] # ws))"
| "payload_words _ = Inl Undefined"

definition packet_of_bytes :: "u8 list \<Rightarrow> exn + APS2EthernetPacket" where
  "packet_of_bytes packetData =
     (if length packetData < 20 then Inl Undefined
      else let command = unpack (of_be32 (take 4 (drop 16 packetData)));
               addressed = (\<not> c_ack command \<and> needs_address (to_command (c_cmd command)))
           in if addressed \<and> length packetData < 24 then Inl Undefined
              else let addr = (if addressed then of_be32 (take 4 (drop 20 packetData)) else 0);
                       myOffset = (if addressed then 24 else 20)
                   in case payload_words (drop myOffset packetData) of
                        Inl e \<Rightarrow> Inl e
                      | Inr ws \<Rightarrow>
                          Inr \<lparr>pk_header = \<lparr>h_dest = take 6 packetData,
                                 h_src = take 6 (drop 6 packetData),
                                 h_frameType = of_be16 (take 2 (drop 12 packetData)),
                                 h_seqNum = of_be16 (take 2 (drop 14 packetData)),
                                 h_command = command, h_addr = addr\<rparr>,
                               pk_payload = ws\<rparr>)"

definition create_broadcast_packet :: APS2EthernetPacket where
  "create_broadcast_packet =
     \<lparr>pk_header = (pk_header packet_init)
        \<lparr>h_dest := replicate 6 0xFF,
         h_command := APS2Command_init\<lparr>c_ack := False, c_r_w := True, c_cmd := command_code STATUS,
           c_mode_stat := APS_STATUS_HOST, c_cnt := 0\<rparr>\<rparr>,
      pk_payload = []\<rparr>"

text \<open>\<open>APS2EthernetPacket::chunk\<close>: a do-while loop, so that no data makes one empty packet.\<close>

definition MAX_PAYLOAD :: nat where [const_defs]: "MAX_PAYLOAD = 256"

definition pk_piece :: "APS2Command \<Rightarrow> u16 \<Rightarrow> u32 \<Rightarrow> u32 list \<Rightarrow> APS2EthernetPacket" where
  "pk_piece cmd seqNum curAddr ws =
     \<lparr>pk_header = (pk_header packet_init)\<lparr>h_command := cmd\<lparr>c_cnt := of_nat (length ws)\<rparr>,
        h_seqNum := seqNum, h_addr := curAddr\<rparr>, pk_payload = ws\<rparr>"

function pk_chunk_loop :: "APS2Command \<Rightarrow> u16 \<Rightarrow> u32 \<Rightarrow> u32 list \<Rightarrow> APS2EthernetPacket list" where
  "pk_chunk_loop cmd seqNum curAddr data =
     (let cnt = (if length data > MAX_PAYLOAD then MAX_PAYLOAD else length data);
          packet = pk_piece cmd seqNum curAddr (take cnt data)
      in if drop cnt data \<noteq> []
         then packet # pk_chunk_loop cmd (seqNum + 1) (curAddr + 4 * of_nat cnt) (drop cnt data)
         else [packet])"
  by pat_completeness auto
termination
  by (relation "measure (\<lambda>(cmd, seqNum, curAddr, data). length data)") (auto simp: const_defs)

declare pk_chunk_loop.simps [simp del]

definition pk_chunk :: "u32 \<Rightarrow> u32 list \<Rightarrow> APS2Command \<Rightarrow> APS2EthernetPacket list" where
  "pk_chunk addr data cmd = pk_chunk_loop (cmd\<lparr>c_ack := False, c_sel := False\<rparr>) 0 addr data"


section \<open>What the packet code guarantees\<close>

subsection \<open>Splitting\<close>

lemma pk_piece_simps [simp]:
  "pk_payload (pk_piece cmd q a ws) = ws"
  "h_addr (pk_header (pk_piece cmd q a ws)) = a"
  "h_seqNum (pk_header (pk_piece cmd q a ws)) = q"
  "h_command (pk_header (pk_piece cmd q a ws)) = cmd\<lparr>c_cnt := of_nat (length ws)\<rparr>"
  by (simp_all add: pk_piece_def)

lemma pk_chunk_loop_unfold:
  "pk_chunk_loop cmd q a data =
     (if MAX_PAYLOAD < length data
      then pk_piece cmd q a (take MAX_PAYLOAD data)
        # pk_chunk_loop cmd (q + 1) (a + 4 * of_nat MAX_PAYLOAD) (drop MAX_PAYLOAD data)
      else [pk_piece cmd q a data])"
  by (subst pk_chunk_loop.simps) (simp add: Let_def)

lemma pk_chunk_loop_last:
  "length data \<le> MAX_PAYLOAD \<Longrightarrow> pk_chunk_loop cmd q a data = [pk_piece cmd q a data]"
  by (subst pk_chunk_loop_unfold) simp

lemma pk_chunk_loop_more:
  "MAX_PAYLOAD < length data \<Longrightarrow> pk_chunk_loop cmd q a data =
     pk_piece cmd q a (take MAX_PAYLOAD data)
       # pk_chunk_loop cmd (q + 1) (a + 4 * of_nat MAX_PAYLOAD) (drop MAX_PAYLOAD data)"
  by (subst pk_chunk_loop_unfold) simp

lemmas pk_chunk_loop_steps = pk_chunk_loop_last pk_chunk_loop_more

lemma pk_chunk_loop_induct [case_names last more]:
  assumes "\<And>q a data. length data \<le> MAX_PAYLOAD \<Longrightarrow> P q a data"
    and "\<And>q a data. MAX_PAYLOAD < length data \<Longrightarrow>
      P (q + 1) (a + 4 * of_nat MAX_PAYLOAD) (drop MAX_PAYLOAD data) \<Longrightarrow> P q a data"
  shows "P (q :: u16) (a :: u32) (data :: u32 list)"
proof (induction "length data" arbitrary: q a data rule: less_induct)
  case less
  show ?case
  proof (cases "MAX_PAYLOAD < length data")
    case True
    then show ?thesis
      using less [of "drop MAX_PAYLOAD data"] assms(2) by (simp add: const_defs)
  qed (use assms(1) in simp)
qed

lemma pk_chunk_payload: "concat (map pk_payload (pk_chunk_loop cmd q a data)) = data"
  by (induction q a data rule: pk_chunk_loop_induct)
     (simp_all add: pk_chunk_loop_steps)

lemma pk_chunk_members:
  "p \<in> set (pk_chunk_loop cmd q a data) \<Longrightarrow>
    length (pk_payload p) \<le> MAX_PAYLOAD
    \<and> h_command (pk_header p) = cmd\<lparr>c_cnt := of_nat (length (pk_payload p))\<rparr>"
  by (induction q a data rule: pk_chunk_loop_induct)
     (auto simp: pk_chunk_loop_steps split: if_splits)

lemma pk_chunk_addr:
  "pk_chunk_loop cmd q a data = ps @ p # qs \<Longrightarrow>
    h_addr (pk_header p) = a + 4 * of_nat (length (concat (map pk_payload ps)))"
proof (induction q a data arbitrary: ps rule: pk_chunk_loop_induct)
  case (last q a data)
  then show ?case by (cases ps) (auto simp: pk_chunk_loop_steps)
next
  case (more q a data)
  show ?case
  proof (cases ps)
    case Nil
    with more show ?thesis by (auto simp: pk_chunk_loop_steps)
  next
    case (Cons p' ps')
    with more have "h_addr (pk_header p)
        = a + 4 * of_nat MAX_PAYLOAD + 4 * of_nat (length (concat (map pk_payload ps')))"
      by (auto simp: pk_chunk_loop_steps)
    moreover have "length (pk_payload p') = MAX_PAYLOAD"
      using Cons more by (auto simp: pk_chunk_loop_steps)
    ultimately show ?thesis using Cons by (simp add: algebra_simps)
  qed
qed

lemma pk_chunk_nonempty: "pk_chunk a data cmd \<noteq> []"
  by (simp add: pk_chunk_def pk_chunk_loop_unfold [of "cmd\<lparr>c_ack := False, c_sel := False\<rparr>"])

lemma pk_chunk_seqNum:
  "i < length (pk_chunk_loop cmd q a data) \<Longrightarrow>
    h_seqNum (pk_header (pk_chunk_loop cmd q a data ! i)) = q + of_nat i"
proof (induction q a data arbitrary: i rule: pk_chunk_loop_induct)
  case (last q a data)
  then show ?case by (simp add: pk_chunk_loop_steps)
next
  case (more q a data)
  then show ?case
    by (cases i) (simp_all add: pk_chunk_loop_steps algebra_simps)
qed

text \<open>The packet split is the second provider of the \<open>chunking\<close> contract.\<close>

interpretation frames: chunking
    "\<lambda>a xs. pk_chunk a xs cmd" pk_payload "\<lambda>p. h_addr (pk_header p)"
    "\<lambda>p. c_cnt (h_command (pk_header p))" MAX_PAYLOAD for cmd
  by unfold_locales
     (auto simp: pk_chunk_def pk_chunk_payload pk_chunk_addr dest: pk_chunk_members,
      auto simp: const_defs)

subsection \<open>Byte format\<close>

definition mac_ok :: "MACAddr \<Rightarrow> bool" where
  "mac_ok m \<longleftrightarrow> length m = MAC_ADDR_LEN"

definition packet_macs_ok :: "APS2EthernetPacket \<Rightarrow> bool" where
  "packet_macs_ok p \<longleftrightarrow> mac_ok (h_dest (pk_header p)) \<and> mac_ok (h_src (pk_header p))"

lemma length_be [simp]: "length (be16 w) = 2" "length (be32 v) = 4"
  by (rule be16.enc_length, rule be32.enc_length)

lemma length_serialize:
  assumes "packet_macs_ok p"
  shows "length (serialize p) = numBytes p"
  using assms
  by (auto simp: serialize_def numBytes_def Let_def packet_macs_ok_def mac_ok_def const_defs
      be32.concat_enc_length)

lemma payload_words_be32: "payload_words (be32 w @ bs) =
    (case payload_words bs of Inl e \<Rightarrow> Inl e | Inr ws \<Rightarrow> Inr (w # ws))"
  using of_be32_be32 [of w] by (simp add: be32_def split: sum.split)

lemma payload_words_zeros: "payload_words (replicate (4 * n) 0) = Inr (replicate n 0)"
  by (induction n) (simp_all add: of_be32_def numeral_eq_Suc)

lemma payload_words_padded:
  "payload_words (concat (map be32 ws) @ replicate (4 * n) 0) = Inr (ws @ replicate n 0)"
  by (induction ws) (simp_all add: payload_words_zeros payload_words_be32)

lemma payload_words_ok_iff: "(\<exists>ws. payload_words bs = Inr ws) \<longleftrightarrow> 4 dvd length bs"
proof (induction bs rule: payload_words.induct)
  case (2 a b c d bs)
  have "4 dvd length (a # b # c # d # bs) \<longleftrightarrow> 4 dvd length bs"
    by simp presburger
  with 2 show ?case by (auto split: sum.splits)
qed (auto, presburger+)


text \<open>Serialising and parsing: the fields come back, the zero filling shows as payload words.\<close>

lemma serialize_round_trip:
  assumes macs: "packet_macs_ok p"
    and addressed: "has_address p \<Longrightarrow> \<not> c_ack (h_command (pk_header p))"
    and plain: "\<not> has_address p \<Longrightarrow> h_addr (pk_header p) = 0"
  shows "packet_of_bytes (serialize p)
    = Inr (p\<lparr>pk_payload := pk_payload p
        @ replicate ((if has_address p then 10 else 11) - length (pk_payload p)) 0\<rparr>)"
proof -
  define h where "h = pk_header p"
  define k where "k = (if has_address p then 10 else 11 :: nat) - length (pk_payload p)"
  define tail where "tail = concat (map be32 (pk_payload p)) @ replicate (4 * k) 0"
  have macs': "length (h_dest h) = 6" "length (h_src h) = 6"
    using macs by (simp_all add: packet_macs_ok_def mac_ok_def h_def const_defs)
  have bytes: "serialize p = h_dest h @ h_src h @ be16 (h_frameType h) @ be16 (h_seqNum h)
      @ be32 (packed (h_command h)) @ (if has_address p then be32 (h_addr h) else []) @ tail"
  proof -
    have "numBytes p - length (h_dest h @ h_src h @ be16 (h_frameType h) @ be16 (h_seqNum h)
        @ be32 (packed (h_command h)) @ (if has_address p then be32 (h_addr h) else [])
        @ concat (map be32 (pk_payload p))) = 4 * k"
      using macs' by (simp add: k_def numBytes_def Let_def const_defs be32.concat_enc_length max_def diff_mult_distrib2)
    then show ?thesis
      by (simp add: serialize_def Let_def h_def tail_def split: if_split_asm)
  qed
  have words: "payload_words tail = Inr (pk_payload p @ replicate k 0)"
    by (simp add: tail_def payload_words_padded)
  have command: "of_be32 (take 4 (drop 16 (serialize p))) = packed (h_command h)"
    by (simp add: bytes macs' be32.dec_enc)
  show ?thesis
  proof (cases "has_address p")
    case True
    have "needs_address (to_command (c_cmd (h_command h)))" "\<not> c_ack (h_command h)"
      using True addressed by (simp_all add: has_address_def h_def)
    then show ?thesis
      using True words unfolding packet_of_bytes_def Let_def command
      by (simp add: bytes macs' be32.dec_enc be16.dec_enc h_def [symmetric] k_def [symmetric])
        (simp add: h_def k_def)
  next
    case False
    have "\<not> needs_address (to_command (c_cmd (h_command h)))"
      using False by (simp add: has_address_def h_def)
    then show ?thesis
      using False plain words unfolding packet_of_bytes_def Let_def command
      by (simp add: bytes macs' be32.dec_enc be16.dec_enc h_def [symmetric] k_def [symmetric])
        (simp add: h_def k_def)
  qed
qed

text \<open>Which received byte strings the constructor can take apart.\<close>

lemma packet_of_bytes_defined_iff:
  "(\<exists>p. packet_of_bytes bs = Inr p) \<longleftrightarrow>
     20 \<le> length bs \<and> 4 dvd length bs
     \<and> (\<not> bit (of_be32 (take 4 (drop 16 bs))) 31
         \<and> needs_address (to_command (c_cmd (unpack (of_be32 (take 4 (drop 16 bs))))))
         \<longrightarrow> 24 \<le> length bs)"
proof -
  have "(\<exists>p. (case r of Inl e \<Rightarrow> Inl e | Inr ws \<Rightarrow> Inr (f ws)) = Inr p) \<longleftrightarrow> (\<exists>ws. r = Inr ws)"
    for r :: "exn + u32 list" and f :: "u32 list \<Rightarrow> APS2EthernetPacket"
    by (cases r) auto
  moreover have "4 dvd n - 20 \<longleftrightarrow> 4 dvd n" if "20 \<le> n" for n :: nat
    using that by presburger
  moreover have "4 dvd n - 24 \<longleftrightarrow> 4 dvd n" if "24 \<le> n" for n :: nat
    using that by presburger
  ultimately show ?thesis
    by (auto simp: packet_of_bytes_def Let_def payload_words_ok_iff not_less unpack_def)
qed

end
