(* ===== verification/Ethernet.thy ===== *)
theory Ethernet
  imports Packet
begin

text \<open>
  \<open>APS2Ethernet\<close>: device discovery, connections, and sending and receiving datagrams over TCP or,
  for legacy firmware, UDP packets. The operating system, the network and the modules on it are a
  parameter: a record of functions on an abstract network state. The receive thread's packets are
  sorted at the points where the code waits for them.
\<close>

section \<open>The environment\<close>

type_synonym endpoint = "string \<times> u16" \<comment> \<open>\<open>udp::endpoint\<close>: address and port\<close>

datatype 'a io = IoOk 'a | IoTimeout | IoError

text \<open>An entry of the list that \<open>getifaddrs\<close> returns.\<close>

record ifaddr =
  ifa_addr :: "(bool \<times> string) option" \<comment> \<open>whether the family is \<open>AF_INET\<close>, and the address\<close>
  ifa_netmask :: "string option"

text \<open>
  What the code calls of the socket library and the operating system. \<open>net_sleep\<close> returns by how
  many milliseconds the sleep took longer than asked for (\<open>sleep_for\<close> never takes less);
  \<open>net_arrivals\<close> are the UDP packets received since the last call, with their senders;
  \<open>net_tcp_receive\<close> returns some bytes, at most as many as the buffer holds.
\<close>

record 'n net_ops =
  net_ifaddrs :: "'n \<Rightarrow> ifaddr list"
  net_valid_ip :: "string \<Rightarrow> bool"
  net_broadcast :: "string \<Rightarrow> string \<Rightarrow> string"
  net_udp_bind :: "u16 \<Rightarrow> 'n \<Rightarrow> unit io \<times> 'n"
  net_udp_broadcast_on :: "u16 \<Rightarrow> 'n \<Rightarrow> unit io \<times> 'n"
  net_udp_send :: "u16 \<Rightarrow> u8 list \<Rightarrow> endpoint \<Rightarrow> 'n \<Rightarrow> unit io \<times> 'n"
  net_arrivals :: "'n \<Rightarrow> (u8 list \<times> endpoint) list \<times> 'n"
  net_sleep :: "nat \<Rightarrow> 'n \<Rightarrow> nat \<times> 'n"
  net_tcp_open :: "'n \<Rightarrow> nat \<times> 'n"
  net_tcp_connect :: "nat \<Rightarrow> endpoint \<Rightarrow> nat \<Rightarrow> 'n \<Rightarrow> unit io \<times> 'n"
  net_tcp_write :: "nat \<Rightarrow> u8 list \<Rightarrow> nat \<Rightarrow> 'n \<Rightarrow> unit io \<times> 'n"
  net_tcp_receive :: "nat \<Rightarrow> nat \<Rightarrow> nat \<Rightarrow> 'n \<Rightarrow> u8 list io \<times> 'n"
  net_tcp_close :: "nat \<Rightarrow> 'n \<Rightarrow> 'n"

section \<open>State\<close>

record EthernetDevInfo =
  di_macAddr :: MACAddr
  di_endpoint :: endpoint
  di_seqNum :: u16
  di_supports_tcp :: bool

definition EthernetDevInfo_init :: EthernetDevInfo where
  "EthernetDevInfo_init = \<lparr>di_macAddr = MACAddr_init, di_endpoint = (''0.0.0.0'', 0), di_seqNum = 0,
     di_supports_tcp = False\<rparr>"

text \<open>
  The maps of \<open>APS2Ethernet\<close>, keyed by IP address, and the network. A socket is a handle;
  \<open>Some None\<close> in \<open>tcp_sockets\<close> is the null pointer that \<open>operator[]\<close> inserts.
\<close>

record 'n link =
  devInfo :: "string \<Rightarrow> EthernetDevInfo option"
  msgQueues :: "string \<Rightarrow> APS2EthernetPacket list option"
  tcp_sockets :: "string \<Rightarrow> nat option option"
  net :: 'n

text \<open>An environment step as a method: the network component is replaced.\<close>

definition net_do :: "('n \<Rightarrow> 'a \<times> 'n) \<Rightarrow> (('n, 'z) link_scheme, 'a) meth" where
  "net_do f s = (Inr (fst (f (net s))), s\<lparr>net := snd (f (net s))\<rparr>)"

text \<open>\<open>devInfo_[ip]\<close> and \<open>tcp_sockets_[ip]\<close>: \<open>operator[]\<close> inserts a default value.\<close>

definition dev_at :: "string \<Rightarrow> (('n, 'z) link_scheme, EthernetDevInfo) meth" where
  "dev_at ip =
     seqM (modifyM (\<lambda>s. if devInfo s ip = None
                        then s\<lparr>devInfo := (devInfo s)(ip \<mapsto> EthernetDevInfo_init)\<rparr> else s))
          (getM (\<lambda>s. the (devInfo s ip)))"

definition socket_at :: "string \<Rightarrow> (('n, 'z) link_scheme, nat) meth" where
  "socket_at ip =
     seqM (modifyM (\<lambda>s. if tcp_sockets s ip = None
                        then s\<lparr>tcp_sockets := (tcp_sockets s)(ip \<mapsto> None)\<rparr> else s))
          (bindM (getM (\<lambda>s. the (tcp_sockets s ip)))
             (\<lambda>h. case h of None \<Rightarrow> throwM Undefined | Some sock \<Rightarrow> returnM sock))"

section \<open>Construction\<close>

definition udp_open :: "'n net_ops \<Rightarrow> u16 \<Rightarrow> (('n, 'z) link_scheme, unit) meth" where
  "udp_open N port =
     bindM (net_do (net_udp_bind N port))
       (\<lambda>r. if r = IoOk () then returnM () else throwM (Thrown APS2_SOCKET_FAILURE))"

definition set_broadcast :: "'n net_ops \<Rightarrow> u16 \<Rightarrow> (('n, 'z) link_scheme, unit) meth" where
  "set_broadcast N port =
     bindM (net_do (net_udp_broadcast_on N port))
       (\<lambda>r. if r = IoOk () then returnM () else throwM SystemError)"

definition eth_construct :: "'n net_ops \<Rightarrow> (('n, 'z) link_scheme, unit) meth" where
  "eth_construct N =
     seqM (udp_open N UDP_PORT_OLD)
     (seqM (udp_open N UDP_PORT)
     (seqM (set_broadcast N UDP_PORT_OLD)
           (set_broadcast N UDP_PORT)))"

definition reset_maps :: "(('n, 'z) link_scheme, unit) meth" where
  "reset_maps = modifyM (\<lambda>s. s\<lparr>devInfo := Map.empty, msgQueues := Map.empty\<rparr>)"

definition eth_init :: "(('n, 'z) link_scheme, unit) meth" where
  "eth_init = reset_maps"

section \<open>Sorting received UDP packets\<close>

text \<open>\<open>std::copy\<close> of a payload into the 16 words of a status bank.\<close>

definition fits_status_bank :: "u32 list \<Rightarrow> bool" where
  "fits_status_bank ws \<longleftrightarrow> length ws \<le> NUM_STATUS_REGISTERS"

definition sort_packet :: "u8 list \<Rightarrow> endpoint \<Rightarrow> (('n, 'z) link_scheme, unit) meth" where
  "sort_packet packetData sender =
     (let senderIP = fst sender in
      bindM (getM (\<lambda>s. msgQueues s senderIP)) (\<lambda>q.
        case q of
          None \<Rightarrow>
            if snd sender = 0xbb4e \<and> length packetData = 84
            then bindM (dev_at senderIP) (\<lambda>info.
                 seqM (modifyM (\<lambda>s. s\<lparr>devInfo := (devInfo s)(senderIP \<mapsto> info\<lparr>di_endpoint := sender\<rparr>)\<rparr>))
                 (bindM (liftE (packet_of_bytes packetData)) (\<lambda>packet.
                 seqM (modifyM (\<lambda>s. s\<lparr>devInfo := (devInfo s)(senderIP \<mapsto>
                         info\<lparr>di_endpoint := sender, di_macAddr := h_src (pk_header packet)\<rparr>)\<rparr>))
                 (if fits_status_bank (pk_payload packet) then returnM () else throwM Undefined))))
            else if snd sender = 0xbb4f \<and> length packetData = 12
            then whenM (map (\<lambda>b. char_of (unat b)) packetData = ''I am an APS2'')
                 (bindM (dev_at senderIP) (\<lambda>info.
                    modifyM (\<lambda>s. s\<lparr>devInfo := (devInfo s)(senderIP \<mapsto> info\<lparr>di_supports_tcp := True\<rparr>)\<rparr>)))
            else returnM ()
        | Some queue \<Rightarrow>
            bindM (liftE (packet_of_bytes packetData)) (\<lambda>packet.
              modifyM (\<lambda>s. s\<lparr>msgQueues := (msgQueues s)(senderIP \<mapsto> queue @ [packet])\<rparr>))))"

text \<open>The receive thread's work up to now: every packet that has arrived is sorted.\<close>

definition deliver :: "'n net_ops \<Rightarrow> (('n, 'z) link_scheme, unit) meth" where
  "deliver N = bindM (net_do (net_arrivals N)) (\<lambda>ps. foreachM ps (\<lambda>(bs, from). sort_packet bs from))"

definition sleep_ms :: "'n net_ops \<Rightarrow> nat \<Rightarrow> (('n, 'z) link_scheme, nat) meth" where
  "sleep_ms N d = bindM (net_do (net_sleep N d)) (\<lambda>extra. seqM (deliver N) (returnM (d + extra)))"

definition udp_send :: "'n net_ops \<Rightarrow> u16 \<Rightarrow> u8 list \<Rightarrow> endpoint \<Rightarrow> (('n, 'z) link_scheme, unit) meth" where
  "udp_send N port bs ep =
     bindM (net_do (net_udp_send N port bs ep))
       (\<lambda>r. if r = IoOk () then returnM () else throwM SystemError)"

section \<open>Discovery\<close>

definition get_local_IPs :: "ifaddr list \<Rightarrow> (string \<times> string) list" where
  "get_local_IPs ifap =
     concat (map (\<lambda>ifa. case ifa_addr ifa of
         None \<Rightarrow> []
       | Some (inet, a) \<Rightarrow>
           if inet then [(a, case ifa_netmask ifa of None \<Rightarrow> ''255.255.255.255'' | Some m \<Rightarrow> m)]
           else []) ifap)"

text \<open>The two requests a module answers: the legacy status request and the byte 0x01.\<close>

definition probe :: "'n net_ops \<Rightarrow> string \<Rightarrow> (('n, 'z) link_scheme, unit) meth" where
  "probe N ip =
     seqM (udp_send N UDP_PORT_OLD (serialize create_broadcast_packet) (ip, UDP_PORT_OLD))
          (udp_send N UDP_PORT [0x01] (ip, UDP_PORT))"

definition eth_enumerate :: "'n net_ops \<Rightarrow> (('n, 'z) link_scheme, string set) meth" where
  "eth_enumerate N =
     seqM reset_maps
     (bindM (getM (\<lambda>s. get_local_IPs (net_ifaddrs N (net s)))) (\<lambda>localIPs.
      seqM (foreachM localIPs (\<lambda>(ip, mask).
              if ip = ''127.0.0.1'' then returnM ()
              else if \<not> net_valid_ip N ip then returnM ()
              else if \<not> net_valid_ip N mask then throwM SystemError
              else probe N (net_broadcast N ip mask)))
      (seqM (bindM (sleep_ms N 100) (\<lambda>_. returnM ()))
      (getM (\<lambda>s. dom (devInfo s))))))"

section \<open>Connections\<close>

definition reset_tcp :: "'n net_ops \<Rightarrow> string \<Rightarrow> (('n, 'z) link_scheme, unit) meth" where
  "reset_tcp N ip =
     (if \<not> net_valid_ip N ip then throwM (Thrown APS2_INVALID_IP_ADDR)
      else udp_send N UDP_PORT [0x02] (ip, UDP_PORT))"

definition tcp_connect :: "'n net_ops \<Rightarrow> string \<Rightarrow> nat \<Rightarrow> (('n, 'z) link_scheme, unit) meth" where
  "tcp_connect N ip sock =
     (if \<not> net_valid_ip N ip then throwM SystemError
      else bindM (net_do (net_tcp_connect N sock (ip, TCP_PORT) COMMS_TIMEOUT))
        (\<lambda>r. if r = IoOk () then returnM () else throwM (Thrown APS2_FAILED_TO_CONNECT)))"

definition eth_connect :: "'n net_ops \<Rightarrow> string \<Rightarrow> (('n, 'z) link_scheme, unit) meth" where
  "eth_connect N ip =
     seqM
       (bindM (getM (\<lambda>s. devInfo s ip)) (\<lambda>info.
          whenM (info = None)
            (if \<not> net_valid_ip N ip then throwM (Thrown APS2_INVALID_IP_ADDR)
             else seqM (probe N ip)
                  (seqM (bindM (sleep_ms N 100) (\<lambda>_. returnM ()))
                  (bindM (getM (\<lambda>s. devInfo s ip)) (\<lambda>info'.
                     whenM (info' = None) (throwM (Thrown APS2_NO_DEVICE_FOUND))))))))
       (bindM (dev_at ip) (\<lambda>info.
          if di_supports_tcp info
          then bindM (net_do (net_tcp_open N)) (\<lambda>sock.
               seqM (handleM (tcp_connect N ip sock)
                       (\<lambda>e. case e of
                          Thrown _ \<Rightarrow>
                            seqM (reset_tcp N ip)
                            (seqM (bindM (sleep_ms N 100) (\<lambda>_. returnM ()))
                                  (tcp_connect N ip sock))
                        | _ \<Rightarrow> throwM e))
                 (modifyM (\<lambda>s. if tcp_sockets s ip = None
                    then s\<lparr>tcp_sockets := (tcp_sockets s)(ip \<mapsto> Some sock)\<rparr> else s)))
          else modifyM (\<lambda>s. s\<lparr>msgQueues := (msgQueues s)(ip \<mapsto> [])\<rparr>)))"

definition eth_disconnect :: "'n net_ops \<Rightarrow> string \<Rightarrow> (('n, 'z) link_scheme, unit) meth" where
  "eth_disconnect N ip =
     bindM (dev_at ip) (\<lambda>info.
       if di_supports_tcp info
       then bindM (getM (\<lambda>s. tcp_sockets s ip)) (\<lambda>t.
            whenM (t \<noteq> None)
              (bindM (socket_at ip) (\<lambda>sock.
               seqM (net_do (\<lambda>n. ((), net_tcp_close N sock n)))
                    (modifyM (\<lambda>s. s\<lparr>tcp_sockets := (tcp_sockets s)(ip := None)\<rparr>)))))
       else modifyM (\<lambda>s. s\<lparr>msgQueues := (msgQueues s)(ip := None)\<rparr>))"

section \<open>Receiving\<close>

text \<open>\<open>msgQueues_[serial]\<close> and, unless it is empty, \<open>front\<close> and \<open>pop\<close>.\<close>

definition pop_message :: "string \<Rightarrow> (('n, 'z) link_scheme, APS2EthernetPacket option) meth" where
  "pop_message ip s =
     (case msgQueues s ip of
        None \<Rightarrow> (Inr None, s\<lparr>msgQueues := (msgQueues s)(ip \<mapsto> [])\<rparr>)
      | Some [] \<Rightarrow> (Inr None, s)
      | Some (p # ps) \<Rightarrow> (Inr (Some p), s\<lparr>msgQueues := (msgQueues s)(ip \<mapsto> ps)\<rparr>))"

lemma sleep_ms_takes: "sleep_ms N d s = (Inr dt, s') \<Longrightarrow> d \<le> dt"
  by (auto simp: sleep_ms_def net_do_def bindM_eq_Inr seqM_eq_Inr returnM_def)

text \<open>The polling loop; each turn that does not end it sleeps, so the elapsed time grows.\<close>

function receive_loop :: "'n net_ops \<Rightarrow> string \<Rightarrow> nat \<Rightarrow> nat \<Rightarrow> nat \<Rightarrow> APS2EthernetPacket list
    \<Rightarrow> (('n, 'z) link_scheme, APS2EthernetPacket list) meth" where
  "receive_loop N ip numPackets timeoutMS elapsedTime outVec s =
     (if elapsedTime < timeoutMS
      then case pop_message ip s of
             (Inl e, s1) \<Rightarrow> (Inl e, s1)
           | (Inr m, s1) \<Rightarrow>
               (let outVec' = (case m of None \<Rightarrow> outVec | Some p \<Rightarrow> outVec @ [p])
                in if m \<noteq> None \<and> length outVec' = numPackets then (Inr outVec', s1)
                   else case sleep_ms N 10 s1 of
                          (Inl e, s2) \<Rightarrow> (Inl e, s2)
                        | (Inr dt, s2) \<Rightarrow>
                            receive_loop N ip numPackets timeoutMS (elapsedTime + dt) outVec' s2)
      else (Inl (Thrown APS2_RECEIVE_TIMEOUT), s))"
  by pat_completeness auto
termination
  by (relation "measure (\<lambda>(N, ip, k, timeout, elapsed, out, s). timeout - elapsed)")
     (auto dest: sleep_ms_takes [OF sym])

declare receive_loop.simps [simp del]

text \<open>
  The rule the facts about the loop are proved with: it is late, or it takes the last message it
  needs, or the sleep fails, or it goes round again with what it took.
\<close>

lemma pop_message_Inr: obtains m t where "pop_message ip s = (Inr m, t)"
  by (cases "msgQueues s ip"; cases "the (msgQueues s ip)") (auto simp: pop_message_def)

definition took :: "'x list \<Rightarrow> 'x option \<Rightarrow> 'x list" where
  "took out m = (case m of None \<Rightarrow> out | Some p \<Rightarrow> out @ [p])"

lemma receive_loop_rule [consumes 1, case_names late enough failed again]:
  assumes "receive_loop N ip k timeout elapsed out s = res"
    and "\<And>elapsed out s. timeout \<le> elapsed \<Longrightarrow> P elapsed out s (Inl (Thrown APS2_RECEIVE_TIMEOUT), s)"
    and "\<And>elapsed out s p s1. elapsed < timeout \<Longrightarrow> pop_message ip s = (Inr (Some p), s1) \<Longrightarrow>
      length (out @ [p]) = k \<Longrightarrow> P elapsed out s (Inr (out @ [p]), s1)"
    and "\<And>elapsed out s m s1 e s2. elapsed < timeout \<Longrightarrow> pop_message ip s = (Inr m, s1) \<Longrightarrow>
      sleep_ms N 10 s1 = (Inl e, s2) \<Longrightarrow> P elapsed out s (Inl e, s2)"
    and "\<And>elapsed out s m s1 dt s2 r. elapsed < timeout \<Longrightarrow> pop_message ip s = (Inr m, s1) \<Longrightarrow>
      \<not> (m \<noteq> None \<and> length (took out m) = k) \<Longrightarrow> sleep_ms N 10 s1 = (Inr dt, s2) \<Longrightarrow>
      P (elapsed + dt) (took out m) s2 r \<Longrightarrow> P elapsed out s r"
  shows "P elapsed out s res"
  using assms(1)
proof (induction "timeout - elapsed" arbitrary: elapsed out s res rule: less_induct)
  case less
  show ?case
  proof (cases "elapsed < timeout")
    case False
    then show ?thesis
      using assms(2) [of elapsed out s] less.prems by (subst (asm) receive_loop.simps) auto
  next
    case True
    obtain m s1 where pop: "pop_message ip s = (Inr m, s1)" by (rule pop_message_Inr)
    have eq: "receive_loop N ip k timeout elapsed out s =
        (if m \<noteq> None \<and> length (took out m) = k then (Inr (took out m), s1)
         else case sleep_ms N 10 s1 of (Inl e, s2) \<Rightarrow> (Inl e, s2)
                | (Inr dt, s2) \<Rightarrow> receive_loop N ip k timeout (elapsed + dt) (took out m) s2)"
      unfolding took_def by (subst receive_loop.simps) (simp add: True pop Let_def)
    show ?thesis
    proof (cases "m \<noteq> None \<and> length (took out m) = k")
      case enough: True
      then obtain p where "m = Some p" by blast
      then show ?thesis
        using assms(3) [OF True, of s p s1 out] enough pop less.prems by (auto simp: eq took_def)
    next
      case more: False
      obtain r s2 where sleep: "sleep_ms N 10 s1 = (r, s2)" by fastforce
      show ?thesis
      proof (cases r)
        case (Inl e)
        then show ?thesis
          using assms(4) [OF True pop, of e s2 out] sleep less.prems unfolding eq if_not_P [OF more] by auto
      next
        case (Inr dt)
        then have "10 \<le> dt" using sleep sleep_ms_takes by blast
        then have "timeout - (elapsed + dt) < timeout - elapsed" using True by simp
        moreover have "receive_loop N ip k timeout (elapsed + dt) (took out m) s2 = res"
          using less.prems sleep Inr unfolding eq if_not_P [OF more] by simp
        ultimately have "P (elapsed + dt) (took out m) s2 res" by (rule less.hyps)
        with sleep Inr show ?thesis by (intro assms(5) [OF True pop more, of dt s2]) simp_all
      qed
    qed
  qed
qed

definition eth_receive :: "'n net_ops \<Rightarrow> string \<Rightarrow> nat \<Rightarrow> nat
    \<Rightarrow> (('n, 'z) link_scheme, APS2EthernetPacket list) meth" where
  "eth_receive N ip numPackets timeoutMS =
     seqM (deliver N) (receive_loop N ip numPackets timeoutMS 0 [])"

text \<open>
  \<open>read_with_timeout\<close>: one \<open>async_receive\<close> into the buffer. However few bytes it returns, they
  overwrite the beginning of the buffer and the rest keeps what it held.
\<close>

definition read_with_timeout :: "'n net_ops \<Rightarrow> string \<Rightarrow> nat \<Rightarrow> u8 list
    \<Rightarrow> (('n, 'z) link_scheme, u8 list) meth" where
  "read_with_timeout N ip timeout buf =
     bindM (socket_at ip) (\<lambda>sock.
     bindM (net_do (net_tcp_receive N sock (length buf) timeout)) (\<lambda>r.
       case r of
         IoOk bs \<Rightarrow> returnM (take (length buf) bs @ drop (length bs) buf)
       | IoTimeout \<Rightarrow> throwM (Thrown APS2_RECEIVE_TIMEOUT)
       | IoError \<Rightarrow> throwM (Thrown APS2_COMMS_ERROR)))"

text \<open>Responses to these commands carry no address.\<close>

definition response_has_address :: "APS_COMMANDS \<Rightarrow> bool" where
  "response_has_address c \<longleftrightarrow> \<not> (c = STATUS \<or> c = FPGACONFIG_ACK \<or> c = EPROMIO \<or> c = CHIPCONFIGIO)"

definition resize_bytes :: "nat \<Rightarrow> u8 list \<Rightarrow> u8 list" where
  "resize_bytes n buf = take n buf @ replicate (n - length buf) 0"

definition eth_read :: "'n net_ops \<Rightarrow> string \<Rightarrow> nat \<Rightarrow> (('n, 'z) link_scheme, APS2Datagram) meth" where
  "eth_read N ip timeout =
     bindM (dev_at ip) (\<lambda>info.
       if di_supports_tcp info
       then bindM (read_with_timeout N ip timeout (resize_bytes 4 [])) (\<lambda>buf.
            let cmd = unpack (of_be32 buf) in
            bindM (if response_has_address (to_command (c_cmd cmd))
                   then bindM (read_with_timeout N ip timeout buf) (\<lambda>buf'. returnM (of_be32 buf', buf'))
                   else returnM (0, buf)) (\<lambda>(addr, buf).
            if c_ack cmd \<and> \<not> c_r_w cmd
            then returnM \<lparr>dg_cmd = cmd, dg_addr = addr, dg_payload = []\<rparr>
            else bindM (read_with_timeout N ip timeout (resize_bytes (4 * unat (c_cnt cmd)) buf)) (\<lambda>buf''.
                 returnM \<lparr>dg_cmd = cmd, dg_addr = addr, dg_payload = decode_all 4 of_be32 buf''\<rparr>)))
       else bindM (eth_receive N ip 1 timeout) (\<lambda>pkts.
            let pkt = hd pkts in
            returnM \<lparr>dg_cmd = h_command (pk_header pkt), dg_addr = h_addr (pk_header pkt),
              dg_payload = pk_payload pkt\<rparr>))"

section \<open>Sending\<close>

text \<open>One chunk of packets: numbered from 0, sent to the module, and unless \<open>noACK\<close> acknowledged.\<close>

fun send_packets_from :: "'n net_ops \<Rightarrow> string \<Rightarrow> u16 \<Rightarrow> APS2EthernetPacket list
    \<Rightarrow> (('n, 'z) link_scheme, unit) meth" where
  "send_packets_from N ip seqNum [] = returnM ()"
| "send_packets_from N ip seqNum (p # ps) =
     bindM (dev_at ip) (\<lambda>info.
     seqM (udp_send N UDP_PORT_OLD
             (serialize (p\<lparr>pk_header := (pk_header p)\<lparr>h_seqNum := seqNum\<rparr>\<rparr>)) (di_endpoint info))
          (send_packets_from N ip (seqNum + 1) ps))"

definition send_chunk :: "'n net_ops \<Rightarrow> string \<Rightarrow> APS2EthernetPacket list \<Rightarrow> bool
    \<Rightarrow> (('n, 'z) link_scheme, unit) meth" where
  "send_chunk N ip chunk noACK =
     seqM (send_packets_from N ip 0 chunk)
       (if noACK then returnM ()
        else bindM (eth_read N ip COMMS_TIMEOUT) (\<lambda>ack.
             if chunk = [] then throwM Undefined
             else liftE (check_ack \<lparr>dg_cmd = h_command (pk_header (last chunk)),
                          dg_addr = h_addr (pk_header (last chunk)), dg_payload = []\<rparr> ack True)))"

definition send_packet :: "'n net_ops \<Rightarrow> string \<Rightarrow> APS2EthernetPacket \<Rightarrow> bool
    \<Rightarrow> (('n, 'z) link_scheme, int) meth" where
  "send_packet N ip msg checkResponse =
     bindM (dev_at ip) (\<lambda>info.
     seqM (send_chunk N ip [msg\<lparr>pk_header := (pk_header msg)\<lparr>h_dest := di_macAddr info\<rparr>\<rparr>]
             (\<not> checkResponse))
          (returnM 0))"

text \<open>Bit 3 of the command nibble asks for no acknowledge; the destination is the module's MAC.\<close>

definition no_ack :: "APS2EthernetPacket \<Rightarrow> APS2EthernetPacket" where
  "no_ack p = (let h = pk_header p; c = h_command h
     in p\<lparr>pk_header := h\<lparr>h_command := c\<lparr>c_cmd := c_cmd c OR 0x8\<rparr>\<rparr>\<rparr>)"

definition want_ack :: "APS2EthernetPacket \<Rightarrow> APS2EthernetPacket" where
  "want_ack p = (let h = pk_header p; c = h_command h
     in p\<lparr>pk_header := h\<lparr>h_command := c\<lparr>c_cmd := c_cmd c AND NOT 0x8\<rparr>\<rparr>\<rparr>)"

definition to_mac :: "MACAddr \<Rightarrow> APS2EthernetPacket \<Rightarrow> APS2EthernetPacket" where
  "to_mac m p = p\<lparr>pk_header := (pk_header p)\<lparr>h_dest := m\<rparr>\<rparr>"

definition prepare_chunk :: "MACAddr \<Rightarrow> bool \<Rightarrow> APS2EthernetPacket list \<Rightarrow> APS2EthernetPacket list" where
  "prepare_chunk m noACK ps =
     (let buffer = map (\<lambda>p. no_ack (to_mac m p)) ps
      in if noACK then buffer else butlast buffer @ [want_ack (last buffer)])"

text \<open>
  The loop over the message list in chunks of \<open>ackEvery\<close> packets (0 means 1, unacknowledged). The
  list must not be empty: \<open>msg[0]\<close> is read.
\<close>

definition send_packets :: "'n net_ops \<Rightarrow> string \<Rightarrow> APS2EthernetPacket list \<Rightarrow> nat
    \<Rightarrow> (('n, 'z) link_scheme, int) meth" where
  "send_packets N ip msg ackEvery =
     (let noACK = (ackEvery = 0); every = (if ackEvery = 0 then 1 else ackEvery) in
      if msg = [] then throwM Undefined
      else seqM (foreachM (blocks every msg) (\<lambda>chunk.
             bindM (dev_at ip) (\<lambda>info.
               send_chunk N ip (prepare_chunk (di_macAddr info) noACK chunk) noACK)))
           (returnM 0))"

definition tcp_send_datagram :: "'n net_ops \<Rightarrow> string \<Rightarrow> APS2Datagram
    \<Rightarrow> (('n, 'z) link_scheme, unit) meth" where
  "tcp_send_datagram N ip dg =
     bindM (socket_at ip) (\<lambda>sock.
     bindM (net_do (net_tcp_write N sock (concat (map be32 (dg_data dg))) COMMS_TIMEOUT)) (\<lambda>r.
     if r \<noteq> IoOk () then throwM (Thrown APS2_COMMS_ERROR)
     else if c_ack (dg_cmd dg)
          then bindM (eth_read N ip COMMS_TIMEOUT) (\<lambda>ack. liftE (check_ack dg ack False))
          else returnM ()))"

definition udp_send_datagram :: "'n net_ops \<Rightarrow> string \<Rightarrow> APS2Datagram
    \<Rightarrow> (('n, 'z) link_scheme, unit) meth" where
  "udp_send_datagram N ip dg =
     (let packets = pk_chunk (dg_addr dg) (dg_payload dg) (dg_cmd dg) in
      if c_r_w (dg_cmd dg)
      then (let p = hd packets; h = pk_header p
            in bindM (send_packet N ip
                 (p\<lparr>pk_header := h\<lparr>h_command := (h_command h)\<lparr>c_r_w := True, c_cnt := c_cnt (dg_cmd dg)\<rparr>\<rparr>\<rparr>)
                 False) (\<lambda>_. returnM ()))
      else bindM (send_packets N ip packets (if length packets \<ge> 20 then 20 else length packets))
             (\<lambda>_. returnM ()))"

definition eth_send :: "'n net_ops \<Rightarrow> string \<Rightarrow> APS2Datagram list \<Rightarrow> (('n, 'z) link_scheme, unit) meth" where
  "eth_send N ip datagrams =
     bindM (dev_at ip) (\<lambda>info.
       if di_supports_tcp info
       then foreachM datagrams (tcp_send_datagram N ip)
       else foreachM datagrams (udp_send_datagram N ip))"

end
