(* ===== verification/Binary_Float.thy ===== *)
theory Binary_Float
  imports Complex_Main "HOL-Library.Log_Nat" Errors
begin

text \<open>
  The C++ types \<open>float\<close> and \<open>double\<close> as the source uses them: IEEE 754 binary32 and binary64 with
  round-to-nearest-even. A float is its bit pattern (so that \<open>reinterpret_cast\<close> to \<open>uint32_t\<close> is
  the identity); arithmetic decodes to an exact rational, computes and rounds once.
\<close>

type_synonym f32 = "32 word"
type_synonym f64 = "64 word"

section \<open>Exact values\<close>

text \<open>Not-a-number, an infinity with its sign, or a sign (\<open>True\<close> for negative) and a magnitude.\<close>

datatype fp = FNaN | FInf bool | FFin bool rat

definition fp_of_rat :: "rat \<Rightarrow> fp" where
  "fp_of_rat x = FFin (x < 0) \<bar>x\<bar>"

fun rat_of_fp :: "fp \<Rightarrow> rat option" where
  "rat_of_fp (FFin s x) = Some (if s then - x else x)"
| "rat_of_fp _ = None"

fun fp_mul :: "fp \<Rightarrow> fp \<Rightarrow> fp" where
  "fp_mul FNaN _ = FNaN"
| "fp_mul _ FNaN = FNaN"
| "fp_mul (FInf s) (FInf t) = FInf (s \<noteq> t)"
| "fp_mul (FInf s) (FFin t x) = (if x = 0 then FNaN else FInf (s \<noteq> t))"
| "fp_mul (FFin s x) (FInf t) = (if x = 0 then FNaN else FInf (s \<noteq> t))"
| "fp_mul (FFin s x) (FFin t y) = FFin (s \<noteq> t) (x * y)"

fun fp_div :: "fp \<Rightarrow> fp \<Rightarrow> fp" where
  "fp_div FNaN _ = FNaN"
| "fp_div _ FNaN = FNaN"
| "fp_div (FInf s) (FInf t) = FNaN"
| "fp_div (FInf s) (FFin t x) = FInf (s \<noteq> t)"
| "fp_div (FFin s x) (FInf t) = FFin (s \<noteq> t) 0"
| "fp_div (FFin s x) (FFin t y) =
     (if y = 0 then if x = 0 then FNaN else FInf (s \<noteq> t) else FFin (s \<noteq> t) (x / y))"

fun fp_add :: "fp \<Rightarrow> fp \<Rightarrow> fp" where
  "fp_add FNaN _ = FNaN"
| "fp_add _ FNaN = FNaN"
| "fp_add (FInf s) (FInf t) = (if s = t then FInf s else FNaN)"
| "fp_add (FInf s) (FFin t x) = FInf s"
| "fp_add (FFin s x) (FInf t) = FInf t"
| "fp_add (FFin s x) (FFin t y) =
     (let z = (if s then - x else x) + (if t then - y else y)
      in if z = 0 then FFin (s \<and> t) 0 else fp_of_rat z)"

text \<open>\<open>a < b\<close>; false when either is not a number.\<close>

fun fp_less :: "fp \<Rightarrow> fp \<Rightarrow> bool" where
  "fp_less FNaN _ = False"
| "fp_less _ FNaN = False"
| "fp_less (FInf s) (FInf t) = (s \<and> \<not> t)"
| "fp_less (FInf s) (FFin t x) = s"
| "fp_less (FFin s x) (FInf t) = (\<not> t)"
| "fp_less (FFin s x) (FFin t y) = ((if s then - x else x) < (if t then - y else y))"

fun fp_eq :: "fp \<Rightarrow> fp \<Rightarrow> bool" where
  "fp_eq (FInf s) (FInf t) = (s = t)"
| "fp_eq (FFin s x) (FFin t y) = ((if s then - x else x) = (if t then - y else y))"
| "fp_eq _ _ = False"

text \<open>Conversion to an integer type truncates towards zero; \<open>None\<close> for what has no integer part.\<close>

fun fp_trunc :: "fp \<Rightarrow> int option" where
  "fp_trunc (FFin s x) = Some (if s then - \<lfloor>x\<rfloor> else \<lfloor>x\<rfloor>)"
| "fp_trunc _ = None"

text \<open>\<open>ceil\<close> and \<open>round\<close> (half away from zero) of \<open>math.h\<close>: they keep the sign of a zero result.\<close>

fun fp_ceil :: "fp \<Rightarrow> fp" where
  "fp_ceil (FFin s x) = FFin s (of_int (if s then \<lfloor>x\<rfloor> else \<lceil>x\<rceil>))"
| "fp_ceil x = x"

fun fp_round :: "fp \<Rightarrow> fp" where
  "fp_round (FFin s x) = FFin s (of_int \<lfloor>x + 1 / 2\<rfloor>)"
| "fp_round x = x"

section \<open>Rounding and bit patterns\<close>

text \<open>Round to the nearest integer, ties to even.\<close>

definition rne :: "rat \<Rightarrow> int" where
  "rne x = (let f = \<lfloor>x\<rfloor>; d = x - of_int f
            in if d < 1 / 2 then f else if d > 1 / 2 then f + 1 else if even f then f else f + 1)"

text \<open>The exponent of a positive rational: \<open>2 ^ e \<le> x < 2 ^ (e + 1)\<close>.\<close>

definition ilog2 :: "rat \<Rightarrow> int" where
  "ilog2 x = (let (a, b) = quotient_of x; e = bitlen a - bitlen b
              in if 2 powi e \<le> x then e else e - 1)"

text \<open>
  A format has \<open>mb\<close> stored significand bits and \<open>eb\<close> exponent bits. \<open>mag_code\<close> is the bit pattern
  of a positive magnitude: the significand, hidden bit included, added to the exponent field, so
  that a rounding carry moves into the exponent. The cap is the pattern of infinity.
\<close>

definition emin :: "nat \<Rightarrow> int" where
  "emin eb = 2 - 2 ^ (eb - 1)"

definition inf_code :: "nat \<Rightarrow> nat \<Rightarrow> int" where
  "inf_code mb eb = (2 ^ eb - 1) * 2 ^ mb"

definition mag_code :: "nat \<Rightarrow> nat \<Rightarrow> rat \<Rightarrow> int" where
  "mag_code mb eb x =
     (if x = 0 then 0
      else let e = max (ilog2 x) (emin eb)
           in min (inf_code mb eb) ((e - emin eb) * 2 ^ mb + rne (x / 2 powi (e - int mb))))"

definition sign_code :: "nat \<Rightarrow> nat \<Rightarrow> bool \<Rightarrow> int" where
  "sign_code mb eb s = (if s then 2 ^ (mb + eb) else 0)"

fun fp_enc :: "nat \<Rightarrow> nat \<Rightarrow> fp \<Rightarrow> int" where
  "fp_enc mb eb FNaN = inf_code mb eb + 2 ^ (mb - 1)"
| "fp_enc mb eb (FInf s) = sign_code mb eb s + inf_code mb eb"
| "fp_enc mb eb (FFin s x) = sign_code mb eb s + mag_code mb eb x"

definition fp_dec :: "nat \<Rightarrow> nat \<Rightarrow> int \<Rightarrow> fp" where
  "fp_dec mb eb c =
     (let s = (2 ^ (mb + eb) \<le> c); r = c mod 2 ^ (mb + eb); E = r div 2 ^ mb; M = r mod 2 ^ mb
      in if E = 2 ^ eb - 1 then if M = 0 then FInf s else FNaN
         else if E = 0 then FFin s (of_int M * 2 powi (emin eb - int mb))
         else FFin s (of_int (2 ^ mb + M) * 2 powi (E - 1 + emin eb - int mb)))"

definition f32_enc :: "fp \<Rightarrow> f32" where "f32_enc x = word_of_int (fp_enc 23 8 x)"
definition f32_dec :: "f32 \<Rightarrow> fp" where "f32_dec w = fp_dec 23 8 (uint w)"
definition f64_enc :: "fp \<Rightarrow> f64" where "f64_enc x = word_of_int (fp_enc 52 11 x)"
definition f64_dec :: "f64 \<Rightarrow> fp" where "f64_dec w = fp_dec 52 11 (uint w)"

section \<open>The operations of the two types\<close>

definition f32_of_int :: "int \<Rightarrow> f32" where "f32_of_int k = f32_enc (fp_of_rat (of_int k))"
definition f64_of_int :: "int \<Rightarrow> f64" where "f64_of_int k = f64_enc (fp_of_rat (of_int k))"
definition f64_of_rat :: "rat \<Rightarrow> f64" where "f64_of_rat x = f64_enc (fp_of_rat x)"
definition f64_of_f32 :: "f32 \<Rightarrow> f64" where "f64_of_f32 w = f64_enc (f32_dec w)"
definition f32_of_f64 :: "f64 \<Rightarrow> f32" where "f32_of_f64 w = f32_enc (f64_dec w)"

definition f32_mul :: "f32 \<Rightarrow> f32 \<Rightarrow> f32" where
  "f32_mul a b = f32_enc (fp_mul (f32_dec a) (f32_dec b))"
definition f32_div :: "f32 \<Rightarrow> f32 \<Rightarrow> f32" where
  "f32_div a b = f32_enc (fp_div (f32_dec a) (f32_dec b))"
definition f64_mul :: "f64 \<Rightarrow> f64 \<Rightarrow> f64" where
  "f64_mul a b = f64_enc (fp_mul (f64_dec a) (f64_dec b))"
definition f64_div :: "f64 \<Rightarrow> f64 \<Rightarrow> f64" where
  "f64_div a b = f64_enc (fp_div (f64_dec a) (f64_dec b))"
definition f64_add :: "f64 \<Rightarrow> f64 \<Rightarrow> f64" where
  "f64_add a b = f64_enc (fp_add (f64_dec a) (f64_dec b))"
definition f64_less :: "f64 \<Rightarrow> f64 \<Rightarrow> bool" where
  "f64_less a b = fp_less (f64_dec a) (f64_dec b)"

definition f32_ceil :: "f32 \<Rightarrow> f32" where "f32_ceil a = f32_enc (fp_ceil (f32_dec a))"
definition f32_round :: "f32 \<Rightarrow> f32" where "f32_round a = f32_enc (fp_round (f32_dec a))"
definition f64_round :: "f64 \<Rightarrow> f64" where "f64_round a = f64_enc (fp_round (f64_dec a))"

text \<open>Conversion to an integer type with range \<open>lo..hi\<close>: undefined outside it.\<close>

definition to_range :: "int \<Rightarrow> int \<Rightarrow> fp \<Rightarrow> int option" where
  "to_range lo hi x = (case fp_trunc x of None \<Rightarrow> None
     | Some k \<Rightarrow> if lo \<le> k \<and> k \<le> hi then Some k else None)"

definition to_int16 :: "fp \<Rightarrow> int option" where "to_int16 = to_range (- 32768) 32767"
definition to_int32 :: "fp \<Rightarrow> int option" where "to_int32 = to_range (- 2147483648) 2147483647"
definition to_uint32 :: "fp \<Rightarrow> int option" where "to_uint32 = to_range 0 4294967295"
definition to_uint64 :: "fp \<Rightarrow> int option" where "to_uint64 = to_range 0 18446744073709551615"

end
