(* ===== verification/Float_Facts.thy ===== *)
theory Float_Facts
  imports Binary_Float
begin

text \<open>
  Facts on the float model: the exponent and the rounding step are what they should be, decoding
  an encoded value gives the rounded value, exactly representable values survive, and dividing an
  integer of at most 14 bits by 8191 and multiplying by 8191 again gives it back.
\<close>

section \<open>Exponents and rounding\<close>

lemma ilog2_bounds:
  assumes "0 < x"
  shows "2 powi ilog2 x \<le> x \<and> x < 2 powi (ilog2 x + 1)"
proof -
  obtain a b where q: "quotient_of x = (a, b)" by (cases "quotient_of x")
  have b: "0 < b" and x: "x = of_int a / of_int b"
    using quotient_of_denom_pos [OF q] quotient_of_div [OF q] by auto
  have a: "0 < a"
    using assms b by (simp add: x zero_less_divide_iff)
  define A where "A = bitlen a" define B where "B = bitlen b"
  have pos: "1 \<le> A" "1 \<le> B"
    using a b by (simp_all add: A_def B_def bitlen_alt_def)
  have pw: "(2 :: rat) powi n = of_int (2 ^ nat n)" if "0 \<le> n" for n
    using that by (simp add: power_int_def)
  have hi: "of_int a < (2 :: rat) powi A" "of_int b < (2 :: rat) powi B"
    using bitlen_bounds [OF a] bitlen_bounds [OF b] pos
    unfolding A_def B_def by (simp_all only: pw of_int_less_iff)
  have lo: "(2 :: rat) powi (A - 1) \<le> of_int a" "(2 :: rat) powi (B - 1) \<le> of_int b"
    using bitlen_bounds [OF a] bitlen_bounds [OF b] pos
    unfolding A_def B_def by (simp_all add: pw del: of_int_power)
  have "x < 2 powi A / 2 powi (B - 1)"
    unfolding x using hi lo a b by (intro frac_less) auto
  then have up: "x < 2 powi (A - B + 1)"
    by (simp add: power_int_diff power_int_add)
  have "2 powi (A - 1) / 2 powi B \<le> x"
    unfolding x using hi lo a b by (intro frac_le) auto
  then have down: "2 powi (A - B - 1) \<le> x"
    by (simp add: power_int_diff power_int_add)
  show ?thesis
    using up down by (simp add: ilog2_def q A_def [symmetric] B_def [symmetric] Let_def)
qed

lemma ilog2_eq:
  assumes "2 powi e \<le> x" "x < 2 powi (e + 1)"
  shows "ilog2 x = e"
proof -
  have "0 < x" using assms(1) by (rule less_le_trans [rotated]) simp
  from ilog2_bounds [OF this]
  have "(2 :: rat) powi ilog2 x < 2 powi (e + 1)" "(2 :: rat) powi e < 2 powi (ilog2 x + 1)"
    using assms by auto
  then have "ilog2 x < e + 1" "e < ilog2 x + 1"
    using power_int_increasing [of "e + 1" "ilog2 x" "2 :: rat"]
      power_int_increasing [of "ilog2 x + 1" e "2 :: rat"] by force+
  then show ?thesis by simp
qed

lemma rne_bounds: "\<bar>of_int (rne x) - x\<bar> \<le> 1 / 2"
  unfolding rne_def Let_def using floor_correct [of x] by (auto simp: abs_le_iff)

lemma rne_unique:
  assumes "\<bar>x - of_int k\<bar> < 1 / 2"
  shows "rne x = k"
proof -
  have "\<bar>of_int (rne x) - (of_int k :: rat)\<bar> < 1"
    using assms rne_bounds [of x] by linarith
  then have "\<bar>of_int (rne x - k) :: rat\<bar> < 1" by simp
  then have "\<bar>rne x - k\<bar> < 1" by linarith
  then show ?thesis by simp
qed

lemma rne_of_int [simp]: "rne (of_int k) = k"
  by (rule rne_unique) simp

lemma rne_ge: "of_int k \<le> x \<Longrightarrow> k \<le> rne x"
  using rne_bounds [of x] by (cases "rne x < k") (auto simp: abs_le_iff; linarith)+

lemma rne_le: "x \<le> of_int k \<Longrightarrow> rne x \<le> k"
  using rne_bounds [of x] by (cases "k < rne x") (auto simp: abs_le_iff; linarith)+


section \<open>Encoding and decoding\<close>

text \<open>The value a positive magnitude is rounded to.\<close>

definition rnd :: "nat \<Rightarrow> nat \<Rightarrow> rat \<Rightarrow> rat" where
  "rnd mb eb x =
     (if x = 0 then 0
      else let e = max (ilog2 x) (emin eb)
           in of_int (rne (x / 2 powi (e - int mb))) * 2 powi (e - int mb))"

lemma significand_bounds:
  fixes x :: rat and mb :: nat
  assumes "0 < x" and e: "e = max (ilog2 x) b"
  defines "M \<equiv> rne (x / 2 powi (e - int mb))"
  shows "0 \<le> M" "M \<le> 2 ^ Suc mb" "b < e \<Longrightarrow> 2 ^ mb \<le> M"
proof -
  have "x < 2 powi (e + 1)"
    using ilog2_bounds [OF assms(1)] power_int_increasing [of "ilog2 x + 1" "e + 1" "2 :: rat"]
    by (simp add: e)
  then have "x / 2 powi (e - int mb) \<le> of_int (2 ^ Suc mb)"
    by (simp add: field_simps power_int_diff power_int_add)
  then show "M \<le> 2 ^ Suc mb"
    unfolding M_def by (rule rne_le)
  show "0 \<le> M"
    unfolding M_def by (rule rne_ge) (use assms(1) in simp)
  assume "b < e"
  then have "2 powi e \<le> x"
    using ilog2_bounds [OF assms(1)] by (simp add: e max_def split: if_split_asm)
  then have "of_int (2 ^ mb) \<le> x / 2 powi (e - int mb)"
    by (simp add: field_simps power_int_diff)
  then show "2 ^ mb \<le> M"
    unfolding M_def by (rule rne_ge)
qed

lemma exponent_range:
  assumes "0 < x" "x < 2 powi (2 ^ (eb - 1) - 1)" "2 \<le> eb"
  shows "max (ilog2 x) (emin eb) - emin eb \<le> 2 ^ eb - 4"
proof -
  obtain k where k: "eb = Suc (Suc k)"
    using assms(3) by (metis add_2_eq_Suc le_Suc_ex)
  have "(2 :: rat) powi ilog2 x < 2 powi (2 ^ (eb - 1) - 1)"
    using ilog2_bounds [OF assms(1)] assms(2) by auto
  then have "ilog2 x < 2 ^ (eb - 1) - 1"
    using power_int_increasing [of "2 ^ (eb - 1) - 1" "ilog2 x" "2 :: rat"] by force
  moreover have "(1 :: int) \<le> 2 ^ k" by simp
  ultimately show ?thesis by (simp add: emin_def k max_def)
qed

lemma mag_code_eq:
  assumes "0 < x" "x < 2 powi (2 ^ (eb - 1) - 1)" "2 \<le> eb"
  defines "e \<equiv> max (ilog2 x) (emin eb)"
  shows "mag_code mb eb x = (e - emin eb) * 2 ^ mb + rne (x / 2 powi (e - int mb))"
    and "mag_code mb eb x \<le> (2 ^ eb - 2) * 2 ^ mb" "0 \<le> mag_code mb eb x"
proof -
  define M where "M = rne (x / 2 powi (e - int mb))"
  have M: "0 \<le> M" "M \<le> 2 * 2 ^ mb"
    using significand_bounds [OF assms(1) e_def [THEN meta_eq_to_obj_eq], of mb] by (simp_all add: M_def)
  have n: "0 \<le> e - emin eb" "e - emin eb \<le> 2 ^ eb - 4"
    using exponent_range [OF assms(1-3)] by (simp_all add: e_def)
  have "(e - emin eb) * 2 ^ mb \<le> (2 ^ eb - 4) * 2 ^ mb"
    using n by (intro mult_right_mono) auto
  then have c: "(e - emin eb) * 2 ^ mb + M \<le> (2 ^ eb - 2) * 2 ^ mb"
    using M by (simp add: algebra_simps)
  moreover have "(2 ^ eb - 2) * 2 ^ mb \<le> inf_code mb eb"
    by (simp add: inf_code_def)
  ultimately show eq: "mag_code mb eb x = (e - emin eb) * 2 ^ mb + rne (x / 2 powi (e - int mb))"
    using assms(1) by (simp add: mag_code_def Let_def e_def M_def)
  show "mag_code mb eb x \<le> (2 ^ eb - 2) * 2 ^ mb" using c eq by (simp add: M_def)
  show "0 \<le> mag_code mb eb x" using n(1) M(1) eq by (simp add: M_def)
qed

text \<open>The decoder applied to a code put together from a significand and an exponent.\<close>

lemma fp_dec_code:
  assumes M: "0 \<le> M" "M \<le> 2 ^ Suc mb" "0 < n \<Longrightarrow> 2 ^ mb \<le> M"
    and n: "0 \<le> n" "n \<le> 2 ^ eb - 4" and eb: "2 \<le> eb"
  shows "fp_dec mb eb (sign_code mb eb s + (n * 2 ^ mb + M))
    = FFin s (of_int M * 2 powi (n + emin eb - int mb))"
proof -
  define c where "c = n * 2 ^ mb + M"
  have "n * 2 ^ mb \<le> (2 ^ eb - 4) * 2 ^ mb"
    using n by (intro mult_right_mono) auto
  moreover have "(2 ^ eb - 4) * 2 ^ mb + 2 ^ Suc mb < (2 :: int) ^ eb * 2 ^ mb"
    by (simp add: algebra_simps)
  ultimately have "c < 2 ^ eb * 2 ^ mb"
    using M(2) unfolding c_def by linarith
  then have c: "0 \<le> c" "c < 2 ^ (mb + eb)"
    using M n by (simp_all add: c_def power_add mult.commute)
  have sgn: "(2 ^ (mb + eb) \<le> sign_code mb eb s + c) = s"
    "(sign_code mb eb s + c) mod 2 ^ (mb + eb) = c"
    using c by (auto simp: sign_code_def)
  have four: "(4 :: int) \<le> 2 ^ eb"
    using power_increasing [OF eb, of "2 :: int"] by simp
  consider "M < 2 ^ mb" | "2 ^ mb \<le> M" "M < 2 * 2 ^ mb" | "M = 2 * 2 ^ mb"
    using M by force
  then show ?thesis
  proof cases
    case 1
    then have "n = 0" using M n by force
    then have "c div 2 ^ mb = 0" "c mod 2 ^ mb = M"
      using 1 M by (simp_all add: c_def)
    then show ?thesis
      using four \<open>n = 0\<close> unfolding fp_dec_def Let_def c_def [symmetric] sgn by simp
  next
    case 2
    define r where "r = M - 2 ^ mb"
    have r: "0 \<le> r" "r < 2 ^ mb" using 2 by (simp_all add: r_def)
    have "c = r + (n + 1) * 2 ^ mb" by (simp add: c_def r_def algebra_simps)
    then have "c div 2 ^ mb = n + 1" "c mod 2 ^ mb = M - 2 ^ mb"
      using r by (simp_all only: div_mult_self1 mod_mult_self1 mod_pos_pos_trivial
          div_pos_pos_trivial r_def)
    then show ?thesis
      using four n unfolding fp_dec_def Let_def c_def [symmetric] sgn by simp
  next
    case 3
    have "c = (n + 2) * 2 ^ mb" by (simp add: c_def 3 algebra_simps)
    then have "c div 2 ^ mb = n + 2" "c mod 2 ^ mb = 0" by simp_all
    moreover have "(2 :: rat) powi (n + 1 + emin eb - int mb) = 2 * 2 powi (n + emin eb - int mb)"
      by (simp add: power_int_add power_int_diff)
    ultimately show ?thesis
      using four n unfolding fp_dec_def Let_def c_def [symmetric] sgn
      by (simp add: 3 algebra_simps)
  qed
qed

lemma fp_dec_enc:
  assumes "0 \<le> x" "x < 2 powi (2 ^ (eb - 1) - 1)" "2 \<le> eb"
  shows "fp_dec mb eb (fp_enc mb eb (FFin s x)) = FFin s (rnd mb eb x)"
proof (cases "x = 0")
  case True
  then show ?thesis
    using fp_dec_code [of 0 mb 0 eb s] assms(3) power_increasing [OF assms(3), of "2 :: int"]
    by (simp add: mag_code_def rnd_def)
next
  case False
  with assms have x: "0 < x" by simp
  define e where "e = max (ilog2 x) (emin eb)"
  have "e - emin eb + emin eb - int mb = e - int mb" by simp
  moreover have "0 \<le> e - emin eb" "e - emin eb \<le> 2 ^ eb - 4"
    using exponent_range [OF x assms(2,3)] by (simp_all add: e_def)
  ultimately show ?thesis
    using fp_dec_code [of "rne (x / 2 powi (e - int mb))" mb "e - emin eb" eb s]
      significand_bounds [OF x e_def, of mb] assms(3) False
    by (simp add: mag_code_eq(1) [OF x assms(2,3)] rnd_def Let_def e_def [symmetric])
qed

lemma fp_enc_range:
  assumes "0 \<le> x" "x < 2 powi (2 ^ (eb - 1) - 1)" "2 \<le> eb"
  shows "0 \<le> fp_enc mb eb (FFin s x)" "fp_enc mb eb (FFin s x) < 2 ^ (mb + eb + 1)"
proof -
  have "0 \<le> mag_code mb eb x \<and> mag_code mb eb x \<le> (2 ^ eb - 2) * 2 ^ mb"
    using assms mag_code_eq [of x eb mb] power_increasing [OF assms(3), of "2 :: int"]
    by (cases "x = 0") (simp_all add: mag_code_def)
  moreover have "(2 ^ eb - 2) * 2 ^ mb < (2 :: int) ^ (mb + eb)"
    by (simp add: algebra_simps power_add)
  ultimately show "0 \<le> fp_enc mb eb (FFin s x)" "fp_enc mb eb (FFin s x) < 2 ^ (mb + eb + 1)"
    by (auto simp: sign_code_def)
qed

lemma f32_dec_enc:
  "0 \<le> x \<Longrightarrow> x < 2 ^ 127 \<Longrightarrow> f32_dec (f32_enc (FFin s x)) = FFin s (rnd 23 8 x)"
  using fp_dec_enc [of x 8 23 s] fp_enc_range [of x 8 23 s]
  by (simp add: f32_dec_def f32_enc_def uint_word_of_int_eq take_bit_int_eq_self del: fp_enc.simps)

lemma f64_dec_enc:
  "0 \<le> x \<Longrightarrow> x < 2 ^ 1023 \<Longrightarrow> f64_dec (f64_enc (FFin s x)) = FFin s (rnd 52 11 x)"
  using fp_dec_enc [of x 11 52 s] fp_enc_range [of x 11 52 s]
  by (simp add: f64_dec_def f64_enc_def uint_word_of_int_eq take_bit_int_eq_self del: fp_enc.simps)


section \<open>Exact values\<close>

lemma rnd_exact:
  assumes "x = of_int m * 2 powi j" "0 < m" "m < 2 ^ Suc mb" "emin eb - int mb \<le> j"
  shows "rnd mb eb x = x"
proof -
  have x: "0 < x" using assms by simp
  define e where "e = max (ilog2 x) (emin eb)"
  have "x < 2 powi (int mb + 1 + j)"
  proof -
    have "(of_int m :: rat) < of_int (2 ^ Suc mb)" using assms(3) by (simp only: of_int_less_iff)
    then show ?thesis
      unfolding assms(1) by (simp add: power_int_add)
  qed
  then have "(2 :: rat) powi ilog2 x < 2 powi (int mb + 1 + j)"
    using ilog2_bounds [OF x] by linarith
  then have "ilog2 x < int mb + 1 + j"
    using power_int_increasing [of "int mb + 1 + j" "ilog2 x" "2 :: rat"] by force
  then have "e - int mb \<le> j"
    using assms(4) by (simp add: e_def)
  then obtain i where j: "j = e - int mb + int i"
    by (metis zle_iff_zadd)
  have q: "x / 2 powi (e - int mb) = of_int (m * 2 ^ i)"
    unfolding assms(1) j by (simp add: power_int_add)
  have "rnd mb eb x = of_int (m * 2 ^ i) * 2 powi (e - int mb)"
    using x unfolding rnd_def Let_def e_def [symmetric] q rne_of_int by simp
  also have "\<dots> = x"
    using q by (simp add: nonzero_divide_eq_eq)
  finally show ?thesis .
qed

lemma rnd_0 [simp]: "rnd mb eb 0 = 0"
  by (simp add: rnd_def)

lemma rnd_int:
  assumes "0 \<le> m" "m < 2 ^ Suc mb" "2 \<le> eb"
  shows "rnd mb eb (of_int m) = of_int m"
proof -
  have "1 \<le> eb - 1" using assms(3) by simp
  then have "(2 :: int) \<le> 2 ^ (eb - 1)"
    using power_increasing [of 1 "eb - 1" "2 :: int"] by simp
  then show ?thesis
    using assms rnd_exact [of "of_int m" m 0 mb eb] by (cases "m = 0") (simp_all add: emin_def)
qed

lemma fp_of_rat_int: "fp_of_rat (of_int k) = FFin (k < 0) (of_int \<bar>k\<bar>)"
  by (simp add: fp_of_rat_def)

lemma f32_dec_of_int:
  assumes "\<bar>k\<bar> < 2 ^ 24"
  shows "f32_dec (f32_of_int k) = FFin (k < 0) (of_int \<bar>k\<bar>)"
proof -
  have "(of_int \<bar>k\<bar> :: rat) < of_int (2 ^ 24)" using assms by (simp only: of_int_less_iff)
  then have "(of_int \<bar>k\<bar> :: rat) < 2 ^ 127" by simp
  moreover have "rnd 23 8 (of_int \<bar>k\<bar>) = of_int \<bar>k\<bar>"
    using assms by (intro rnd_int) auto
  ultimately show ?thesis
    unfolding f32_of_int_def fp_of_rat_int by (subst f32_dec_enc) auto
qed

section \<open>Scaling by 8191\<close>

text \<open>
  \<open>float(k) / 8191\<close> rounded, times 8191 rounded, is \<open>k\<close> for \<open>1 \<le> k \<le> 8192\<close>. In the binade of
  \<open>k\<close>, the quotient lies 13 binades below, so its error, scaled back, is below half a unit of \<open>k\<close>.
  At a power of two the product can fall just below the binade, where units are half as large;
  there the quotient is computed explicitly.
\<close>

lemma rnd_near:
  fixes k :: int
  assumes p: "2 powi e \<le> p" "p < 2 powi (e + 1)" and e: "e \<le> int mb" "emin eb \<le> e"
    and near: "\<bar>p - of_int k\<bar> < 2 powi (e - int mb - 1)"
  shows "rnd mb eb p = of_int k"
proof -
  have pos: "0 < p" using p(1) by (rule less_le_trans [rotated]) simp
  have me: "max (ilog2 p) (emin eb) = e"
    using ilog2_eq [OF p] e by simp
  have u: "(2 :: rat) powi (e - int mb) * 2 ^ nat (int mb - e) = 1"
    using e power_int_add [of "2 :: rat" "e - int mb" "int mb - e"] by (simp add: power_int_def)
  have "p / 2 powi (e - int mb) - of_int (k * 2 ^ nat (int mb - e))
      = (p - of_int k) / 2 powi (e - int mb)"
    using u by (simp add: field_simps)
  also have "\<bar>\<dots>\<bar> < 1 / 2"
  proof -
    have "(2 :: rat) powi (e - int mb - 1) = 2 powi (e - int mb) / 2"
      by (simp add: power_int_diff)
    then show ?thesis
      using near by (simp add: abs_divide pos_divide_less_eq)
  qed
  finally have "rne (p / 2 powi (e - int mb)) = k * 2 ^ nat (int mb - e)"
    by (rule rne_unique)
  then show ?thesis
    using pos u by (simp add: rnd_def me Let_def mult.assoc mult.commute)
qed


lemma rnd_error:
  assumes "0 < x" "emin eb \<le> ilog2 x"
  shows "\<bar>rnd mb eb x - x\<bar> \<le> 2 powi (ilog2 x - int mb) / 2"
proof -
  define u where "u = (2 :: rat) powi (ilog2 x - int mb)"
  have u: "0 < u" by (simp add: u_def)
  have "rnd mb eb x = of_int (rne (x / u)) * u"
    using assms by (simp add: rnd_def Let_def u_def max_def)
  then have "rnd mb eb x - x = (of_int (rne (x / u)) - x / u) * u"
    using u by (simp add: field_simps)
  then have "\<bar>rnd mb eb x - x\<bar> = \<bar>of_int (rne (x / u)) - x / u\<bar> * u"
    using u by (simp add: abs_mult)
  also have "\<dots> \<le> 1 / 2 * u"
    using u rne_bounds by (intro mult_right_mono) auto
  finally show ?thesis by (simp add: u_def)
qed

lemma scale_pow2:
  assumes "0 \<le> e" "e \<le> 13"
  shows "rnd 23 8 (rnd 23 8 (2 powi e / 8191) * 8191) = (2 :: rat) powi e"
proof -
  define u where "u = (2 :: rat) powi (e - 36)"
  have u: "0 < u" by (simp add: u_def)
  have pw: "(2 :: rat) powi (e - 13) = 2 ^ 23 * u" "(2 :: rat) powi (e - 12) = 2 ^ 24 * u"
    "(2 :: rat) powi e = 2 ^ 36 * u" "(2 :: rat) powi (e - 1) = 2 ^ 35 * u"
    "(2 :: rat) powi (e - 25) = 2 ^ 11 * u"
    by (simp_all add: u_def power_int_diff)
  have lg: "ilog2 (2 powi e / 8191) = e - 13"
    by (rule ilog2_eq) (use u in \<open>simp_all add: pw\<close>)
  have "rne (68719476736 / 8191) = 8389632"
    by (rule rne_unique) simp
  then have q: "rnd 23 8 (2 powi e / 8191) = 8389632 * u"
  proof -
    have me: "max (e - 13) (emin 8) = e - 13" using assms by (simp add: emin_def)
    have ue: "(2 :: rat) powi (e - 13 - int 23) = u" by (simp add: u_def)
    have div: "2 powi e / 8191 / u = 68719476736 / 8191" using u by (simp add: pw)
    show ?thesis
      unfolding rnd_def Let_def lg me ue div \<open>rne _ = _\<close> by simp
  qed
  have "rnd 23 8 (8389632 * u * 8191) = of_int (2 ^ nat e)"
  proof (rule rnd_near [where e = "e - 1"])
    show "2 powi (e - 1) \<le> 8389632 * u * 8191" "8389632 * u * 8191 < 2 powi (e - 1 + 1)"
      using u by (simp_all add: pw)
    have "(of_int (2 ^ nat e) :: rat) = 2 powi e"
      using assms(1) by (simp add: power_int_def)
    then have "(of_int (2 ^ nat e) :: rat) = 2 ^ 36 * u"
      by (simp only: pw)
    then show "\<bar>8389632 * u * 8191 - of_int (2 ^ nat e)\<bar> < 2 powi (e - 1 - int 23 - 1)"
      using u by (simp add: pw)
  qed (use assms in \<open>simp_all add: emin_def\<close>)
  moreover have "(of_int (2 ^ nat e) :: rat) = 2 powi e"
    using assms(1) by (simp add: power_int_def)
  ultimately show ?thesis
    by (simp only: q)
qed

lemma scale_round_trip:
  assumes "1 \<le> k" "k \<le> 8192"
  shows "rnd 23 8 (rnd 23 8 (of_int k / 8191) * 8191) = of_int k"
proof (cases "k = 8191")
  case True
  then show ?thesis
    using rnd_int [of 1 23 8] rnd_int [of 8191 23 8] by simp
next
  case False
  define e where "e = ilog2 (of_int k)"
  have kb: "2 powi e \<le> (of_int k :: rat)" "(of_int k :: rat) < 2 powi (e + 1)"
    using ilog2_bounds [of "of_int k"] assms by (simp_all add: e_def)
  have "(2 :: rat) powi e < 2 powi 14" "(2 :: rat) powi 0 < 2 powi (e + 1)"
    using kb assms by (simp_all add: power_int_def)
  then have e: "0 \<le> e" "e \<le> 13"
    using power_int_increasing [of 14 e "2 :: rat"] power_int_increasing [of "e + 1" 0 "2 :: rat"]
    by force+
  define E where "E = (2 :: int) ^ nat e"
  have E: "(2 :: rat) powi e = of_int E" "(2 :: rat) powi (e + 1) = of_int (2 * E)"
    using e by (simp_all add: E_def power_int_def nat_add_distrib)
  have kE: "E \<le> k" "k < 2 * E"
    using kb unfolding E by (simp_all only: of_int_le_iff of_int_less_iff)
  have E1: "1 \<le> E" by (simp add: E_def)
  define u where "u = (2 :: rat) powi (e - 36)"
  have u: "0 < u" by (simp add: u_def)
  have pw: "(2 :: rat) powi (e - 13) = 2 ^ 23 * u" "(2 :: rat) powi (e - 12) = 2 ^ 24 * u"
    "(2 :: rat) powi (e - 24) = 2 ^ 12 * u" "of_int E = 2 ^ 36 * u"
    unfolding E(1) [symmetric] by (simp_all add: u_def power_int_diff)
  have "k * 4096 < 8191 * E"
  proof (cases "e = 13")
    case True
    then have "E = 8192" by (simp add: E_def)
    with assms show ?thesis by simp
  next
    case far: False
    then have "nat e \<le> 12" using e by simp
    then have "E \<le> 2 ^ 12" unfolding E_def by (rule power_increasing) simp
    then show ?thesis using kE False by simp
  qed
  then have "(of_int k :: rat) * 4096 < 8191 * of_int E"
    by (metis of_int_less_iff of_int_mult of_int_numeral)
  moreover have "(2 ^ 36 * u :: rat) \<le> of_int k"
    using kE(1) pw(4) by (metis of_int_le_iff)
  ultimately have lg: "ilog2 (of_int k / 8191) = e - 13"
    using u by (intro ilog2_eq) (simp_all add: pw)
  define q where "q = rnd 23 8 (of_int k / 8191)"
  have err: "\<bar>q - of_int k / 8191\<bar> \<le> u / 2"
    using rnd_error [of "of_int k / 8191" 8 23] assms e
    by (simp add: q_def lg emin_def u_def)
  have near: "\<bar>q * 8191 - of_int k\<bar> < 2 powi (e - 24)"
  proof -
    have "q - of_int k / 8191 \<le> u / 2" "of_int k / 8191 - q \<le> u / 2"
      using err by linarith+
    then have "q * 8191 - of_int k < 4096 * u" "of_int k - q * 8191 < 4096 * u"
      using u by linarith+
    then show ?thesis by (simp add: pw abs_less_iff)
  qed
  have small: "(2 :: rat) powi (e - 24) \<le> 1"
    using power_int_increasing [of "e - 24" 0 "2 :: rat"] e by simp
  have kI: "(of_int k :: rat) \<le> of_int (2 * E) - 1"
    using kE(2) by (metis of_int_1 of_int_diff of_int_le_iff zle_diff1_eq)
  show ?thesis
  proof (cases "2 powi e \<le> q * 8191")
    case True
    have "q * 8191 < 2 powi (e + 1)"
      using near small kI unfolding E by linarith
    then show ?thesis
      unfolding q_def [symmetric] using True near e
      by (intro rnd_near [where e = e]) (simp_all add: emin_def)
  next
    case below: False
    then have "(of_int k :: rat) < of_int (E + 1)"
      using near small unfolding E by simp
    then have "k = E" using kE by (simp only: of_int_less_iff)
    then have "(of_int k :: rat) = 2 powi e" by (simp add: E)
    then show ?thesis
      using scale_pow2 [OF e] by simp
  qed
qed

end
