(* ===== verification/Channel.thy ===== *)
theory Channel
  imports Float_Facts Constants
begin

text \<open>
  \<open>Channel.h\<close> and \<open>Channel.cpp\<close>: the waveform and the markers of one analog output. A vector is a
  list; writing past its end is \<open>Undefined\<close>. The lemmas give the length invariant, the vector
  length \<open>set_waveform\<close> computes in single precision and when it is too short, and the round trip
  of a waveform of 14-bit integers through the float representation to the words of the device.
\<close>

section \<open>State and operations\<close>

record Channel =
  ch_number :: int
  ch_enabled :: bool
  ch_waveform :: "f32 list"
  ch_markers :: "u8 list"
  ch_trigDelay :: int

definition Channel_init :: "int \<Rightarrow> Channel" where
  "Channel_init n = \<lparr>ch_number = n, ch_enabled = True, ch_waveform = [], ch_markers = [], ch_trigDelay = 0\<rparr>"

definition ch_set_enabled :: "bool \<Rightarrow> Channel \<Rightarrow> Channel" where
  "ch_set_enabled enable ch = ch\<lparr>ch_enabled := enable\<rparr>"

definition ch_get_enabled :: "Channel \<Rightarrow> bool" where
  "ch_get_enabled ch = ch_enabled ch"

definition ch_get_length :: "Channel \<Rightarrow> nat" where
  "ch_get_length ch = length (ch_waveform ch)"

text \<open>\<open>vector::resize\<close> and \<open>std::copy\<close> to the beginning of a vector.\<close>

definition resize :: "nat \<Rightarrow> 'a \<Rightarrow> 'a list \<Rightarrow> 'a list" where
  "resize n x xs = take n xs @ replicate (n - length xs) x"

definition copy_into :: "'a list \<Rightarrow> 'a list \<Rightarrow> exn + 'a list" where
  "copy_into data v =
     (if length data \<le> length v then Inr (data @ drop (length data) v) else Inl Undefined)"

text \<open>\<open>size_t(WF_MODULUS * ceil(float(n) / WF_MODULUS))\<close>, in single precision.\<close>

definition padded_length :: "nat \<Rightarrow> exn + nat" where
  "padded_length n =
     (let m = f32_of_int (int WF_MODULUS)
      in case to_uint64 (f32_dec (f32_mul m (f32_ceil (f32_div (f32_of_int (int n)) m)))) of
           None \<Rightarrow> Inl Undefined | Some k \<Rightarrow> Inr (nat k))"

definition set_waveform_float :: "f32 list \<Rightarrow> Channel \<Rightarrow> exn + Channel" where
  "set_waveform_float data ch =
     (case padded_length (length data) of
        Inl e \<Rightarrow> Inl e
      | Inr n \<Rightarrow>
          (let wf = resize n 0 (ch_waveform ch); mk = resize (length wf) 0 (ch_markers ch)
           in case copy_into data wf of
                Inl e \<Rightarrow> Inl e
              | Inr wf' \<Rightarrow> Inr (ch\<lparr>ch_waveform := wf', ch_markers := mk\<rparr>)))"

text \<open>\<open>float(data[ct]) / MAX_WF_AMP\<close>\<close>

definition scaled_float :: "i16 \<Rightarrow> f32" where
  "scaled_float w = f32_div (f32_of_int (sint w)) (f32_of_int MAX_WF_AMP)"

definition set_waveform_int16 :: "i16 list \<Rightarrow> Channel \<Rightarrow> exn + Channel" where
  "set_waveform_int16 data ch =
     (case padded_length (length data) of
        Inl e \<Rightarrow> Inl e
      | Inr n \<Rightarrow>
          (let wf = resize n 0 (ch_waveform ch); mk = resize (length wf) 0 (ch_markers ch)
           in case copy_into (map scaled_float data) wf of
                Inl e \<Rightarrow> Inl e
              | Inr wf' \<Rightarrow> Inr (ch\<lparr>ch_waveform := wf', ch_markers := mk\<rparr>)))"

definition ch_set_markers :: "u8 list \<Rightarrow> Channel \<Rightarrow> exn + Channel" where
  "ch_set_markers data ch =
     (case (if length data > length (ch_markers ch)
            then case padded_length (length data) of
                   Inl e \<Rightarrow> Inl e | Inr n \<Rightarrow> Inr (resize n 0 (ch_markers ch))
            else Inr (ch_markers ch)) of
        Inl e \<Rightarrow> Inl e
      | Inr mk \<Rightarrow>
          (case copy_into data mk of
             Inl e \<Rightarrow> Inl e | Inr mk' \<Rightarrow> Inr (ch\<lparr>ch_markers := mk'\<rparr>)))"

text \<open>
  \<open>prep_waveform\<close>: scale and truncate to 16-bit integers, clip above, clip below, merge with the
  marker bits. A product outside the range of \<open>int16_t\<close> is an undefined conversion.
\<close>

definition to_dac :: "f32 \<Rightarrow> int option" where
  "to_dac w = to_int16 (f32_dec (f32_mul (f32_of_int MAX_WF_AMP) w))"

definition clip_high :: "int list \<Rightarrow> int list" where
  "clip_high xs =
     (if xs \<noteq> [] \<and> Max (set xs) > MAX_WF_AMP
      then map (\<lambda>v. if v > MAX_WF_AMP then MAX_WF_AMP else v) xs else xs)"

definition clip_low :: "int list \<Rightarrow> int list" where
  "clip_low xs =
     (if xs \<noteq> [] \<and> Min (set xs) < - (MAX_WF_AMP + 1)
      then map (\<lambda>v. if v < - MAX_WF_AMP then - MAX_WF_AMP else v) xs else xs)"

definition merge_marker :: "int \<Rightarrow> u8 \<Rightarrow> i16" where
  "merge_marker v m = (word_of_int v AND 0x3FFF) OR push_bit 14 (ucast m)"

definition prep_waveform :: "Channel \<Rightarrow> exn + i16 list" where
  "prep_waveform ch =
     (let vals = map to_dac (ch_waveform ch)
      in if None \<in> set vals then Inl Undefined
         else let prepVec = clip_low (clip_high (map the vals))
              in if length (ch_markers ch) < length prepVec then Inl Undefined
                 else Inr (map2 merge_marker prepVec (ch_markers ch)))"

definition clear_data :: "Channel \<Rightarrow> Channel" where
  "clear_data ch = ch\<lparr>ch_waveform := []\<rparr>"

section \<open>The vectors keep their sizes in step\<close>

definition channel_ok :: "Channel \<Rightarrow> bool" where
  "channel_ok ch \<longleftrightarrow> length (ch_waveform ch) \<le> length (ch_markers ch)"

lemma length_resize [simp]: "length (resize n x xs) = n"
  by (simp add: resize_def)

lemma copy_into_Inr: "copy_into data v = Inr v' \<longleftrightarrow>
    length data \<le> length v \<and> v' = data @ drop (length data) v"
  by (auto simp: copy_into_def)

lemma copy_into_length: "copy_into data v = Inr v' \<Longrightarrow> length v' = length v"
  by (simp add: copy_into_Inr)

lemma set_waveform_lengths:
  assumes "set_waveform_float data ch = Inr ch' \<or> set_waveform_int16 data' ch = Inr ch'"
  shows "length (ch_waveform ch') = length (ch_markers ch')"
  using assms
  by (auto simp: set_waveform_float_def set_waveform_int16_def Let_def copy_into_length
      split: sum.splits)

lemma ch_set_markers_length:
  assumes "ch_set_markers data ch = Inr ch'"
  shows "length (ch_markers ch) \<le> length (ch_markers ch') \<and> ch_waveform ch' = ch_waveform ch"
  using assms
  by (auto simp: ch_set_markers_def copy_into_Inr split: sum.splits if_splits)

lemma channel_ok_init: "channel_ok (Channel_init n)"
  by (simp add: channel_ok_def Channel_init_def)

lemma channel_ok_ops:
  "set_waveform_float data ch = Inr ch' \<Longrightarrow> channel_ok ch'"
  "set_waveform_int16 data' ch = Inr ch' \<Longrightarrow> channel_ok ch'"
  "channel_ok ch \<Longrightarrow> ch_set_markers ms ch = Inr ch' \<Longrightarrow> channel_ok ch'"
  "channel_ok (clear_data ch)"
  "channel_ok ch \<Longrightarrow> channel_ok (ch_set_enabled b ch)"
  using set_waveform_lengths [of data ch ch' data'] ch_set_markers_length [of ms ch ch']
  by (auto simp: channel_ok_def clear_data_def ch_set_enabled_def)

section \<open>The size computed in single precision\<close>

lemma f32_dec_pos_int:
  "0 \<le> k \<Longrightarrow> k < 2 ^ 24 \<Longrightarrow> f32_dec (f32_of_int k) = FFin False (of_int k)"
  using f32_dec_of_int [of k] by simp

lemma padded_length_small:
  assumes "n < 2 ^ 24"
  shows "padded_length n = Inr (4 * ((n + 3) div 4))"
proof -
  define c where "c = \<lceil>of_nat n / 4 :: rat\<rceil>"
  have nI: "int n < 2 ^ 24" using assms by (metis of_nat_less_iff of_nat_numeral of_nat_power)
  have c: "c = int ((n + 3) div 4)"
  proof -
    have "int n \<le> 4 * int ((n + 3) div 4)" "4 * int ((n + 3) div 4) < int n + 4"
      by presburger+
    then have "(of_int (int n) :: rat) \<le> of_int (4 * int ((n + 3) div 4))"
      "(of_int (4 * int ((n + 3) div 4)) :: rat) < of_int (int n + 4)"
      by (simp_all only: of_int_le_iff of_int_less_iff)
    then show ?thesis
      unfolding c_def by (intro ceiling_unique) (simp_all add: field_simps)
  qed
  have c_bounds: "0 \<le> c" "c \<le> 2 ^ 22"
    using assms unfolding c by auto
  have four: "f32_dec (f32_of_int 4) = FFin False 4"
    using f32_dec_pos_int [of 4] by simp
  have quot: "f32_dec (f32_div (f32_of_int (int n)) (f32_of_int 4)) = FFin False (of_nat n / 4)"
  proof -
    have "rnd 23 8 (of_nat n / 4) = of_nat n / 4"
      using rnd_exact [of "of_nat n / 4" "int n" "-2" 23 8] nI
      by (cases "n = 0") (simp_all add: power_int_minus emin_def)
    moreover have "(of_nat n / 4 :: rat) < 2 ^ 127"
    proof -
      have "(of_nat n :: rat) < of_nat (2 ^ 24)" using assms by (simp only: of_nat_less_iff)
      then show ?thesis by simp
    qed
    ultimately show ?thesis
      using f32_dec_pos_int [of "int n"] nI
      by (simp add: f32_div_def four f32_dec_enc)
  qed
  have ceil: "f32_dec (f32_ceil (f32_div (f32_of_int (int n)) (f32_of_int 4))) = FFin False (of_int c)"
  proof -
    have "rnd 23 8 (of_int c) = of_int c" using c_bounds by (intro rnd_int) auto
    moreover have "(of_int c :: rat) < 2 ^ 127"
    proof -
      have "(of_int c :: rat) \<le> of_int (2 ^ 22)" using c_bounds by (simp only: of_int_le_iff)
      then show ?thesis by simp
    qed
    ultimately show ?thesis
      using c_bounds by (simp add: f32_ceil_def quot c_def [symmetric] f32_dec_enc)
  qed
  have prod: "f32_dec (f32_mul (f32_of_int 4) (f32_ceil (f32_div (f32_of_int (int n)) (f32_of_int 4))))
      = FFin False (4 * of_int c)"
  proof -
    have "rnd 23 8 (4 * of_int c) = 4 * of_int c"
      using rnd_exact [of "4 * of_int c" c 2 23 8] c_bounds
      by (cases "c = 0") (simp_all add: emin_def)
    moreover have "(4 * of_int c :: rat) < 2 ^ 127"
    proof -
      have "(of_int c :: rat) \<le> of_int (2 ^ 22)" using c_bounds by (simp only: of_int_le_iff)
      then show ?thesis by simp
    qed
    ultimately show ?thesis
      using c_bounds by (simp add: f32_mul_def four ceil f32_dec_enc)
  qed
  have fl: "\<lfloor>4 * of_int c :: rat\<rfloor> = 4 * c"
    by (metis floor_of_int of_int_mult of_int_numeral)
  show ?thesis
    using c_bounds
    by (simp add: padded_length_def Let_def const_defs prod to_uint64_def to_range_def fl)
      (simp add: c nat_mult_distrib)
qed

lemma padded_length_gap: "padded_length 16777217 = Inr 16777216"
proof -
  have "to_uint64 (f32_dec (f32_mul (f32_of_int 4) (f32_ceil
      (f32_div (f32_of_int 16777217) (f32_of_int 4))))) = Some 16777216"
    by code_simp
  then show ?thesis
    by (simp add: padded_length_def Let_def const_defs)
qed

section \<open>The round trip of 14-bit samples\<close>

lemma rnd_div_bounds:
  assumes "1 \<le> k" "k \<le> 8192"
  shows "0 \<le> rnd 23 8 (of_int k / 8191) \<and> rnd 23 8 (of_int k / 8191) \<le> 4"
proof -
  define x where "x = (of_int k / 8191 :: rat)"
  define e where "e = max (ilog2 x) (emin 8)"
  define M where "M = rne (x / 2 powi (e - int 23))"
  have kr: "(of_int k :: rat) \<le> of_int 8192" using assms(2) by (simp only: of_int_le_iff)
  have x: "0 < x" "x < 2 powi 1" using assms(1) kr by (simp_all add: x_def)
  have "(2 :: rat) powi ilog2 x < 2 powi 1"
    using ilog2_bounds [OF x(1)] x(2) by linarith
  then have "ilog2 x < 1"
    using power_int_increasing [of 1 "ilog2 x" "2 :: rat"] by force
  then have e: "e - int 23 \<le> - 23" by (simp add: e_def emin_def)
  have M: "0 \<le> M" "M \<le> 2 ^ 24"
    using significand_bounds [OF x(1) e_def, of 23] by (simp_all add: M_def)
  have Mr: "(of_int M :: rat) \<le> of_int (2 ^ 24)" using M(2) by (simp only: of_int_le_iff)
  have "(2 :: rat) powi (e - int 23) \<le> 2 powi (- 23)"
    using e by (intro power_int_increasing) simp_all
  then have "of_int M * (2 :: rat) powi (e - int 23) \<le> of_int (2 ^ 24) * 2 powi (- 23)"
    using M(1) Mr by (intro mult_mono) simp_all
  moreover have "rnd 23 8 x = of_int M * 2 powi (e - int 23)"
    using x by (simp add: rnd_def Let_def e_def M_def)
  ultimately show ?thesis
    using M(1) by (simp add: x_def power_int_minus)
qed

lemma to_dac_scaled_float:
  assumes "- 8192 \<le> sint w" "sint w \<le> 8191"
  shows "to_dac (scaled_float w) = Some (sint w)"
proof (cases "sint w = 0")
  case True
  have "to_dac (f32_div (f32_of_int 0) (f32_of_int MAX_WF_AMP)) = Some 0"
    by code_simp
  with True show ?thesis by (simp add: scaled_float_def)
next
  case False
  define k s where "k = \<bar>sint w\<bar>" and "s = (sint w < 0)"
  have k: "1 \<le> k" "k \<le> 8192" using assms False by (auto simp: k_def)
  have kr: "(of_int k :: rat) \<le> of_int 8192" using k(2) by (simp only: of_int_le_iff)
  have amp: "f32_dec (f32_of_int 8191) = FFin False 8191"
    using f32_dec_of_int [of 8191] by simp
  have num: "f32_dec (f32_of_int (sint w)) = FFin s (of_int k)"
    using f32_dec_of_int [of "sint w"] assms by (simp add: k_def s_def)
  have quot: "f32_dec (scaled_float w) = FFin s (rnd 23 8 (of_int k / 8191))"
    using k kr by (simp add: scaled_float_def const_defs f32_div_def num amp f32_dec_enc)
  have "f32_dec (f32_mul (f32_of_int 8191) (scaled_float w)) = FFin s (of_int k)"
    using rnd_div_bounds [OF k] scale_round_trip [OF k]
    by (simp add: f32_mul_def amp quot f32_dec_enc mult.commute)
  moreover have "fp_trunc (FFin s (of_int k)) = Some (sint w)"
    by (simp add: k_def s_def del: of_int_sint)
  ultimately show ?thesis
    using assms by (simp add: to_dac_def const_defs to_int16_def to_range_def)
qed

lemma merge_marker_sample:
  assumes "- 8192 \<le> v" "v \<le> 8191"
  shows "signed_take_bit 13 (uint (merge_marker v m)) = v"
proof -
  have low14: "(0x3FFF :: i16) = mask 14" by (simp add: mask_eq_exp_minus_1)
  have "take_bit 14 (merge_marker v m) = take_bit 14 (word_of_int v)"
    unfolding merge_marker_def low14 by (rule bit_word_eqI) (auto simp: bit_simps)
  then have "take_bit 14 (uint (merge_marker v m)) = take_bit 14 (uint (word_of_int v :: i16))"
    by (simp flip: unsigned_take_bit_eq)
  then have "take_bit (Suc 13) (uint (merge_marker v m)) = take_bit (Suc 13) v"
    by (simp add: uint_word_of_int_eq)
  then have "signed_take_bit 13 (uint (merge_marker v m)) = signed_take_bit 13 v"
    by (simp only: signed_take_bit_eq_iff_take_bit_eq)
  then show ?thesis
    using assms by (simp add: signed_take_bit_int_eq_self)
qed

lemma merge_marker_bits: "drop_bit 14 (merge_marker v m) = ucast (take_bit 2 m)"
proof -
  have low14: "(0x3FFF :: i16) = mask 14" by (simp add: mask_eq_exp_minus_1)
  show ?thesis
    unfolding merge_marker_def low14
    by (rule bit_word_eqI) (auto simp: bit_simps dest: bit_imp_le_length)
qed

text \<open>What the two clipping passes make of one value; \<open>low\<close> tells that some value is below -8192.\<close>

definition clipped :: "bool \<Rightarrow> int \<Rightarrow> int" where
  "clipped low v = (if v > 8191 then 8191 else if low \<and> v < - 8191 then - 8191 else v)"

lemma clip_passes:
  "clip_low (clip_high xs) = map (clipped (\<exists>u \<in> set xs. u < - 8192)) xs"
proof -
  have high: "clip_high xs = map (\<lambda>v. if v > 8191 then 8191 else v) xs"
    by (cases "xs = []") (auto simp: clip_high_def const_defs not_less intro!: map_idI [symmetric])
  have low: "clip_low ys = (if \<exists>u \<in> set ys. u < - 8192
      then map (\<lambda>v. if v < - 8191 then - 8191 else v) ys else ys)" for ys
  proof (cases "ys = []")
    case False
    then have "Min (set ys) < - 8192 \<longleftrightarrow> (\<exists>u \<in> set ys. u < - 8192)"
      by (simp add: Min_less_iff)
    with False show ?thesis by (simp add: clip_low_def const_defs)
  qed (simp add: clip_low_def)
  have "(\<exists>u \<in> set (map (\<lambda>v. if v > 8191 then 8191 else v) xs). u < - 8192)
      \<longleftrightarrow> (\<exists>u \<in> set xs. u < - 8192)" for xs :: "int list"
    by (auto split: if_splits)
  then show ?thesis
    by (auto simp: high low clipped_def)
qed

lemma prep_waveform_defined:
  assumes "channel_ok ch" "\<forall>w \<in> set (ch_waveform ch). to_dac w \<noteq> None"
  shows "prep_waveform ch = Inr (map2 merge_marker
    (map (clipped (\<exists>w \<in> set (ch_waveform ch). the (to_dac w) < - 8192))
      (map (\<lambda>w. the (to_dac w)) (ch_waveform ch))) (ch_markers ch))"
proof -
  have "None \<notin> set (map to_dac (ch_waveform ch))" using assms(2) by auto
  then show ?thesis
    using assms(1) by (simp add: prep_waveform_def Let_def clip_passes channel_ok_def comp_def)
qed

lemma clipped_range:
  "v \<in> V \<Longrightarrow> - 8192 \<le> clipped (\<exists>u \<in> V. u < - 8192) v \<and> clipped (\<exists>u \<in> V. u < - 8192) v \<le> 8191"
  by (auto simp: clipped_def not_less)

section \<open>Properties\<close>

text \<open>
  C11. The words \<open>prep_waveform\<close> makes: one per sample; the low 14 bits are the scaled sample
  truncated and clipped (above 8191 to 8191; below -8191 to -8191, but only when some sample is
  below -8192), the high 2 bits are the low bits of the marker. No sample reaches the marker bits
  and a channel whose vectors are in step never reads markers past their end.
\<close>

theorem prep_waveform_samples:
  assumes "channel_ok ch" "\<forall>w \<in> set (ch_waveform ch). to_dac w \<noteq> None"
  defines "low \<equiv> \<exists>w \<in> set (ch_waveform ch). the (to_dac w) < - 8192"
  shows "\<exists>out. prep_waveform ch = Inr out \<and> length out = length (ch_waveform ch)
    \<and> (\<forall>i < length out.
        signed_take_bit 13 (uint (out ! i)) = clipped low (the (to_dac (ch_waveform ch ! i)))
        \<and> drop_bit 14 (out ! i) = ucast (take_bit 2 (ch_markers ch ! i)))"
proof -
  have "clipped low (the (to_dac (ch_waveform ch ! i))) \<le> 8191
      \<and> - 8192 \<le> clipped low (the (to_dac (ch_waveform ch ! i)))" if "i < length (ch_waveform ch)" for i
    using clipped_range [of "the (to_dac (ch_waveform ch ! i))" "(\<lambda>w. the (to_dac w)) ` set (ch_waveform ch)"] that
    by (simp add: low_def)
  then show ?thesis
    using prep_waveform_defined [OF assms(1,2)] assms(1)
    by (simp add: channel_ok_def merge_marker_sample merge_marker_bits flip: low_def)
qed

theorem prep_waveform_samples_witness:
  "\<exists>out. prep_waveform ((Channel_init 0)\<lparr>ch_waveform := [f32_of_int 2, scaled_float 100],
      ch_markers := [1, 2]\<rparr>) = Inr out \<and> length out = 2
    \<and> drop_bit 14 (out ! 0) = 1 \<and> signed_take_bit 13 (uint (out ! 0)) = 8191"
proof -
  let ?ch = "(Channel_init 0)\<lparr>ch_waveform := [f32_of_int 2, scaled_float 100], ch_markers := [1, 2]\<rparr>"
  have d: "to_dac (f32_of_int 2) = Some 16382" "to_dac (scaled_float 100) = Some 100"
    by code_simp+
  have "channel_ok ?ch" "\<forall>w \<in> set (ch_waveform ?ch). to_dac w \<noteq> None"
    by (simp_all add: channel_ok_def d)
  from prep_waveform_samples [OF this] obtain out where out: "prep_waveform ?ch = Inr out"
    "length out = 2" "drop_bit 14 (out ! 0) = ucast (take_bit 2 (1 :: u8))"
    "signed_take_bit 13 (uint (out ! 0)) = clipped False (16382)"
    by (auto simp: d)
  then show ?thesis by (auto simp: clipped_def)
qed

text \<open>
  C10. Loading 14-bit integers (and markers) into a channel with no waveform or markers and
  preparing it gives each integer back in the low 14 bits and each marker in the high 2 bits of
  its word, although \<open>set_waveform\<close> divides by 8191 in single precision and \<open>prep_waveform\<close>
  multiplies and truncates; the words are padded with zeros to a multiple of four.
\<close>

theorem waveform_round_trip:
  assumes fresh: "ch_waveform ch = []" "ch_markers ch = []"
    and size: "length data < 2 ^ 24" "length ms = length data"
    and range: "\<forall>w \<in> set data. - 8192 \<le> sint w \<and> sint w \<le> 8191"
  shows "\<exists>ch1 ch2 out. set_waveform_int16 data ch = Inr ch1 \<and> ch_set_markers ms ch1 = Inr ch2
    \<and> prep_waveform ch2 = Inr out \<and> length out = 4 * ((length data + 3) div 4)
    \<and> (\<forall>i < length out.
        if i < length data
        then signed_take_bit 13 (uint (out ! i)) = sint (data ! i)
          \<and> drop_bit 14 (out ! i) = ucast (take_bit 2 (ms ! i))
        else out ! i = 0)"
proof -
  define n pad where "n = 4 * ((length data + 3) div 4)" and "pad = n - length data"
  have n: "length data \<le> n" "n = length data + pad" unfolding n_def pad_def by presburger+
  define ch1 where "ch1 = ch\<lparr>ch_waveform := map scaled_float data @ replicate pad 0,
    ch_markers := replicate n 0\<rparr>"
  define ch2 where "ch2 = ch1\<lparr>ch_markers := ms @ replicate pad 0\<rparr>"
  have 1: "set_waveform_int16 data ch = Inr ch1"
    using fresh n by (simp add: set_waveform_int16_def padded_length_small [OF size(1)]
        n_def [symmetric] Let_def resize_def copy_into_def ch1_def)
  have 2: "ch_set_markers ms ch1 = Inr ch2"
    using n size(2) by (simp add: ch_set_markers_def ch1_def ch2_def copy_into_def)
  have zero: "to_dac 0 = Some 0" by code_simp
  have vals: "map (\<lambda>w. the (to_dac w)) (ch_waveform ch2) = map sint data @ replicate pad 0"
    using range by (simp add: ch2_def ch1_def to_dac_scaled_float zero)
  have "\<forall>w \<in> set (ch_waveform ch2). to_dac w \<noteq> None"
    "(\<exists>w \<in> set (ch_waveform ch2). the (to_dac w) < - 8192) = False"
    using range by (auto simp: ch2_def ch1_def to_dac_scaled_float zero)
  moreover have "channel_ok ch2" using size(2) by (simp add: channel_ok_def ch1_def ch2_def)
  ultimately have 3: "prep_waveform ch2 = Inr (map2 merge_marker
      (map (clipped False) (map sint data @ replicate pad 0)) (ms @ replicate pad 0))"
    using prep_waveform_defined [of ch2] unfolding vals by (simp add: ch2_def)
  have clip: "map (clipped False) (map sint data @ replicate pad 0) = map sint data @ replicate pad 0"
    using range by (auto simp: clipped_def)
  define out where "out = map2 merge_marker (map sint data @ replicate pad 0) (ms @ replicate pad 0)"
  have 4: "prep_waveform ch2 = Inr out"
    unfolding 3 out_def clip ..
  have "\<forall>i < length out. if i < length data
      then signed_take_bit 13 (uint (out ! i)) = sint (data ! i)
        \<and> drop_bit 14 (out ! i) = ucast (take_bit 2 (ms ! i))
      else out ! i = 0"
    using size(2) range n
    by (auto simp: out_def nth_append merge_marker_sample merge_marker_bits)
       (simp add: merge_marker_def)
  moreover have "length out = 4 * ((length data + 3) div 4)"
    using size(2) n by (simp add: out_def n_def)
  ultimately show ?thesis using 1 2 4 by blast
qed

theorem waveform_round_trip_witness:
  "\<exists>ch1 ch2 out. set_waveform_int16 [100, - 100] (Channel_init 0) = Inr ch1
    \<and> ch_set_markers [1, 2] ch1 = Inr ch2 \<and> prep_waveform ch2 = Inr out
    \<and> length out = 4 \<and> signed_take_bit 13 (uint (out ! 1)) = - 100"
proof -
  have ch: "ch_waveform (Channel_init 0) = []" "ch_markers (Channel_init 0) = []"
    by (simp_all add: Channel_init_def)
  have v: "sint (100 :: i16) = 100" "sint (- 100 :: i16) = - 100" by simp_all
  have r: "\<forall>w \<in> set [100, - 100 :: i16]. - 8192 \<le> sint w \<and> sint w \<le> 8191"
    by (simp add: v)
  from waveform_round_trip [OF ch _ _ r, of "[1, 2]"] obtain ch1 ch2 out where
    o: "set_waveform_int16 [100, - 100] (Channel_init 0) = Inr ch1" "ch_set_markers [1, 2] ch1 = Inr ch2"
      "prep_waveform ch2 = Inr out" "length out = 4" and
    s: "\<forall>i < length out. if i < length [100, - 100 :: i16]
        then signed_take_bit 13 (uint (out ! i)) = sint ([100, - 100 :: i16] ! i)
          \<and> drop_bit 14 (out ! i) = ucast (take_bit 2 ([1, 2 :: u8] ! i))
        else out ! i = 0"
    by auto
  from s [rule_format, of 1] o(4) have "signed_take_bit 13 (uint (out ! 1)) = - 100"
    by (simp add: v)
  with o show ?thesis by blast
qed

text \<open>
  C38. Above 2^24 samples the vector can be too short: for 2^24 + 1 samples the size computed in
  single precision is 2^24, and copying the samples into the fresh vector runs past its end. Up to
  2^24 - 1 samples the vector always holds all of them, rounded up to a multiple of four.
\<close>

theorem waveform_size_limit:
  "(length data < 2 ^ 24 \<longrightarrow> (\<exists>ch'. set_waveform_float data ch = Inr ch'
      \<and> length (ch_waveform ch') = 4 * ((length data + 3) div 4)
      \<and> take (length data) (ch_waveform ch') = data))
   \<and> (length data = 2 ^ 24 + 1 \<longrightarrow> set_waveform_float data ch = Inl Undefined)"
proof (intro conjI impI)
  assume n: "length data < 2 ^ 24"
  have "length data \<le> 4 * ((length data + 3) div 4)" by presburger
  then show "\<exists>ch'. set_waveform_float data ch = Inr ch'
      \<and> length (ch_waveform ch') = 4 * ((length data + 3) div 4)
      \<and> take (length data) (ch_waveform ch') = data"
    by (simp add: set_waveform_float_def padded_length_small [OF n] Let_def copy_into_def)
next
  assume "length data = 2 ^ 24 + 1"
  then have n: "length data = 16777217" by simp
  show "set_waveform_float data ch = Inl Undefined"
    by (simp add: set_waveform_float_def n padded_length_gap Let_def copy_into_def)
qed

theorem waveform_size_limit_witness:
  "set_waveform_float (replicate (2 ^ 24 + 1) 0) (Channel_init 0) = Inl Undefined"
  using waveform_size_limit [of "replicate (2 ^ 24 + 1) 0" "Channel_init 0"] by simp

end
