(* ===== verification/APS2_Core.thy ===== *)
theory APS2_Core
  imports Ethernet Channel
begin

text \<open>
  The class \<open>APS2\<close> (\<open>APS2.h\<close>, \<open>APS2.cpp\<close>): its state, construction, connecting, the memory and
  register access every other method is built on, the status registers, the configuration SDRAM,
  and the commands that restart the module.
\<close>

section \<open>State\<close>

text \<open>
  Members the constructors leave uninitialised are options: \<open>None\<close> until assigned, and reading
  them is undefined. \<open>ethernetRM\<close> says whether the shared pointer holds the interface.
\<close>

record aps2 =
  legacy_firmware :: bool
  ipAddr :: string
  connected :: bool
  channels :: "Channel list"
  ethernetRM :: bool
  samplingRate :: u32
  host_type :: "APS2_HOST_TYPE option"
  runState :: "APS2_RUN_STATE option"
  bitfile_writing_task :: "APS2_BITFILE_WRITING_TASK option"
  bitfile_writing_task_progress :: "f64 option"

definition APS2_construct :: "string \<Rightarrow> aps2" where
  "APS2_construct deviceSerial =
     \<lparr>legacy_firmware = False, ipAddr = deviceSerial, connected = False,
      channels = map (\<lambda>ct. Channel_init (int ct)) [0..<2], ethernetRM = False, samplingRate = 0,
      host_type = None, runState = None, bitfile_writing_task = None,
      bitfile_writing_task_progress = None\<rparr>"

text \<open>\<open>APS2()\<close>: no serial, and channels numbered -1.\<close>

definition APS2_default :: aps2 where
  "APS2_default = (APS2_construct [])\<lparr>channels := replicate 2 (Channel_init (- 1))\<rparr>"

text \<open>One module object and the Ethernet interface it shares.\<close>

record 'n st = "'n link" +
  obj :: aps2

type_synonym ('n, 'a) apsm = "('n st, 'a) meth"

definition get_obj :: "(aps2 \<Rightarrow> 'a) \<Rightarrow> ('n, 'a) apsm" where
  "get_obj f = getM (\<lambda>s. f (obj s))"

definition mod_obj :: "(aps2 \<Rightarrow> aps2) \<Rightarrow> ('n, unit) apsm" where
  "mod_obj f = modifyM (\<lambda>s. s\<lparr>obj := f (obj s)\<rparr>)"

text \<open>Reading a member that may be uninitialised.\<close>

definition get_init :: "(aps2 \<Rightarrow> 'a option) \<Rightarrow> ('n, 'a) apsm" where
  "get_init f = bindM (get_obj f) (\<lambda>x. case x of None \<Rightarrow> throwM Undefined | Some a \<Rightarrow> returnM a)"

definition set_task :: "APS2_BITFILE_WRITING_TASK \<Rightarrow> ('n, unit) apsm" where
  "set_task t = mod_obj (\<lambda>a. a\<lparr>bitfile_writing_task := Some t\<rparr>)"

definition set_progress :: "f64 \<Rightarrow> ('n, unit) apsm" where
  "set_progress p = mod_obj (\<lambda>a. a\<lparr>bitfile_writing_task_progress := Some p\<rparr>)"

section \<open>Calls of the Ethernet interface\<close>

text \<open>\<open>ethernetRM_->send\<close> and \<open>ethernetRM_->read\<close>: undefined on a null pointer.\<close>

definition need_rm :: "('n, unit) apsm" where
  "need_rm = bindM (get_obj ethernetRM) (\<lambda>b. if b then returnM () else throwM Undefined)"

definition rm_send :: "'n net_ops \<Rightarrow> APS2Datagram list \<Rightarrow> ('n, unit) apsm" where
  "rm_send N dgs = seqM need_rm (bindM (get_obj ipAddr) (\<lambda>ip. eth_send N ip dgs))"

definition rm_read :: "'n net_ops \<Rightarrow> ('n, APS2Datagram) apsm" where
  "rm_read N = seqM need_rm (bindM (get_obj ipAddr) (\<lambda>ip. eth_read N ip COMMS_TIMEOUT))"

text \<open>A read request: send it, and read one datagram back.\<close>

definition request :: "'n net_ops \<Rightarrow> APS2Command \<Rightarrow> u32 \<Rightarrow> ('n, APS2Datagram) apsm" where
  "request N cmd addr =
     seqM (rm_send N [\<lparr>dg_cmd = cmd, dg_addr = addr, dg_payload = []\<rparr>]) (rm_read N)"

definition chunked :: "APS2Command \<Rightarrow> u32 \<Rightarrow> u32 list \<Rightarrow> u16 \<Rightarrow> ('n, APS2Datagram list) apsm" where
  "chunked cmd addr data chunk_size =
     (case dg_chunk cmd addr data chunk_size of
        None \<Rightarrow> throwM Diverges | Some dgs \<Rightarrow> returnM dgs)"

section \<open>Memory and registers\<close>

definition memory_write_cmd :: APS2Command where
  "memory_write_cmd = APS2Command_init\<lparr>c_ack := True, c_cmd := command_code USERIO_ACK\<rparr>"

definition memory_read_cmd :: "u32 \<Rightarrow> APS2Command" where
  "memory_read_cmd numWords = APS2Command_init\<lparr>c_r_w := True, c_cmd := command_code USERIO_ACK,
     c_cnt := ucast numWords\<rparr>"

definition write_memory :: "'n net_ops \<Rightarrow> u32 \<Rightarrow> u32 list \<Rightarrow> ('n, unit) apsm" where
  "write_memory N addr data =
     (if addr < MEMORY_ADDR + 0x40000000 \<and> addr AND 0xf \<noteq> 0
      then throwM (Thrown APS2_UNALIGNED_MEMORY_ACCESS)
      else if addr < MEMORY_ADDR + 0x40000000 \<and> length data mod 4 \<noteq> 0
      then throwM (Thrown APS2_UNALIGNED_MEMORY_ACCESS)
      else bindM (chunked memory_write_cmd addr data 0xfffc) (rm_send N))"

definition write_memory1 :: "'n net_ops \<Rightarrow> u32 \<Rightarrow> u32 \<Rightarrow> ('n, unit) apsm" where
  "write_memory1 N addr data = write_memory N addr [data]"

definition read_memory :: "'n net_ops \<Rightarrow> u32 \<Rightarrow> u32 \<Rightarrow> ('n, u32 list) apsm" where
  "read_memory N addr numWords =
     bindM (request N (memory_read_cmd numWords) addr) (\<lambda>result. returnM (dg_payload result))"

text \<open>\<open>read_memory(addr, 1)[0]\<close> and \<open>read_memory(addr, 1).front()\<close>\<close>

definition read_memory1 :: "'n net_ops \<Rightarrow> u32 \<Rightarrow> ('n, u32) apsm" where
  "read_memory1 N addr = bindM (read_memory N addr 1) (\<lambda>ws. vec_at ws 0)"

definition update_register_bits :: "'n net_ops \<Rightarrow> (nat \<Rightarrow> u32 \<Rightarrow> u32) \<Rightarrow> u32 \<Rightarrow> nat list \<Rightarrow> ('n, unit) apsm" where
  "update_register_bits N f addr bits =
     bindM (read_memory1 N addr) (\<lambda>reg_val.
       if \<exists>b \<in> set bits. 32 \<le> b then throwM OutOfRange
       else write_memory1 N addr (fold f bits reg_val))"

definition set_register_bit :: "'n net_ops \<Rightarrow> u32 \<Rightarrow> nat list \<Rightarrow> ('n, unit) apsm" where
  "set_register_bit N addr bits = update_register_bits N set_bit addr bits"

definition clear_register_bit :: "'n net_ops \<Rightarrow> u32 \<Rightarrow> nat list \<Rightarrow> ('n, unit) apsm" where
  "clear_register_bit N addr bits = update_register_bits N unset_bit addr bits"

section \<open>Status registers\<close>

definition status_request :: APS2Command where
  "status_request = APS2Command_init\<lparr>c_cmd := command_code STATUS, c_r_w := True, c_sel := True,
     c_mode_stat := APS_STATUS_HOST\<rparr>"

definition read_status_registers :: "'n net_ops \<Rightarrow> ('n, APSStatusBank_t) apsm" where
  "read_status_registers N =
     bindM (request N status_request 0) (\<lambda>resp_dg.
       if fits_status_bank (dg_payload resp_dg) then returnM (dg_payload resp_dg)
       else throwM Undefined)"

definition status_reg :: "APSStatusBank_t \<Rightarrow> STATUS_REGISTERS \<Rightarrow> ('n, u32) apsm" where
  "status_reg bank r = vec_at bank (status_index r)"

definition get_firmware_version :: "'n net_ops \<Rightarrow> ('n, u32) apsm" where
  "get_firmware_version N =
     bindM (get_obj legacy_firmware) (\<lambda>legacy.
       if legacy
       then bindM (read_status_registers N) (\<lambda>bank. status_reg bank USER_FIRMWARE_VERSION)
       else read_memory1 N FIRMWARE_VERSION_ADDR)"

definition get_firmware_git_sha1 :: "'n net_ops \<Rightarrow> ('n, u32) apsm" where
  "get_firmware_git_sha1 N = read_memory1 N FIRMWARE_GIT_SHA1_ADDR"

definition get_firmware_build_timestamp :: "'n net_ops \<Rightarrow> ('n, u32) apsm" where
  "get_firmware_build_timestamp N = read_memory1 N FIRMWARE_BUILD_TIMESTAMP_ADDR"

text \<open>Seconds plus nanoseconds as a count of nanoseconds, converted to seconds in \<open>double\<close>.\<close>

definition uptime_seconds :: "u32 \<Rightarrow> u32 \<Rightarrow> f64" where
  "uptime_seconds sec nsec =
     f64_div (f64_of_int (uint sec * 1000000000 + uint nsec)) (f64_of_int 1000000000)"

definition get_uptime :: "'n net_ops \<Rightarrow> ('n, f64) apsm" where
  "get_uptime N =
     bindM (get_obj legacy_firmware) (\<lambda>legacy.
       if legacy
       then bindM (read_status_registers N) (\<lambda>bank.
            bindM (status_reg bank UPTIME_SECONDS) (\<lambda>sec.
            bindM (status_reg bank UPTIME_NANOSECONDS) (\<lambda>nsec.
            returnM (uptime_seconds sec nsec))))
       else bindM (read_memory N UPTIME_SECONDS_ADDR 2) (\<lambda>uptime_vec.
            bindM (vec_at uptime_vec 0) (\<lambda>sec.
            bindM (vec_at uptime_vec 1) (\<lambda>nsec.
            returnM (uptime_seconds sec nsec)))))"

definition fpga_celsius :: "u32 \<Rightarrow> f32" where
  "fpga_celsius temperature_reg =
     (let adc = f64_of_f32 (f32_of_int (uint (temperature_reg AND 0xfff)));
          temp = f32_of_f64 (f64_add (f64_div (f64_mul adc (f64_of_rat (503975 / 1000))) (f64_of_int 4096))
                   (f64_of_rat (- 27315 / 100)))
      in f32_div (f32_round (f32_mul (f32_of_int 10) temp)) (f32_of_int 10))"

definition get_fpga_temperature :: "'n net_ops \<Rightarrow> ('n, f32) apsm" where
  "get_fpga_temperature N =
     bindM (get_obj legacy_firmware) (\<lambda>legacy.
     bindM (if legacy
            then bindM (read_status_registers N) (\<lambda>bank. status_reg bank USER_STATUS)
            else read_memory1 N TEMPERATURE_ADDR) (\<lambda>temperature_reg.
     returnM (fpga_celsius temperature_reg)))"

section \<open>Connecting\<close>

definition aps2_connect :: "'n net_ops \<Rightarrow> ('n, unit) apsm" where
  "aps2_connect N =
     seqM (mod_obj (\<lambda>a. a\<lparr>ethernetRM := True\<rparr>))
     (bindM (get_obj connected) (\<lambda>already.
      whenM (\<not> already)
       (seqM (catch_all
                (seqM (bindM (get_obj ipAddr) (eth_connect N))
                      (mod_obj (\<lambda>a. a\<lparr>connected := True\<rparr>)))
                (seqM (mod_obj (\<lambda>a. a\<lparr>ethernetRM := False\<rparr>))
                      (throwM (Thrown APS2_FAILED_TO_CONNECT))))
       (bindM (read_status_registers N) (\<lambda>bank.
        bindM (status_reg bank USER_FIRMWARE_VERSION) (\<lambda>user.
        seqM (whenM (user \<noteq> 0xbadda555) (mod_obj (\<lambda>a. a\<lparr>legacy_firmware := True\<rparr>)))
        (bindM (status_reg bank HOST_FIRMWARE_VERSION) (\<lambda>host.
         mod_obj (\<lambda>a. a\<lparr>host_type := Some (if bit host APS2_HOST_TYPE_BIT then TDM else APS)\<rparr>)))))))))"

definition aps2_disconnect :: "'n net_ops \<Rightarrow> ('n, unit) apsm" where
  "aps2_disconnect N =
     bindM (get_obj connected) (\<lambda>c.
       whenM c
        (seqM need_rm
        (seqM (bindM (get_obj ipAddr) (eth_disconnect N))
              (mod_obj (\<lambda>a. a\<lparr>connected := False, ethernetRM := False\<rparr>)))))"

section \<open>Restarting the module\<close>

definition aps2_reset :: "'n net_ops \<Rightarrow> APS2_RESET_MODE \<Rightarrow> ('n, unit) apsm" where
  "aps2_reset N mode =
     (let cmd = APS2Command_init\<lparr>c_sel := True, c_cmd := command_code RESET\<rparr>;
          load = (\<lambda>addr. rm_send N [\<lparr>dg_cmd = cmd, dg_addr = addr, dg_payload = []\<rparr>])
      in case mode of
           RECONFIG_EPROM_USER \<Rightarrow> load EPROM_USER_IMAGE_ADDR
         | RECONFIG_EPROM_BASE \<Rightarrow> load EPROM_BASE_IMAGE_ADDR
         | _ \<Rightarrow> throwM (Thrown APS2_UNKNOWN_ERROR))"

definition program_bitfile :: "'n net_ops \<Rightarrow> u32 \<Rightarrow> ('n, unit) apsm" where
  "program_bitfile N addr =
     rm_send N [\<lparr>dg_cmd = APS2Command_init\<lparr>c_sel := True, c_cmd := command_code FPGACONFIG_CTRL\<rparr>,
       dg_addr = addr, dg_payload = []\<rparr>]"

definition run_chip_config :: "'n net_ops \<Rightarrow> u32 \<Rightarrow> ('n, unit) apsm" where
  "run_chip_config N addr =
     rm_send N [\<lparr>dg_cmd = APS2Command_init\<lparr>c_ack := True, c_cmd := command_code RUNCHIPCONFIG\<rparr>,
       dg_addr = addr, dg_payload = []\<rparr>]"

section \<open>Configuration SDRAM\<close>

text \<open>
  The loop that sends datagrams one at a time and records the share that is done; \<open>write_flash\<close>
  has the same loop.
\<close>

fun send_with_progress :: "'n net_ops \<Rightarrow> nat \<Rightarrow> nat \<Rightarrow> APS2Datagram list \<Rightarrow> ('n, unit) apsm" where
  "send_with_progress N tot ct [] = returnM ()"
| "send_with_progress N tot ct (dg # dgs) =
     seqM (rm_send N [dg])
     (seqM (set_progress (f64_div (f64_of_int (int (ct + 1))) (f64_of_int (int tot))))
           (send_with_progress N tot (ct + 1) dgs))"

definition write_configuration_SDRAM :: "'n net_ops \<Rightarrow> u32 \<Rightarrow> u32 list \<Rightarrow> ('n, unit) apsm" where
  "write_configuration_SDRAM N addr data =
     (if addr AND 0x7 \<noteq> 0 then throwM (Thrown APS2_UNALIGNED_MEMORY_ACCESS)
      else if length data mod 2 \<noteq> 0 then throwM (Thrown APS2_UNALIGNED_MEMORY_ACCESS)
      else bindM (chunked (APS2Command_init\<lparr>c_ack := True, c_sel := True,
                    c_cmd := command_code FPGACONFIG_ACK\<rparr>) addr data 0x100) (\<lambda>dgs.
           seqM (set_task WRITING)
           (seqM (set_progress (f64_of_int 0))
                 (send_with_progress N (length dgs) 0 dgs))))"

definition read_configuration_SDRAM :: "'n net_ops \<Rightarrow> u32 \<Rightarrow> u32 \<Rightarrow> ('n, u32 list) apsm" where
  "read_configuration_SDRAM N addr num_words =
     bindM (request N (APS2Command_init\<lparr>c_r_w := True, c_sel := True,
              c_cmd := command_code FPGACONFIG_ACK, c_cnt := ucast num_words\<rparr>) addr)
       (\<lambda>result. returnM (dg_payload result))"

end
