(* ===== verification/SPI.thy ===== *)
theory SPI
  imports APS2_Core "HOL-Library.Signed_Division"
begin

text \<open>
  The chips behind the SPI bus (\<open>APS2.cpp\<close>): the messages that configure them, reading and writing
  them, the clock distribution PLL and the sampling rate, the VCXO, and the alignment of the DACs.
\<close>

section \<open>Messages\<close>

definition DAC_SPI_words :: "u8 \<Rightarrow> SPI_AddrData list \<Rightarrow> u32 list" where
  "DAC_SPI_words target addrData =
     map (\<lambda>(a, d). cc_packed \<lparr>cc_instr = a, cc_spicnt_data = d, cc_target = target\<rparr>) addrData"

definition build_DAC_SPI_msg :: "CHIPCONFIG_IO_TARGET \<Rightarrow> SPI_AddrData list \<Rightarrow> exn + u32 list" where
  "build_DAC_SPI_msg target addrData =
     (case target of
        CHIPCONFIG_TARGET_DAC_0 \<Rightarrow> Inr (DAC_SPI_words CHIPCONFIG_IO_TARGET_DAC_0_SINGLE addrData)
      | CHIPCONFIG_TARGET_DAC_1 \<Rightarrow> Inr (DAC_SPI_words CHIPCONFIG_IO_TARGET_DAC_1_SINGLE addrData)
      | _ \<Rightarrow> Inl RuntimeError)"

definition build_PLL_SPI_msg :: "SPI_AddrData list \<Rightarrow> u32 list" where
  "build_PLL_SPI_msg addrData =
     map (\<lambda>(a, d). cc_packed \<lparr>cc_instr = a, cc_spicnt_data = d,
        cc_target = CHIPCONFIG_IO_TARGET_PLL_SINGLE\<rparr>) addrData"

definition build_VCXO_SPI_msg :: "u8 list \<Rightarrow> exn + u32 list" where
  "build_VCXO_SPI_msg data =
     (if length data mod 4 \<noteq> 0 then Inl RuntimeError
      else Inr (concat (map (\<lambda>w. [cc_packed (cc_init\<lparr>cc_target := CHIPCONFIG_IO_TARGET_VCXO\<rparr>), w])
        (decode_all 4 of_be32 data))))"

section \<open>Writing and reading\<close>

text \<open>\<open>write_SPI\<close> appends the end-of-message word to its argument; no caller uses it afterwards.\<close>

definition spi_eol :: u32 where
  "spi_eol = cc_packed (cc_init\<lparr>cc_target := CHIPCONFIG_IO_TARGET_EOL\<rparr>)"

definition write_SPI :: "'n net_ops \<Rightarrow> u32 list \<Rightarrow> ('n, unit) apsm" where
  "write_SPI N msg =
     bindM (chunked (APS2Command_init\<lparr>c_ack := True, c_sel := True,
              c_cmd := command_code CHIPCONFIGIO\<rparr>) 0 (msg @ [spi_eol]) 0x100) (rm_send N)"

text \<open>The instruction that reads one byte of a register of the target; \<open>None\<close> for other targets.\<close>

definition spi_read_instr :: "CHIPCONFIG_IO_TARGET \<Rightarrow> u16 \<Rightarrow> APSChipConfigCommand option" where
  "spi_read_instr target addr =
     (let dac = ucast (dac_packed \<lparr>dac_addr = ucast addr, dac_N = 0, dac_r_w = True\<rparr>);
          pll = pll_packed \<lparr>pll_addr = ucast addr, pll_W = 0, pll_r_w = True\<rparr>
      in case target of
           CHIPCONFIG_TARGET_DAC_0 \<Rightarrow>
             Some \<lparr>cc_instr = dac, cc_spicnt_data = 1, cc_target = CHIPCONFIG_IO_TARGET_DAC_0\<rparr>
         | CHIPCONFIG_TARGET_DAC_1 \<Rightarrow>
             Some \<lparr>cc_instr = dac, cc_spicnt_data = 1, cc_target = CHIPCONFIG_IO_TARGET_DAC_1\<rparr>
         | CHIPCONFIG_TARGET_PLL \<Rightarrow>
             Some \<lparr>cc_instr = pll, cc_spicnt_data = 1, cc_target = CHIPCONFIG_IO_TARGET_PLL\<rparr>
         | _ \<Rightarrow> None)"

definition read_SPI :: "'n net_ops \<Rightarrow> CHIPCONFIG_IO_TARGET \<Rightarrow> u16 \<Rightarrow> ('n, u32) apsm" where
  "read_SPI N target addr =
     (case spi_read_instr target addr of
        None \<Rightarrow> returnM 0
      | Some cmd \<Rightarrow>
          seqM (write_SPI N (replicate 4 (cc_packed cmd)))
          (bindM (request N (APS2Command_init\<lparr>c_r_w := True, c_sel := True,
                    c_cmd := command_code CHIPCONFIGIO, c_cnt := 1\<rparr>) 0) (\<lambda>result.
           if c_mode_stat (dg_cmd result) \<noteq> 0x00 then throwM (Thrown APS2_COMMS_ERROR)
           else bindM (vec_at (dg_payload result) 0) (\<lambda>w. returnM (drop_bit 24 w)))))"

text \<open>The result stored into a \<open>uint8_t\<close>.\<close>

definition read_SPI8 :: "'n net_ops \<Rightarrow> CHIPCONFIG_IO_TARGET \<Rightarrow> u16 \<Rightarrow> ('n, u8) apsm" where
  "read_SPI8 N target addr = bindM (read_SPI N target addr) (\<lambda>w. returnM (ucast w))"

definition write_DAC_reg :: "'n net_ops \<Rightarrow> CHIPCONFIG_IO_TARGET \<Rightarrow> u16 \<Rightarrow> u8 \<Rightarrow> ('n, unit) apsm" where
  "write_DAC_reg N target addr data =
     bindM (liftE (build_DAC_SPI_msg target [(addr, data)])) (write_SPI N)"

section \<open>PLL and VCXO\<close>

definition setup_PLL :: "'n net_ops \<Rightarrow> ('n, int) apsm" where
  "setup_PLL N =
     seqM (write_SPI N (build_PLL_SPI_msg PLL_INIT))
     (seqM (mod_obj (\<lambda>a. a\<lparr>samplingRate := 1200\<rparr>)) (returnM 0))"

text \<open>The divider setting for a frequency in MHz; \<open>None\<close> is the \<open>default\<close> branch.\<close>

definition pllCyclesVal :: "int \<Rightarrow> u8 option" where
  "pllCyclesVal freq =
     (if freq = 200 then Some 0x22 else if freq = 300 then Some 0x11
      else if freq = 600 then Some 0x00 else if freq = 1200 then Some 0x00 else None)"

definition pllBypassVal :: "int \<Rightarrow> u8" where
  "pllBypassVal freq = (if freq = 1200 then 0x80 else 0x00)"

definition set_PLL_freq :: "'n net_ops \<Rightarrow> int \<Rightarrow> ('n, int) apsm" where
  "set_PLL_freq N freq =
     (case pllCyclesVal freq of
        None \<Rightarrow> returnM (- 2)
      | Some cycles \<Rightarrow>
          seqM (write_SPI N (build_PLL_SPI_msg
                  [(0x190, cycles), (0x191, pllBypassVal freq), (0x232, 0x1)]))
               (returnM 0))"

text \<open>The reverse table of \<open>get_PLL_freq\<close>, with two settings \<open>set_PLL_freq\<close> does not make.\<close>

definition pll_decode :: "u32 \<Rightarrow> u32 \<Rightarrow> exn + int" where
  "pll_decode cycles bypass =
     (if bypass AND 0x80 = 0x80 \<and> cycles = 0x00 then Inr 1200
      else if cycles = 0xEE then Inr 40
      else if cycles = 0xBB then Inr 50
      else if cycles = 0x55 then Inr 100
      else if cycles = 0x22 then Inr 200
      else if cycles = 0x11 then Inr 300
      else if cycles = 0x00 then Inr 600
      else Inl (Thrown APS2_BAD_PLL_VALUE))"

definition get_PLL_freq :: "'n net_ops \<Rightarrow> ('n, int) apsm" where
  "get_PLL_freq N =
     bindM (read_SPI N CHIPCONFIG_TARGET_PLL 0x190) (\<lambda>cycles.
     bindM (read_SPI N CHIPCONFIG_TARGET_PLL 0x191) (\<lambda>bypass.
     liftE (pll_decode cycles bypass)))"

definition set_sampleRate :: "'n net_ops \<Rightarrow> u32 \<Rightarrow> ('n, unit) apsm" where
  "set_sampleRate N freq =
     bindM (get_obj samplingRate) (\<lambda>rate.
       whenM (rate \<noteq> freq)
         (bindM (set_PLL_freq N (sint freq)) (\<lambda>_.
          mod_obj (\<lambda>a. a\<lparr>samplingRate := freq\<rparr>))))"

definition get_sampleRate :: "'n net_ops \<Rightarrow> ('n, u32) apsm" where
  "get_sampleRate N =
     bindM (get_PLL_freq N) (\<lambda>f.
     seqM (mod_obj (\<lambda>a. a\<lparr>samplingRate := word_of_int f\<rparr>)) (get_obj samplingRate))"

definition clock_lock_bits :: "nat list" where
  "clock_lock_bits = [MMCM_SYS_LOCK_BIT, MMCM_CFG_LOCK_BIT, MIG_C0_LOCK_BIT, MIG_C0_CAL_BIT,
     MIG_C1_LOCK_BIT, MIG_C1_CAL_BIT]"

definition check_clocks_status :: "'n net_ops \<Rightarrow> ('n, unit) apsm" where
  "check_clocks_status N =
     bindM (read_status_registers N) (\<lambda>bank.
     bindM (status_reg bank PLL_STATUS) (\<lambda>pll.
     if pll AND 0x3 \<noteq> 0x3 then throwM (Thrown APS2_PLL_LOST_LOCK)
     else bindM (get_obj legacy_firmware) (\<lambda>legacy.
          bindM (if legacy then status_reg bank USER_STATUS else read_memory1 N PLL_STATUS_ADDR)
            (\<lambda>pll_status.
             if \<forall>b \<in> set clock_lock_bits. bit pll_status b then returnM ()
             else throwM (Thrown APS2_MMCM_LOST_LOCK)))))"

definition setup_VCXO :: "'n net_ops \<Rightarrow> ('n, unit) apsm" where
  "setup_VCXO N = bindM (liftE (build_VCXO_SPI_msg VCXO_INIT)) (write_SPI N)"

section \<open>DACs\<close>

definition check_channel_num :: "int \<Rightarrow> ('n, unit) apsm" where
  "check_channel_num chan =
     (if chan < 0 \<or> chan \<ge> NUM_ANALOG_CHANNELS then throwM (Thrown APS2_INVALID_DAC) else returnM ())"

text \<open>Indexing a vector of two elements with a DAC number.\<close>

definition pick :: "int \<Rightarrow> 'x \<Rightarrow> 'x \<Rightarrow> ('n, 'x) apsm" where
  "pick dac x y = (if dac = 0 then returnM x else if dac = 1 then returnM y else throwM Undefined)"

definition dac_target :: "int \<Rightarrow> ('n, CHIPCONFIG_IO_TARGET) apsm" where
  "dac_target dac = pick dac CHIPCONFIG_TARGET_DAC_0 CHIPCONFIG_TARGET_DAC_1"

definition write_DAC_clock :: "'n net_ops \<Rightarrow> int \<Rightarrow> u8 \<Rightarrow> ('n, unit) apsm" where
  "write_DAC_clock N dac v =
     bindM (pick dac 0xF0 0xF1) (\<lambda>a. write_SPI N (build_PLL_SPI_msg [(a, v), (0x232, 0x1)]))"

definition enable_DAC_clock :: "'n net_ops \<Rightarrow> int \<Rightarrow> ('n, unit) apsm" where
  "enable_DAC_clock N dac = seqM (check_channel_num dac) (write_DAC_clock N dac 0x00)"

definition disable_DAC_clock :: "'n net_ops \<Rightarrow> int \<Rightarrow> ('n, unit) apsm" where
  "disable_DAC_clock N dac = seqM (check_channel_num dac) (write_DAC_clock N dac 0x02)"

definition toggle_DAC_clock :: "'n net_ops \<Rightarrow> int \<Rightarrow> ('n, unit) apsm" where
  "toggle_DAC_clock N dac = seqM (disable_DAC_clock N dac) (enable_DAC_clock N dac)"

definition phase_below_half :: "u32 \<Rightarrow> bool" where
  "phase_below_half w =
     f64_less (f64_div (f64_of_int (uint (w AND 0xffff))) (f64_of_int 0xffff)) (f64_of_rat (1 / 2))"

fun align_DAC_clock_loop :: "'n net_ops \<Rightarrow> int \<Rightarrow> nat \<Rightarrow> ('n, unit) apsm" where
  "align_DAC_clock_loop N dac 0 = returnM ()"
| "align_DAC_clock_loop N dac (Suc tries) =
     bindM (pick dac PHASE_COUNT_A_ADDR PHASE_COUNT_B_ADDR) (\<lambda>a.
     bindM (read_memory1 N a) (\<lambda>w.
     if phase_below_half w then returnM ()
     else seqM (toggle_DAC_clock N dac)
          (seqM (bindM (sleep_ms N 1) (\<lambda>_. returnM ()))
                (align_DAC_clock_loop N dac tries))))"

definition align_DAC_clock :: "'n net_ops \<Rightarrow> int \<Rightarrow> ('n, unit) apsm" where
  "align_DAC_clock N dac =
     seqM (check_channel_num dac) (align_DAC_clock_loop N dac MAX_DAC_CLOCK_PHASE_TEST_TRIES)"

definition disable_DAC_FIFO :: "'n net_ops \<Rightarrow> int \<Rightarrow> ('n, unit) apsm" where
  "disable_DAC_FIFO N dac =
     bindM (dac_target dac) (\<lambda>target.
     bindM (read_SPI8 N target (ucast DAC_SYNC_ADDR)) (\<lambda>data.
     write_DAC_reg N target (ucast DAC_SYNC_ADDR) (data AND NOT 0x4)))"

definition DAC_FIFO_phase :: "u32 \<Rightarrow> u8" where
  "DAC_FIFO_phase data = ucast (drop_bit 4 (data AND 0x70))"

definition get_DAC_FIFO_phase :: "'n net_ops \<Rightarrow> int \<Rightarrow> ('n, u8) apsm" where
  "get_DAC_FIFO_phase N dac =
     seqM (check_channel_num dac)
     (bindM (dac_target dac) (\<lambda>target.
      bindM (read_SPI N target (ucast DAC_FIFOSTAT_ADDR)) (\<lambda>data. returnM (DAC_FIFO_phase data))))"

text \<open>\<open>mymod\<close> of \<open>helpers.h\<close> on top of the truncating \<open>%\<close>.\<close>

definition mymod :: "int \<Rightarrow> int \<Rightarrow> int" where
  "mymod a b = (let c = a smod b in if c < 0 then c + b else c)"

definition FIFO_offset :: "u8 \<Rightarrow> int" where
  "FIFO_offset phase = mymod (((uint phase + 1) div 2) mod 4 - 2) 4"

definition enable_DAC_FIFO :: "'n net_ops \<Rightarrow> int \<Rightarrow> ('n, unit) apsm" where
  "enable_DAC_FIFO N dac =
     (if dac < 0 \<or> dac \<ge> NUM_ANALOG_CHANNELS then throwM (Thrown APS2_INVALID_DAC)
      else bindM (dac_target dac) (\<lambda>target.
           bindM (read_SPI8 N target (ucast DAC_SYNC_ADDR)) (\<lambda>data.
           seqM (write_DAC_reg N target (ucast DAC_SYNC_ADDR) (data OR 0x4))
           (seqM (write_DAC_reg N target (ucast DAC_FIFOSTAT_ADDR) 0)
           (bindM (get_DAC_FIFO_phase N dac) (\<lambda>phase.
            seqM (write_DAC_reg N target (ucast DAC_FIFOSTAT_ADDR) (word_of_int (FIFO_offset phase)))
                 (bindM (get_DAC_FIFO_phase N dac) (\<lambda>_. returnM ()))))))))"

definition set_DAC_SD :: "'n net_ops \<Rightarrow> int \<Rightarrow> u8 \<Rightarrow> ('n, unit) apsm" where
  "set_DAC_SD N dac sd =
     bindM (dac_target dac) (\<lambda>target.
       write_DAC_reg N target (ucast DAC_SD_ADDR) (push_bit 4 (sd AND 0xf)))"

text \<open>
  The two edge searches of \<open>align_DAC_LVDS_capture\<close>: write the delay, read the check bit back, stop
  at the first delay where it is clear; 16 when it never is.
\<close>

fun find_edge :: "'n net_ops \<Rightarrow> CHIPCONFIG_IO_TARGET \<Rightarrow> (u8 \<Rightarrow> u8) \<Rightarrow> u8 list \<Rightarrow> ('n, u8) apsm" where
  "find_edge N target reg [] = returnM 16"
| "find_edge N target reg (k # ks) =
     seqM (write_DAC_reg N target (ucast DAC_MSDMHD_ADDR) (reg k))
     (bindM (read_SPI8 N target (ucast DAC_SD_ADDR)) (\<lambda>data.
      if \<not> bit data 0 then returnM k else find_edge N target reg ks))"

definition delays :: "u8 list" where
  "delays = map of_nat [0..<16]"

definition optimal_SD :: "u8 \<Rightarrow> u8 \<Rightarrow> u8" where
  "optimal_SD edgeMSD edgeMHD = word_of_int ((uint edgeMHD - uint edgeMSD) sdiv 2)"

definition align_DAC_LVDS_capture :: "'n net_ops \<Rightarrow> int \<Rightarrow> ('n, unit) apsm" where
  "align_DAC_LVDS_capture N dac =
     seqM (check_channel_num dac)
     (bindM (dac_target dac) (\<lambda>target.
      bindM (read_SPI8 N target (ucast DAC_CONTROLLERCLOCK_ADDR)) (\<lambda>_.
      seqM (write_DAC_reg N target (ucast DAC_CONTROLLERCLOCK_ADDR) 5)
      (seqM (disable_DAC_FIFO N dac)
      (bindM (read_SPI8 N target (ucast DAC_INTERRUPT_ADDR)) (\<lambda>_.
       bindM (read_SPI8 N target (ucast DAC_MSDMHD_ADDR)) (\<lambda>_.
       bindM (read_SPI8 N target (ucast DAC_SD_ADDR)) (\<lambda>_.
       bindM (read_SPI8 N target (ucast DAC_CONTROLLER_ADDR)) (\<lambda>_.
       seqM (write_DAC_reg N target (ucast DAC_CONTROLLER_ADDR) 0)
       (seqM (set_DAC_SD N dac 0)
       (bindM (find_edge N target (\<lambda>MSD. push_bit 4 MSD OR 0) delays) (\<lambda>edgeMSD.
        bindM (find_edge N target (\<lambda>MHD. push_bit 4 0 OR MHD) delays) (\<lambda>edgeMHD.
        seqM (write_DAC_reg N target (ucast DAC_MSDMHD_ADDR) 0)
             (set_DAC_SD N dac (optimal_SD edgeMSD edgeMHD)))))))))))))))"

definition setup_DACs :: "'n net_ops \<Rightarrow> ('n, unit) apsm" where
  "setup_DACs N =
     seqM (align_DAC_clock N 0)
     (seqM (align_DAC_clock N 1)
     (seqM (align_DAC_LVDS_capture N 0)
           (align_DAC_LVDS_capture N 1)))"

end
