(* ===== verification/Flash.thy ===== *)
theory Flash
  imports SPI
begin

text \<open>
  The configuration EPROM (\<open>APS2.cpp\<close>): erasing, writing and reading it, the MAC, IP and DHCP
  settings and the SPI start-up sequence kept there, and writing and validating a bitfile.
\<close>

section \<open>Erasing\<close>

definition flash_erase_cmd :: APS2Command where
  "flash_erase_cmd = APS2Command_init\<lparr>c_ack := True, c_sel := True, c_cmd := command_code EPROMIO,
     c_mode_stat := EPROM_ERASE\<rparr>"

text \<open>
  One page: the \<open>while (tryct < 5)\<close> loop. The \<open>break\<close> after the handlers ends the loop in its first
  turn whatever happened, so the result is the value of \<open>tryct\<close> after that turn.
\<close>

definition erase_page :: "'n net_ops \<Rightarrow> u32 \<Rightarrow> nat \<Rightarrow> ('n, nat) apsm" where
  "erase_page N addr tryct =
     (if tryct < 5
      then handleM (seqM (rm_send N [\<lparr>dg_cmd = flash_erase_cmd, dg_addr = addr, dg_payload = []\<rparr>])
                         (returnM tryct))
             (\<lambda>e. case e of
                Thrown status \<Rightarrow> if status = APS2_RECEIVE_TIMEOUT then returnM (tryct + 1) else throwM e
              | _ \<Rightarrow> if catchable e then throwM (Thrown APS2_UNKNOWN_ERROR) else throwM e)
      else returnM tryct)"

text \<open>
  The \<open>do ... while\<close> over the pages. There are 65536 page addresses; a loop that has gone through
  all of them comes back to the first and does not end.
\<close>

fun erase_loop :: "'n net_ops \<Rightarrow> nat \<Rightarrow> u32 \<Rightarrow> u32 \<Rightarrow> u32 \<Rightarrow> u32 \<Rightarrow> ('n, unit) apsm" where
  "erase_loop N 0 start_addr num_bytes end_addr addr = throwM Diverges"
| "erase_loop N (Suc fuel) start_addr num_bytes end_addr addr =
     bindM (erase_page N addr 0) (\<lambda>tryct.
     if tryct = 5 then throwM (Thrown APS2_RECEIVE_TIMEOUT)
     else (let addr' = addr + 0x10000 in
       seqM (set_progress (f64_div (f64_of_int (uint (addr' - start_addr))) (f64_of_int (uint num_bytes))))
         (if addr' < end_addr then erase_loop N fuel start_addr num_bytes end_addr addr'
          else returnM ())))"

definition erase_flash :: "'n net_ops \<Rightarrow> u32 \<Rightarrow> u32 \<Rightarrow> ('n, unit) apsm" where
  "erase_flash N start_addr num_bytes =
     seqM (set_task ERASING)
     (seqM (set_progress (f64_of_int 0))
       (if start_addr mod 0x10000 \<noteq> 0 then throwM (Thrown APS2_UNALIGNED_MEMORY_ACCESS)
        else erase_loop N 65536 start_addr num_bytes (start_addr + num_bytes) start_addr))"

section \<open>Writing and reading\<close>

text \<open>The data padded to 256 bytes: \<open>write_flash\<close> resizes its argument, which the caller sees.\<close>

definition pad64 :: "u32 list \<Rightarrow> u32 list" where
  "pad64 data = data @ replicate ((64 - length data mod 64) mod 64) 0xffffffff"

definition write_flash :: "'n net_ops \<Rightarrow> u32 \<Rightarrow> u32 list \<Rightarrow> ('n, u32 list) apsm" where
  "write_flash N addr data =
     (if addr AND 0xff \<noteq> 0 then throwM (Thrown APS2_UNALIGNED_MEMORY_ACCESS)
      else let data' = pad64 data in
        seqM (erase_flash N addr (of_nat (4 * length data')))
        (bindM (chunked (APS2Command_init\<lparr>c_ack := True, c_sel := True,
                  c_cmd := command_code EPROMIO, c_mode_stat := EPROM_RW\<rparr>) addr data' 0x0100) (\<lambda>dgs.
         seqM (set_task WRITING)
         (seqM (set_progress (f64_of_int 0))
         (seqM (send_with_progress N (length dgs) 0 dgs)
               (returnM data'))))))"

definition read_flash :: "'n net_ops \<Rightarrow> u32 \<Rightarrow> u32 \<Rightarrow> ('n, u32 list) apsm" where
  "read_flash N addr num_words =
     bindM (request N (APS2Command_init\<lparr>c_r_w := True, c_sel := True, c_cmd := command_code EPROMIO,
              c_cnt := ucast num_words\<rparr>) addr)
       (\<lambda>result. returnM (dg_payload result))"

section \<open>MAC, IP and DHCP settings\<close>

definition macip_words :: "u64 \<Rightarrow> u32 \<Rightarrow> bool \<Rightarrow> u32 list" where
  "macip_words mac ip dhcp =
     [ucast (drop_bit 16 mac), push_bit 16 (ucast (mac AND 0xffff)), ip, if dhcp then 1 else 0]"

definition mac_of_words :: "u32 \<Rightarrow> u32 \<Rightarrow> u64" where
  "mac_of_words w0 w1 = push_bit 16 (ucast w0) OR ucast (drop_bit 16 w1)"

definition get_mac_addr :: "'n net_ops \<Rightarrow> ('n, u64) apsm" where
  "get_mac_addr N =
     bindM (read_flash N EPROM_MACIP_ADDR 2) (\<lambda>data.
     bindM (vec_at data 0) (\<lambda>w0. bindM (vec_at data 1) (\<lambda>w1. returnM (mac_of_words w0 w1))))"

definition get_ip_addr :: "'n net_ops \<Rightarrow> ('n, u32) apsm" where
  "get_ip_addr N =
     bindM (read_flash N (EPROM_MACIP_ADDR + EPROM_IP_OFFSET) 1) (\<lambda>data. vec_at data 0)"

definition get_dhcp_enable :: "'n net_ops \<Rightarrow> ('n, bool) apsm" where
  "get_dhcp_enable N =
     bindM (read_flash N (EPROM_MACIP_ADDR + EPROM_DHCP_OFFSET) 1) (\<lambda>data.
     bindM (vec_at data 0) (\<lambda>w. returnM (w AND 0x1 = 0x1)))"

definition write_macip_flash :: "'n net_ops \<Rightarrow> u64 \<Rightarrow> u32 \<Rightarrow> bool \<Rightarrow> ('n, unit) apsm" where
  "write_macip_flash N mac ip dhcp =
     seqM (write_flash N EPROM_MACIP_ADDR (macip_words mac ip dhcp))
     (bindM (get_mac_addr N) (\<lambda>mac'.
      if mac' \<noteq> mac then throwM (Thrown APS2_MAC_ADDR_VALIDATION_FAILURE)
      else bindM (get_ip_addr N) (\<lambda>ip'.
           if ip' \<noteq> ip then throwM (Thrown APS2_IP_ADDR_VALIDATION_FAILURE)
           else bindM (get_dhcp_enable N) (\<lambda>dhcp'.
                if dhcp' \<noteq> dhcp then throwM (Thrown APS2_DHCP_VALIDATION_FAILURE)
                else returnM ()))))"

definition set_mac_addr :: "'n net_ops \<Rightarrow> u64 \<Rightarrow> ('n, unit) apsm" where
  "set_mac_addr N mac =
     bindM (get_ip_addr N) (\<lambda>ip. bindM (get_dhcp_enable N) (\<lambda>dhcp. write_macip_flash N mac ip dhcp))"

definition set_ip_addr :: "'n net_ops \<Rightarrow> u32 \<Rightarrow> ('n, unit) apsm" where
  "set_ip_addr N ip =
     bindM (get_mac_addr N) (\<lambda>mac. bindM (get_dhcp_enable N) (\<lambda>dhcp. write_macip_flash N mac ip dhcp))"

definition set_dhcp_enable :: "'n net_ops \<Rightarrow> bool \<Rightarrow> ('n, unit) apsm" where
  "set_dhcp_enable N dhcp =
     bindM (get_mac_addr N) (\<lambda>mac. bindM (get_ip_addr N) (\<lambda>ip. write_macip_flash N mac ip dhcp))"

section \<open>SPI start-up sequence\<close>

definition write_SPI_setup :: "'n net_ops \<Rightarrow> ('n, unit) apsm" where
  "write_SPI_setup N =
     bindM (liftE (build_VCXO_SPI_msg VCXO_INIT)) (\<lambda>msg.
     bindM (write_flash N 0x0 (msg @ build_PLL_SPI_msg PLL_INIT @ [0x00000800, spi_eol]))
       (\<lambda>_. returnM ()))"

section \<open>Bitfiles\<close>

text \<open>
  The words of a file: padded with 0xff to the medium's alignment and taken in the order of the
  bytes in the file (\<open>htonl\<close> of the words read on a little-endian host).
\<close>

fun media_alignment :: "APS2_BITFILE_STORAGE_MEDIA \<Rightarrow> nat" where
  "media_alignment BITFILE_MEDIA_DRAM = 8"
| "media_alignment BITFILE_MEDIA_EPROM = 256"

definition bitfile_words :: "nat \<Rightarrow> u8 list \<Rightarrow> u32 list" where
  "bitfile_words alignment bytes =
     decode_all 4 of_be32
       (bytes @ replicate ((alignment - length bytes mod alignment) mod alignment) 0xff)"

fun read_media :: "'n net_ops \<Rightarrow> APS2_BITFILE_STORAGE_MEDIA \<Rightarrow> u32 \<Rightarrow> u32 \<Rightarrow> ('n, u32 list) apsm" where
  "read_media N BITFILE_MEDIA_DRAM addr n = read_configuration_SDRAM N addr n"
| "read_media N BITFILE_MEDIA_EPROM addr n = read_flash N addr n"

fun write_media :: "'n net_ops \<Rightarrow> APS2_BITFILE_STORAGE_MEDIA \<Rightarrow> u32 \<Rightarrow> u32 list \<Rightarrow> ('n, u32 list) apsm" where
  "write_media N BITFILE_MEDIA_DRAM addr ws = seqM (write_configuration_SDRAM N addr ws) (returnM ws)"
| "write_media N BITFILE_MEDIA_EPROM addr ws = write_flash N addr ws"

text \<open>The comparison loop: word \<open>ct\<close> of what was read with word \<open>base + ct\<close> of the file.\<close>

fun check_words :: "u32 list \<Rightarrow> u32 list \<Rightarrow> nat \<Rightarrow> nat \<Rightarrow> nat \<Rightarrow> exn + unit" where
  "check_words check_vec ws base ct 0 = Inr ()"
| "check_words check_vec ws base ct (Suc n) =
     (if length check_vec \<le> ct \<or> length ws \<le> base + ct then Inl Undefined
      else if check_vec ! ct \<noteq> ws ! (base + ct) then Inl (Thrown APS2_BITFILE_VALIDATION_FAILURE)
      else check_words check_vec ws base (ct + 1) n)"

text \<open>
  The \<open>do ... while\<close> that reads the medium back, 256 words at a time. A turn that is not the last
  checks at least one word, so one more turn than there are words is enough.
\<close>

fun validate_loop :: "'n net_ops \<Rightarrow> APS2_BITFILE_STORAGE_MEDIA \<Rightarrow> u32 \<Rightarrow> u32 \<Rightarrow> u32 list \<Rightarrow> nat \<Rightarrow> u32
    \<Rightarrow> ('n, unit) apsm" where
  "validate_loop N media start_addr end_addr ws 0 addr = throwM Diverges"
| "validate_loop N media start_addr end_addr ws (Suc fuel) addr =
     (let read_length = (if end_addr - addr \<ge> 0x400 then 256 else unat ((end_addr - addr) div 4)) in
      bindM (read_media N media addr (of_nat read_length)) (\<lambda>check_vec.
      seqM (liftE (check_words check_vec ws (unat (addr - start_addr) div 4) 0 read_length))
      (let addr' = addr + 4 * of_nat read_length in
       seqM (set_progress (f64_div (f64_of_int (uint (addr' - start_addr)))
               (f64_of_int (uint (end_addr - start_addr)))))
         (if addr' < end_addr then validate_loop N media start_addr end_addr ws fuel addr'
          else returnM ()))))"

definition write_bitfile :: "'n net_ops \<Rightarrow> u8 list option \<Rightarrow> u32 \<Rightarrow> APS2_BITFILE_STORAGE_MEDIA
    \<Rightarrow> ('n, unit) apsm" where
  "write_bitfile N file start_addr media =
     (case file of
        None \<Rightarrow> throwM (Thrown APS2_NO_SUCH_BITFILE)
      | Some bytes \<Rightarrow>
          bindM (write_media N media start_addr (bitfile_words (media_alignment media) bytes)) (\<lambda>ws.
          seqM (set_task VALIDATING)
          (seqM (set_progress (f64_of_int 0))
            (validate_loop N media start_addr (start_addr + 4 * of_nat (length ws)) ws
               (length ws + 1) start_addr))))"

end
