(* ===== verification/Control.thy ===== *)
theory Control
  imports Flash
begin

text \<open>
  The control registers (\<open>APS2.cpp\<close>): per-channel enable, bitslip, offset and scale, the mixer
  correction, the trigger, starting and stopping, and the waveform frequency. \<open>tan\<close> and \<open>cos\<close> of
  the mathematical library are parameters.
\<close>

section \<open>Channels\<close>

text \<open>\<open>channels_[dac]\<close>\<close>

definition channel_at :: "int \<Rightarrow> ('n, Channel) apsm" where
  "channel_at dac =
     bindM (get_obj channels) (\<lambda>chs.
       if dac < 0 then throwM Undefined else vec_at chs (nat dac))"

definition put_channel :: "int \<Rightarrow> Channel \<Rightarrow> ('n, unit) apsm" where
  "put_channel dac ch = mod_obj (\<lambda>a. a\<lparr>channels := (channels a)[nat dac := ch]\<rparr>)"

definition clear_channel_data :: "('n, unit) apsm" where
  "clear_channel_data = mod_obj (\<lambda>a. a\<lparr>channels := map clear_data (channels a)\<rparr>)"

definition set_channel_enabled :: "int \<Rightarrow> bool \<Rightarrow> ('n, unit) apsm" where
  "set_channel_enabled dac enable =
     seqM (check_channel_num dac)
     (bindM (channel_at dac) (\<lambda>ch. put_channel dac (ch_set_enabled enable ch)))"

definition get_channel_enabled :: "int \<Rightarrow> ('n, bool) apsm" where
  "get_channel_enabled dac =
     seqM (check_channel_num dac) (bindM (channel_at dac) (\<lambda>ch. returnM (ch_get_enabled ch)))"

definition bitslip_addr :: "int \<Rightarrow> u32" where
  "bitslip_addr dac = (if dac = 0 then BITSLIP_A_ADDR else BITSLIP_B_ADDR)"

definition set_channel_bitslip :: "'n net_ops \<Rightarrow> int \<Rightarrow> u32 \<Rightarrow> ('n, unit) apsm" where
  "set_channel_bitslip N dac slip =
     seqM (check_channel_num dac) (write_memory1 N (bitslip_addr dac) (slip AND 0x3))"

definition get_channel_bitslip :: "'n net_ops \<Rightarrow> int \<Rightarrow> ('n, u32) apsm" where
  "get_channel_bitslip N dac =
     seqM (check_channel_num dac)
     (bindM (read_memory1 N (bitslip_addr dac)) (\<lambda>w. returnM (w AND 0x3)))"

text \<open>The offset register holds channel 0 in its upper half and channel 1 in its lower half.\<close>

definition offset_register :: "int \<Rightarrow> i16 \<Rightarrow> u32 \<Rightarrow> u32" where
  "offset_register dac offset_fixed val =
     (if dac = 0 then push_bit 16 (scast offset_fixed) OR (val AND 0xffff)
      else (val AND 0xffff0000) OR (scast offset_fixed AND 0xffff))"

definition offset_of_register :: "int \<Rightarrow> u32 \<Rightarrow> i16" where
  "offset_of_register dac val = ucast ((if dac = 0 then drop_bit 16 val else val) AND 0xffff)"

definition set_channel_offset :: "'n net_ops \<Rightarrow> int \<Rightarrow> f32 \<Rightarrow> ('n, unit) apsm" where
  "set_channel_offset N dac offset =
     seqM (check_channel_num dac)
     (case to_int16 (f32_dec (f32_mul offset (f32_of_int MAX_WF_AMP))) of
        None \<Rightarrow> throwM Undefined
      | Some k \<Rightarrow>
          bindM (read_memory1 N CHANNEL_OFFSET_ADDR) (\<lambda>val.
            write_memory1 N CHANNEL_OFFSET_ADDR (offset_register dac (word_of_int k) val)))"

definition get_channel_offset :: "'n net_ops \<Rightarrow> int \<Rightarrow> ('n, f32) apsm" where
  "get_channel_offset N dac =
     seqM (check_channel_num dac)
     (bindM (read_memory1 N CHANNEL_OFFSET_ADDR) (\<lambda>val.
      returnM (scaled_float (offset_of_register dac val))))"

section \<open>Mixer correction\<close>

text \<open>Conversion to Q2.13 as \<open>int32_t\<close>, and two entries packed into a register.\<close>

definition fixed32 :: "f32 \<Rightarrow> exn + i32" where
  "fixed32 x = (case to_int32 (f32_dec x) of None \<Rightarrow> Inl Undefined | Some k \<Rightarrow> Inr (word_of_int k))"

definition pack_row :: "i32 \<Rightarrow> i32 \<Rightarrow> u32" where
  "pack_row a b = push_bit 16 a OR (b AND 0xffff)"

definition unpack_entry :: "u32 \<Rightarrow> f32" where
  "unpack_entry w = f32_div (f32_of_int (sint (ucast w :: i16))) (f32_of_int CORRECTION_MATRIX_SCALING)"

definition scaling :: f32 where "scaling = f32_of_int CORRECTION_MATRIX_SCALING"

definition write_rows :: "'n net_ops \<Rightarrow> i32 \<Rightarrow> i32 \<Rightarrow> i32 \<Rightarrow> i32 \<Rightarrow> ('n, unit) apsm" where
  "write_rows N m00 m01 m10 m11 =
     seqM (write_memory1 N CORRECTION_MATRIX_ROW0_ADDR (pack_row m00 m01))
          (write_memory1 N CORRECTION_MATRIX_ROW1_ADDR (pack_row m10 m11))"

definition set_mixer_correction_matrix :: "'n net_ops \<Rightarrow> f32 list \<Rightarrow> ('n, unit) apsm" where
  "set_mixer_correction_matrix N mat =
     bindM (mapM (\<lambda>v. liftE (fixed32 (f32_mul scaling v))) mat) (\<lambda>m.
     bindM (vec_at m 0) (\<lambda>m0. bindM (vec_at m 1) (\<lambda>m1.
     seqM (write_memory1 N CORRECTION_MATRIX_ROW0_ADDR (pack_row m0 m1))
     (bindM (vec_at m 2) (\<lambda>m2. bindM (vec_at m 3) (\<lambda>m3.
      write_memory1 N CORRECTION_MATRIX_ROW1_ADDR (pack_row m2 m3)))))))"

definition get_mixer_correction_matrix :: "'n net_ops \<Rightarrow> ('n, f32 list) apsm" where
  "get_mixer_correction_matrix N =
     bindM (read_memory1 N CORRECTION_MATRIX_ROW0_ADDR) (\<lambda>row0.
     bindM (read_memory1 N CORRECTION_MATRIX_ROW1_ADDR) (\<lambda>row1.
     returnM [unpack_entry (drop_bit 16 row0), unpack_entry (row0 AND 0xffff),
              unpack_entry (drop_bit 16 row1), unpack_entry (row1 AND 0xffff)]))"

definition update_correction_matrix :: "'n net_ops \<Rightarrow> (f32 \<Rightarrow> f32) \<Rightarrow> (f32 \<Rightarrow> f32) \<Rightarrow> ('n, unit) apsm" where
  "update_correction_matrix N tan_f cos_f =
     bindM (read_memory1 N MIXER_AMP_IMBALANCE_ADDR) (\<lambda>amp.
     bindM (read_memory1 N MIXER_PHASE_SKEW_ADDR) (\<lambda>skew.
     bindM (read_memory1 N CH_A_SCALE_ADDR) (\<lambda>i_scale.
     bindM (read_memory1 N CH_B_SCALE_ADDR) (\<lambda>q_scale.
     bindM (liftE (fixed32 (f32_mul (f32_mul i_scale amp) scaling))) (\<lambda>m00.
     bindM (liftE (fixed32 (f32_mul (f32_mul (f32_mul i_scale amp) (tan_f skew)) scaling))) (\<lambda>m01.
     bindM (liftE (fixed32 (f32_mul (f32_div q_scale (cos_f skew)) scaling))) (\<lambda>m11.
     write_rows N m00 m01 0 m11)))))))"

definition scale_addr :: "int \<Rightarrow> u32" where
  "scale_addr dac = (if dac = 0 then CH_A_SCALE_ADDR else CH_B_SCALE_ADDR)"

definition set_channel_scale :: "'n net_ops \<Rightarrow> (f32 \<Rightarrow> f32) \<Rightarrow> (f32 \<Rightarrow> f32) \<Rightarrow> int \<Rightarrow> f32 \<Rightarrow> ('n, unit) apsm" where
  "set_channel_scale N tan_f cos_f dac scale =
     seqM (check_channel_num dac)
     (seqM (write_memory1 N (scale_addr dac) scale) (update_correction_matrix N tan_f cos_f))"

definition get_channel_scale :: "'n net_ops \<Rightarrow> int \<Rightarrow> ('n, f32) apsm" where
  "get_channel_scale N dac = seqM (check_channel_num dac) (read_memory1 N (scale_addr dac))"

definition set_mixer_amplitude_imbalance :: "'n net_ops \<Rightarrow> (f32 \<Rightarrow> f32) \<Rightarrow> (f32 \<Rightarrow> f32) \<Rightarrow> f32 \<Rightarrow> ('n, unit) apsm" where
  "set_mixer_amplitude_imbalance N tan_f cos_f amp =
     seqM (write_memory1 N MIXER_AMP_IMBALANCE_ADDR amp) (update_correction_matrix N tan_f cos_f)"

definition get_mixer_amplitude_imbalance :: "'n net_ops \<Rightarrow> ('n, f32) apsm" where
  "get_mixer_amplitude_imbalance N = read_memory1 N MIXER_AMP_IMBALANCE_ADDR"

definition set_mixer_phase_skew :: "'n net_ops \<Rightarrow> (f32 \<Rightarrow> f32) \<Rightarrow> (f32 \<Rightarrow> f32) \<Rightarrow> f32 \<Rightarrow> ('n, unit) apsm" where
  "set_mixer_phase_skew N tan_f cos_f skew =
     seqM (write_memory1 N MIXER_PHASE_SKEW_ADDR skew) (update_correction_matrix N tan_f cos_f)"

definition get_mixer_phase_skew :: "'n net_ops \<Rightarrow> ('n, f32) apsm" where
  "get_mixer_phase_skew N = read_memory1 N MIXER_PHASE_SKEW_ADDR"

section \<open>Trigger and run control\<close>

definition trigger_source_register :: "APS2_TRIGGER_SOURCE \<Rightarrow> u32 \<Rightarrow> u32" where
  "trigger_source_register src regVal =
     (regVal AND NOT (push_bit TRIGSRC_BIT 3)) OR push_bit TRIGSRC_BIT (trigger_code src)"

definition trigger_source_of_register :: "u32 \<Rightarrow> APS2_TRIGGER_SOURCE" where
  "trigger_source_of_register regVal =
     (let c = drop_bit TRIGSRC_BIT (regVal AND push_bit TRIGSRC_BIT 3)
      in if c = 0 then EXTERNAL else if c = 1 then INTERNAL else if c = 2 then SOFTWARE else SYSTEM)"

definition set_trigger_source :: "'n net_ops \<Rightarrow> APS2_TRIGGER_SOURCE \<Rightarrow> ('n, unit) apsm" where
  "set_trigger_source N src =
     bindM (read_memory1 N CONTROL_REG_ADDR) (\<lambda>regVal.
       write_memory1 N CONTROL_REG_ADDR (trigger_source_register src regVal))"

definition get_trigger_source :: "'n net_ops \<Rightarrow> ('n, APS2_TRIGGER_SOURCE) apsm" where
  "get_trigger_source N =
     bindM (read_memory1 N CONTROL_REG_ADDR) (\<lambda>regVal. returnM (trigger_source_of_register regVal))"

text \<open>A \<open>double\<close> assigned to a \<open>uint32_t\<close>.\<close>

definition f64_to_u32 :: "f64 \<Rightarrow> exn + u32" where
  "f64_to_u32 x = (case to_uint32 (f64_dec x) of None \<Rightarrow> Inl Undefined | Some k \<Rightarrow> Inr (word_of_int k))"

definition f64_lit :: "rat \<Rightarrow> f64" where "f64_lit = f64_of_rat"

definition set_trigger_interval :: "'n net_ops \<Rightarrow> f64 \<Rightarrow> ('n, unit) apsm" where
  "set_trigger_interval N interval =
     bindM (get_init host_type) (\<lambda>host.
     bindM (case host of
              APS \<Rightarrow> bindM (get_sampleRate N) (\<lambda>rate.
                liftE (f64_to_u32 (f64_round (f64_mul (f64_mul (f64_mul interval (f64_lit (1 / 4)))
                  (f64_of_int (uint rate))) (f64_lit 1000000)))))
            | TDM \<Rightarrow> liftE (f64_to_u32 (f64_round (f64_mul interval (f64_lit 100000000))))) (\<lambda>clocks.
     write_memory1 N TRIGGER_INTERVAL_ADDR clocks))"

definition get_trigger_interval :: "'n net_ops \<Rightarrow> ('n, f64) apsm" where
  "get_trigger_interval N =
     bindM (read_memory1 N TRIGGER_INTERVAL_ADDR) (\<lambda>clocks.
     bindM (get_init host_type) (\<lambda>host.
       case host of
         APS \<Rightarrow> bindM (get_sampleRate N) (\<lambda>rate.
           returnM (f64_div (f64_of_int (uint clocks))
             (f64_mul (f64_mul (f64_lit (1 / 4)) (f64_of_int (uint rate))) (f64_lit 1000000))))
       | TDM \<Rightarrow> returnM (f64_div (f64_of_int (uint clocks)) (f64_lit 100000000))))"

definition aps2_trigger :: "'n net_ops \<Rightarrow> ('n, unit) apsm" where
  "aps2_trigger N =
     bindM (read_memory1 N CONTROL_REG_ADDR) (\<lambda>regVal.
       write_memory1 N CONTROL_REG_ADDR (regVal XOR push_bit SOFT_TRIG_BIT 1))"

definition pause_ms :: "'n net_ops \<Rightarrow> nat \<Rightarrow> ('n, unit) apsm" where
  "pause_ms N d = bindM (sleep_ms N d) (\<lambda>_. returnM ())"

definition aps2_run :: "'n net_ops \<Rightarrow> ('n, unit) apsm" where
  "aps2_run N =
     seqM (bindM (get_init host_type) (\<lambda>host.
             whenM (host = APS)
               (seqM (set_register_bit N CACHE_CONTROL_ADDR [CACHE_ENABLE_BIT]) (pause_ms N 1))))
     (seqM (set_register_bit N CONTROL_REG_ADDR [SM_ENABLE_BIT])
     (seqM (pause_ms N 1)
           (set_register_bit N CONTROL_REG_ADDR [TRIGGER_ENABLE_BIT])))"

definition aps2_stop :: "'n net_ops \<Rightarrow> ('n, unit) apsm" where
  "aps2_stop N =
     seqM (bindM (get_init host_type) (\<lambda>host.
             whenM (host = APS) (clear_register_bit N CACHE_CONTROL_ADDR [CACHE_ENABLE_BIT])))
          (clear_register_bit N CONTROL_REG_ADDR [SM_ENABLE_BIT, TRIGGER_ENABLE_BIT])"

definition get_runState :: "('n, APS2_RUN_STATE) apsm" where
  "get_runState = get_init runState"

section \<open>Waveform frequency\<close>

definition frequency_increment :: "f32 \<Rightarrow> exn + u32" where
  "frequency_increment freq =
     (let d = f64_of_f32 freq; scale = f64_of_int (2 ^ 28)
      in if fp_less (f64_dec (f64_lit 600000000)) (f64_dec d) \<or> fp_eq (f64_dec d) (f64_dec (f64_lit 600000000))
           \<or> f64_less d (f64_lit (- 600000000))
         then Inl (Thrown APS2_WAVEFORM_FREQ_OVERFLOW)
         else f64_to_u32
           (if fp_less (FFin False 0) (f32_dec freq)
            then f64_mul (f64_div d (f64_lit 300000000)) scale
            else f64_mul (f64_add (f64_div d (f64_lit 300000000)) (f64_of_int 4)) scale))"

definition frequency_of_increment :: "u32 \<Rightarrow> f32" where
  "frequency_of_increment inc =
     (let freq = f32_of_f64 (f64_mul (f64_of_f32 (f32_div (f32_of_int (uint inc)) (f32_of_int (2 ^ 28))))
                   (f64_lit 300000000))
      in if f64_less (f64_lit 600000000) (f64_of_f32 freq)
         then f32_of_f64 (f64_add (f64_of_f32 freq) (f64_lit (- 1200000000))) else freq)"

definition set_waveform_frequency :: "'n net_ops \<Rightarrow> f32 \<Rightarrow> ('n, unit) apsm" where
  "set_waveform_frequency N freq =
     bindM (liftE (frequency_increment freq)) (write_memory1 N WF_SSB_FREQ_ADDR)"

definition get_waveform_frequency :: "'n net_ops \<Rightarrow> ('n, f32) apsm" where
  "get_waveform_frequency N =
     bindM (read_memory1 N WF_SSB_FREQ_ADDR) (\<lambda>inc. returnM (frequency_of_increment inc))"

end
