(* ===== verification/Waveform.thy ===== *)
theory Waveform
  imports Control
begin

text \<open>
  Waveforms and sequences (\<open>APS2.cpp\<close>): packing them into the words of the SDRAM, the cache
  controller around the writes, the instruction scaffolds of the waveform run modes, and loading a
  sequence file.
\<close>

section \<open>Waveform memory\<close>

text \<open>Two samples to a word; reading the partner of an unpaired last sample is undefined.\<close>

fun pack_samples :: "i16 list \<Rightarrow> exn + u32 list" where
  "pack_samples [] = Inr []"
| "pack_samples (lo # hi # smps) =
     (case pack_samples smps of
        Inl e \<Rightarrow> Inl e
      | Inr ws \<Rightarrow> Inr ((push_bit 16 (scast hi) OR ucast lo) # ws))"
| "pack_samples [lo] = Inl Undefined"

definition pad4 :: "u32 list \<Rightarrow> u32 list" where
  "pad4 ws = ws @ replicate ((4 - length ws mod 4) mod 4) 0xffffffff"

definition waveform_addr :: "int \<Rightarrow> u32" where
  "waveform_addr ch = (if ch = 0 then MEMORY_ADDR + WFA_OFFSET else MEMORY_ADDR + WFB_OFFSET)"

definition wf_length_addr :: "int \<Rightarrow> u32" where
  "wf_length_addr ch = (if ch = 0 then CH_A_WF_LENGTH_ADDR else CH_B_WF_LENGTH_ADDR)"

definition write_waveform :: "'n net_ops \<Rightarrow> int \<Rightarrow> i16 list \<Rightarrow> ('n, unit) apsm" where
  "write_waveform N ch smps =
     seqM (clear_register_bit N CACHE_CONTROL_ADDR [CACHE_ENABLE_BIT])
     (bindM (liftE (pack_samples smps)) (\<lambda>packed_data.
      seqM (write_memory N (waveform_addr ch) (pad4 packed_data))
      (seqM (write_memory1 N (wf_length_addr ch) (of_nat (length smps)))
            (set_register_bit N CACHE_CONTROL_ADDR [CACHE_ENABLE_BIT]))))"

text \<open>\<open>set_waveform<T>\<close> for the two sample types, and \<open>set_markers\<close>.\<close>

definition change_channel :: "'n net_ops \<Rightarrow> (Channel \<Rightarrow> exn + Channel) \<Rightarrow> int \<Rightarrow> ('n, unit) apsm" where
  "change_channel N f dac =
     bindM (channel_at dac) (\<lambda>ch.
     bindM (liftE (f ch)) (\<lambda>ch'.
     seqM (put_channel dac ch')
     (bindM (liftE (prep_waveform ch')) (write_waveform N dac))))"

definition set_waveform_f :: "'n net_ops \<Rightarrow> int \<Rightarrow> f32 list \<Rightarrow> ('n, unit) apsm" where
  "set_waveform_f N dac data = change_channel N (set_waveform_float data) dac"

definition set_waveform_i :: "'n net_ops \<Rightarrow> int \<Rightarrow> i16 list \<Rightarrow> ('n, unit) apsm" where
  "set_waveform_i N dac data = change_channel N (set_waveform_int16 data) dac"

definition set_markers :: "'n net_ops \<Rightarrow> int \<Rightarrow> u8 list \<Rightarrow> ('n, unit) apsm" where
  "set_markers N dac data = change_channel N (ch_set_markers data) dac"

section \<open>Sequence memory\<close>

definition pack_instruction :: "u64 \<Rightarrow> u32 list" where
  "pack_instruction d = [ucast (d AND 0xffffffff), ucast (drop_bit 32 d)]"

definition packed_instructions :: "u64 list \<Rightarrow> u32 list" where
  "packed_instructions data = pad4 (concat (map pack_instruction data))"

definition write_sequence :: "'n net_ops \<Rightarrow> u64 list \<Rightarrow> ('n, unit) apsm" where
  "write_sequence N data =
     seqM (bindM (get_init host_type) (\<lambda>host.
             whenM (host = APS) (clear_register_bit N CACHE_CONTROL_ADDR [CACHE_ENABLE_BIT])))
     (seqM (write_memory N (MEMORY_ADDR + SEQ_OFFSET) (packed_instructions data))
           (bindM (get_init host_type) (\<lambda>host.
             whenM (host = APS) (set_register_bit N CACHE_CONTROL_ADDR [CACHE_ENABLE_BIT]))))"

text \<open>\<open>read_sequence\<close> only logs what it reads.\<close>

definition read_sequence :: "'n net_ops \<Rightarrow> u32 \<Rightarrow> u32 \<Rightarrow> ('n, unit) apsm" where
  "read_sequence N addr num_words = bindM (read_memory N addr num_words) (\<lambda>_. returnM ())"

definition write_memory_map :: "'n net_ops \<Rightarrow> u32 \<Rightarrow> u32 \<Rightarrow> u32 \<Rightarrow> ('n, int) apsm" where
  "write_memory_map N wfA wfB sq =
     seqM (write_memory1 N WFA_OFFSET_ADDR (MEMORY_ADDR + wfA))
     (seqM (write_memory1 N WFB_OFFSET_ADDR (MEMORY_ADDR + wfB))
     (seqM (write_memory1 N SEQ_OFFSET_ADDR (MEMORY_ADDR + sq))
           (returnM 0)))"

section \<open>Run modes\<close>

text \<open>\<open>instructions.insert(std::prev(instructions.end()), i)\<close>\<close>

definition insert_before_last :: "u64 \<Rightarrow> u64 list \<Rightarrow> u64 list" where
  "insert_before_last i xs = butlast xs @ [i] @ [last xs]"

definition marker_instruction :: "u64 \<Rightarrow> u64 \<Rightarrow> u64" where
  "marker_instruction opcode wf_length = opcode OR (wf_length div 4 - 1)"

definition waveform_instruction :: "u64 \<Rightarrow> u64 \<Rightarrow> u64" where
  "waveform_instruction opcode wf_length = opcode OR push_bit 24 (wf_length div 4 - 1)"

text \<open>The scaffold with the lengths of the two waveforms (not both 0) put in.\<close>

definition inject_lengths :: "bool \<Rightarrow> u64 \<Rightarrow> u64 \<Rightarrow> u64 list \<Rightarrow> u64 list" where
  "inject_lengths trig a b instructions =
     (let is1 = (if trig \<and> a > 0 then insert_before_last (marker_instruction 0x1000000100000000 a) instructions
                 else instructions);
          is2 = (if trig \<and> b > 0 then insert_before_last (marker_instruction 0x1400000100000000 b) is1
                 else is1)
      in if a = b then insert_before_last (waveform_instruction 0x0d00000000000000 a) is2
         else if b = 0 then insert_before_last (waveform_instruction 0x0500000000000000 a) is2
         else if a = 0 then insert_before_last (waveform_instruction 0x0900000000000000 b) is2
         else insert_before_last (waveform_instruction 0x0900000000000000 b)
                (insert_before_last (waveform_instruction 0x0400000000000000 a) is2))"

definition or_first :: "u64 \<Rightarrow> u64 list \<Rightarrow> u64 list" where
  "or_first f xs = (case xs of [] \<Rightarrow> [] | i # is \<Rightarrow> (i OR f) # is)"

definition waveform_mode :: "'n net_ops \<Rightarrow> bool \<Rightarrow> u64 list \<Rightarrow> ('n, unit) apsm" where
  "waveform_mode N trig scaffold =
     bindM (read_memory1 N WF_SSB_FREQ_ADDR) (\<lambda>freq.
     bindM (read_memory1 N CH_A_WF_LENGTH_ADDR) (\<lambda>wf_length_a.
     bindM (read_memory1 N CH_B_WF_LENGTH_ADDR) (\<lambda>wf_length_b.
     if wf_length_a = 0 \<and> wf_length_b = 0 then throwM (Thrown APS2_NO_WFS)
     else write_sequence N (inject_lengths trig (ucast wf_length_a) (ucast wf_length_b)
            (or_first (ucast freq) scaffold)))))"

definition set_run_mode :: "'n net_ops \<Rightarrow> APS2_RUN_MODE \<Rightarrow> ('n, unit) apsm" where
  "set_run_mode N mode =
     (case mode of
        RUN_SEQUENCE \<Rightarrow> returnM ()
      | TRIG_WAVEFORM \<Rightarrow> waveform_mode N True WF_SEQ_TRIG
      | CW_WAVEFORM \<Rightarrow> waveform_mode N False WF_SEQ_CW
      | OTHER_RUN_MODE _ \<Rightarrow> throwM (Thrown APS2_UNKNOWN_RUN_MODE))"

section \<open>Sequence files\<close>

text \<open>
  An input stream: the bytes left and whether it is good. \<open>fread\<close> reads at most \<open>n\<close> bytes; coming
  short makes the stream bad and a bad stream reads nothing.
\<close>

type_synonym fstream = "u8 list \<times> bool"

definition fread :: "nat \<Rightarrow> fstream \<Rightarrow> u8 list \<times> fstream" where
  "fread n f = (if snd f then (take n (fst f), (drop n (fst f), n \<le> length (fst f))) else ([], f))"

text \<open>What was read overwrites the beginning of the variable it is read into.\<close>

definition overwrite :: "u8 list \<Rightarrow> u8 list \<Rightarrow> u8 list" where
  "overwrite new old = new @ drop (length new) old"

text \<open>
  The waveforms of the channels from \<open>chanct\<close> on. \<open>len\<close> and \<open>smps\<close> are the bytes of \<open>buff_length\<close>
  and \<open>waveform\<close>, which keep what a short read leaves. \<open>alloc\<close> tells whether the allocator can
  provide a number of bytes; a vector that cannot be allocated is an exception.
\<close>

fun load_waveforms :: "'n net_ops \<Rightarrow> (nat \<Rightarrow> bool) \<Rightarrow> nat \<Rightarrow> int \<Rightarrow> u8 list \<Rightarrow> u8 list \<Rightarrow> fstream
    \<Rightarrow> ('n, unit) apsm" where
  "load_waveforms N alloc 0 chanct len smps file = returnM ()"
| "load_waveforms N alloc (Suc n) chanct len smps file =
     (let (l, file1) = fread 8 file;
          len' = overwrite l len;
          bytes = 2 * unat (of_le64 len') in
      if \<not> alloc bytes then throwM RuntimeError
      else let (d, file2) = fread bytes file1;
               smps' = overwrite d (resize_bytes bytes smps)
           in seqM (set_waveform_i N chanct (decode_all 2 of_le16 smps'))
                   (load_waveforms N alloc n (chanct + 1) len' smps' file2))"

definition load_sequence :: "'n net_ops \<Rightarrow> (nat \<Rightarrow> bool) \<Rightarrow> u8 list \<Rightarrow> ('n, unit) apsm" where
  "load_sequence N alloc bytes =
     (let (_, f1) = fread 12 (bytes, True);
          (chans, f2) = fread 2 f1;
          (len, f3) = fread 8 f2 in
      seqM clear_channel_data
      (if length len < 8 then throwM Undefined
       else let size = 8 * unat (of_le64 len) in
         if \<not> alloc size then throwM RuntimeError
         else let (d, f4) = fread size f3;
                  instructions = decode_all 8 of_le64 (overwrite d (replicate size 0))
              in seqM (write_sequence N instructions)
                 (if length chans < 2 then throwM Undefined
                  else load_waveforms N alloc (unat (of_le16 chans)) 0 len [] f4)))"

definition load_sequence_file :: "'n net_ops \<Rightarrow> (nat \<Rightarrow> bool) \<Rightarrow> u8 list option \<Rightarrow> ('n, unit) apsm" where
  "load_sequence_file N alloc seqFile =
     catch_all
       (case seqFile of
          None \<Rightarrow> throwM (Thrown APS2_SEQFILE_FAIL)
        | Some bytes \<Rightarrow> load_sequence N alloc bytes)
       (throwM (Thrown APS2_SEQFILE_FAIL))"

end
