(* ===== verification/Bringup.thy ===== *)
theory Bringup
  imports Waveform
begin

text \<open>
  Bringing a module up and testing it (\<open>APS2.cpp\<close>): \<open>init\<close>, the built-in self test of the DACs with
  its reference signature, and the text of a firmware version.
\<close>

section \<open>Initialisation\<close>

definition aps2_init :: "'n net_ops \<Rightarrow> bool \<Rightarrow> ('n, APS2_STATUS) apsm" where
  "aps2_init N forceReload =
     bindM (get_init host_type) (\<lambda>host.
     if host = TDM then returnM APS2_OK
     else bindM (get_sampleRate N) (\<lambda>_.
          seqM (check_clocks_status N)
          (bindM (read_memory1 N INIT_STATUS_ADDR) (\<lambda>initReg.
           seqM
             (whenM (initReg AND 0x1 \<noteq> 0x1 \<or> forceReload)
               (seqM (set_register_bit N RESETS_ADDR [IO_CHA_RST_BIT, IO_CHB_RST_BIT])
               (seqM (clear_register_bit N RESETS_ADDR [IO_CHA_RST_BIT, IO_CHB_RST_BIT])
               (seqM (setup_DACs N)
               (seqM clear_channel_data
               (seqM (bindM (write_memory_map N WFA_OFFSET WFB_OFFSET SEQ_OFFSET) (\<lambda>_. returnM ()))
                     (write_memory1 N INIT_STATUS_ADDR (initReg OR 0x1))))))))
             (returnM APS2_OK)))))"

section \<open>Self test\<close>

text \<open>The expected signature: a rotating register xored with the samples, as the DAC computes it.\<close>

definition bist_step :: "u32 \<Rightarrow> i16 \<Rightarrow> u32" where
  "bist_step lfsr v =
     (if sint v \<noteq> 0 \<and> sint v \<noteq> 1
      then let v' = (if sint v > 0 then v - 1 else v);
               rot = push_bit 1 lfsr OR drop_bit 31 lfsr
           in (rot AND NOT 0x3fff) OR (NOT (rot XOR scast v') AND 0x3fff)
      else lfsr)"

definition calc_bist :: "i16 list \<Rightarrow> u32" where
  "calc_bist vs = foldl bist_step 0 vs"

text \<open>\<open>partition_copy\<close> with the toggling predicate: the first, third, ... sample, and the others.\<close>

fun split_phases :: "'x list \<Rightarrow> 'x list \<times> 'x list" where
  "split_phases [] = ([], [])"
| "split_phases [x] = ([x], [])"
| "split_phases (x # y # xs) = (let (os, es) = split_phases xs in (x # os, y # es))"

definition read_sig_byte4 :: "'n net_ops \<Rightarrow> CHIPCONFIG_IO_TARGET \<Rightarrow> ('n, u32) apsm" where
  "read_sig_byte4 N target =
     bindM (read_SPI N target 18) (\<lambda>a.
     bindM (read_SPI N target 19) (\<lambda>b.
     bindM (read_SPI N target 20) (\<lambda>c.
     bindM (read_SPI N target 21) (\<lambda>d.
     returnM (push_bit 24 a OR push_bit 16 b OR push_bit 8 c OR d)))))"

definition read_BIST_sig :: "'n net_ops \<Rightarrow> int \<Rightarrow> CHIPCONFIG_IO_TARGET \<Rightarrow> ('n, u32 list) apsm" where
  "read_BIST_sig N dac target =
     bindM (pick dac DAC_BIST_CHA_PH1_ADDR DAC_BIST_CHB_PH1_ADDR) (\<lambda>a1.
     bindM (read_memory1 N a1) (\<lambda>fpga1.
     bindM (pick dac DAC_BIST_CHA_PH2_ADDR DAC_BIST_CHB_PH2_ADDR) (\<lambda>a2.
     bindM (read_memory1 N a2) (\<lambda>fpga2.
     bindM (mapM (\<lambda>stage. seqM (write_DAC_reg N target 17 stage) (read_sig_byte4 N target))
              [0x26, 0x66, 0xA6, 0xE6]) (\<lambda>dac_sigs.
     returnM (fpga1 # fpga2 # dac_sigs))))))"

text \<open>Setting and clearing the reset bit (bit 5) of register 0 of the DAC.\<close>

definition bist_reset_pulse :: "'n net_ops \<Rightarrow> CHIPCONFIG_IO_TARGET \<Rightarrow> u8 \<Rightarrow> ('n, unit) apsm" where
  "bist_reset_pulse N target regVal =
     seqM (write_DAC_reg N target 0 (regVal OR 0x20))
          (write_DAC_reg N target 0 ((regVal OR 0x20) AND NOT 0x20))"

definition bist_clear_pulse :: "'n net_ops \<Rightarrow> int \<Rightarrow> CHIPCONFIG_IO_TARGET \<Rightarrow> ('n, unit) apsm" where
  "bist_clear_pulse N dac target =
     bindM (pick dac DAC_BIST_CHA_RST_BIT DAC_BIST_CHB_RST_BIT) (\<lambda>rst.
     seqM (write_DAC_reg N target 17 0x07)
     (seqM (set_register_bit N RESETS_ADDR [rst])
     (seqM (write_DAC_reg N target 17 0x06)
           (clear_register_bit N RESETS_ADDR [rst]))))"

text \<open>Loading the test vector and starting the module in software-triggered waveform mode.\<close>

definition bist_prepare :: "'n net_ops \<Rightarrow> (f32 \<Rightarrow> f32) \<Rightarrow> (f32 \<Rightarrow> f32) \<Rightarrow> int \<Rightarrow> i16 list \<Rightarrow> ('n, unit) apsm" where
  "bist_prepare N tan_f cos_f dac testVec =
     seqM clear_channel_data
     (seqM (set_waveform_i N dac testVec)
     (seqM (set_waveform_i N (if dac = 0 then 1 else 0) (replicate (length testVec) 0))
     (seqM (set_waveform_frequency N (f32_of_int 0))
     (seqM (set_mixer_phase_skew N tan_f cos_f (f32_of_int 0))
     (seqM (set_mixer_amplitude_imbalance N tan_f cos_f (f32_of_int 1))
     (seqM (set_channel_scale N tan_f cos_f dac (f32_of_int 1))
     (seqM (set_run_mode N TRIG_WAVEFORM)
     (seqM (set_trigger_source N SOFTWARE)
           (aps2_run N)))))))))"

text \<open>Swapping the LVDS and SYNC values of an odd bitslip, and the verdict.\<close>

definition swap_pair :: "nat \<Rightarrow> nat \<Rightarrow> 'x list \<Rightarrow> 'x list" where
  "swap_pair i j xs = xs[i := xs ! j, j := xs ! i]"

definition bist_results :: "u32 \<Rightarrow> u32 list \<Rightarrow> u32 list" where
  "bist_results bitslip results =
     (if bitslip mod 2 \<noteq> 0 then swap_pair 6 7 (swap_pair 4 5 results) else results)"

definition bist_passed :: "u32 \<Rightarrow> u32 \<Rightarrow> u32 list \<Rightarrow> bool" where
  "bist_passed phase1 phase2 results \<longleftrightarrow>
     results ! 2 = phase1 \<and> results ! 3 = phase2 \<and> results ! 4 = phase1
     \<and> results ! 5 = phase2 \<and> results ! 6 = phase1 \<and> results ! 7 = phase2"

text \<open>
  The phases of the test: restarting the DAC with a zero offset (steps 1 to 10), two runs of the
  waveform between readings of the signatures (steps 11 to 18), and leaving the test mode.
\<close>

definition bist_restart :: "'n net_ops \<Rightarrow> int \<Rightarrow> CHIPCONFIG_IO_TARGET \<Rightarrow> u8 \<Rightarrow> u8 \<Rightarrow> u8 \<Rightarrow> ('n, unit) apsm" where
  "bist_restart N dac target ccd sd regVal =
     seqM (write_DAC_reg N target 0 (regVal OR 0x20))
     (seqM (set_channel_offset N dac (f32_of_int 0))
     (seqM (write_DAC_reg N target 0 ((regVal OR 0x20) AND NOT 0x20))
     (seqM (bist_reset_pulse N target ((regVal OR 0x20) AND NOT 0x20))
     (seqM (write_DAC_reg N target (ucast DAC_SD_ADDR) sd)
           (write_DAC_reg N target (ucast DAC_CONTROLLERCLOCK_ADDR) ccd)))))"

definition bist_measure :: "'n net_ops \<Rightarrow> int \<Rightarrow> CHIPCONFIG_IO_TARGET \<Rightarrow> ('n, u32 list) apsm" where
  "bist_measure N dac target =
     seqM (bist_clear_pulse N dac target)
     (bindM (read_BIST_sig N dac target) (\<lambda>_.
      seqM (aps2_trigger N)
      (bindM (read_BIST_sig N dac target) (\<lambda>_.
      seqM (bist_clear_pulse N dac target)
      (bindM (read_BIST_sig N dac target) (\<lambda>_.
      seqM (aps2_trigger N)
           (read_BIST_sig N dac target)))))))"

definition bist_finish :: "'n net_ops \<Rightarrow> int \<Rightarrow> CHIPCONFIG_IO_TARGET \<Rightarrow> u8 \<Rightarrow> u8 \<Rightarrow> u32 \<Rightarrow> u32 \<Rightarrow> u32 list
    \<Rightarrow> ('n, bool \<times> u32 list) apsm" where
  "bist_finish N dac target ccd sd phase1BIST phase2BIST readResults =
     seqM (aps2_stop N)
     (bindM (read_SPI8 N target 0) (\<lambda>regVal.
     seqM (bist_reset_pulse N target regVal)
     (seqM (write_DAC_reg N target (ucast DAC_SD_ADDR) sd)
     (seqM (write_DAC_reg N target (ucast DAC_CONTROLLERCLOCK_ADDR) ccd)
     (bindM (read_memory1 N (bitslip_addr dac)) (\<lambda>bitslip.
      let results = bist_results bitslip (phase1BIST # phase2BIST # readResults)
      in returnM (bist_passed phase1BIST phase2BIST results, results)))))))"

definition run_DAC_BIST :: "'n net_ops \<Rightarrow> (f32 \<Rightarrow> f32) \<Rightarrow> (f32 \<Rightarrow> f32) \<Rightarrow> int \<Rightarrow> i16 list
    \<Rightarrow> ('n, bool \<times> u32 list) apsm" where
  "run_DAC_BIST N tan_f cos_f dac testVec =
     (let (odd_samples, even_samples) = split_phases testVec;
          phase1BIST = calc_bist odd_samples; phase2BIST = calc_bist even_samples in
      seqM (bist_prepare N tan_f cos_f dac testVec)
      (bindM (dac_target dac) (\<lambda>target.
       bindM (read_SPI8 N target (ucast DAC_CONTROLLERCLOCK_ADDR)) (\<lambda>ccd.
       bindM (read_SPI8 N target (ucast DAC_SD_ADDR)) (\<lambda>sd.
       bindM (read_SPI8 N target 0) (\<lambda>regVal.
       seqM (bist_restart N dac target ccd sd regVal)
       (bindM (bist_measure N dac target)
         (bist_finish N dac target ccd sd phase1BIST phase2BIST))))))))"

section \<open>Firmware version\<close>

text \<open>Decimal and hexadecimal output of an unsigned number.\<close>

fun digits :: "nat \<Rightarrow> nat \<Rightarrow> string" where
  "digits base n =
     (let d = [''0123456789abcdef'' ! (n mod base)]
      in if base < 2 \<or> n < base then d else digits base (n div base) @ d)"

declare digits.simps [simp del]

definition print_firmware_version :: "u32 \<Rightarrow> string" where
  "print_firmware_version version_reg =
     (let minor = version_reg AND 0xff;
          major = drop_bit 8 version_reg AND 0xf;
          sha1_nibble = drop_bit 12 version_reg AND 0xfffff;
          note = (if sha1_nibble = 0x00000 then []
                  else if sha1_nibble = 0x0000a then ''-dev''
                  else ''-dev-'' @ digits 16 (unat sha1_nibble))
      in digits 10 (unat major) @ ''.'' @ digits 10 (unat minor) @ note)"

section \<open>Printed forms\<close>

text \<open>
  \<open>hexn<8>\<close> and the two texts for the log. A bank that was not filled has uninitialised words, which
  the text would read.
\<close>

definition hexn8 :: "u32 \<Rightarrow> string" where
  "hexn8 w = (let ds = digits 16 (unat w) in ''0x'' @ replicate (8 - length ds) (CHR ''0'') @ ds)"

definition print_status_bank :: "APSStatusBank_t \<Rightarrow> exn + string" where
  "print_status_bank status =
     (if length status < NUM_STATUS_REGISTERS then Inl Undefined
      else let field = (\<lambda>r. status ! status_index r); endl = [CHR 0x0A] in
        Inr (endl @ endl @ concat (map (\<lambda>(label, value). label @ value @ endl)
          [(''Host Firmware Version = '', hexn8 (field HOST_FIRMWARE_VERSION)),
           (''User Firmware Version = '', hexn8 (field USER_FIRMWARE_VERSION)),
           (''Configuration Source'' @ [CHR 0x09] @ ''= '', hexn8 (field CONFIGURATION_SOURCE)),
           (''User Status           = '', hexn8 (field USER_STATUS)),
           (''DAC 0 Status          = '', hexn8 (field DAC0_STATUS)),
           (''DAC 1 Status          = '', hexn8 (field DAC1_STATUS)),
           (''PLL Status            = '', hexn8 (field PLL_STATUS)),
           (''VCXO Status           = '', hexn8 (field VCXO_STATUS)),
           (''Send Packet Count     = '', digits 10 (unat (field SEND_PACKET_COUNT))),
           (''Recv Packet Count     = '', digits 10 (unat (field RECEIVE_PACKET_COUNT))),
           (''Seq Skip Count        = '', digits 10 (unat (field SEQUENCE_SKIP_COUNT))),
           (''Seq Dup.'' @ [CHR 0x09] @ ''Count       = '', digits 10 (unat (field SEQUENCE_DUP_COUNT))),
           (''FCS Overrun Count     = '', digits 10 (unat (field FCS_OVERRUN_COUNT))),
           (''Packet Overrun Count  = '', digits 10 (unat (field PACKET_OVERRUN_COUNT))),
           (''Uptime (s)            = '', digits 10 (unat (field UPTIME_SECONDS))),
           (''Uptime (ns)           = '', digits 10 (unat (field UPTIME_NANOSECONDS)))])))"

text \<open>The manipulator \<open>hex\<close> stays in force, so all numbers are hexadecimal.\<close>

definition printAPSChipCommand :: "APSChipConfigCommand \<Rightarrow> string" where
  "printAPSChipCommand cmd =
     (let hex = digits 16 in
      hex (unat (cc_packed cmd)) @ '' ='' @ '' Target: '' @ hex (unat (cc_target cmd))
      @ '' SPICNT_DATA: '' @ hex (unat (cc_spicnt_data cmd)) @ '' INSTR: '' @ hex (unat (cc_instr cmd)))"

end
