(* ===== verification/Device.thy ===== *)
theory Device
  imports Bus Bringup
begin

text \<open>
  What the driver makes of a module that keeps its side of the TCP protocol. The laws of such a
  module are the predicate \<open>memory_device\<close> on the environment: writing a memory datagram stores
  its words and queues an acknowledge, writing a read request queues the words, and receiving takes
  queued bytes. On top of them \<open>read_memory\<close> and \<open>write_memory\<close>, with their chunking, byte
  order, acknowledge checking and buffer handling, provide the interface \<open>register_bus\<close>.
\<close>

section \<open>The laws of a module\<close>

text \<open>
  A view of the network state: whether the connection is usable, the bytes the module has sent that
  are not received yet, and its content: the memory here, the registers of the chips in \<open>Chips\<close>. \<open>A\<close>
  is the set of word addresses that read back what was written.
\<close>

record ('n, 'c) module_view =
  dv_ready :: "'n \<Rightarrow> bool"
  dv_rx :: "'n \<Rightarrow> u8 list"
  dv_mem :: "'n \<Rightarrow> 'c"

type_synonym 'n device_view = "('n, memory) module_view"

definition wire :: "APS2Datagram \<Rightarrow> u8 list" where
  "wire dg = concat (map be32 (dg_data dg))"

definition write_ack :: "u32 \<Rightarrow> APS2Datagram \<Rightarrow> bool" where
  "write_ack addr dg \<longleftrightarrow> to_command (c_cmd (dg_cmd dg)) = USERIO_ACK \<and> c_ack (dg_cmd dg)
     \<and> \<not> c_r_w (dg_cmd dg) \<and> c_mode_stat (dg_cmd dg) = 0x81 \<and> dg_addr dg = addr \<and> dg_payload dg = []"

definition read_response :: "u32 list \<Rightarrow> APS2Datagram \<Rightarrow> bool" where
  "read_response ws dg \<longleftrightarrow> to_command (c_cmd (dg_cmd dg)) = USERIO_ACK \<and> c_r_w (dg_cmd dg)
     \<and> c_cnt (dg_cmd dg) = of_nat (length ws) \<and> dg_payload dg = ws"

definition write_law :: "'n net_ops \<Rightarrow> nat \<Rightarrow> u32 set \<Rightarrow> 'n device_view \<Rightarrow> bool" where
  "write_law N sk A D \<longleftrightarrow>
     (\<forall>n t addr ws. dv_ready D n \<and> dv_rx D n = [] \<and> length ws < 2 ^ 16 \<and> words_at addr (length ws) \<subseteq> A \<longrightarrow>
        (\<exists>n' ack. net_tcp_write N sk (wire (dg_piece memory_write_cmd addr ws)) t n = (IoOk (), n')
          \<and> dv_ready D n' \<and> dv_mem D n' = store (dv_mem D n) addr ws
          \<and> dv_rx D n' = wire ack \<and> write_ack addr ack))"

definition read_law :: "'n net_ops \<Rightarrow> nat \<Rightarrow> u32 set \<Rightarrow> 'n device_view \<Rightarrow> bool" where
  "read_law N sk A D \<longleftrightarrow>
     (\<forall>n t addr k. dv_ready D n \<and> dv_rx D n = [] \<and> unat k < 2 ^ 16 \<and> words_at addr (unat k) \<subseteq> A \<longrightarrow>
        (\<exists>n' resp. net_tcp_write N sk
             (wire \<lparr>dg_cmd = memory_read_cmd k, dg_addr = addr, dg_payload = []\<rparr>) t n = (IoOk (), n')
          \<and> dv_ready D n' \<and> dv_mem D n' = dv_mem D n
          \<and> dv_rx D n' = wire resp \<and> read_response (load (dv_mem D n) addr (unat k)) resp))"

definition receive_law :: "'n net_ops \<Rightarrow> nat \<Rightarrow> ('n, 'c) module_view \<Rightarrow> bool" where
  "receive_law N sk D \<longleftrightarrow>
     (\<forall>n t k. dv_ready D n \<and> k \<le> length (dv_rx D n) \<longrightarrow>
        (\<exists>n'. net_tcp_receive N sk k t n = (IoOk (take k (dv_rx D n)), n')
          \<and> dv_ready D n' \<and> dv_mem D n' = dv_mem D n \<and> dv_rx D n' = drop k (dv_rx D n)))"

text \<open>Waiting and the UDP traffic of other hosts do not disturb the connection.\<close>

definition quiet_law :: "'n net_ops \<Rightarrow> ('n, 'c) module_view \<Rightarrow> bool" where
  "quiet_law N D \<longleftrightarrow>
     (\<forall>n d. dv_ready D n \<longrightarrow>
        dv_ready D (snd (net_sleep N d n)) \<and> dv_mem D (snd (net_sleep N d n)) = dv_mem D n
        \<and> dv_rx D (snd (net_sleep N d n)) = dv_rx D n
        \<and> dv_ready D (snd (net_arrivals N n)) \<and> dv_mem D (snd (net_arrivals N n)) = dv_mem D n
        \<and> dv_rx D (snd (net_arrivals N n)) = dv_rx D n)"

definition memory_device :: "'n net_ops \<Rightarrow> nat \<Rightarrow> u32 set \<Rightarrow> 'n device_view \<Rightarrow> bool" where
  "memory_device N sk A D \<longleftrightarrow>
     write_law N sk A D \<and> read_law N sk A D \<and> receive_law N sk D \<and> quiet_law N D"

text \<open>The object is connected over TCP through socket \<open>sk\<close>; no legacy module is connected.\<close>

definition linked :: "nat \<Rightarrow> 'n st \<Rightarrow> bool" where
  "linked sk s \<longleftrightarrow> ethernetRM (obj s) \<and> tcp_sockets s (ipAddr (obj s)) = Some (Some sk)
     \<and> (\<exists>info. devInfo s (ipAddr (obj s)) = Some info \<and> di_supports_tcp info)
     \<and> msgQueues s = Map.empty"

text \<open>The connection is usable and exactly the bytes \<open>rx\<close> are waiting.\<close>

definition answering :: "'n net_ops \<Rightarrow> nat \<Rightarrow> ('n, 'c) module_view \<Rightarrow> u8 list \<Rightarrow> 'n st \<Rightarrow> bool" where
  "answering N sk D rx s \<longleftrightarrow>
     receive_law N sk D \<and> linked sk s \<and> dv_ready D (net s) \<and> dv_rx D (net s) = rx"

definition attached :: "'n net_ops \<Rightarrow> nat \<Rightarrow> u32 set \<Rightarrow> 'n device_view \<Rightarrow> u8 list \<Rightarrow> 'n st \<Rightarrow> bool" where
  "attached N sk A D rx s \<longleftrightarrow>
     memory_device N sk A D \<and> linked sk s \<and> dv_ready D (net s) \<and> dv_rx D (net s) = rx"

definition device_ok :: "'n net_ops \<Rightarrow> nat \<Rightarrow> u32 set \<Rightarrow> 'n device_view \<Rightarrow> 'n st \<Rightarrow> bool" where
  "device_ok N sk A D s \<longleftrightarrow> attached N sk A D [] s"

definition device_bus :: "'n device_view \<Rightarrow> 'n st \<Rightarrow> aps2 bus" where
  "device_bus D s = (dv_mem D (net s), obj s)"

definition bus_readable :: "u32 set \<Rightarrow> u32 \<Rightarrow> nat \<Rightarrow> bool" where
  "bus_readable A a n \<longleftrightarrow> n < 2 ^ 16 \<and> words_at a n \<subseteq> A"

definition aligned_write :: "u32 \<Rightarrow> nat \<Rightarrow> bool" where
  "aligned_write a n \<longleftrightarrow> (a < 0x40000000 \<longrightarrow> a AND 0xf = 0 \<and> n mod 4 = 0)"

definition bus_writable :: "u32 set \<Rightarrow> u32 \<Rightarrow> nat \<Rightarrow> bool" where
  "bus_writable A a n \<longleftrightarrow> words_at a n \<subseteq> A \<and> aligned_write a n"

section \<open>Receiving datagrams\<close>

lemma length_wire: "length (wire dg) = 4 * (2 + length (dg_payload dg))"
  by (simp add: wire_def dg_data_def be32.concat_enc_length)

lemma wire_eq: "wire dg = be32 (packed (dg_cmd dg)) @ be32 (dg_addr dg) @ concat (map be32 (dg_payload dg))"
  by (simp add: wire_def dg_data_def)

lemma dev_at_linked:
  "linked sk s \<Longrightarrow> \<exists>info. dev_at (ipAddr (obj s)) s = (Inr info, s) \<and> di_supports_tcp info"
  by (auto simp: linked_def dev_at_def run_simps seqM_def bindM_def)

lemma socket_at_linked: "linked sk s \<Longrightarrow> socket_at (ipAddr (obj s)) s = (Inr sk, s)"
  by (auto simp: linked_def socket_at_def run_simps seqM_def bindM_def)

lemma linked_net [simp]: "linked sk (s\<lparr>net := n\<rparr>) = linked sk s"
  by (simp add: linked_def)

lemma attached_answering: "attached N sk A D rx s \<Longrightarrow> answering N sk D rx s"
  by (simp add: attached_def answering_def memory_device_def)

lemma attached_next:
  "attached N sk A D rx s \<Longrightarrow> answering N sk D rx' (s\<lparr>net := n\<rparr>) \<Longrightarrow> attached N sk A D rx' (s\<lparr>net := n\<rparr>)"
  by (simp add: attached_def answering_def)

text \<open>Reading a buffer full of bytes that have arrived.\<close>

lemma read_with_timeout_run:
  assumes "answering N sk D (bs @ rx) s" "length buf = length bs"
  shows "\<exists>n'. read_with_timeout N (ipAddr (obj s)) t buf s = (Inr bs, s\<lparr>net := n'\<rparr>)
    \<and> answering N sk D rx (s\<lparr>net := n'\<rparr>) \<and> dv_mem D n' = dv_mem D (net s)"
proof -
  have l: "linked sk s" and law: "receive_law N sk D"
    and r: "dv_ready D (net s)" "dv_rx D (net s) = bs @ rx"
    using assms(1) by (auto simp: answering_def)
  have "dv_ready D (net s) \<and> length buf \<le> length (dv_rx D (net s))"
    using r assms(2) by simp
  from law [unfolded receive_law_def, rule_format, OF this, of t] r(2) assms(2) obtain n' where
    n': "net_tcp_receive N sk (length buf) t (net s) = (IoOk bs, n')"
      "dv_ready D n'" "dv_mem D n' = dv_mem D (net s)" "dv_rx D n' = rx"
    by auto
  have "read_with_timeout N (ipAddr (obj s)) t buf s = (Inr bs, s\<lparr>net := n'\<rparr>)"
    using assms(2) n'(1)
    by (simp add: read_with_timeout_def bindM_def socket_at_linked [OF l] net_do_def run_simps)
  with n' assms(1) show ?thesis by (auto simp: answering_def)
qed

lemma length_resize_bytes [simp]: "length (resize_bytes n buf) = n"
  by (simp add: resize_bytes_def)

text \<open>
  The bytes of an answer: the address is only there for some commands, the count only matters when
  there is a payload.
\<close>

definition answer_wire :: "APS2Datagram \<Rightarrow> u8 list" where
  "answer_wire dg = be32 (packed (dg_cmd dg))
     @ (if response_has_address (to_command (c_cmd (dg_cmd dg))) then be32 (dg_addr dg) else [])
     @ concat (map be32 (dg_payload dg))"

definition answer_ok :: "APS2Datagram \<Rightarrow> bool" where
  "answer_ok dg \<longleftrightarrow> (response_has_address (to_command (c_cmd (dg_cmd dg))) \<or> dg_addr dg = 0)
     \<and> (if c_ack (dg_cmd dg) \<and> \<not> c_r_w (dg_cmd dg) then dg_payload dg = []
        else length (dg_payload dg) = unat (c_cnt (dg_cmd dg)))"

lemma eth_read_answer:
  fixes s :: "'a st"
  assumes "answering N sk D (answer_wire dg) s" "answer_ok dg"
  shows "\<exists>n'. eth_read N (ipAddr (obj s)) t s = (Inr dg, s\<lparr>net := n'\<rparr>)
    \<and> answering N sk D [] (s\<lparr>net := n'\<rparr>) \<and> dv_mem D n' = dv_mem D (net s)"
proof -
  let ?c = "dg_cmd dg" and ?ip = "ipAddr (obj s)"
  define addressed where "addressed = response_has_address (to_command (c_cmd ?c))"
  define rest where "rest = concat (map be32 (dg_payload dg))"
  have "linked sk s" using assms(1) by (simp add: answering_def)
  then obtain info where i: "dev_at ?ip s = (Inr info, s)" "di_supports_tcp info"
    using dev_at_linked by blast
  have w: "answer_wire dg = be32 (packed ?c) @ (if addressed then be32 (dg_addr dg) else []) @ rest"
    by (simp add: answer_wire_def addressed_def rest_def)
  from read_with_timeout_run [OF assms(1) [unfolded w], of "resize_bytes 4 []" t] obtain n1 where
    1: "read_with_timeout N ?ip t (resize_bytes 4 []) s = (Inr (be32 (packed ?c)), s\<lparr>net := n1\<rparr>)"
      "answering N sk D ((if addressed then be32 (dg_addr dg) else []) @ rest) (s\<lparr>net := n1\<rparr>)"
      "dv_mem D n1 = dv_mem D (net s)"
    by auto
  define buf where "buf = (if addressed then be32 (dg_addr dg) else be32 (packed ?c))"
  define read_addr :: "('a, u32 \<times> u8 list) apsm" where "read_addr = (if addressed
         then bindM (read_with_timeout N ?ip t (be32 (packed ?c))) (\<lambda>buf'. returnM (of_be32 buf', buf'))
         else returnM (0, be32 (packed ?c)))"
  obtain n2 where
    2: "read_addr (s\<lparr>net := n1\<rparr>) = (Inr (dg_addr dg, buf), s\<lparr>net := n2\<rparr>)"
      "answering N sk D rest (s\<lparr>net := n2\<rparr>)" "dv_mem D n2 = dv_mem D n1"
  proof (cases addressed)
    case True
    from read_with_timeout_run [OF 1(2) [unfolded if_P [OF True]], of "be32 (packed ?c)" t] obtain n2 where
      "read_with_timeout N ?ip t (be32 (packed ?c)) (s\<lparr>net := n1\<rparr>) = (Inr (be32 (dg_addr dg)), s\<lparr>net := n2\<rparr>)"
      "answering N sk D rest (s\<lparr>net := n2\<rparr>)" "dv_mem D n2 = dv_mem D n1"
      by auto
    then show ?thesis
      using True by (intro that [of n2]) (simp_all add: read_addr_def bindM_def run_simps be32.dec_enc buf_def)
  next
    case False
    then show ?thesis
      using 1(2) assms(2) by (intro that [of n1]) (simp_all add: read_addr_def run_simps buf_def answer_ok_def addressed_def)
  qed
  have read: "eth_read N ?ip t s =
      (if c_ack ?c \<and> \<not> c_r_w ?c then returnM \<lparr>dg_cmd = ?c, dg_addr = dg_addr dg, dg_payload = []\<rparr>
       else bindM (read_with_timeout N ?ip t (resize_bytes (4 * unat (c_cnt ?c)) buf)) (\<lambda>buf''.
            returnM \<lparr>dg_cmd = ?c, dg_addr = dg_addr dg, dg_payload = decode_all 4 of_be32 buf''\<rparr>)) (s\<lparr>net := n2\<rparr>)"
    unfolding eth_read_def bindM_Inr [where m = "dev_at ?ip", OF i(1)] if_P [OF i(2)]
      bindM_Inr [where m = "read_with_timeout N ?ip t (resize_bytes 4 [])", OF 1(1)]
      be32.dec_enc unpack_packed Let_def addressed_def [symmetric] read_addr_def [symmetric]
      bindM_Inr [where m = read_addr, OF 2(1)]
    by simp
  show ?thesis
  proof (cases "c_ack ?c \<and> \<not> c_r_w ?c")
    case True
    then have "dg_payload dg = []" using assms(2) by (simp add: answer_ok_def)
    then have "eth_read N ?ip t s = (Inr dg, s\<lparr>net := n2\<rparr>)" "rest = []"
      using True unfolding read by (simp_all add: returnM_def rest_def)
    then show ?thesis using 1 2 by auto
  next
    case False
    then have len: "length rest = 4 * unat (c_cnt ?c)"
      using assms(2) by (simp add: answer_ok_def rest_def be32.concat_enc_length)
    have "answering N sk D (rest @ []) (s\<lparr>net := n2\<rparr>)" using 2(2) by simp
    from read_with_timeout_run [OF this, of "resize_bytes (4 * unat (c_cnt ?c)) buf" t] len obtain n3 where
      3: "read_with_timeout N ?ip t (resize_bytes (4 * unat (c_cnt ?c)) buf) (s\<lparr>net := n2\<rparr>) = (Inr rest, s\<lparr>net := n3\<rparr>)"
        "answering N sk D [] (s\<lparr>net := n3\<rparr>)" "dv_mem D n3 = dv_mem D n2"
      by auto
    have "decode_all 4 of_be32 rest = dg_payload dg" by (simp add: rest_def be32.decode_all_enc)
    then have "eth_read N ?ip t s = (Inr dg, s\<lparr>net := n3\<rparr>)"
      unfolding read if_not_P [OF False] by (simp add: bindM_def 3(1) returnM_def)
    then show ?thesis using 1 2 3 by auto
  qed
qed

lemma write_ack_answer: "write_ack a ack \<Longrightarrow> wire ack = answer_wire ack \<and> answer_ok ack"
  by (auto simp: write_ack_def wire_eq answer_wire_def answer_ok_def response_has_address_def)

lemma read_response_answer:
  "read_response ws resp \<Longrightarrow> length ws < 2 ^ 16 \<Longrightarrow> wire resp = answer_wire resp \<and> answer_ok resp"
  by (auto simp: read_response_def wire_eq answer_wire_def answer_ok_def response_has_address_def
      unat_of_nat take_bit_nat_eq_self)

lemma eth_read_ack:
  assumes "attached N sk A D (wire ack) s" "write_ack a ack"
  shows "\<exists>n'. eth_read N (ipAddr (obj s)) t s = (Inr ack, s\<lparr>net := n'\<rparr>)
    \<and> attached N sk A D [] (s\<lparr>net := n'\<rparr>) \<and> dv_mem D n' = dv_mem D (net s)"
  using eth_read_answer [of N sk D ack s t] attached_answering [OF assms(1)] attached_next [OF assms(1)]
    write_ack_answer [OF assms(2)] by auto

lemma eth_read_response:
  assumes "attached N sk A D (wire resp) s" "read_response ws resp" "length ws < 2 ^ 16"
  shows "\<exists>n'. eth_read N (ipAddr (obj s)) t s = (Inr resp, s\<lparr>net := n'\<rparr>)
    \<and> attached N sk A D [] (s\<lparr>net := n'\<rparr>) \<and> dv_mem D n' = dv_mem D (net s)"
  using eth_read_answer [of N sk D resp s t] attached_answering [OF assms(1)] attached_next [OF assms(1)]
    read_response_answer [OF assms(2,3)] by auto

section \<open>Sending datagrams\<close>

lemma tcp_send_write:
  assumes "device_ok N sk A D s" "length ws < 2 ^ 16" "words_at a (length ws) \<subseteq> A"
  shows "\<exists>n'. tcp_send_datagram N (ipAddr (obj s)) (dg_piece memory_write_cmd a ws) s
      = (Inr (), s\<lparr>net := n'\<rparr>)
    \<and> device_ok N sk A D (s\<lparr>net := n'\<rparr>) \<and> dv_mem D n' = store (dv_mem D (net s)) a ws"
proof -
  let ?dg = "dg_piece memory_write_cmd a ws"
  have l: "linked sk s" and law: "write_law N sk A D"
    and r: "dv_ready D (net s) \<and> dv_rx D (net s) = [] \<and> length ws < 2 ^ 16 \<and> words_at a (length ws) \<subseteq> A"
    using assms by (auto simp: device_ok_def attached_def memory_device_def)
  from law [unfolded write_law_def, rule_format, OF r, of COMMS_TIMEOUT] obtain n1 ack where
    w: "net_tcp_write N sk (wire ?dg) COMMS_TIMEOUT (net s) = (IoOk (), n1)"
      "dv_ready D n1" "dv_mem D n1 = store (dv_mem D (net s)) a ws" "dv_rx D n1 = wire ack"
      "write_ack a ack"
    by blast
  have "attached N sk A D (wire ack) (s\<lparr>net := n1\<rparr>)"
    using assms(1) w by (simp add: device_ok_def attached_def)
  from eth_read_ack [OF this w(5), of COMMS_TIMEOUT] obtain n2 where
    rd: "eth_read N (ipAddr (obj s)) COMMS_TIMEOUT (s\<lparr>net := n1\<rparr>) = (Inr ack, s\<lparr>net := n2\<rparr>)"
      "attached N sk A D [] (s\<lparr>net := n2\<rparr>)" "dv_mem D n2 = dv_mem D n1"
    by auto
  have "c_ack (dg_cmd ?dg)" "check_ack ?dg ack False = Inr ()"
    using w(5) by (simp_all add: dg_piece_def memory_write_cmd_def check_ack_cases ack_expected_def
        write_ack_def APS2Command_init_def to_command_def)
  then have "tcp_send_datagram N (ipAddr (obj s)) ?dg s = (Inr (), s\<lparr>net := n2\<rparr>)"
    using w(1) rd(1)
    by (simp add: tcp_send_datagram_def bindM_def socket_at_linked [OF l] net_do_def wire_def [symmetric] run_simps)
  with rd w show ?thesis by (auto simp: device_ok_def)
qed

text \<open>A list of pieces, each stored at its own address.\<close>

lemma tcp_send_pieces:
  assumes "device_ok N sk A D s"
    and "\<And>p. p \<in> set ps \<Longrightarrow> p = dg_piece memory_write_cmd (dg_addr p) (dg_payload p)
      \<and> length (dg_payload p) < 2 ^ 16 \<and> words_at (dg_addr p) (length (dg_payload p)) \<subseteq> A"
  shows "\<exists>n'. foreachM ps (tcp_send_datagram N (ipAddr (obj s))) s = (Inr (), s\<lparr>net := n'\<rparr>)
    \<and> device_ok N sk A D (s\<lparr>net := n'\<rparr>)
    \<and> dv_mem D n' = fold (\<lambda>p m. store m (dg_addr p) (dg_payload p)) ps (dv_mem D (net s))"
  using assms
proof (induction ps arbitrary: s)
  case Nil
  then show ?case by (auto simp: run_simps intro!: exI [of _ "net s"])
next
  case (Cons p ps)
  have p: "p = dg_piece memory_write_cmd (dg_addr p) (dg_payload p)"
    "length (dg_payload p) < 2 ^ 16" "words_at (dg_addr p) (length (dg_payload p)) \<subseteq> A"
    using Cons.prems(2) [of p] by auto
  from tcp_send_write [OF Cons.prems(1) p(2,3)] obtain n1 where
    1: "tcp_send_datagram N (ipAddr (obj s)) p s = (Inr (), s\<lparr>net := n1\<rparr>)"
      "device_ok N sk A D (s\<lparr>net := n1\<rparr>)"
      "dv_mem D n1 = store (dv_mem D (net s)) (dg_addr p) (dg_payload p)"
    unfolding p(1) [symmetric] by auto
  from Cons.IH [OF 1(2)] Cons.prems(2) obtain n2 where
    2: "foreachM ps (tcp_send_datagram N (ipAddr (obj s))) (s\<lparr>net := n1\<rparr>) = (Inr (), s\<lparr>net := n2\<rparr>)"
      "device_ok N sk A D (s\<lparr>net := n2\<rparr>)"
      "dv_mem D n2 = fold (\<lambda>p m. store m (dg_addr p) (dg_payload p)) ps (dv_mem D n1)"
    by auto
  show ?case
    using 1 2 by (auto simp: seqM_def bindM_def)
qed

lemma rm_send_run:
  assumes "linked sk s"
  shows "rm_send N dgs s = foreachM dgs (tcp_send_datagram N (ipAddr (obj s))) s"
proof -
  obtain info where i: "dev_at (ipAddr (obj s)) s = (Inr info, s)" "di_supports_tcp info"
    using dev_at_linked [OF assms] by blast
  have "ethernetRM (obj s)" using assms by (simp add: linked_def)
  with i show ?thesis
    by (simp add: rm_send_def need_rm_def get_obj_def seqM_def bindM_def run_simps eth_send_def)
qed

lemma rm_read_run:
  assumes "linked sk s"
  shows "rm_read N s = eth_read N (ipAddr (obj s)) COMMS_TIMEOUT s"
  using assms by (simp add: rm_read_def need_rm_def get_obj_def seqM_def bindM_def run_simps linked_def)

section \<open>The driver provides the bus\<close>

lemma device_ok_linked: "device_ok N sk A D s \<Longrightarrow> linked sk s"
  by (simp add: device_ok_def attached_def)

lemma chunked_pieces: "chunked cmd a ws 0xfffc = returnM (dg_pieces cmd a (blocks (unat (0xfffc :: u16)) ws))"
  by (simp add: chunked_def dg_chunk_eq)

lemma write_memory_run:
  assumes ok: "device_ok N sk A D s" and wr: "bus_writable A a (length ws)"
  shows "\<exists>n'. write_memory N a ws s = (Inr (), s\<lparr>net := n'\<rparr>)
    \<and> device_ok N sk A D (s\<lparr>net := n'\<rparr>) \<and> dv_mem D n' = store (dv_mem D (net s)) a ws"
proof -
  let ?ps = "dg_pieces memory_write_cmd a (blocks (unat (0xfffc :: u16)) ws)"
  have pieces: "p = dg_piece memory_write_cmd (dg_addr p) (dg_payload p)
      \<and> length (dg_payload p) < 2 ^ 16 \<and> words_at (dg_addr p) (length (dg_payload p)) \<subseteq> A"
    if "p \<in> set ?ps" for p
  proof (intro conjI)
    show "length (dg_payload p) < 2 ^ 16"
      using sdram.pieces_limit [OF that] by simp
    show "words_at (dg_addr p) (length (dg_payload p)) \<subseteq> A"
      using sdram.pieces_words_at [OF that] wr by (auto simp: bus_writable_def)
    show "p = dg_piece memory_write_cmd (dg_addr p) (dg_payload p)"
      by (rule dg_pieces_piece [OF that])
  qed
  have guards: "(a < MEMORY_ADDR + 0x40000000 \<and> a AND 0xf \<noteq> 0) = False"
    "(a < MEMORY_ADDR + 0x40000000 \<and> length ws mod 4 \<noteq> 0) = False"
    using wr by (auto simp: bus_writable_def aligned_write_def const_defs)
  have run: "write_memory N a ws s = foreachM ?ps (tcp_send_datagram N (ipAddr (obj s))) s"
    unfolding write_memory_def guards if_False chunked_pieces bindM_returnM
    by (rule rm_send_run [OF device_ok_linked [OF ok]])
  have "fold (\<lambda>p m. store m (dg_addr p) (dg_payload p)) ?ps (dv_mem D (net s)) = store (dv_mem D (net s)) a ws"
    by (rule sdram.stores_all)
  then show ?thesis
    unfolding run using tcp_send_pieces [of N sk A D s ?ps, OF ok pieces] by (simp only:)
qed

lemma read_memory_run:
  assumes ok: "device_ok N sk A D s" and rd: "bus_readable A a (unat k)"
  shows "\<exists>n'. read_memory N a k s = (Inr (load (dv_mem D (net s)) a (unat k)), s\<lparr>net := n'\<rparr>)
    \<and> device_ok N sk A D (s\<lparr>net := n'\<rparr>) \<and> dv_mem D n' = dv_mem D (net s)"
proof -
  let ?dg = "\<lparr>dg_cmd = memory_read_cmd k, dg_addr = a, dg_payload = []\<rparr>"
  have l: "linked sk s" and law: "read_law N sk A D"
    and r: "dv_ready D (net s) \<and> dv_rx D (net s) = [] \<and> unat k < 2 ^ 16 \<and> words_at a (unat k) \<subseteq> A"
    using assms by (auto simp: device_ok_def attached_def memory_device_def bus_readable_def)
  from law [unfolded read_law_def, rule_format, OF r, of COMMS_TIMEOUT] obtain n1 resp where
    w: "net_tcp_write N sk (wire ?dg) COMMS_TIMEOUT (net s) = (IoOk (), n1)"
      "dv_ready D n1" "dv_mem D n1 = dv_mem D (net s)" "dv_rx D n1 = wire resp"
      "read_response (load (dv_mem D (net s)) a (unat k)) resp"
    by blast
  have "c_ack (memory_read_cmd k) = False"
    by (simp add: memory_read_cmd_def APS2Command_init_def)
  then have send: "rm_send N [?dg] s = (Inr (), s\<lparr>net := n1\<rparr>)"
    using w(1)
    by (simp add: rm_send_run [OF l] seqM_def tcp_send_datagram_def bindM_def socket_at_linked [OF l]
        net_do_def wire_def [symmetric] run_simps)
  have "attached N sk A D (wire resp) (s\<lparr>net := n1\<rparr>)"
    using ok w by (simp add: device_ok_def attached_def)
  from eth_read_response [OF this w(5), of COMMS_TIMEOUT] r obtain n2 where
    rd: "eth_read N (ipAddr (obj s)) COMMS_TIMEOUT (s\<lparr>net := n1\<rparr>) = (Inr resp, s\<lparr>net := n2\<rparr>)"
      "attached N sk A D [] (s\<lparr>net := n2\<rparr>)" "dv_mem D n2 = dv_mem D n1"
    by auto
  have "rm_read N (s\<lparr>net := n1\<rparr>) = (Inr resp, s\<lparr>net := n2\<rparr>)"
    using rm_read_run [of sk "s\<lparr>net := n1\<rparr>"] rd(1) l by simp
  then have "read_memory N a k s = (Inr (load (dv_mem D (net s)) a (unat k)), s\<lparr>net := n2\<rparr>)"
    using send w(5)
    by (simp add: read_memory_def request_def seqM_def bindM_def run_simps read_response_def)
  with rd w show ?thesis by (auto simp: device_ok_def)
qed

text \<open>
  \<open>read_memory\<close> and \<open>write_memory\<close> are a register bus on the object's connection, whatever the
  network \<open>N\<close>, the socket, the addresses and the view: the laws of the module are part of the
  states the bus promises something on.
\<close>

interpretation module: register_bus
    "read_memory N" "write_memory N" "device_ok N sk A D" "device_bus D"
    "bus_readable A" "bus_writable A" for N sk A D
proof
  show "refines (device_ok N sk A D) (device_bus D) (read_memory N a n) (bus_read (bus_readable A) a n)" for a n
    unfolding refines_def
  proof (intro allI impI)
    fix s
    assume ok: "device_ok N sk A D s"
      and d: "fst (bus_read (bus_readable A) a n (device_bus D s)) \<noteq> Inl Undefined"
    then have "bus_readable A a (unat n)"
      by (auto simp: bus_read_def device_bus_def split: if_splits)
    with read_memory_run [OF ok this]
    show "fst (read_memory N a n s) = fst (bus_read (bus_readable A) a n (device_bus D s))
        \<and> device_ok N sk A D (snd (read_memory N a n s))
        \<and> device_bus D (snd (read_memory N a n s)) = snd (bus_read (bus_readable A) a n (device_bus D s))"
      by (auto simp: bus_read_def device_bus_def)
  qed
  show "refines (device_ok N sk A D) (device_bus D) (write_memory N a ws) (bus_write (bus_writable A) a ws)" for a ws
    unfolding refines_def
  proof (intro allI impI)
    fix s
    assume ok: "device_ok N sk A D s"
      and d: "fst (bus_write (bus_writable A) a ws (device_bus D s)) \<noteq> Inl Undefined"
    then have "bus_writable A a (length ws)"
      by (auto simp: bus_write_def device_bus_def split: if_splits)
    with write_memory_run [OF ok this]
    show "fst (write_memory N a ws s) = fst (bus_write (bus_writable A) a ws (device_bus D s))
        \<and> device_ok N sk A D (snd (write_memory N a ws s))
        \<and> device_bus D (snd (write_memory N a ws s)) = snd (bus_write (bus_writable A) a ws (device_bus D s))"
      by (auto simp: bus_write_def device_bus_def)
  qed
qed

section \<open>Refinement of the register methods\<close>

lemma refines_get_obj [refines_intros]:
  "refines (device_ok N sk A D) (device_bus D) (get_obj f) (bus_get f)"
  by (simp add: refines_def get_obj_def bus_get_def getM_run device_bus_def)

lemma refines_read1 [refines_intros]:
  "refines (device_ok N sk A D) (device_bus D) (read_memory1 N a) (bus_read1 (bus_readable A) a)"
  unfolding read_memory1_def by (rule module.read1_law)

lemma refines_write_memory [refines_intros]:
  "refines (device_ok N sk A D) (device_bus D) (write_memory N a ws) (bus_write (bus_writable A) a ws)"
  by (rule module.write_law)

lemma refines_write1 [refines_intros]:
  "refines (device_ok N sk A D) (device_bus D) (write_memory1 N a w) (bus_write (bus_writable A) a [w])"
  unfolding write_memory1_def by (rule module.write_law)

lemma refines_modify:
  "refines (device_ok N sk A D) (device_bus D)
     (bindM (read_memory1 N a) (\<lambda>w. write_memory1 N a (f w)))
     (bus_modify (bus_readable A) (bus_writable A) a f)"
  unfolding read_memory1_def write_memory1_def by (rule module.modify_law)

text \<open>Registers lie above the SDRAM, so a single word can be written there.\<close>

definition reg_in :: "u32 set \<Rightarrow> u32 \<Rightarrow> bool" where
  "reg_in A a \<longleftrightarrow> a \<in> A \<and> 0x40000000 \<le> a"

lemma reg_in_access: "reg_in A a \<Longrightarrow> bus_readable A a 1 \<and> bus_writable A a 1"
  by (auto simp: reg_in_def bus_readable_def bus_writable_def words_at_def aligned_write_def)

end
