(* ===== verification/Emulator.thy ===== *)
theory Emulator
  imports Device
begin

text \<open>
  A concrete module that keeps the laws of \<open>Device\<close>: a memory and a queue of bytes to be received.
  It shows that the laws can hold, and the witnesses of the end-to-end properties run on it.
\<close>

record emu =
  em_mem :: memory
  em_rx :: "u8 list"

text \<open>What the module does with a datagram: memory writes and reads, nothing else.\<close>

fun emu_handle :: "u32 list \<Rightarrow> emu \<Rightarrow> emu" where
  "emu_handle (w # addr # payload) n =
     (let cmd = unpack w in
      if to_command (c_cmd cmd) \<noteq> USERIO_ACK then n
      else if c_r_w cmd
      then n\<lparr>em_rx := em_rx n @ wire \<lparr>dg_cmd = cmd, dg_addr = addr,
               dg_payload = load (em_mem n) addr (unat (c_cnt cmd))\<rparr>\<rparr>
      else n\<lparr>em_mem := store (em_mem n) addr payload,
             em_rx := em_rx n @ wire \<lparr>dg_cmd = cmd\<lparr>c_mode_stat := 0x81\<rparr>, dg_addr = addr, dg_payload = []\<rparr>\<rparr>)"
| "emu_handle _ n = n"

definition emu_ops :: "emu net_ops" where
  "emu_ops =
     \<lparr>net_ifaddrs = (\<lambda>n. []), net_valid_ip = (\<lambda>ip. True), net_broadcast = (\<lambda>ip mask. ip),
      net_udp_bind = (\<lambda>p n. (IoOk (), n)), net_udp_broadcast_on = (\<lambda>p n. (IoOk (), n)),
      net_udp_send = (\<lambda>p bs ep n. (IoOk (), n)), net_arrivals = (\<lambda>n. ([], n)),
      net_sleep = (\<lambda>d n. (0, n)), net_tcp_open = (\<lambda>n. (0, n)),
      net_tcp_connect = (\<lambda>sk ep t n. (IoOk (), n)),
      net_tcp_write = (\<lambda>sk bs t n. (IoOk (), emu_handle (decode_all 4 of_be32 bs) n)),
      net_tcp_receive = (\<lambda>sk k t n. if em_rx n = [] \<and> 0 < k then (IoTimeout, n)
         else (IoOk (take k (em_rx n)), n\<lparr>em_rx := drop k (em_rx n)\<rparr>)),
      net_tcp_close = (\<lambda>sk n. n)\<rparr>"

definition emu_view :: "emu device_view" where
  "emu_view = \<lparr>dv_ready = (\<lambda>n. True), dv_rx = em_rx, dv_mem = em_mem\<rparr>"

lemma decode_wire: "decode_all 4 of_be32 (wire dg) = packed (dg_cmd dg) # dg_addr dg # dg_payload dg"
  by (simp add: wire_def dg_data_def be32.decode_all_enc flip: list.simps(9) concat.simps(2))

lemma emu_memory_device: "memory_device emu_ops 0 UNIV emu_view"
  unfolding memory_device_def
proof (intro conjI)
  show "write_law emu_ops 0 UNIV emu_view"
    by (auto simp: write_law_def emu_ops_def emu_view_def decode_wire dg_piece_def memory_write_cmd_def
        APS2Command_init_def to_command_def write_ack_def Let_def intro!: exI)
  have "unat (ucast k :: u16) = unat k \<and> (of_nat (unat k) :: u16) = ucast k"
    if "unat k < 65536" for k :: u32
    using that by (simp add: unsigned_ucast_eq take_bit_nat_eq_self)
  then show "read_law emu_ops 0 UNIV emu_view"
    by (auto simp: read_law_def emu_ops_def emu_view_def decode_wire memory_read_cmd_def
        APS2Command_init_def to_command_def read_response_def Let_def intro!: exI)
  show "receive_law emu_ops 0 emu_view"
    by (auto simp: receive_law_def emu_ops_def emu_view_def)
  show "quiet_law emu_ops emu_view"
    by (auto simp: quiet_law_def emu_ops_def emu_view_def)
qed

text \<open>An object connected to the emulated module, and that state's place on the bus.\<close>

definition emu_info :: EthernetDevInfo where
  "emu_info = EthernetDevInfo_init\<lparr>di_supports_tcp := True\<rparr>"

definition emu_obj :: aps2 where
  "emu_obj = (APS2_construct ''10.0.0.2'')\<lparr>connected := True, ethernetRM := True, host_type := Some APS\<rparr>"

definition emu_state :: "memory \<Rightarrow> emu st" where
  "emu_state m = \<lparr>devInfo = [''10.0.0.2'' \<mapsto> emu_info], msgQueues = Map.empty,
     tcp_sockets = [''10.0.0.2'' \<mapsto> Some 0], net = \<lparr>em_mem = m, em_rx = []\<rparr>, obj = emu_obj\<rparr>"

lemma emu_ok: "device_ok emu_ops 0 UNIV emu_view (emu_state m)"
  using emu_memory_device
  by (simp add: device_ok_def attached_def linked_def emu_state_def emu_obj_def
      emu_info_def APS2_construct_def emu_view_def)

lemma emu_view_simps [simp]: "dv_mem emu_view (net (emu_state m)) = m"
  "obj (emu_state m) = emu_obj"
  by (simp_all add: emu_view_def emu_state_def)

end
