(* ===== verification/Sorting.thy ===== *)
theory Sorting
  imports Ethernet
begin

text \<open>
  What the receive handler \<open>sort_packet\<close> does with a packet, whatever its bytes.
\<close>

lemma payload_words_length: "payload_words bs = Inr ws \<Longrightarrow> length bs = 4 * length ws"
  by (induction bs arbitrary: ws rule: payload_words.induct) (auto split: sum.splits)

lemma packet_of_84_bytes:
  assumes "length bs = 84"
  obtains p where "packet_of_bytes bs = Inr p" "fits_status_bank (pk_payload p)"
proof -
  obtain p where p: "packet_of_bytes bs = Inr p"
    using packet_of_bytes_defined_iff [of bs] assms by auto
  have "length (pk_payload p) \<le> 16"
    using p assms
    by (auto simp: packet_of_bytes_def Let_def split: sum.splits if_splits dest!: payload_words_length)
  with p that show thesis by (simp add: fits_status_bank_def const_defs)
qed

text \<open>
  With no message queue for the sender, sorting a packet cannot fail, whatever bytes it has, and
  only adds to the device table; a device known to speak TCP stays one.
\<close>

lemma sort_packet_unqueued:
  assumes "msgQueues s (fst sndr) = None"
  shows "\<exists>D. sort_packet bs sndr s = (Inr (), s\<lparr>devInfo := D\<rparr>)
    \<and> (\<forall>ip info. devInfo s ip = Some info \<and> di_supports_tcp info \<longrightarrow>
        (\<exists>info'. D ip = Some info' \<and> di_supports_tcp info'))
    \<and> (\<forall>ip. ip \<noteq> fst sndr \<longrightarrow> D ip = devInfo s ip)"
proof -
  have self: "s\<lparr>devInfo := devInfo s\<rparr> = s" by simp
  consider (old) "snd sndr = 0xbb4e" "length bs = 84"
    | (new) "\<not> (snd sndr = 0xbb4e \<and> length bs = 84)" "snd sndr = 0xbb4f" "length bs = 12"
        "map (\<lambda>b. char_of (unat b)) bs = ''I am an APS2''"
    | (none) "\<not> (snd sndr = 0xbb4e \<and> length bs = 84)"
        "\<not> (snd sndr = 0xbb4f \<and> length bs = 12 \<and> map (\<lambda>b. char_of (unat b)) bs = ''I am an APS2'')"
    by blast
  then show ?thesis
  proof cases
    case old
    obtain p where p: "packet_of_bytes bs = Inr p" "fits_status_bank (pk_payload p)"
      using packet_of_84_bytes [OF old(2)] .
    define info where "info = (case devInfo s (fst sndr) of None \<Rightarrow> EthernetDevInfo_init | Some i \<Rightarrow> i)"
    have d: "dev_at (fst sndr) s = (Inr info, s\<lparr>devInfo := (devInfo s)(fst sndr \<mapsto> info)\<rparr>)"
      by (auto simp: dev_at_def seqM_def bindM_def run_simps info_def map_upd_triv split: option.split)
    have "sort_packet bs sndr s = (Inr (), s\<lparr>devInfo := (devInfo s)(fst sndr \<mapsto>
        info\<lparr>di_endpoint := sndr, di_macAddr := h_src (pk_header p)\<rparr>)\<rparr>)"
      using assms old p d by (simp add: sort_packet_def Let_def bindM_def seqM_def run_simps)
    moreover have "\<exists>info'. ((devInfo s)(fst sndr \<mapsto>
          info\<lparr>di_endpoint := sndr, di_macAddr := h_src (pk_header p)\<rparr>)) ip = Some info'
        \<and> di_supports_tcp info'" if "devInfo s ip = Some i" "di_supports_tcp i" for ip i
      using that by (auto simp: info_def)
    ultimately show ?thesis
      by (intro exI [of _ "(devInfo s)(fst sndr \<mapsto>
        info\<lparr>di_endpoint := sndr, di_macAddr := h_src (pk_header p)\<rparr>)"]) auto
  next
    case new
    define info where "info = (case devInfo s (fst sndr) of None \<Rightarrow> EthernetDevInfo_init | Some i \<Rightarrow> i)"
    have d: "dev_at (fst sndr) s = (Inr info, s\<lparr>devInfo := (devInfo s)(fst sndr \<mapsto> info)\<rparr>)"
      by (auto simp: dev_at_def seqM_def bindM_def run_simps info_def map_upd_triv split: option.split)
    show ?thesis
      using assms new d
      by (auto simp: sort_packet_def Let_def bindM_def seqM_def run_simps whenM_def)
  next
    case none
    then have "sort_packet bs sndr s = (Inr (), s\<lparr>devInfo := devInfo s\<rparr>)"
      using assms by (auto simp: sort_packet_def Let_def bindM_def run_simps whenM_def)
    then show ?thesis by blast
  qed
qed

lemma sort_packet_queued:
  assumes "msgQueues s (fst sndr) = Some q"
  shows "sort_packet bs sndr s = (case packet_of_bytes bs of
     Inl e \<Rightarrow> (Inl e, s) | Inr p \<Rightarrow> (Inr (), s\<lparr>msgQueues := (msgQueues s)(fst sndr \<mapsto> q @ [p])\<rparr>))"
  using assms by (simp add: sort_packet_def Let_def bindM_def run_simps split: sum.split)

lemma packet_of_bytes_Inl: "packet_of_bytes bs = Inl e \<Longrightarrow> e = Undefined"
proof -
  have "payload_words xs = Inl x \<Longrightarrow> x = Undefined" for xs x
    by (induction xs rule: payload_words.induct) (auto split: sum.splits)
  then show "packet_of_bytes bs = Inl e \<Longrightarrow> e = Undefined"
    by (auto simp: packet_of_bytes_def Let_def split: if_splits sum.splits)
qed

end
