(* ===== verification/Behaviour.thy ===== *)
theory Behaviour
  imports Emulator Sorting
begin

text \<open>
  The register, waveform and sequence methods as programs on the abstract bus, and what they do to
  a module: the end-to-end behaviour through chunking, serialisation, the TCP connection and the
  acknowledge checks.
\<close>

section \<open>Waiting\<close>

lemma sort_all_unqueued:
  assumes "msgQueues s = Map.empty"
  shows "\<exists>D. foreachM ps (\<lambda>(bs, sndr). sort_packet bs sndr) s = (Inr (), s\<lparr>devInfo := D\<rparr>)
    \<and> (\<forall>ip info. devInfo s ip = Some info \<and> di_supports_tcp info \<longrightarrow>
        (\<exists>info'. D ip = Some info' \<and> di_supports_tcp info'))"
  using assms
proof (induction ps arbitrary: s)
  case Nil
  have "s\<lparr>devInfo := devInfo s\<rparr> = s" by simp
  then show ?case by (metis foreachM.simps(1) returnM_def)
next
  case (Cons p ps)
  obtain bs sndr where p: "p = (bs, sndr)" by (cases p)
  from sort_packet_unqueued [of s sndr bs] Cons.prems obtain D where
    1: "sort_packet bs sndr s = (Inr (), s\<lparr>devInfo := D\<rparr>)"
      "\<forall>ip info. devInfo s ip = Some info \<and> di_supports_tcp info \<longrightarrow>
        (\<exists>info'. D ip = Some info' \<and> di_supports_tcp info')"
    by auto
  from Cons.IH [of "s\<lparr>devInfo := D\<rparr>"] Cons.prems obtain D' where
    2: "foreachM ps (\<lambda>(bs, sndr). sort_packet bs sndr) (s\<lparr>devInfo := D\<rparr>) = (Inr (), s\<lparr>devInfo := D'\<rparr>)"
      "\<forall>ip info. D ip = Some info \<and> di_supports_tcp info \<longrightarrow>
        (\<exists>info'. D' ip = Some info' \<and> di_supports_tcp info')"
    by auto
  have "foreachM (p # ps) (\<lambda>(bs, sndr). sort_packet bs sndr) s = (Inr (), s\<lparr>devInfo := D'\<rparr>)"
    using 1(1) 2(1) by (simp add: p seqM_def bindM_def)
  with 1(2) 2(2) show ?case by blast
qed

lemma refines_pause [refines_intros]:
  "refines (device_ok N sk A D) (device_bus D) (pause_ms N d) (returnM ())"
  unfolding refines_def
proof (intro allI impI)
  fix s
  assume ok: "device_ok N sk A D s"
  then have law: "quiet_law N D" and l: "linked sk s" and r: "dv_ready D (net s)"
    by (auto simp: device_ok_def attached_def memory_device_def)
  define n1 where "n1 = snd (net_sleep N d (net s))"
  define n2 where "n2 = snd (net_arrivals N n1)"
  have 1: "dv_ready D n1" "dv_mem D n1 = dv_mem D (net s)" "dv_rx D n1 = dv_rx D (net s)"
    using law r by (auto simp: quiet_law_def n1_def)
  have 2: "dv_ready D n2" "dv_mem D n2 = dv_mem D (net s)" "dv_rx D n2 = dv_rx D (net s)"
    using law 1 by (auto simp: quiet_law_def n2_def)
  have q: "msgQueues (s\<lparr>net := n2\<rparr>) = Map.empty" using l by (simp add: linked_def)
  obtain D' where
    srt: "foreachM (fst (net_arrivals N n1)) (\<lambda>(bs, sndr). sort_packet bs sndr) (s\<lparr>net := n2\<rparr>)
        = (Inr (), s\<lparr>net := n2, devInfo := D'\<rparr>)"
      "\<forall>ip info. devInfo s ip = Some info \<and> di_supports_tcp info \<longrightarrow>
        (\<exists>info'. D' ip = Some info' \<and> di_supports_tcp info')"
    using sort_all_unqueued [OF q, of "fst (net_arrivals N n1)"] by auto
  have "pause_ms N d s = (Inr (), s\<lparr>net := n2, devInfo := D'\<rparr>)"
    using srt(1) by (simp add: pause_ms_def sleep_ms_def deliver_def bindM_def seqM_def net_do_def
        run_simps n1_def [symmetric] n2_def [symmetric])
  then show "fst (pause_ms N d s) = fst (returnM () (device_bus D s))
      \<and> device_ok N sk A D (snd (pause_ms N d s))
      \<and> device_bus D (snd (pause_ms N d s)) = snd (returnM () (device_bus D s))"
    using ok 2 srt(2) by (auto simp: returnM_def device_ok_def attached_def linked_def device_bus_def)
qed

section \<open>Programs on the abstract bus\<close>

definition bus_init :: "(aps2 \<Rightarrow> 'a option) \<Rightarrow> (aps2 bus, 'a) meth" where
  "bus_init f = bindM (bus_get f) (\<lambda>x. case x of None \<Rightarrow> throwM Undefined | Some a \<Rightarrow> returnM a)"

lemma refines_get_init [refines_intros]:
  "refines (device_ok N sk A D) (device_bus D) (get_init f) (bus_init f)"
  unfolding get_init_def bus_init_def
  by (intro refines_intros) (auto split: option.split intro: refines_intros)

lemma refines_register_bits:
  "\<forall>b \<in> set bits. b < 32 \<Longrightarrow>
    refines (device_ok N sk A D) (device_bus D) (update_register_bits N f a bits)
      (bus_modify (bus_readable A) (bus_writable A) a (fold f bits))"
proof -
  assume "\<forall>b \<in> set bits. b < 32"
  then have "(\<exists>b \<in> set bits. 32 \<le> b) = False" by auto
  then have "update_register_bits N f a bits
      = bindM (read_memory1 N a) (\<lambda>w. write_memory1 N a (fold f bits w))"
    unfolding update_register_bits_def by (simp only: if_False)
  then show ?thesis using refines_modify [where f = "fold f bits"] by simp
qed

lemma refines_set_register_bit [refines_intros]:
  "\<forall>b \<in> set bits. b < 32 \<Longrightarrow>
    refines (device_ok N sk A D) (device_bus D) (set_register_bit N a bits)
      (bus_modify (bus_readable A) (bus_writable A) a (fold set_bit bits))"
  unfolding set_register_bit_def by (rule refines_register_bits)

lemma refines_clear_register_bit [refines_intros]:
  "\<forall>b \<in> set bits. b < 32 \<Longrightarrow>
    refines (device_ok N sk A D) (device_bus D) (clear_register_bit N a bits)
      (bus_modify (bus_readable A) (bus_writable A) a (fold unset_bit bits))"
  unfolding clear_register_bit_def by (rule refines_register_bits)

text \<open>Running an abstract program: the bus steps as equations.\<close>

lemma bus_modify_run: "reg_in A a \<Longrightarrow>
    bus_modify (bus_readable A) (bus_writable A) a f (m, x) = (Inr (), (m(a := f (m a)), x))"
  using reg_in_access [of A a] by (simp add: bus_modify_def)

lemma bus_read1_run: "reg_in A a \<Longrightarrow> bus_read1 (bus_readable A) a (m, x) = (Inr (m a), (m, x))"
  using reg_in_access [of A a] by (simp add: bus_read1_def)

lemma bus_write1_run: "reg_in A a \<Longrightarrow>
    bus_write (bus_writable A) a [w] (m, x) = (Inr (), (m(a := w), x))"
  using reg_in_access [of A a] by (simp add: bus_write_def)

lemma bus_write_run: "bus_writable A a (length ws) \<Longrightarrow>
    bus_write (bus_writable A) a ws (m, x) = (Inr (), (store m a ws, x))"
  by (simp add: bus_write_def)

lemma bus_get_run: "bus_get f (m, x) = (Inr (f x), (m, x))"
  by (simp add: bus_get_def getM_def)

lemma bus_init_run: "f x = Some a \<Longrightarrow> bus_init f (m, x) = (Inr a, (m, x))"
  by (simp add: bus_init_def bindM_def bus_get_run returnM_def)

lemmas bus_runs = bus_modify_run bus_read1_run bus_write1_run bus_write_run bus_get_run bus_init_run
  run_simps bindM_def seqM_def whenM_def

text \<open>What a method does to a module, from what its program does on the bus.\<close>

lemma module_run:
  assumes "refines (device_ok N sk A D) (device_bus D) m g" "device_ok N sk A D s"
    and "g (dv_mem D (net s), obj s) = (r, (mem', x'))" "r \<noteq> Inl Undefined"
  shows "\<exists>t. m s = (r, t) \<and> device_ok N sk A D t \<and> dv_mem D (net t) = mem' \<and> obj t = x'"
  using refines_run [OF assms(1,2)] assms(3,4) by (auto simp: device_bus_def)

section \<open>Registers and trigger\<close>

lemma refines_set_trigger_source:
  "refines (device_ok N sk A D) (device_bus D) (set_trigger_source N src)
     (bus_modify (bus_readable A) (bus_writable A) CONTROL_REG_ADDR (trigger_source_register src))"
  unfolding set_trigger_source_def by (rule refines_modify)

lemma refines_get_trigger_source:
  "refines (device_ok N sk A D) (device_bus D) (get_trigger_source N)
     (bindM (bus_read1 (bus_readable A) CONTROL_REG_ADDR) (\<lambda>w. returnM (trigger_source_of_register w)))"
  unfolding get_trigger_source_def by (intro refines_intros)

lemma refines_trigger:
  "refines (device_ok N sk A D) (device_bus D) (aps2_trigger N)
     (bus_modify (bus_readable A) (bus_writable A) CONTROL_REG_ADDR (\<lambda>w. w XOR push_bit SOFT_TRIG_BIT 1))"
  unfolding aps2_trigger_def by (rule refines_modify)

definition bus_run :: "u32 set \<Rightarrow> (aps2 bus, unit) meth" where
  "bus_run A =
     seqM (bindM (bus_init host_type) (\<lambda>host. whenM (host = APS)
             (seqM (bus_modify (bus_readable A) (bus_writable A) CACHE_CONTROL_ADDR (fold set_bit [CACHE_ENABLE_BIT]))
                   (returnM ()))))
     (seqM (bus_modify (bus_readable A) (bus_writable A) CONTROL_REG_ADDR (fold set_bit [SM_ENABLE_BIT]))
     (seqM (returnM ())
           (bus_modify (bus_readable A) (bus_writable A) CONTROL_REG_ADDR (fold set_bit [TRIGGER_ENABLE_BIT]))))"

lemma refines_run': "refines (device_ok N sk A D) (device_bus D) (aps2_run N) (bus_run A)"
  unfolding aps2_run_def bus_run_def
  by (intro refines_intros) (auto simp: const_defs)

definition bus_stop :: "u32 set \<Rightarrow> (aps2 bus, unit) meth" where
  "bus_stop A =
     seqM (bindM (bus_init host_type) (\<lambda>host. whenM (host = APS)
             (bus_modify (bus_readable A) (bus_writable A) CACHE_CONTROL_ADDR (fold unset_bit [CACHE_ENABLE_BIT]))))
          (bus_modify (bus_readable A) (bus_writable A) CONTROL_REG_ADDR
             (fold unset_bit [SM_ENABLE_BIT, TRIGGER_ENABLE_BIT]))"

lemma refines_stop: "refines (device_ok N sk A D) (device_bus D) (aps2_stop N) (bus_stop A)"
  unfolding aps2_stop_def bus_stop_def
  by (intro refines_intros) (auto simp: const_defs)

lemma trigger_code_bits: "bit (trigger_code src) n \<Longrightarrow> n < 2"
proof -
  have "take_bit 2 (trigger_code src) = trigger_code src" by (cases src) simp_all
  then show "bit (trigger_code src) n \<Longrightarrow> n < 2" by (metis bit_take_bit_iff)
qed

lemma trigger_source_bits:
  "trigger_source_of_register (trigger_source_register src w) = src"
  "b \<notin> {1, 2} \<Longrightarrow> bit (trigger_source_register src w) b = bit w b"
proof -
  have m: "(3 :: u32) = mask 2" by (simp add: mask_eq_exp_minus_1)
  have "drop_bit TRIGSRC_BIT (trigger_source_register src w AND push_bit TRIGSRC_BIT 3) = trigger_code src"
  proof (rule bit_word_eqI)
    fix n assume "n < LENGTH(32)"
    show "bit (drop_bit TRIGSRC_BIT (trigger_source_register src w AND push_bit TRIGSRC_BIT 3)) n
        = bit (trigger_code src) n"
      unfolding trigger_source_register_def m
      by (auto simp: bit_simps dest: bit_imp_le_length trigger_code_bits)
         (auto simp: const_defs dest: trigger_code_bits)
  qed
  then show "trigger_source_of_register (trigger_source_register src w) = src"
    by (cases src) (simp_all add: trigger_source_of_register_def)
  assume b: "b \<notin> {1, 2}"
  then have "b < TRIGSRC_BIT \<or> TRIGSRC_BIT + 2 \<le> b" by (auto simp: const_defs)
  then show "bit (trigger_source_register src w) b = bit w b"
    unfolding trigger_source_register_def m
    by (auto simp: bit_simps dest: bit_imp_le_length trigger_code_bits)
qed

text \<open>
  C26. A module set to a trigger source reports that source, on any connection that keeps the
  module's laws; the other bits of the control register and the rest of its memory are unchanged,
  and so is the object.
\<close>

theorem trigger_source_round_trip:
  assumes "device_ok N sk A D s" "reg_in A CONTROL_REG_ADDR"
  shows "\<exists>t u. set_trigger_source N src s = (Inr (), t) \<and> get_trigger_source N t = (Inr src, u)
    \<and> device_ok N sk A D u \<and> obj u = obj s
    \<and> (\<forall>a. a \<noteq> CONTROL_REG_ADDR \<longrightarrow> dv_mem D (net u) a = dv_mem D (net s) a)
    \<and> (\<forall>b. b \<notin> {1, 2} \<longrightarrow>
         bit (dv_mem D (net u) CONTROL_REG_ADDR) b = bit (dv_mem D (net s) CONTROL_REG_ADDR) b)"
proof -
  let ?v = "trigger_source_register src (dv_mem D (net s) CONTROL_REG_ADDR)"
  from module_run [OF refines_set_trigger_source [of N sk A D src] assms(1)] obtain t where
    t: "set_trigger_source N src s = (Inr (), t)" "device_ok N sk A D t"
      "dv_mem D (net t) = (dv_mem D (net s))(CONTROL_REG_ADDR := ?v)" "obj t = obj s"
    by (auto simp: bus_runs assms(2))
  from module_run [OF refines_get_trigger_source t(2)] obtain u where
    u: "get_trigger_source N t = (Inr (trigger_source_of_register ?v), u)" "device_ok N sk A D u"
      "dv_mem D (net u) = dv_mem D (net t)" "obj u = obj t"
    by (auto simp: bus_runs assms(2) t(3))
  show ?thesis
    using t u trigger_source_bits [where src = src] by (intro exI [of _ t] exI [of _ u]) auto
qed

theorem trigger_source_round_trip_witness:
  "\<exists>t u. set_trigger_source emu_ops SOFTWARE (emu_state (\<lambda>a. 0xff)) = (Inr (), t)
    \<and> get_trigger_source emu_ops t = (Inr SOFTWARE, u)"
  using trigger_source_round_trip [OF emu_ok, of SOFTWARE "\<lambda>a. 0xff"]
  by (auto simp: reg_in_def const_defs)

text \<open>
  \<open>trigger\<close> inverts the software trigger bit of the control register and nothing else, so two
  triggers restore the register.
\<close>

theorem trigger_toggles:
  assumes "device_ok N sk A D s" "reg_in A CONTROL_REG_ADDR"
  shows "\<exists>t u. aps2_trigger N s = (Inr (), t) \<and> aps2_trigger N t = (Inr (), u)
    \<and> (\<forall>b < 32. bit (dv_mem D (net t) CONTROL_REG_ADDR) b
         = (bit (dv_mem D (net s) CONTROL_REG_ADDR) b \<noteq> (b = 3)))
    \<and> (\<forall>a. a \<noteq> CONTROL_REG_ADDR \<longrightarrow> dv_mem D (net t) a = dv_mem D (net s) a)
    \<and> dv_mem D (net u) = dv_mem D (net s)"
proof -
  let ?f = "\<lambda>w :: u32. w XOR push_bit SOFT_TRIG_BIT 1"
  from module_run [OF refines_trigger assms(1)] obtain t where
    t: "aps2_trigger N s = (Inr (), t)" "device_ok N sk A D t"
      "dv_mem D (net t) = (dv_mem D (net s))(CONTROL_REG_ADDR := ?f (dv_mem D (net s) CONTROL_REG_ADDR))"
    by (auto simp: bus_runs assms(2))
  from module_run [OF refines_trigger t(2)] obtain u where
    u: "aps2_trigger N t = (Inr (), u)"
      "dv_mem D (net u) = (dv_mem D (net t))(CONTROL_REG_ADDR := ?f (dv_mem D (net t) CONTROL_REG_ADDR))"
    by (auto simp: bus_runs assms(2))
  have "bit (?f w) b = (bit w b \<noteq> (b = SOFT_TRIG_BIT))" if "b < 32" for w b
    using that by (auto simp: bit_simps)
  then have "bit (?f w) b = (bit w b \<noteq> (b = 3))" if "b < 32" for w b
    using that by (simp add: SOFT_TRIG_BIT_def)
  moreover have "?f (?f w) = w" for w
    by (simp add: xor.assoc)
  ultimately show ?thesis
    using t u by (intro exI [of _ t] exI [of _ u]) auto
qed

theorem trigger_toggles_witness:
  "\<exists>t. aps2_trigger emu_ops (emu_state (\<lambda>a. 0)) = (Inr (), t)
    \<and> bit (dv_mem emu_view (net t) CONTROL_REG_ADDR) 3"
proof -
  have "reg_in UNIV CONTROL_REG_ADDR" by (simp add: reg_in_def const_defs)
  from trigger_toggles [OF emu_ok this, of "\<lambda>a. 0"] show ?thesis by auto
qed

lemma bit_fold_set: "n < 32 \<Longrightarrow> bit (fold set_bit bits (w :: u32)) n = (bit w n \<or> n \<in> set bits)"
  by (induction bits arbitrary: w) (auto simp: bit_set_bit_iff)

lemma bit_fold_unset: "bit (fold unset_bit bits (w :: u32)) n = (bit w n \<and> n \<notin> set bits)"
  by (induction bits arbitrary: w) (auto simp: bit_unset_bit_iff)

lemma fold_bits_single: "fold set_bit [b] w = set_bit b w" "fold unset_bit [b] w = unset_bit b w"
  by simp_all

text \<open>
  \<open>set_register_bit\<close> and \<open>clear_register_bit\<close> set and clear exactly the bits they are given, in
  exactly the register they are given.
\<close>

theorem register_bits_exact:
  assumes "device_ok N sk A D s" "reg_in A a" "\<forall>b \<in> set bits. b < 32"
  shows "\<exists>t u. set_register_bit N a bits s = (Inr (), t) \<and> clear_register_bit N a bits s = (Inr (), u)
    \<and> (\<forall>n < 32. bit (dv_mem D (net t) a) n = (bit (dv_mem D (net s) a) n \<or> n \<in> set bits))
    \<and> (\<forall>n < 32. bit (dv_mem D (net u) a) n = (bit (dv_mem D (net s) a) n \<and> n \<notin> set bits))
    \<and> (\<forall>b. b \<noteq> a \<longrightarrow> dv_mem D (net t) b = dv_mem D (net s) b \<and> dv_mem D (net u) b = dv_mem D (net s) b)"
proof -
  from module_run [OF refines_set_register_bit [where a = a, OF assms(3)] assms(1)] obtain t where
    t: "set_register_bit N a bits s = (Inr (), t)"
      "dv_mem D (net t) = (dv_mem D (net s))(a := fold set_bit bits (dv_mem D (net s) a))"
    by (auto simp: bus_modify_run [OF assms(2)])
  from module_run [OF refines_clear_register_bit [where a = a, OF assms(3)] assms(1)] obtain u where
    u: "clear_register_bit N a bits s = (Inr (), u)"
      "dv_mem D (net u) = (dv_mem D (net s))(a := fold unset_bit bits (dv_mem D (net s) a))"
    by (auto simp: bus_modify_run [OF assms(2)])
  show ?thesis
    using t u by (intro exI [of _ t] exI [of _ u]) (simp add: bit_fold_set bit_fold_unset)
qed

theorem register_bits_exact_witness:
  "\<exists>t. set_register_bit emu_ops RESETS_ADDR [10, 11] (emu_state (\<lambda>a. 0)) = (Inr (), t)
    \<and> bit (dv_mem emu_view (net t) RESETS_ADDR) 11 \<and> \<not> bit (dv_mem emu_view (net t) RESETS_ADDR) 12"
proof -
  have "reg_in UNIV RESETS_ADDR" by (simp add: reg_in_def const_defs)
  from register_bits_exact [OF emu_ok this, of "[10, 11]" "\<lambda>a. 0"] show ?thesis by auto
qed

lemma control_not_cache: "CONTROL_REG_ADDR \<noteq> CACHE_CONTROL_ADDR" "CACHE_CONTROL_ADDR \<noteq> CONTROL_REG_ADDR"
  by (simp_all add: const_defs)

text \<open>
  C5. \<open>run\<close> on an APS2 enables the cache, the sequencer and the trigger; \<open>stop\<close> after it disables
  exactly these; no other register bit and no other memory changes.
\<close>

theorem run_then_stop:
  assumes "device_ok N sk A D s" "reg_in A CONTROL_REG_ADDR" "reg_in A CACHE_CONTROL_ADDR"
    and "host_type (obj s) = Some APS"
  shows "\<exists>t u. aps2_run N s = (Inr (), t) \<and> aps2_stop N t = (Inr (), u)
    \<and> (\<forall>n < 32. bit (dv_mem D (net t) CONTROL_REG_ADDR) n
         = (bit (dv_mem D (net s) CONTROL_REG_ADDR) n \<or> n = 0 \<or> n = 4))
    \<and> (\<forall>n < 32. bit (dv_mem D (net t) CACHE_CONTROL_ADDR) n
         = (bit (dv_mem D (net s) CACHE_CONTROL_ADDR) n \<or> n = 0))
    \<and> (\<forall>n < 32. bit (dv_mem D (net u) CONTROL_REG_ADDR) n
         = (bit (dv_mem D (net s) CONTROL_REG_ADDR) n \<and> n \<noteq> 0 \<and> n \<noteq> 4))
    \<and> (\<forall>n < 32. bit (dv_mem D (net u) CACHE_CONTROL_ADDR) n
         = (bit (dv_mem D (net s) CACHE_CONTROL_ADDR) n \<and> n \<noteq> 0))
    \<and> (\<forall>a. a \<notin> {CONTROL_REG_ADDR, CACHE_CONTROL_ADDR} \<longrightarrow>
         dv_mem D (net t) a = dv_mem D (net s) a \<and> dv_mem D (net u) a = dv_mem D (net s) a)"
proof -
  let ?m = "dv_mem D (net s)"
  define m1 where "m1 = ?m(CACHE_CONTROL_ADDR := set_bit CACHE_ENABLE_BIT (?m CACHE_CONTROL_ADDR),
    CONTROL_REG_ADDR := set_bit TRIGGER_ENABLE_BIT (set_bit SM_ENABLE_BIT (?m CONTROL_REG_ADDR)))"
  define m2 where "m2 = m1(CACHE_CONTROL_ADDR := unset_bit CACHE_ENABLE_BIT (m1 CACHE_CONTROL_ADDR),
    CONTROL_REG_ADDR := unset_bit TRIGGER_ENABLE_BIT (unset_bit SM_ENABLE_BIT (m1 CONTROL_REG_ADDR)))"
  have "bus_run A (?m, obj s) = (Inr (), (m1, obj s))"
    using assms(2-4) control_not_cache by (simp add: bus_run_def bus_runs m1_def fun_upd_twist)
  from module_run [OF refines_run' assms(1) this] obtain t where
    t: "aps2_run N s = (Inr (), t)" "device_ok N sk A D t" "dv_mem D (net t) = m1" "obj t = obj s"
    by auto
  have "bus_stop A (dv_mem D (net t), obj t) = (Inr (), (m2, obj t))"
    using assms(2-4) control_not_cache by (simp add: bus_stop_def bus_runs m2_def t(3,4))
  from module_run [OF refines_stop t(2) this] obtain u where
    u: "aps2_stop N t = (Inr (), u)" "dv_mem D (net u) = m2"
    by auto
  show ?thesis
    using t u control_not_cache
    by (intro exI [of _ t] exI [of _ u])
      (auto simp: m1_def m2_def bit_set_bit_iff bit_unset_bit_iff SM_ENABLE_BIT_def
        TRIGGER_ENABLE_BIT_def CACHE_ENABLE_BIT_def)
qed

theorem run_then_stop_witness:
  "\<exists>t u. aps2_run emu_ops (emu_state (\<lambda>a. 0)) = (Inr (), t) \<and> aps2_stop emu_ops t = (Inr (), u)
    \<and> bit (dv_mem emu_view (net t) CONTROL_REG_ADDR) 4 \<and> \<not> bit (dv_mem emu_view (net u) CONTROL_REG_ADDR) 4"
proof -
  have "reg_in UNIV CONTROL_REG_ADDR" "reg_in UNIV CACHE_CONTROL_ADDR" by (simp_all add: reg_in_def const_defs)
  moreover have "host_type (obj (emu_state (\<lambda>a. 0))) = Some APS" by (simp add: emu_obj_def)
  ultimately show ?thesis
    using run_then_stop [OF emu_ok, of "\<lambda>a. 0"] by fastforce
qed

section \<open>Memory\<close>

text \<open>
  C1. What is written to a module's memory is read back, and nothing else changes: through the
  splitting into datagrams, the byte order, the acknowledges, the read request and the receive
  buffers.
\<close>

theorem memory_round_trip:
  assumes "device_ok N sk A D s" "bus_writable A a (length ws)" "length ws < 2 ^ 16"
  shows "\<exists>t u. write_memory N a ws s = (Inr (), t)
    \<and> read_memory N a (of_nat (length ws)) t = (Inr ws, u) \<and> device_ok N sk A D u
    \<and> (\<forall>b. b \<notin> words_at a (length ws) \<longrightarrow> dv_mem D (net u) b = dv_mem D (net s) b)"
proof -
  have n: "unat (of_nat (length ws) :: u32) = length ws"
    using assms(3) by (simp add: unat_of_nat take_bit_nat_eq_self)
  from module_run [OF module.write_law [where a = a and ws = ws] assms(1)] assms(2) obtain t where
    t: "write_memory N a ws s = (Inr (), t)" "device_ok N sk A D t"
      "dv_mem D (net t) = store (dv_mem D (net s)) a ws" "obj t = obj s"
    by (auto simp: bus_write_def)
  have "bus_readable A a (length ws)"
    using assms(2,3) by (simp add: bus_readable_def bus_writable_def)
  with module_run [OF module.read_law [where a = a and n = "of_nat (length ws)"] t(2)] obtain u where
    u: "read_memory N a (of_nat (length ws)) t = (Inr (load (dv_mem D (net t)) a (length ws)), u)"
      "device_ok N sk A D u" "dv_mem D (net u) = dv_mem D (net t)"
    by (auto simp: bus_read_def n)
  have "load (dv_mem D (net t)) a (length ws) = ws"
    unfolding t(3) by (rule load_store) (use assms(3) in simp)
  with t u show ?thesis by (auto simp: store_outside)
qed

theorem memory_round_trip_witness:
  "\<exists>t u. write_memory emu_ops 0x10 [1, 2, 3, 4] (emu_state (\<lambda>a. 0)) = (Inr (), t)
    \<and> read_memory emu_ops 0x10 4 t = (Inr [1, 2, 3, 4], u)"
  using memory_round_trip [OF emu_ok [of "\<lambda>a. 0"], of "0x10" "[1, 2, 3, 4]"]
  by (auto simp: bus_writable_def aligned_write_def)

text \<open>
  A write below 0x40000000 (the waveform and sequence SDRAM) to an address that is not a
  multiple of 16 bytes, or of a number of words that is not a multiple of four, is refused before
  anything is sent; every other write is accepted, whatever its length, and stores all its words.
\<close>

theorem write_memory_guard:
  "(\<not> aligned_write a (length ws) \<longrightarrow>
      write_memory N a ws s = (Inl (Thrown APS2_UNALIGNED_MEMORY_ACCESS), s))
   \<and> (aligned_write a (length ws) \<and> device_ok N sk A D s \<and> words_at a (length ws) \<subseteq> A \<longrightarrow>
      (\<exists>t. write_memory N a ws s = (Inr (), t) \<and> device_ok N sk A D t
        \<and> dv_mem D (net t) = store (dv_mem D (net s)) a ws \<and> obj t = obj s))"
proof (intro conjI impI)
  assume "\<not> aligned_write a (length ws)"
  then show "write_memory N a ws s = (Inl (Thrown APS2_UNALIGNED_MEMORY_ACCESS), s)"
    by (auto simp: write_memory_def aligned_write_def const_defs throwM_def)
next
  assume h: "aligned_write a (length ws) \<and> device_ok N sk A D s \<and> words_at a (length ws) \<subseteq> A"
  then have "device_ok N sk A D s" "bus_writable A a (length ws)" by (auto simp: bus_writable_def)
  with module_run [OF module.write_law [where a = a and ws = ws] this(1)]
  show "\<exists>t. write_memory N a ws s = (Inr (), t) \<and> device_ok N sk A D t
      \<and> dv_mem D (net t) = store (dv_mem D (net s)) a ws \<and> obj t = obj s"
    by (auto simp: bus_write_def)
qed

theorem write_memory_guard_witness:
  "write_memory emu_ops 0x14 [1, 2, 3, 4] (emu_state (\<lambda>a. 0))
     = (Inl (Thrown APS2_UNALIGNED_MEMORY_ACCESS), emu_state (\<lambda>a. 0))"
proof -
  have "\<not> aligned_write 0x14 (length [1 :: u32, 2, 3, 4])" by (simp add: aligned_write_def)
  with write_memory_guard [where a = "0x14" and ws = "[1, 2, 3, 4]" and N = emu_ops
      and s = "emu_state (\<lambda>a. 0)"] show ?thesis by blast
qed

end
