(* ===== verification/Playback.thy ===== *)
theory Playback
  imports Behaviour
begin

text \<open>
  What loading waveforms and sequences and choosing a run mode does to a module: the layout of the
  SDRAM, the length registers, the cache controller, and the instructions of the waveform modes.
\<close>

section \<open>Layout of the SDRAM\<close>


fun unpack_instructions :: "u32 list \<Rightarrow> u64 list" where
  "unpack_instructions (lo # hi # ws) =
     (ucast lo OR push_bit 32 (ucast hi)) # unpack_instructions ws"
| "unpack_instructions _ = []"






lemma instruction_pair:
  "ucast (ucast (d AND 0xffffffff) :: u32) OR push_bit 32 (ucast (ucast (drop_bit 32 d) :: u32)) = (d :: u64)"
proof -
  have m: "(0xffffffff :: u64) = mask 32" by (simp add: mask_eq_exp_minus_1)
  show ?thesis unfolding m
    by (rule bit_word_eqI) (auto simp: bit_simps dest: bit_imp_le_length)
qed

lemma unpack_packed_instructions:
  "unpack_instructions (concat (map pack_instruction data)) = data"
  by (induction data) (auto simp: pack_instruction_def instruction_pair)

lemma length_pack_instructions [simp]: "length (concat (map pack_instruction data)) = 2 * length data"
  by (induction data) (simp_all add: pack_instruction_def)

lemma up_to_four: "(n :: nat) + (4 - n mod 4) mod 4 = 4 * ((n + 3) div 4)"
proof -
  have div: "(4 * q + k) div 4 = q + k div 4" and two: "Suc (Suc (4 * q)) mod 4 = 2" for q k :: nat
    by (simp, presburger)
  obtain q r where n: "n = 4 * q + r" and "r < 4"
    using mod_less_divisor [of 4 n] mult_div_mod_eq [of 4 n] by (metis zero_less_numeral)
  from \<open>r < 4\<close> consider "r = 0" | "r = 1" | "r = 2" | "r = 3" by linarith
  then show ?thesis by cases (simp_all add: n div two add.assoc)
qed

lemma length_pad4: "length (pad4 ws) = 4 * ((length ws + 3) div 4)"
  using up_to_four [of "length ws"] by (simp add: pad4_def)

lemma load_pad4:
  assumes "length (pad4 ws) \<le> 2 ^ 30"
  shows "load (store m a (pad4 ws)) a (length ws) = ws"
proof -
  have take: "load m' a (n + k) = load m' a n @ load m' (a + 4 * of_nat n) k" for m' a n k
    by (induction n arbitrary: a) (simp_all add: algebra_simps)
  have "load (store m a (pad4 ws)) a (length (pad4 ws)) = pad4 ws"
    by (rule load_store [OF assms])
  moreover have "length (pad4 ws) = length ws + (4 - length ws mod 4) mod 4"
    by (simp add: pad4_def)
  ultimately have "load (store m a (pad4 ws)) a (length ws)
      @ load (store m a (pad4 ws)) (a + 4 * of_nat (length ws)) ((4 - length ws mod 4) mod 4)
      = ws @ replicate ((4 - length ws mod 4) mod 4) 0xffffffff"
    by (simp add: take pad4_def)
  then show ?thesis by simp
qed

lemma register_not_at:
  assumes "unat a + 4 * n \<le> 0x40000000" "0x40000000 \<le> r"
  shows "r \<notin> words_at a n"
  using words_at_range [of a n r] assms by (auto simp: word_le_nat_alt)

definition sdram_in :: "u32 set \<Rightarrow> bool" where
  "sdram_in A \<longleftrightarrow> (\<forall>a. a < 0x40000000 \<longrightarrow> a \<in> A)"

lemma sdram_words:
  assumes "sdram_in A" "unat a + 4 * n \<le> 0x40000000"
  shows "words_at a n \<subseteq> A"
proof
  fix b assume "b \<in> words_at a n"
  then have "unat b < 0x40000000" using words_at_range [of a n b] assms(2) by auto
  then show "b \<in> A" using assms(1) by (simp add: sdram_in_def word_less_nat_alt)
qed

section \<open>Waveforms\<close>




lemma register_facts:
  "0x40000000 \<le> CACHE_CONTROL_ADDR" "0x40000000 \<le> wf_length_addr ch"
  "wf_length_addr ch \<noteq> CACHE_CONTROL_ADDR" "CACHE_CONTROL_ADDR \<noteq> wf_length_addr ch"
  by (simp_all add: wf_length_addr_def const_defs)









section \<open>Sequences\<close>

definition cache_off :: "APS2_HOST_TYPE \<Rightarrow> memory \<Rightarrow> memory" where
  "cache_off host m = (if host = APS
     then m(CACHE_CONTROL_ADDR := unset_bit CACHE_ENABLE_BIT (m CACHE_CONTROL_ADDR)) else m)"

definition cache_on :: "APS2_HOST_TYPE \<Rightarrow> memory \<Rightarrow> memory" where
  "cache_on host m = (if host = APS
     then m(CACHE_CONTROL_ADDR := set_bit CACHE_ENABLE_BIT (m CACHE_CONTROL_ADDR)) else m)"

text \<open>The memory after a sequence is written.\<close>

definition sequence_addr :: u32 where "sequence_addr = MEMORY_ADDR + SEQ_OFFSET"

definition sequence_memory :: "APS2_HOST_TYPE \<Rightarrow> u64 list \<Rightarrow> memory \<Rightarrow> memory" where
  "sequence_memory host data m =
     cache_on host (store (cache_off host m) sequence_addr (packed_instructions data))"

definition bus_cache :: "u32 set \<Rightarrow> (nat \<Rightarrow> u32 \<Rightarrow> u32) \<Rightarrow> (aps2 bus, unit) meth" where
  "bus_cache A f = bindM (bus_init host_type) (\<lambda>host. whenM (host = APS)
     (bus_modify (bus_readable A) (bus_writable A) CACHE_CONTROL_ADDR (fold f [CACHE_ENABLE_BIT])))"

lemma refines_write_sequence:
  "refines (device_ok N sk A D) (device_bus D) (write_sequence N data)
     (seqM (bus_cache A unset_bit)
       (seqM (bus_write (bus_writable A) sequence_addr (packed_instructions data)) (bus_cache A set_bit)))"
  unfolding write_sequence_def bus_cache_def sequence_addr_def
  by (intro refines_intros) (auto simp: const_defs)

lemma sequence_region:
  assumes "length data \<le> 2 ^ 26"
  shows "unat sequence_addr + 4 * length (packed_instructions data) \<le> 0x40000000"
    "aligned_write sequence_addr (length (packed_instructions data))"
    "CACHE_CONTROL_ADDR \<notin> words_at sequence_addr (length (packed_instructions data))"
proof -
  have "(2 * length data + 3) div 4 \<le> 2 ^ 25" using assms by simp
  then show r: "unat sequence_addr + 4 * length (packed_instructions data) \<le> 0x40000000"
    by (simp add: sequence_addr_def packed_instructions_def length_pad4 const_defs)
  show "aligned_write sequence_addr (length (packed_instructions data))"
    by (simp add: aligned_write_def packed_instructions_def length_pad4) (simp add: sequence_addr_def const_defs)
  show "CACHE_CONTROL_ADDR \<notin> words_at sequence_addr (length (packed_instructions data))"
    by (rule register_not_at [OF r register_facts(1)])
qed

lemma write_sequence_run:
  assumes "device_ok N sk A D s" "sdram_in A" "reg_in A CACHE_CONTROL_ADDR"
    and "host_type (obj s) = Some host" "length data \<le> 2 ^ 26"
  shows "\<exists>t. write_sequence N data s = (Inr (), t) \<and> device_ok N sk A D t \<and> obj t = obj s
    \<and> dv_mem D (net t) = sequence_memory host data (dv_mem D (net s))"
proof -
  have w: "bus_writable A sequence_addr (length (packed_instructions data))"
    using sdram_words [OF assms(2) sequence_region(1) [OF assms(5)]] sequence_region(2) [OF assms(5)]
    by (simp add: bus_writable_def)
  have "seqM (bus_cache A unset_bit)
       (seqM (bus_write (bus_writable A) sequence_addr (packed_instructions data)) (bus_cache A set_bit))
       (dv_mem D (net s), obj s)
     = (Inr (), (sequence_memory host data (dv_mem D (net s)), obj s))"
    using assms(3,4) w
    by (simp add: bus_cache_def bus_runs sequence_memory_def cache_off_def cache_on_def)
  from module_run [OF refines_write_sequence assms(1) this] show ?thesis by auto
qed

lemma sequence_memory_holds:
  assumes "length data \<le> 2 ^ 26"
  shows "unpack_instructions (load (sequence_memory host data m) sequence_addr (2 * length data)) = data"
    "r \<noteq> CACHE_CONTROL_ADDR \<Longrightarrow> r \<notin> words_at sequence_addr (length (packed_instructions data)) \<Longrightarrow>
      sequence_memory host data m r = m r"
    "sequence_memory APS data m CACHE_CONTROL_ADDR = set_bit CACHE_ENABLE_BIT (m CACHE_CONTROL_ADDR)"
proof -
  note reg = sequence_region [OF assms]
  let ?ws = "concat (map pack_instruction data)"
  let ?m = "store (cache_off host m) sequence_addr (packed_instructions data)"
  have "load (sequence_memory host data m) sequence_addr (length ?ws) = load ?m sequence_addr (length ?ws)"
  proof (rule load_cong)
    fix b assume "b \<in> words_at sequence_addr (length ?ws)"
    then have "b \<in> words_at sequence_addr (length (packed_instructions data))"
      by (simp add: packed_instructions_def pad4_def words_at_append)
    then show "sequence_memory host data m b = ?m b"
      using reg(3) by (auto simp: sequence_memory_def cache_on_def)
  qed
  also have "\<dots> = ?ws"
    unfolding packed_instructions_def
    by (rule load_pad4) (use reg(1) in \<open>simp add: packed_instructions_def\<close>)
  finally show "unpack_instructions (load (sequence_memory host data m) sequence_addr (2 * length data)) = data"
    using unpack_packed_instructions [of data] by simp
  show "r \<noteq> CACHE_CONTROL_ADDR \<Longrightarrow> r \<notin> words_at sequence_addr (length (packed_instructions data)) \<Longrightarrow>
      sequence_memory host data m r = m r"
    by (simp add: sequence_memory_def cache_on_def cache_off_def store_outside)
  show "sequence_memory APS data m CACHE_CONTROL_ADDR = set_bit CACHE_ENABLE_BIT (m CACHE_CONTROL_ADDR)"
    using reg(3)
    by (simp add: sequence_memory_def cache_on_def cache_off_def store_outside)
      (rule bit_word_eqI, auto simp: bit_set_bit_iff bit_unset_bit_iff)
qed

text \<open>
  C3. Writing a sequence of at most 2^26 instructions succeeds on any attached module, leaves the
  instructions, low word first, from the start of the sequence region on, and changes nothing
  below the region and no register but the cache control; an APS2 ends with its cache enabled, a
  TDM with an unchanged cache register.
\<close>

theorem write_sequence_stores:
  assumes "device_ok N sk A D s" "sdram_in A" "reg_in A CACHE_CONTROL_ADDR"
    and "host_type (obj s) = Some host" "length data \<le> 2 ^ 26"
  shows "\<exists>t. write_sequence N data s = (Inr (), t) \<and> device_ok N sk A D t \<and> obj t = obj s
    \<and> unpack_instructions (load (dv_mem D (net t)) 0x20000000 (2 * length data)) = data
    \<and> dv_mem D (net t) CACHE_CONTROL_ADDR =
        (if host = APS then set_bit 0 (dv_mem D (net s) CACHE_CONTROL_ADDR)
         else dv_mem D (net s) CACHE_CONTROL_ADDR)
    \<and> (\<forall>a. a < 0x20000000 \<or> 0x40000000 \<le> a \<and> a \<noteq> CACHE_CONTROL_ADDR \<longrightarrow>
         dv_mem D (net t) a = dv_mem D (net s) a)"
proof -
  note reg = sequence_region [OF assms(5)] and hold = sequence_memory_holds [OF assms(5)]
  have addr: "sequence_addr = 0x20000000" by (simp add: sequence_addr_def const_defs)
  from write_sequence_run [OF assms] obtain t where
    t: "write_sequence N data s = (Inr (), t)" "device_ok N sk A D t" "obj t = obj s"
      "dv_mem D (net t) = sequence_memory host data (dv_mem D (net s))" by auto
  have out: "a \<notin> words_at sequence_addr (length (packed_instructions data))"
    if "a < 0x20000000 \<or> 0x40000000 \<le> a" for a
    using words_at_range [of sequence_addr "length (packed_instructions data)" a] reg(1) that
    by (auto simp: addr word_less_nat_alt word_le_nat_alt)
  have low: "a \<noteq> CACHE_CONTROL_ADDR" if "a < 0x20000000" for a
    using that by (auto simp: const_defs)
  have "dv_mem D (net t) a = dv_mem D (net s) a"
    if "a < 0x20000000 \<or> 0x40000000 \<le> a \<and> a \<noteq> CACHE_CONTROL_ADDR" for a
    unfolding t(4) by (rule hold(2)) (use that out low in blast)+
  then have "\<forall>a. a < 0x20000000 \<or> 0x40000000 \<le> a \<and> a \<noteq> CACHE_CONTROL_ADDR \<longrightarrow>
      dv_mem D (net t) a = dv_mem D (net s) a" by blast
  moreover have "dv_mem D (net t) CACHE_CONTROL_ADDR =
        (if host = APS then set_bit 0 (dv_mem D (net s) CACHE_CONTROL_ADDR)
         else dv_mem D (net s) CACHE_CONTROL_ADDR)"
    using hold(3) reg(3)
    by (cases host) (simp_all add: t(4) CACHE_ENABLE_BIT_def sequence_memory_def cache_on_def cache_off_def store_outside)
  ultimately show ?thesis
    using t hold(1) [where host = host] by (intro exI [of _ t]) (simp add: addr)
qed

theorem write_sequence_stores_witness:
  "\<exists>t. write_sequence emu_ops WF_SEQ_CW (emu_state (\<lambda>a. 0)) = (Inr (), t)
    \<and> unpack_instructions (load (dv_mem emu_view (net t)) 0x20000000 6) = WF_SEQ_CW"
proof -
  have r: "sdram_in UNIV" "reg_in UNIV CACHE_CONTROL_ADDR" "host_type (obj (emu_state (\<lambda>a. 0))) = Some APS"
    by (simp_all add: sdram_in_def reg_in_def const_defs emu_obj_def)
  have "length WF_SEQ_CW \<le> 2 ^ 26" "2 * length WF_SEQ_CW = 6" by (simp_all add: WF_SEQ_CW_def)
  with write_sequence_stores [OF emu_ok [of "\<lambda>a. 0"] r, of WF_SEQ_CW] show ?thesis by auto
qed

end
