(* ===== verification/Run_Modes.thy ===== *)
theory Run_Modes
  imports Playback
begin

text \<open>
  The waveform run modes: the program \<open>set_run_mode\<close> writes into the sequence memory for the
  waveforms that are loaded.
\<close>

section \<open>The program\<close>

text \<open>What comes before the last instruction of the scaffold: markers, then waveforms.\<close>

definition injected :: "bool \<Rightarrow> u64 \<Rightarrow> u64 \<Rightarrow> u64 list" where
  "injected trig a b =
     (if trig \<and> a > 0 then [marker_instruction 0x1000000100000000 a] else [])
     @ (if trig \<and> b > 0 then [marker_instruction 0x1400000100000000 b] else [])
     @ (if a = b then [waveform_instruction 0x0d00000000000000 a]
        else if b = 0 then [waveform_instruction 0x0500000000000000 a]
        else if a = 0 then [waveform_instruction 0x0900000000000000 b]
        else [waveform_instruction 0x0400000000000000 a, waveform_instruction 0x0900000000000000 b])"

lemma insert_before_last_append: "insert_before_last i (xs @ [x]) = xs @ [i, x]"
  by (simp add: insert_before_last_def)

lemma inject_lengths_eq: "inject_lengths trig a b (xs @ [x]) = xs @ injected trig a b @ [x]"
proof -
  have two: "insert_before_last i (xs @ [y, x]) = xs @ [y, i, x]"
    "insert_before_last i (xs @ [y, z, x]) = xs @ [y, z, i, x]"
    "insert_before_last i (xs @ [y, z, w, x]) = xs @ [y, z, w, i, x]" for i y z w
    using insert_before_last_append [of i "xs @ [y]" x] insert_before_last_append [of i "xs @ [y, z]" x]
      insert_before_last_append [of i "xs @ [y, z, w]" x] by simp_all
  show ?thesis
    by (simp add: inject_lengths_def injected_def Let_def insert_before_last_append two)
qed

definition waveform_program :: "bool \<Rightarrow> u32 \<Rightarrow> u32 \<Rightarrow> u32 \<Rightarrow> u64 list" where
  "waveform_program trig freq a b =
     (if trig then [0xa100610000000000 OR ucast freq, 0xa100210000000000, 0x2100400000000000]
      else [0xa100610000000000 OR ucast freq, 0x9100800000000000])
     @ injected trig (ucast a) (ucast b)
     @ [if trig then 0x6000000000000001 else 0x6000000000000002]"

lemma inject_scaffold:
  "inject_lengths trig (ucast a) (ucast b) (or_first (ucast freq) (if trig then WF_SEQ_TRIG else WF_SEQ_CW))
     = waveform_program trig freq a b"
proof -
  have "or_first (ucast freq) WF_SEQ_TRIG
      = [0xa100610000000000 OR ucast freq, 0xa100210000000000, 0x2100400000000000] @ [0x6000000000000001]"
    "or_first (ucast freq) WF_SEQ_CW = [0xa100610000000000 OR ucast freq, 0x9100800000000000] @ [0x6000000000000002]"
    by (simp_all add: or_first_def WF_SEQ_TRIG_def WF_SEQ_CW_def)
  then show ?thesis
    unfolding waveform_program_def by (cases trig) (simp_all only: if_True if_False inject_lengths_eq)
qed

lemma waveform_program_length: "length (waveform_program trig freq a b) \<le> 8"
  by (simp add: waveform_program_def injected_def)





section \<open>Setting the mode\<close>

definition bus_waveform_mode :: "u32 set \<Rightarrow> bool \<Rightarrow> u64 list \<Rightarrow> (aps2 bus, unit) meth" where
  "bus_waveform_mode A trig scaffold =
     bindM (bus_read1 (bus_readable A) WF_SSB_FREQ_ADDR) (\<lambda>freq.
      bindM (bus_read1 (bus_readable A) CH_A_WF_LENGTH_ADDR) (\<lambda>a.
      bindM (bus_read1 (bus_readable A) CH_B_WF_LENGTH_ADDR) (\<lambda>b.
      if a = 0 \<and> b = 0 then throwM (Thrown APS2_NO_WFS)
      else seqM (bus_cache A unset_bit)
       (seqM (bus_write (bus_writable A) sequence_addr (packed_instructions
            (inject_lengths trig (ucast a) (ucast b) (or_first (ucast freq) scaffold))))
          (bus_cache A set_bit)))))"

lemma refines_waveform_mode:
  "refines (device_ok N sk A D) (device_bus D) (waveform_mode N trig scaffold)
     (bus_waveform_mode A trig scaffold)"
  unfolding waveform_mode_def bus_waveform_mode_def by (intro refines_intros refines_write_sequence)

lemma bus_waveform_mode_run:
  assumes "reg_in A CACHE_CONTROL_ADDR" "reg_in A WF_SSB_FREQ_ADDR"
    and "reg_in A CH_A_WF_LENGTH_ADDR" "reg_in A CH_B_WF_LENGTH_ADDR" "host_type x = Some APS" "sdram_in A"
  defines "p \<equiv> \<lambda>trig m. waveform_program trig (m WF_SSB_FREQ_ADDR) (m CH_A_WF_LENGTH_ADDR) (m CH_B_WF_LENGTH_ADDR)"
  shows "bus_waveform_mode A trig (if trig then WF_SEQ_TRIG else WF_SEQ_CW) (m, x) =
    (if m CH_A_WF_LENGTH_ADDR = 0 \<and> m CH_B_WF_LENGTH_ADDR = 0 then (Inl (Thrown APS2_NO_WFS), (m, x))
     else (Inr (), (sequence_memory APS (p trig m) m, x)))"
proof (cases "m CH_A_WF_LENGTH_ADDR = 0 \<and> m CH_B_WF_LENGTH_ADDR = 0")
  case True
  then show ?thesis using assms(1-5) by (simp add: bus_waveform_mode_def bus_runs)
next
  case False
  have len: "length (p trig m) \<le> 2 ^ 26"
    unfolding p_def by (rule order_trans [OF waveform_program_length]) simp
  have w: "bus_writable A sequence_addr (length (packed_instructions (p trig m)))"
    using sdram_words [OF assms(6) sequence_region(1) [OF len]] sequence_region(2) [OF len]
    by (simp add: bus_writable_def)
  have i: "inject_lengths trig (ucast (m CH_A_WF_LENGTH_ADDR)) (ucast (m CH_B_WF_LENGTH_ADDR))
      (or_first (ucast (m WF_SSB_FREQ_ADDR)) (if trig then WF_SEQ_TRIG else WF_SEQ_CW)) = p trig m"
    unfolding p_def by (rule inject_scaffold)
  have "bus_waveform_mode A trig (if trig then WF_SEQ_TRIG else WF_SEQ_CW) (m, x) =
      seqM (bus_cache A unset_bit)
       (seqM (bus_write (bus_writable A) sequence_addr (packed_instructions (p trig m))) (bus_cache A set_bit)) (m, x)"
    unfolding bus_waveform_mode_def bindM_def bus_read1_run [OF assms(2)] bus_read1_run [OF assms(3)]
      bus_read1_run [OF assms(4)] prod.case sum.case if_not_P [OF False] i ..
  also have "\<dots> = (Inr (), (sequence_memory APS (p trig m) m, x))"
    using assms(1,5) w
    by (simp add: bus_cache_def bus_runs sequence_memory_def cache_off_def cache_on_def)
  finally show ?thesis using False by simp
qed

text \<open>
  C4. Choosing a waveform mode on an APS2 reads the frequency and the lengths of the two waveforms
  from the module and loads a program for them: the frequency is in the first instruction, the
  instructions for the waveforms that are there come right before the final jump, and the cache
  ends enabled. When neither channel has a waveform the call fails with APS2_NO_WFS and the module
  is unchanged. Sequence mode changes nothing, and a value that is no mode is refused.
\<close>

theorem run_mode_program:
  assumes "device_ok N sk A D s" "sdram_in A" "reg_in A CACHE_CONTROL_ADDR" "reg_in A WF_SSB_FREQ_ADDR"
    and "reg_in A CH_A_WF_LENGTH_ADDR" "reg_in A CH_B_WF_LENGTH_ADDR" "host_type (obj s) = Some APS"
  defines "m \<equiv> dv_mem D (net s)"
  shows "\<exists>t. (case mode of
      RUN_SEQUENCE \<Rightarrow> set_run_mode N mode s = (Inr (), t) \<and> t = s
    | OTHER_RUN_MODE k \<Rightarrow> set_run_mode N mode s = (Inl (Thrown APS2_UNKNOWN_RUN_MODE), t) \<and> t = s
    | _ \<Rightarrow>
        (if m CH_A_WF_LENGTH_ADDR = 0 \<and> m CH_B_WF_LENGTH_ADDR = 0
         then set_run_mode N mode s = (Inl (Thrown APS2_NO_WFS), t) \<and> dv_mem D (net t) = m
         else set_run_mode N mode s = (Inr (), t)
           \<and> (let p = waveform_program (mode = TRIG_WAVEFORM) (m WF_SSB_FREQ_ADDR) (m CH_A_WF_LENGTH_ADDR) (m CH_B_WF_LENGTH_ADDR)
              in unpack_instructions (load (dv_mem D (net t)) 0x20000000 (2 * length p)) = p)
           \<and> dv_mem D (net t) CACHE_CONTROL_ADDR = set_bit 0 (m CACHE_CONTROL_ADDR)))
    \<and> device_ok N sk A D t \<and> obj t = obj s"
proof -
  let ?a = "m CH_A_WF_LENGTH_ADDR" and ?b = "m CH_B_WF_LENGTH_ADDR" and ?f = "m WF_SSB_FREQ_ADDR"
  have run: "\<exists>t. (if ?a = 0 \<and> ?b = 0
         then waveform_mode N tr (if tr then WF_SEQ_TRIG else WF_SEQ_CW) s = (Inl (Thrown APS2_NO_WFS), t)
           \<and> dv_mem D (net t) = m
         else waveform_mode N tr (if tr then WF_SEQ_TRIG else WF_SEQ_CW) s = (Inr (), t)
           \<and> unpack_instructions (load (dv_mem D (net t)) 0x20000000 (2 * length (waveform_program tr ?f ?a ?b)))
              = waveform_program tr ?f ?a ?b
           \<and> dv_mem D (net t) CACHE_CONTROL_ADDR = set_bit 0 (m CACHE_CONTROL_ADDR))
    \<and> device_ok N sk A D t \<and> obj t = obj s" for tr
  proof -
    let ?p = "waveform_program tr ?f ?a ?b"
    have len: "length ?p \<le> 2 ^ 26" using waveform_program_length [of tr ?f ?a ?b] by simp
    obtain t where t: "waveform_mode N tr (if tr then WF_SEQ_TRIG else WF_SEQ_CW) s
        = (if ?a = 0 \<and> ?b = 0 then Inl (Thrown APS2_NO_WFS) else Inr (), t)"
      "device_ok N sk A D t" "dv_mem D (net t) = (if ?a = 0 \<and> ?b = 0 then m else sequence_memory APS ?p m)"
      "obj t = obj s"
      using module_run [OF refines_waveform_mode assms(1), of tr "if tr then WF_SEQ_TRIG else WF_SEQ_CW"]
        bus_waveform_mode_run [OF assms(3-7,2), of tr m]
      by (cases "?a = 0 \<and> ?b = 0") (auto simp: m_def [symmetric])
    have addr: "sequence_addr = 0x20000000" by (simp add: sequence_addr_def const_defs)
    show ?thesis
      using t sequence_memory_holds(1) [OF len, of APS m] sequence_memory_holds(3) [OF len, of m]
      by (intro exI [of _ t]) (simp add: addr CACHE_ENABLE_BIT_def)
  qed
  show ?thesis
    using run [of True] run [of False] assms(1)
    by (cases mode) (auto simp: set_run_mode_def Let_def run_simps)
qed

theorem run_mode_program_witness:
  "\<exists>t. set_run_mode emu_ops CW_WAVEFORM (emu_state ((\<lambda>a. 0)(CH_A_WF_LENGTH_ADDR := 8))) = (Inr (), t)
    \<and> unpack_instructions (load (dv_mem emu_view (net t)) 0x20000000 8)
       = [0xa100610000000000, 0x9100800000000000, 0x0500000001000000, 0x6000000000000002]"
proof -
  let ?m = "(\<lambda>a. 0)(CH_A_WF_LENGTH_ADDR := 8) :: memory"
  have r: "sdram_in UNIV" "reg_in UNIV CACHE_CONTROL_ADDR" "reg_in UNIV WF_SSB_FREQ_ADDR"
    "reg_in UNIV CH_A_WF_LENGTH_ADDR" "reg_in UNIV CH_B_WF_LENGTH_ADDR"
    "host_type (obj (emu_state ?m)) = Some APS"
    by (simp_all add: sdram_in_def reg_in_def const_defs emu_obj_def)
  have p: "waveform_program False 0 8 0
      = [0xa100610000000000, 0x9100800000000000, 0x0500000001000000, 0x6000000000000002]"
    by (simp add: waveform_program_def injected_def waveform_instruction_def)
  have other: "WF_SSB_FREQ_ADDR \<noteq> CH_A_WF_LENGTH_ADDR" "CH_B_WF_LENGTH_ADDR \<noteq> CH_A_WF_LENGTH_ADDR"
    by (simp_all add: const_defs)
  show ?thesis
    using run_mode_program [OF emu_ok [of ?m] r, of CW_WAVEFORM] other by (auto simp: p)
qed



end
