(* ===== verification/Wire_Properties.thy ===== *)
theory Wire_Properties
  imports Sorting
begin

text \<open>
  What the wire formats guarantee: the splitting of data into datagrams and packets, the byte
  format of packets, acknowledges, the sorting of received packets and the receive loop.
\<close>

section \<open>Datagrams\<close>

text \<open>A chunk size of 0 never ends: no number of turns makes progress.\<close>

lemma dg_chunk_loop_zero:
  assumes "dg_chunk_loop z cmd addr data chunks = Some res"
  shows "z = 0 \<longrightarrow> data = []"
proof (rule dg_chunk_loop.raw_induct [OF _ assms, where P = "\<lambda>z cmd addr data chunks res. z = 0 \<longrightarrow> data = []"])
  fix loop z cmd addr data chunks res
  assume IH: "\<And>z cmd addr data chunks res. loop z cmd addr data chunks = Some res \<Longrightarrow> z = 0 \<longrightarrow> data = []"
    and eq: "(if data = [] then Some chunks
      else let cur = if unat z < length data then unat z else length data
           in loop z (cmd\<lparr>c_cnt := of_nat cur\<rparr>) (addr + 4 * of_nat cur) (drop cur data)
                (chunks @ [dg_piece cmd addr (take cur data)])) = Some res"
  show "z = 0 \<longrightarrow> data = []"
    using eq by (auto split: if_splits dest!: IH)
qed

lemma dg_pieces_length: "length (dg_pieces cmd a bs) = length bs"
  by (induction bs arbitrary: a) simp_all

text \<open>
  C9. \<open>APS2Datagram::chunk\<close> splits data of any length into \<open>ceil (n / chunk_size)\<close> datagrams whose
  payloads concatenate to the data, none empty and none above the chunk size; each has its own
  length in its count field, the command's other fields, and the address right after the words
  before it. With a chunk size of 0 and data to send it does not return.
\<close>

theorem datagram_chunk_contract:
  "(z \<noteq> 0 \<longrightarrow> (\<exists>ps. dg_chunk cmd a data z = Some ps
      \<and> concat (map dg_payload ps) = data
      \<and> length ps = (length data + unat z - 1) div unat z
      \<and> (\<forall>p \<in> set ps. dg_payload p \<noteq> [] \<and> length (dg_payload p) \<le> unat z
          \<and> c_cnt (dg_cmd p) = of_nat (length (dg_payload p))
          \<and> (dg_cmd p)\<lparr>c_cnt := c_cnt cmd\<rparr> = cmd)
      \<and> (\<forall>ls p rs. ps = ls @ p # rs \<longrightarrow>
          dg_addr p = a + 4 * of_nat (length (concat (map dg_payload ls))))))
   \<and> (data \<noteq> [] \<longrightarrow> dg_chunk cmd a data 0 = None)"
proof (intro conjI impI)
  assume z: "z \<noteq> 0"
  then have pos: "0 < unat z" by (simp add: unat_gt_0)
  define ps where "ps = dg_pieces cmd a (blocks (unat z) data)"
  have "dg_payload p \<in> set (blocks (unat z) data)" if "p \<in> set ps" for p
    using that imageI [OF that, of dg_payload] dg_pieces_payload [of cmd a "blocks (unat z) data"]
    unfolding ps_def by (metis list.set_map)
  moreover have "(dg_cmd p)\<lparr>c_cnt := c_cnt cmd\<rparr> = cmd" if "p \<in> set ps" for p
    using dg_pieces_cmd [of p cmd a "blocks (unat z) data" "c_cnt cmd"] that by (simp add: ps_def)
  ultimately show "\<exists>ps. dg_chunk cmd a data z = Some ps
      \<and> concat (map dg_payload ps) = data
      \<and> length ps = (length data + unat z - 1) div unat z
      \<and> (\<forall>p \<in> set ps. dg_payload p \<noteq> [] \<and> length (dg_payload p) \<le> unat z
          \<and> c_cnt (dg_cmd p) = of_nat (length (dg_payload p))
          \<and> (dg_cmd p)\<lparr>c_cnt := c_cnt cmd\<rparr> = cmd)
      \<and> (\<forall>ls p rs. ps = ls @ p # rs \<longrightarrow>
          dg_addr p = a + 4 * of_nat (length (concat (map dg_payload ls))))"
    using z pos blocks_bounds [OF pos]
    by (intro exI [of _ ps])
      (auto simp: dg_chunk_eq ps_def dg_pieces_payload concat_blocks dg_pieces_length length_blocks
        dg_pieces_count dest: dg_pieces_addr)
next
  assume "data \<noteq> []"
  then show "dg_chunk cmd a data 0 = None"
    using dg_chunk_loop_zero [of 0 cmd a data "[]"] unfolding dg_chunk_def
    by (cases "dg_chunk_loop 0 cmd a data []") auto
qed

theorem datagram_chunk_contract_witness:
  "dg_chunk APS2Command_init 0 [1, 2, 3] 0 = None
   \<and> (\<exists>ps. dg_chunk APS2Command_init 0x40 [1, 2, 3] 2 = Some ps \<and> length ps = 2
        \<and> concat (map dg_payload ps) = [1, 2, 3])"
  using datagram_chunk_contract [of 2 APS2Command_init "0x40" "[1, 2, 3]"]
    datagram_chunk_contract [of 0 APS2Command_init 0 "[1, 2, 3]"] by auto

text \<open>
  C17. \<open>check_ack\<close> never complains about a read or about a command it does not know to be
  acknowledged; of the five acknowledged writes it accepts exactly the acknowledge the firmware
  sends on success, and reports a failed EPROM erase as such and everything else as a
  communication error.
\<close>

theorem check_ack_verdict:
  "(check_ack dg ack legacy = Inr () \<longleftrightarrow> c_r_w (dg_cmd dg) \<or> ack_expected dg legacy ack)
   \<and> (check_ack dg ack legacy = Inl (Thrown APS2_ERPOM_ERASE_FAILURE) \<longleftrightarrow>
        \<not> c_r_w (dg_cmd dg) \<and> \<not> ack_expected dg legacy ack
        \<and> to_command (c_cmd (dg_cmd dg)) = EPROMIO \<and> c_mode_stat (dg_cmd dg) = EPROM_ERASE)
   \<and> check_ack dg ack legacy \<in> {Inr (), Inl (Thrown APS2_ERPOM_ERASE_FAILURE), Inl (Thrown APS2_COMMS_ERROR)}"
  by (simp add: check_ack_cases)

text \<open>
  C34. The packed command word is a bijection with the command's seven fields, so a datagram can be
  read back from the words that are sent for it, and two datagrams are sent as the same bytes only
  if they are the same.
\<close>

theorem command_word_bijection:
  "unpack (packed c) = c \<and> packed (unpack w) = w
   \<and> (concat (map be32 (dg_data dg)) = concat (map be32 (dg_data dg')) \<longleftrightarrow> dg = dg')"
proof -
  have "dg_data dg = dg_data dg' \<longleftrightarrow> dg = dg'"
    by (cases dg; cases dg') (simp add: dg_data_def packed_inject)
  then show ?thesis using be32.concat_enc_inject by auto
qed

section \<open>Packets\<close>

text \<open>
  C27. A packet with six-byte MAC addresses is sent as a frame of at least 64 bytes, and the
  receiving constructor recovers every field of the header and the payload from it; only the zeros
  that fill a short frame show, as payload words after the payload. The address field comes back
  for a command that carries one, unless the packet is an acknowledge.
\<close>

theorem packet_bytes_round_trip:
  assumes "length (h_dest (pk_header p)) = 6" "length (h_src (pk_header p)) = 6"
    and "if has_address p then \<not> c_ack (h_command (pk_header p)) else h_addr (pk_header p) = 0"
  shows "64 \<le> length (serialize p) \<and> length (serialize p) = numBytes p
    \<and> (\<exists>q. packet_of_bytes (serialize p) = Inr q \<and> pk_header q = pk_header p
         \<and> take (length (pk_payload p)) (pk_payload q) = pk_payload p
         \<and> (\<forall>w \<in> set (drop (length (pk_payload p)) (pk_payload q)). w = 0)
         \<and> ((if has_address p then 10 else 11) \<le> length (pk_payload p) \<longrightarrow> q = p))"
proof -
  have macs: "packet_macs_ok p"
    using assms(1,2) by (simp add: packet_macs_ok_def mac_ok_def const_defs)
  have "packet_of_bytes (serialize p) = Inr (p\<lparr>pk_payload := pk_payload p
        @ replicate ((if has_address p then 10 else 11) - length (pk_payload p)) 0\<rparr>)"
    by (rule serialize_round_trip [OF macs]) (use assms(3) in auto)
  moreover have "64 \<le> length (serialize p) \<and> length (serialize p) = numBytes p"
    by (simp add: length_serialize [OF macs] numBytes_def Let_def)
  ultimately show ?thesis by auto
qed

theorem packet_bytes_round_trip_witness:
  "\<exists>q. packet_of_bytes (serialize (packet_cmd (APS2Command_init\<lparr>c_cmd := 0\<rparr>) 0)) = Inr q
    \<and> pk_header q = pk_header (packet_cmd (APS2Command_init\<lparr>c_cmd := 0\<rparr>) 0)"
proof -
  let ?p = "packet_cmd (APS2Command_init\<lparr>c_cmd := 0\<rparr>) 0"
  have "length (h_dest (pk_header ?p)) = 6" "length (h_src (pk_header ?p)) = 6"
    by (simp_all add: packet_cmd_def packet_full_def MACAddr_init_def const_defs)
  moreover have "if has_address ?p then \<not> c_ack (h_command (pk_header ?p)) else h_addr (pk_header ?p) = 0"
    by (simp add: packet_cmd_def packet_full_def APS2Command_init_def)
  ultimately show ?thesis using packet_bytes_round_trip [of ?p] by blast
qed

text \<open>
  Which received bytes the constructor can read without running past their end: a whole number
  of words, at least 20 bytes, and 24 when the command field says that an address follows.
\<close>

theorem received_bytes_defined:
  "(\<exists>p. packet_of_bytes bs = Inr p) = (20 \<le> length bs \<and> 4 dvd length bs
     \<and> (length bs < 24 \<longrightarrow> bit (of_be32 (take 4 (drop 16 bs))) 31
          \<or> \<not> needs_address (to_command (c_cmd (unpack (of_be32 (take 4 (drop 16 bs))))))))
   \<and> (packet_of_bytes bs = Inl e \<longrightarrow> e = Undefined)"
proof
  show "(\<exists>p. packet_of_bytes bs = Inr p) = (20 \<le> length bs \<and> 4 dvd length bs
     \<and> (length bs < 24 \<longrightarrow> bit (of_be32 (take 4 (drop 16 bs))) 31
          \<or> \<not> needs_address (to_command (c_cmd (unpack (of_be32 (take 4 (drop 16 bs))))))))"
    unfolding packet_of_bytes_defined_iff by auto
  show "packet_of_bytes bs = Inl e \<longrightarrow> e = Undefined"
    by (simp add: packet_of_bytes_Inl)
qed

theorem received_bytes_defined_witness:
  "\<not> (\<exists>p. packet_of_bytes (replicate 20 1) = Inr p) \<and> packet_of_bytes (replicate 20 1) = Inl Undefined"
proof -
  have "\<not> bit (of_be32 (take 4 (drop 16 (replicate 20 1)))) 31"
    "needs_address (to_command (c_cmd (unpack (of_be32 (take 4 (drop 16 (replicate 20 1)))))))"
    by code_simp+
  then have n: "\<not> (\<exists>p. packet_of_bytes (replicate 20 1) = Inr p)"
    using received_bytes_defined [of "replicate 20 1" Undefined] by simp
  then obtain e where "packet_of_bytes (replicate 20 1) = Inl e"
    by (cases "packet_of_bytes (replicate 20 1)") auto
  with received_bytes_defined [of "replicate 20 1" e] n show ?thesis by auto
qed

text \<open>
  The legacy splitting: any payload, the empty one included, makes at least one packet; the
  payloads concatenate to the data, none exceeds 256 words, the sequence numbers count from 0, the
  acknowledge and select flags are cleared, and each packet's address follows the words before it.
\<close>

theorem packet_chunk_contract:
  "pk_chunk a data cmd \<noteq> [] \<and> concat (map pk_payload (pk_chunk a data cmd)) = data
   \<and> (\<forall>p \<in> set (pk_chunk a data cmd). length (pk_payload p) \<le> 256
        \<and> h_command (pk_header p)
            = cmd\<lparr>c_ack := False, c_sel := False, c_cnt := of_nat (length (pk_payload p))\<rparr>)
   \<and> (\<forall>i < length (pk_chunk a data cmd). h_seqNum (pk_header (pk_chunk a data cmd ! i)) = of_nat i)
   \<and> (\<forall>ls p rs. pk_chunk a data cmd = ls @ p # rs \<longrightarrow>
        h_addr (pk_header p) = a + 4 * of_nat (length (concat (map pk_payload ls))))"
  using pk_chunk_nonempty [of a data cmd]
  by (auto simp: pk_chunk_def pk_chunk_payload pk_chunk_seqNum dest: pk_chunk_members pk_chunk_addr)
     (auto simp: const_defs dest!: pk_chunk_members)

theorem packet_chunk_contract_witness:
  "h_command (pk_header (hd (pk_chunk 0 [] APS2Command_init))) = APS2Command_init\<lparr>c_cnt := 0\<rparr>"
proof -
  obtain p ps where p: "pk_chunk 0 [] APS2Command_init = p # ps"
    using packet_chunk_contract [of 0 "[]" APS2Command_init] by (cases "pk_chunk 0 [] APS2Command_init") auto
  then show ?thesis
    using packet_chunk_contract [of 0 "[]" APS2Command_init] by (auto simp: APS2Command_init_def)
qed

text \<open>
  The text of a six-byte MAC address is read back as that address; so two addresses print alike
  only if they are equal. A text with fewer than six numbers is not refused: reading it uses
  uninitialised values.
\<close>

theorem mac_text_round_trip:
  assumes "length m = 6"
  shows "MACAddr_of_string (mac_to_string m) = Inr m
    \<and> (\<forall>k. 0 < k \<and> k < 6 \<longrightarrow> MACAddr_of_string (mac_to_string (take k m)) = Inl Undefined)"
proof (intro conjI allI impI)
  have "m \<noteq> []" using assms by auto
  from mac_bytes_text [OF this] show "MACAddr_of_string (mac_to_string m) = Inr m"
    by (simp only: MACAddr_of_string_def assms)
  fix k :: nat
  assume k: "0 < k \<and> k < 6"
  then have n: "Suc ((5 - k) + length (take k m)) = 6" using assms by simp
  have "take k m \<noteq> []" using k \<open>m \<noteq> []\<close> by simp
  from mac_bytes_short [OF this, of "5 - k"]
  show "MACAddr_of_string (mac_to_string (take k m)) = Inl Undefined"
    by (simp only: MACAddr_of_string_def n)
qed

theorem mac_text_round_trip_witness:
  "MACAddr_of_string (mac_to_string [1, 2, 3, 0xab, 0xcd, 0xef]) = Inr [1, 2, 3, 0xab, 0xcd, 0xef]"
  using mac_text_round_trip [of "[1, 2, 3, 0xab, 0xcd, 0xef]"] by simp

text \<open>
  C28. The receive handler fails on a packet only when its sender has a message queue, that is when
  a legacy module is connected at that address, and the bytes are not a readable packet; it is the
  only failure and it is one the program does not survive. In every other case the handler returns,
  and whatever the packet it never touches the sockets, the message queues of other senders or the
  entries of other devices.
\<close>

theorem received_packet_handled:
  "(fst (sort_packet bs sndr s) =
      (if msgQueues s (fst sndr) \<noteq> None \<and> (\<nexists>p. packet_of_bytes bs = Inr p) then Inl Undefined else Inr ()))
   \<and> tcp_sockets (snd (sort_packet bs sndr s)) = tcp_sockets s
   \<and> net (snd (sort_packet bs sndr s)) = net s
   \<and> (\<forall>ip. ip \<noteq> fst sndr \<longrightarrow> msgQueues (snd (sort_packet bs sndr s)) ip = msgQueues s ip
        \<and> devInfo (snd (sort_packet bs sndr s)) ip = devInfo s ip)"
proof (cases "msgQueues s (fst sndr)")
  case None
  from sort_packet_unqueued [OF None, of bs] show ?thesis by (auto simp: None)
next
  case (Some q)
  show ?thesis
    by (cases "packet_of_bytes bs")
      (auto simp: sort_packet_queued [OF Some] Some dest: packet_of_bytes_Inl)
qed

theorem received_packet_handled_witness:
  "\<forall>D. fst (sort_packet [] (''10.0.0.2'', 0xbb4e) \<lparr>devInfo = D, msgQueues = [''10.0.0.2'' \<mapsto> []],
      tcp_sockets = Map.empty, net = ()\<rparr>) = Inl Undefined
    \<and> msgQueues (snd (sort_packet [] (''10.0.0.2'', 0xbb4e) \<lparr>devInfo = D,
        msgQueues = [''10.0.0.2'' \<mapsto> []], tcp_sockets = Map.empty, net = ()\<rparr>)) ''10.0.0.3'' = None"
proof
  fix D
  have "\<nexists>p. packet_of_bytes [] = Inr p" by (simp add: packet_of_bytes_def)
  with received_packet_handled [of "[]" "(''10.0.0.2'', 0xbb4e)" "\<lparr>devInfo = D,
      msgQueues = [''10.0.0.2'' \<mapsto> []], tcp_sockets = Map.empty, net = ()\<rparr>"]
  show "fst (sort_packet [] (''10.0.0.2'', 0xbb4e) \<lparr>devInfo = D, msgQueues = [''10.0.0.2'' \<mapsto> []],
      tcp_sockets = Map.empty, net = ()\<rparr>) = Inl Undefined
    \<and> msgQueues (snd (sort_packet [] (''10.0.0.2'', 0xbb4e) \<lparr>devInfo = D,
        msgQueues = [''10.0.0.2'' \<mapsto> []], tcp_sockets = Map.empty, net = ()\<rparr>)) ''10.0.0.3'' = None"
    by simp
qed

end
