(* ===== verification/Receive_Thread.thy ===== *)
theory Receive_Thread
  imports Sorting
begin

text \<open>
  The message queues between the receive thread and the thread that calls the driver, with every
  interleaving of the two: the receive thread looks for the sender's queue without the lock, parses,
  and appends under the lock, so that the other thread can run in between. The sequential methods
  of \<open>Ethernet\<close> are runs of this system, and what they take from a queue is what was put in.
\<close>

section \<open>The system\<close>

datatype event =
    Pushed string APS2EthernetPacket
  | Taken string APS2EthernetPacket
  | Opened string
  | Closed string
  | Cleared

text \<open>The maps, the packet the receive thread has in its hands, and what has happened so far.\<close>

record 'n sys =
  maps :: "'n link"
  in_flight :: "(string \<times> APS2EthernetPacket) option"
  history :: "event list"

definition push_queue :: "string \<Rightarrow> APS2EthernetPacket \<Rightarrow> ('n, 'z) link_scheme \<Rightarrow> ('n, 'z) link_scheme" where
  "push_queue ip p s = s\<lparr>msgQueues := (msgQueues s)
     (ip \<mapsto> (case msgQueues s ip of None \<Rightarrow> [] | Some q \<Rightarrow> q) @ [p])\<rparr>"

inductive thread_step :: "'n sys \<Rightarrow> 'n sys \<Rightarrow> bool" where
  found: "thread_step s (s\<lparr>in_flight := Some (ip, p)\<rparr>)"
    if "in_flight s = None" "msgQueues (maps s) ip \<noteq> None" "packet_of_bytes bs = Inr p"
| push: "thread_step s (s\<lparr>maps := push_queue ip p (maps s), in_flight := None,
           history := history s @ [Pushed ip p]\<rparr>)"
    if "in_flight s = Some (ip, p)"
| discovered: "thread_step s (s\<lparr>maps := snd (sort_packet bs sndr (maps s))\<rparr>)"
    if "in_flight s = None" "msgQueues (maps s) (fst sndr) = None"
| opened: "thread_step s (s\<lparr>maps := (maps s)\<lparr>msgQueues := (msgQueues (maps s))(ip \<mapsto> [])\<rparr>,
             history := history s @ [Opened ip]\<rparr>)"
| closed: "thread_step s (s\<lparr>maps := (maps s)\<lparr>msgQueues := (msgQueues (maps s))(ip := None)\<rparr>,
             history := history s @ [Closed ip]\<rparr>)"
| cleared: "thread_step s (s\<lparr>maps := (maps s)\<lparr>devInfo := Map.empty, msgQueues := Map.empty\<rparr>,
             history := history s @ [Cleared]\<rparr>)"
| nothing: "thread_step s (s\<lparr>maps := t\<rparr>)"
    if "pop_message ip (maps s) = (Inr None, t)"
| taken: "thread_step s (s\<lparr>maps := t, history := history s @ [Taken ip p]\<rparr>)"
    if "pop_message ip (maps s) = (Inr (Some p), t)"
| environment: "thread_step s (s\<lparr>maps := (maps s)\<lparr>net := n, tcp_sockets := socks\<rparr>\<rparr>)"

inductive_cases thread_stepE: "thread_step s t"

inductive reachable :: "'n sys \<Rightarrow> bool" where
  start: "msgQueues (maps s) = Map.empty \<Longrightarrow> in_flight s = None \<Longrightarrow> history s = [] \<Longrightarrow> reachable s"
| step: "reachable s \<Longrightarrow> thread_step s t \<Longrightarrow> reachable t"

section \<open>The ledger of a queue\<close>

text \<open>The packets put into and taken from an address's queue since it was last opened or closed.\<close>

fun book :: "string \<Rightarrow> event \<Rightarrow> APS2EthernetPacket list \<times> APS2EthernetPacket list
    \<Rightarrow> APS2EthernetPacket list \<times> APS2EthernetPacket list" where
  "book ip (Pushed i p) (a, b) = (if i = ip then (a @ [p], b) else (a, b))"
| "book ip (Taken i p) (a, b) = (if i = ip then (a, b @ [p]) else (a, b))"
| "book ip (Opened i) (a, b) = (if i = ip then ([], []) else (a, b))"
| "book ip (Closed i) (a, b) = (if i = ip then ([], []) else (a, b))"
| "book ip Cleared (a, b) = ([], [])"

definition ledger :: "string \<Rightarrow> event list \<Rightarrow> APS2EthernetPacket list \<times> APS2EthernetPacket list" where
  "ledger ip evs = fold (book ip) evs ([], [])"

definition waiting :: "string \<Rightarrow> ('n, 'z) link_scheme \<Rightarrow> APS2EthernetPacket list" where
  "waiting ip s = (case msgQueues s ip of None \<Rightarrow> [] | Some q \<Rightarrow> q)"

definition balanced :: "'n sys \<Rightarrow> bool" where
  "balanced s \<longleftrightarrow> (\<forall>ip. fst (ledger ip (history s)) = snd (ledger ip (history s)) @ waiting ip (maps s))"

lemma ledger_snoc: "ledger ip (evs @ [e]) = book ip e (ledger ip evs)"
  by (simp add: ledger_def)

lemma ledger_book:
  "ledger ip (evs @ [Pushed i p]) = (if i = ip then (fst (ledger ip evs) @ [p], snd (ledger ip evs)) else ledger ip evs)"
  "ledger ip (evs @ [Taken i p]) = (if i = ip then (fst (ledger ip evs), snd (ledger ip evs) @ [p]) else ledger ip evs)"
  "ledger ip (evs @ [Opened i]) = (if i = ip then ([], []) else ledger ip evs)"
  "ledger ip (evs @ [Closed i]) = (if i = ip then ([], []) else ledger ip evs)"
  "ledger ip (evs @ [Cleared]) = ([], [])"
  by (cases "ledger ip evs"; simp add: ledger_snoc)+

lemma waiting_simps:
  "waiting ip (s\<lparr>msgQueues := (msgQueues s)(i \<mapsto> q)\<rparr>) = (if i = ip then q else waiting ip s)"
  "waiting ip (s\<lparr>msgQueues := (msgQueues s)(i := None)\<rparr>) = (if i = ip then [] else waiting ip s)"
  "waiting ip (push_queue i p s) = (if i = ip then waiting ip s @ [p] else waiting ip s)"
  by (auto simp: waiting_def push_queue_def)

lemma pop_message_waiting:
  "pop_message ip s = (Inr None, t) \<Longrightarrow> waiting i t = waiting i s"
  "pop_message ip s = (Inr (Some p), t) \<Longrightarrow>
    waiting i s = (if i = ip then p # waiting i t else waiting i t)"
  by (auto simp: pop_message_def waiting_def split: option.splits list.splits if_splits)

lemma balanced_step:
  assumes "thread_step s t" "balanced s"
  shows "balanced t"
  using assms
proof (cases rule: thread_step.cases)
  case (discovered sndr bs)
  then obtain D where "sort_packet bs sndr (maps s) = (Inr (), (maps s)\<lparr>devInfo := D\<rparr>)"
    using sort_packet_unqueued [of "maps s" sndr bs] by blast
  with discovered assms(2) show ?thesis by (simp add: balanced_def waiting_def)
qed (auto simp: balanced_def ledger_book waiting_simps pop_message_waiting, auto simp: waiting_def)

lemma balanced_start: "msgQueues (maps s) = Map.empty \<Longrightarrow> history s = [] \<Longrightarrow> balanced s"
  by (simp add: balanced_def ledger_def waiting_def)

section \<open>The sequential methods are runs\<close>

definition idle :: "'n link \<Rightarrow> event list \<Rightarrow> 'n sys" where
  "idle s h = \<lparr>maps = s, in_flight = None, history = h\<rparr>"

text \<open>The packets taken from an address's queue, in the order of the events.\<close>

fun taken_from :: "string \<Rightarrow> event list \<Rightarrow> APS2EthernetPacket list" where
  "taken_from ip [] = []"
| "taken_from ip (Taken i p # evs) = (if i = ip then p # taken_from ip evs else taken_from ip evs)"
| "taken_from ip (_ # evs) = taken_from ip evs"

lemma taken_from_append: "taken_from ip (xs @ ys) = taken_from ip xs @ taken_from ip ys"
  by (induction ip xs rule: taken_from.induct) simp_all

text \<open>\<open>runs ip s t ms\<close>: from idle to idle the system can take the packets \<open>ms\<close> from \<open>ip\<close>.\<close>

definition runs :: "string \<Rightarrow> 'n link \<Rightarrow> 'n link \<Rightarrow> APS2EthernetPacket list \<Rightarrow> bool" where
  "runs ip s t ms \<longleftrightarrow>
     (\<forall>h. \<exists>evs. thread_step\<^sup>*\<^sup>* (idle s h) (idle t (h @ evs)) \<and> taken_from ip evs = ms)"

lemma runs_refl: "runs ip s s []"
  unfolding runs_def by (intro allI exI [of _ "[]"]) simp

lemma runs_trans:
  assumes "runs ip s t ms" "runs ip t u ns"
  shows "runs ip s u (ms @ ns)"
  unfolding runs_def
proof
  fix h
  obtain e1 where 1: "thread_step\<^sup>*\<^sup>* (idle s h) (idle t (h @ e1))" "taken_from ip e1 = ms"
    using assms(1) by (auto simp: runs_def)
  obtain e2 where 2: "thread_step\<^sup>*\<^sup>* (idle t (h @ e1)) (idle u ((h @ e1) @ e2))" "taken_from ip e2 = ns"
    using assms(2) unfolding runs_def by blast
  from rtranclp_trans [OF 1(1) 2(1)] 1(2) 2(2)
  show "\<exists>evs. thread_step\<^sup>*\<^sup>* (idle s h) (idle u (h @ evs)) \<and> taken_from ip evs = ms @ ns"
    by (intro exI [of _ "e1 @ e2"]) (simp add: taken_from_append)
qed

lemma runs_step:
  assumes "\<And>h. thread_step (idle s h) (idle t (h @ evs))"
  shows "runs ip s t (taken_from ip evs)"
  using assms unfolding runs_def by (intro allI exI [of _ evs]) auto

lemma runs_environment: "runs ip s (s\<lparr>net := n\<rparr>) []"
  using runs_step [of s "s\<lparr>net := n\<rparr>" "[]" ip]
    thread_step.environment [where n = n and socks = "tcp_sockets s" and s = "idle s h" for h]
  by (simp add: idle_def)

lemma runs_sort:
  assumes "sort_packet bs sndr s = (Inr (), t)"
  shows "runs ip s t []"
proof (cases "msgQueues s (fst sndr)")
  case None
  then show ?thesis
    using runs_step [of s t "[]" ip] thread_step.discovered [where s = "idle s h" and sndr = sndr and bs = bs for h] assms
    by (simp add: idle_def)
next
  case (Some q)
  then obtain p where p: "packet_of_bytes bs = Inr p"
    and t: "t = s\<lparr>msgQueues := (msgQueues s)(fst sndr \<mapsto> q @ [p])\<rparr>"
    using assms by (auto simp: sort_packet_queued [OF Some] split: sum.splits)
  have "thread_step\<^sup>*\<^sup>* (idle s h) (idle t (h @ [Pushed (fst sndr) p]))" for h
  proof -
    have "thread_step (idle s h) ((idle s h)\<lparr>in_flight := Some (fst sndr, p)\<rparr>)"
      by (rule thread_step.found [OF _ _ p]) (simp_all add: idle_def Some)
    moreover have "thread_step ((idle s h)\<lparr>in_flight := Some (fst sndr, p)\<rparr>)
        (idle t (h @ [Pushed (fst sndr) p]))"
      using thread_step.push [where s = "(idle s h)\<lparr>in_flight := Some (fst sndr, p)\<rparr>" and ip = "fst sndr" and p = p]
      by (simp add: idle_def push_queue_def Some t)
    ultimately show ?thesis by auto
  qed
  then show ?thesis
    unfolding runs_def by (intro allI exI [of _ "[Pushed (fst sndr) p]"]) simp
qed

lemma runs_sort_all:
  "foreachM ps (\<lambda>(bs, sndr). sort_packet bs sndr) s = (Inr (), t) \<Longrightarrow> runs ip s t []"
proof (induction ps arbitrary: s)
  case Nil
  then show ?case by (simp add: returnM_def runs_refl)
next
  case (Cons p ps)
  then show ?case
    using runs_trans [OF runs_sort [of "fst p" "snd p" s _ ip] Cons.IH]
    by (auto simp: seqM_eq_Inr split: prod.splits)
qed

lemma runs_environment_then: "runs ip (s\<lparr>net := n\<rparr>) t [] \<Longrightarrow> runs ip s t []"
  using runs_trans [OF runs_environment] by fastforce

lemma runs_deliver: "deliver N s = (Inr (), t) \<Longrightarrow> runs ip s t []"
  by (auto simp: deliver_def bindM_eq_Inr net_do_def
      intro: runs_environment_then runs_sort_all)

lemma runs_sleep: "sleep_ms N d s = (Inr dt, t) \<Longrightarrow> runs ip s t []"
  by (auto simp: sleep_ms_def bindM_eq_Inr seqM_eq_Inr net_do_def returnM_def
      intro: runs_environment_then runs_deliver)

lemma runs_pop:
  assumes "pop_message ip s = (Inr m, t)"
  shows "runs ip s t (case m of None \<Rightarrow> [] | Some p \<Rightarrow> [p])"
proof (cases m)
  case None
  then show ?thesis
    using runs_step [of s t "[]" ip] thread_step.nothing [where ip = ip and s = "idle s h" and t = t for h] assms
    by (simp add: idle_def)
next
  case (Some p)
  then show ?thesis
    using runs_step [of s t "[Taken ip p]" ip] thread_step.taken [where ip = ip and s = "idle s h" and p = p and t = t for h] assms
    by (simp add: idle_def)
qed

lemma receive_loop_runs:
  "receive_loop N ip k timeout elapsed out s = (Inr res, t) \<Longrightarrow>
    \<exists>ms. res = out @ ms \<and> ms \<noteq> [] \<and> length res = k \<and> runs ip s t ms"
proof (induction elapsed out s "(Inr res :: exn + APS2EthernetPacket list, t)" rule: receive_loop_rule)
  case (enough elapsed out s p)
  then show ?case using runs_pop [OF enough(2)] by auto
next
  case (again elapsed out s m s1 dt s2)
  define got where "got = (case m of None \<Rightarrow> [] | Some p \<Rightarrow> [p])"
  from again obtain ms where ms: "res = took out m @ ms" "ms \<noteq> []" "length res = k" "runs ip s2 t ms" by blast
  have "runs ip s t (got @ ms)"
    using runs_trans [OF runs_pop [OF again(2)] runs_trans [OF runs_sleep [OF again(4)] ms(4)]]
    by (simp add: got_def)
  moreover have "took out m = out @ got" by (simp add: took_def got_def split: option.split)
  ultimately show ?case using ms by auto
qed

section \<open>Properties\<close>

text \<open>
  C21. In every state the two threads can reach, with any interleaving of receiving, connecting,
  disconnecting, enumerating and reading, the packets queued for an address since it was last
  connected or disconnected are exactly those already taken, followed by those still waiting: none
  is lost, duplicated or overtaken.
\<close>

theorem queues_are_fifo:
  "reachable s \<Longrightarrow> fst (ledger ip (history s)) = snd (ledger ip (history s)) @ waiting ip (maps s)"
proof -
  assume "reachable s"
  then have "balanced s"
    by (induction rule: reachable.induct) (auto intro: balanced_start balanced_step)
  then show ?thesis by (simp add: balanced_def)
qed

theorem queues_are_fifo_witness:
  "\<forall>s0 :: unit link. \<exists>q. snd (ledger ''a'' [Opened ''a'', Pushed ''a'' q])
       @ waiting ''a'' (push_queue ''a'' q (s0\<lparr>msgQueues := [''a'' \<mapsto> []]\<rparr>)) = [q]"
proof
  fix s0 :: "unit link"
  have "packet_macs_ok packet_init" "has_address packet_init \<Longrightarrow> \<not> c_ack (h_command (pk_header packet_init))"
    "\<not> has_address packet_init \<Longrightarrow> h_addr (pk_header packet_init) = 0"
    by (simp_all add: packet_macs_ok_def mac_ok_def packet_init_def packet_cmd_def packet_full_def
        MACAddr_init_def APS2Command_init_def const_defs)
  from serialize_round_trip [OF this] obtain q where
    b: "packet_of_bytes (serialize packet_init) = Inr q" by blast
  let ?z = "idle (s0\<lparr>msgQueues := Map.empty\<rparr>) []"
  let ?o = "idle (s0\<lparr>msgQueues := [''a'' \<mapsto> []]\<rparr>) [Opened ''a'']"
  let ?f = "?o\<lparr>in_flight := Some (''a'', q)\<rparr>"
  let ?p = "idle (push_queue ''a'' q (maps ?o)) [Opened ''a'', Pushed ''a'' q]"
  have "reachable ?z" by (rule reachable.start) (simp_all add: idle_def)
  moreover have "thread_step ?z ?o"
    using thread_step.opened [where s = ?z and ip = "''a''"] by (simp add: idle_def)
  moreover have "thread_step ?o ?f"
    by (rule thread_step.found [OF _ _ b]) (simp_all add: idle_def)
  moreover have "thread_step ?f ?p"
    using thread_step.push [where s = ?f and ip = "''a''" and p = q] by (simp add: idle_def)
  ultimately have "reachable ?p"
    by (blast intro: reachable.step)
  from queues_are_fifo [OF this, of "''a''"]
  have "snd (ledger ''a'' [Opened ''a'', Pushed ''a'' q])
       @ waiting ''a'' (push_queue ''a'' q (s0\<lparr>msgQueues := [''a'' \<mapsto> []]\<rparr>)) = [q]"
    by (simp add: idle_def) (simp add: ledger_def)
  then show "\<exists>q. snd (ledger ''a'' [Opened ''a'', Pushed ''a'' q])
       @ waiting ''a'' (push_queue ''a'' q (s0\<lparr>msgQueues := [''a'' \<mapsto> []]\<rparr>)) = [q]" ..
qed

text \<open>
  C22. When \<open>receive\<close> returns, it returns exactly as many packets as it was asked for, and its run
  is a run of the two threads that took these packets from the module's queue in this order.
\<close>

theorem receive_takes_in_order:
  assumes "receive_loop N ip k timeout 0 [] s = (Inr res, t)"
  shows "length res = k \<and> (\<forall>h. \<exists>evs. thread_step\<^sup>*\<^sup>* (idle s h) (idle t (h @ evs)) \<and> taken_from ip evs = res)"
  using receive_loop_runs [OF assms] by (auto simp: runs_def)

theorem receive_takes_in_order_witness:
  "\<forall>N (s0 :: unit link) q. \<exists>t. receive_loop N ''a'' 1 100 0 [] (s0\<lparr>msgQueues := [''a'' \<mapsto> [q]]\<rparr>) = (Inr [q], t)
    \<and> (\<exists>evs. thread_step\<^sup>*\<^sup>* (idle (s0\<lparr>msgQueues := [''a'' \<mapsto> [q]]\<rparr>) []) (idle t evs) \<and> taken_from ''a'' evs = [q])"
proof (intro allI)
  fix N and s0 :: "unit link" and q
  let ?t = "s0\<lparr>msgQueues := [''a'' \<mapsto> []]\<rparr>"
  have r: "receive_loop N ''a'' 1 100 0 [] (s0\<lparr>msgQueues := [''a'' \<mapsto> [q]]\<rparr>) = (Inr [q], ?t)"
    by (subst receive_loop.simps) (simp add: pop_message_def)
  obtain evs where "thread_step\<^sup>*\<^sup>* (idle (s0\<lparr>msgQueues := [''a'' \<mapsto> [q]]\<rparr>) []) (idle ?t ([] @ evs))"
    "taken_from ''a'' evs = [q]"
    using receive_takes_in_order [OF r] by blast
  with r show "\<exists>t. receive_loop N ''a'' 1 100 0 [] (s0\<lparr>msgQueues := [''a'' \<mapsto> [q]]\<rparr>) = (Inr [q], t)
    \<and> (\<exists>evs. thread_step\<^sup>*\<^sup>* (idle (s0\<lparr>msgQueues := [''a'' \<mapsto> [q]]\<rparr>) []) (idle t evs) \<and> taken_from ''a'' evs = [q])"
    by auto
qed

end
