(* ===== verification/Returns.thy ===== *)
theory Returns
  imports Flash
begin

text \<open>
  The methods that always return: no loop of the Ethernet interface runs forever, whatever the
  network does, and erasing the EPROM ends when the pages to erase do not reach the last one.
\<close>

section \<open>The Ethernet interface\<close>

abbreviation returns :: "('s, 'a) meth \<Rightarrow> bool" where
  "returns m \<equiv> avoids (\<lambda>e. e = Diverges) m"

lemma returns_liftE: "r \<noteq> Inl Diverges \<Longrightarrow> returns (liftE r)"
  by (auto simp: avoids_def liftE_def)

lemma returns_throwM [avoids_intros]: "e \<noteq> Diverges \<Longrightarrow> returns (throwM e)"
  by (rule avoids_throwM)

lemma returns_net_do [avoids_intros]: "returns (net_do f)"
  by (simp add: avoids_def net_do_def)

lemma returns_vec_at [avoids_intros]: "returns (vec_at xs i)"
  unfolding vec_at_def by (intro avoids_intros) simp

lemma packet_of_bytes_returns: "packet_of_bytes bs \<noteq> Inl Diverges"
proof -
  have "payload_words xs \<noteq> Inl Diverges" for xs
    by (induction xs rule: payload_words.induct) (auto split: sum.splits)
  then show ?thesis
    by (auto simp: packet_of_bytes_def Let_def split: if_splits sum.splits)
qed

lemma check_ack_returns: "check_ack dg ack legacy \<noteq> Inl Diverges"
  by (simp add: check_ack_cases)

lemma returns_dev_at [avoids_intros]: "returns (dev_at ip)"
  unfolding dev_at_def by (intro avoids_intros)

lemma returns_socket_at [avoids_intros]: "returns (socket_at ip)"
  unfolding socket_at_def by (intro avoids_intros) simp

lemma returns_sort_packet [avoids_intros]: "returns (sort_packet bs sndr)"
  unfolding sort_packet_def
  by (intro avoids_intros returns_liftE packet_of_bytes_returns) simp

lemma returns_deliver [avoids_intros]: "returns (deliver N)"
  unfolding deliver_def by (intro avoids_intros)

lemma returns_sleep_ms [avoids_intros]: "returns (sleep_ms N d)"
  unfolding sleep_ms_def by (intro avoids_intros)

lemma returns_udp_send [avoids_intros]: "returns (udp_send N port bs ep)"
  unfolding udp_send_def by (intro avoids_intros) simp

lemma receive_loop_returns: "receive_loop N ip k timeout elapsed out s = (r, t) \<Longrightarrow> r \<noteq> Inl Diverges"
  by (induction elapsed out s "(r, t)" rule: receive_loop_rule) (auto dest: avoidsD [OF returns_sleep_ms])

lemma returns_eth_receive [avoids_intros]: "returns (eth_receive N ip k timeout)"
proof -
  have "returns (receive_loop N ip k timeout 0 [])"
    using receive_loop_returns unfolding avoids_def by metis
  then show ?thesis
    unfolding eth_receive_def by (intro avoids_intros)
qed

lemma returns_read_with_timeout [avoids_intros]: "returns (read_with_timeout N ip timeout buf)"
  unfolding read_with_timeout_def
  by (intro avoids_intros) (auto split: io.split intro!: avoids_intros)

lemma returns_eth_read [avoids_intros]: "returns (eth_read N ip timeout)"
  unfolding eth_read_def by (intro avoids_intros)

lemma returns_send_packets_from [avoids_intros]: "returns (send_packets_from N ip q ps)"
  by (induction ps arbitrary: q) (auto intro!: avoids_intros)

lemma returns_send_chunk [avoids_intros]: "returns (send_chunk N ip chunk noACK)"
  unfolding send_chunk_def
  by (intro avoids_intros returns_liftE check_ack_returns) simp

lemma returns_send_packet [avoids_intros]: "returns (send_packet N ip msg r)"
  unfolding send_packet_def by (intro avoids_intros)

lemma returns_send_packets [avoids_intros]: "returns (send_packets N ip msg every)"
  unfolding send_packets_def by (intro avoids_intros) simp

lemma returns_tcp_send [avoids_intros]: "returns (tcp_send_datagram N ip dg)"
  unfolding tcp_send_datagram_def
  by (intro avoids_intros returns_liftE check_ack_returns) simp

lemma returns_udp_send_datagram [avoids_intros]: "returns (udp_send_datagram N ip dg)"
  unfolding udp_send_datagram_def by (intro avoids_intros)

lemma returns_eth_send [avoids_intros]: "returns (eth_send N ip dgs)"
  unfolding eth_send_def by (intro avoids_intros)

lemma returns_get_obj [avoids_intros]: "returns (get_obj f)"
  unfolding get_obj_def by (intro avoids_intros)

lemma returns_mod_obj [avoids_intros]: "returns (mod_obj f)"
  unfolding mod_obj_def by (intro avoids_intros)

lemma returns_rm_send [avoids_intros]: "returns (rm_send N dgs)"
  unfolding rm_send_def need_rm_def by (intro avoids_intros) simp

lemma returns_rm_read [avoids_intros]: "returns (rm_read N)"
  unfolding rm_read_def need_rm_def by (intro avoids_intros) simp

lemma returns_request [avoids_intros]: "returns (request N cmd a)"
  unfolding request_def by (intro avoids_intros)

lemma returns_read_memory [avoids_intros]: "returns (read_memory N a n)"
  unfolding read_memory_def by (intro avoids_intros)

lemma returns_chunked [avoids_intros]: "z \<noteq> 0 \<Longrightarrow> returns (chunked cmd a data z)"
  by (simp add: chunked_def dg_chunk_eq avoids_intros)

lemma returns_write_memory [avoids_intros]: "returns (write_memory N a data)"
  unfolding write_memory_def by (intro avoids_intros) simp_all

section \<open>Erasing the EPROM\<close>

lemma returns_erase_page: "returns (erase_page N a k)"
proof -
  have handle: "returns (handleM m h)" if "returns m" "\<And>e. e \<noteq> Diverges \<Longrightarrow> returns (h e)"
    for m :: "('n st, nat) meth" and h
    using that unfolding avoids_def handleM_def by (fastforce split: prod.splits sum.splits)
  then show ?thesis
    unfolding erase_page_def
    by (intro avoids_if handle avoids_intros) (auto intro!: avoids_intros split: exn.split)
qed

lemma erase_loop_returns:
  assumes "unat end_addr \<le> unat a + 0x10000 * fuel" "unat end_addr \<le> 0xFFFF0000"
    and "0 < fuel" "unat a < 0xFFFF0000"
  shows "returns (erase_loop N fuel start n end_addr a)"
  using assms
proof (induction fuel arbitrary: a)
  case 0
  then show ?case by simp
next
  case (Suc fuel)
  have wrap: "unat (a + 0x10000) = unat a + 0x10000"
    using Suc.prems(4) by (simp add: unat_word_ariths)
  have "returns (erase_loop N fuel start n end_addr (a + 0x10000))" if "a + 0x10000 < end_addr"
  proof (rule Suc.IH)
    have l: "unat a + 0x10000 < unat end_addr" using that wrap by (simp add: word_less_nat_alt)
    show "unat end_addr \<le> unat (a + 0x10000) + 0x10000 * fuel" "unat (a + 0x10000) < 0xFFFF0000"
      using Suc.prems(1,2) wrap l by simp_all
    show "0 < fuel" using Suc.prems(1) l by (cases fuel) simp_all
  qed (rule Suc.prems(2))
  then show ?case
    unfolding erase_loop.simps Let_def set_progress_def
    by (cases "a + 0x10000 < end_addr") (auto intro!: avoids_intros returns_erase_page)
qed

text \<open>Above the last page the loop comes back to the first and never meets its end.\<close>

lemma erase_loop_never_ends:
  assumes "0xFFFF0000 < unat end_addr" "0x10000 dvd unat a"
  shows "fst (erase_loop N fuel start n end_addr a s) \<noteq> Inr ()"
  using assms(2)
proof (induction fuel arbitrary: a s)
  case 0
  then show ?case by (simp add: throwM_def)
next
  case (Suc fuel)
  have d: "0x10000 dvd unat (a + 0x10000)"
    using dvd_mod [of "0x10000" "unat a + 0x10000" "2 ^ 32 :: nat"] Suc.prems
    by (simp add: unat_word_ariths)
  then obtain k where k: "unat (a + 0x10000) = 0x10000 * k" by (auto simp: dvd_def)
  have "unat (a + 0x10000) < 2 ^ 32" by (rule order_less_le_trans [OF unsigned_less]) simp
  then have "a + 0x10000 < end_addr" using k assms(1) by (simp add: word_less_nat_alt)
  then show ?case
    using Suc.IH [OF d]
    by (auto simp: bindM_def seqM_def Let_def throwM_def split: prod.split sum.split)
qed

text \<open>A page whose erase times out is not tried again: the counter never reaches 5.\<close>

lemma erase_page_tries: "erase_page N a 0 s = (Inr k, t) \<Longrightarrow> k = 0 \<or> k = 1"
  by (auto simp: erase_page_def handleM_def seqM_def bindM_def run_simps
      split: prod.splits sum.splits exn.splits if_splits)

text \<open>
  C29. Erasing a part of the EPROM that does not reach its last 64 KB page returns, or throws, on
  every network: no loop under it runs on. If the part does reach beyond the start of the last page
  the page address wraps around and the call can only end by an exception. An unaligned start is
  refused before anything is sent.
\<close>

theorem erase_flash_ends:
  "(start mod 0x10000 = 0 \<and> unat start < 0xFFFF0000 \<and> unat (start + n) \<le> 0xFFFF0000 \<longrightarrow>
      fst (erase_flash N start n s) \<noteq> Inl Diverges)
   \<and> (start mod 0x10000 = 0 \<and> 0xFFFF0000 < unat (start + n) \<longrightarrow> fst (erase_flash N start n s) \<noteq> Inr ())
   \<and> (start mod 0x10000 \<noteq> 0 \<longrightarrow> fst (erase_flash N start n s) = Inl (Thrown APS2_UNALIGNED_MEMORY_ACCESS)
        \<and> net (snd (erase_flash N start n s)) = net s)"
proof (intro conjI impI)
  assume h: "start mod 0x10000 = 0 \<and> unat start < 0xFFFF0000 \<and> unat (start + n) \<le> 0xFFFF0000"
  have "unat (start + n) < 2 ^ 32" by (rule order_less_le_trans [OF unsigned_less]) simp
  with h have "returns (erase_loop N 65536 start n (start + n) start)"
    by (intro erase_loop_returns) simp_all
  then have "returns (erase_flash N start n)"
    unfolding erase_flash_def set_task_def set_progress_def using h by (auto intro!: avoids_intros)
  then show "fst (erase_flash N start n s) \<noteq> Inl Diverges"
    unfolding avoids_def by (metis prod.collapse)
next
  assume h: "start mod 0x10000 = 0 \<and> 0xFFFF0000 < unat (start + n)"
  then have "unat start mod 0x10000 = 0" using unat_mod_distrib [of start "0x10000"] by simp
  then show "fst (erase_flash N start n s) \<noteq> Inr ()"
    using h erase_loop_never_ends [of "start + n" start N 65536 start n]
    by (simp add: erase_flash_def seqM_def bindM_def set_task_def set_progress_def mod_obj_def run_simps dvd_eq_mod_eq_0)
next
  assume "start mod 0x10000 \<noteq> 0"
  then show "fst (erase_flash N start n s) = Inl (Thrown APS2_UNALIGNED_MEMORY_ACCESS)"
    "net (snd (erase_flash N start n s)) = net s"
    by (simp_all add: erase_flash_def seqM_def bindM_def set_task_def set_progress_def mod_obj_def run_simps)
qed

theorem erase_flash_ends_witness:
  "\<forall>N (s :: unit st). fst (erase_flash N 0 0x20000 s) \<noteq> Inl Diverges
     \<and> fst (erase_flash N 0 0xFFFF0001 s) \<noteq> Inr ()
     \<and> fst (erase_flash N 4 1 s) = Inl (Thrown APS2_UNALIGNED_MEMORY_ACCESS)"
  using erase_flash_ends [of 0 "0x20000" N s for N and s :: "unit st"]
    erase_flash_ends [of 0 "0xFFFF0001" N s for N and s :: "unit st"]
    erase_flash_ends [of 4 1 N s for N and s :: "unit st"] by simp

end
