(* ===== verification/Chip_Properties.thy ===== *)
theory Chip_Properties
  imports Bringup
begin

text \<open>
  Properties of the clocks, the DAC FIFO and the bitfiles that do not depend on how the
  module answers: the tables, the encodings, and how the loops end.
\<close>

section \<open>Clocks\<close>

text \<open>
  The divider and bypass settings written for a sampling rate decode to that rate, for all four
  rates of the table, and two rates never share their settings. A rate that is not in the table is
  recorded in the object as if it had been set, although nothing is sent to the module and no
  error is raised.
\<close>

theorem sampling_rate_table:
  "(pllCyclesVal f = Some c \<longrightarrow> f \<in> {200, 300, 600, 1200}
      \<and> pll_decode (ucast c) (ucast (pllBypassVal f)) = Inr f)
   \<and> (pllCyclesVal f = Some c \<and> pllCyclesVal g = Some c \<and> pllBypassVal f = pllBypassVal g \<longrightarrow> f = g)
   \<and> (pllCyclesVal (sint w) = None \<longrightarrow>
        set_sampleRate N w s = (Inr (), s\<lparr>obj := (obj s)\<lparr>samplingRate := w\<rparr>\<rparr>))"
proof (intro conjI impI)
  assume "pllCyclesVal f = Some c"
  then show "f \<in> {200, 300, 600, 1200}" "pll_decode (ucast c) (ucast (pllBypassVal f)) = Inr f"
    by (auto simp: pllCyclesVal_def pllBypassVal_def pll_decode_def split: if_splits)
next
  assume "pllCyclesVal f = Some c \<and> pllCyclesVal g = Some c \<and> pllBypassVal f = pllBypassVal g"
  then show "f = g"
    by (auto simp: pllCyclesVal_def pllBypassVal_def split: if_splits)
next
  assume "pllCyclesVal (sint w) = None"
  then show "set_sampleRate N w s = (Inr (), s\<lparr>obj := (obj s)\<lparr>samplingRate := w\<rparr>\<rparr>)"
    by (simp add: set_sampleRate_def set_PLL_freq_def get_obj_def mod_obj_def whenM_def bindM_def run_simps)
qed

theorem sampling_rate_table_witness:
  "pll_decode (ucast (0x22 :: u8)) (ucast (pllBypassVal 200)) = Inr 200
   \<and> (\<forall>N (s :: unit st). set_sampleRate N 100 s = (Inr (), s\<lparr>obj := (obj s)\<lparr>samplingRate := 100\<rparr>\<rparr>))"
  using sampling_rate_table [where f = 200 and c = "0x22" and g = 200 and w = 100 and N = N and s = s
    for N and s :: "unit st"]
  by (simp add: pllCyclesVal_def)

text \<open>
  \<open>mymod\<close> is the mathematical remainder for a positive modulus, so the FIFO offset that
  \<open>enable_DAC_FIFO\<close> writes lies between 0 and 3 for every phase, and depends on the phase only
  through \<open>(phase + 1) / 2\<close> modulo 4, two away from it.
\<close>

theorem FIFO_offset_correct:
  "(0 < b \<longrightarrow> mymod a b = a mod b)
   \<and> 0 \<le> FIFO_offset phase \<and> FIFO_offset phase < 4
   \<and> (FIFO_offset phase + 2) mod 4 = ((uint phase + 1) div 2) mod 4"
proof -
  have m: "mymod a b = a mod b" if "0 < b" for a b :: int
  proof -
    have "a smod b = (if 0 \<le> a then a mod b else - ((- a) mod b))"
      using that by (cases "a = 0") (auto simp: signed_modulo_int_def sgn_if)
    moreover have "- ((- a) mod b) + b = a mod b" if "(- a) mod b \<noteq> 0"
      using that by (simp add: zmod_zminus1_eq_if split: if_splits)
    ultimately show ?thesis
      using that pos_mod_sign [OF that, of a] pos_mod_bound [OF that, of a]
      by (auto simp: mymod_def Let_def zmod_zminus1_eq_if split: if_splits)
  qed
  have o: "FIFO_offset phase = (((uint phase + 1) div 2) mod 4 - 2) mod 4"
    by (simp add: FIFO_offset_def m)
  then show ?thesis
    using m [of b a] by (simp add: mod_simps)
qed

theorem FIFO_offset_correct_witness: "mymod (- 3) 4 = 1 \<and> FIFO_offset 7 = 2"
proof -
  have "mymod (- 3) 4 = (- 3) mod 4" using FIFO_offset_correct [of 4 "- 3"] by simp
  moreover have "FIFO_offset 7 = 2" by (simp add: FIFO_offset_def mymod_def)
  ultimately show ?thesis by simp
qed

section \<open>Bitfiles\<close>

lemma be32_of_be32: "be32 (of_be32 [a, b, c, d]) = [a, b, c, d]"
  unfolding be32_def of_be32_def
  by (simp, intro conjI; rule bit_word_eqI; auto simp: bit_simps dest: bit_imp_le_length)

lemma be32_decode_all:
  "length bs = 4 * n \<Longrightarrow> concat (map be32 (decode_all 4 of_be32 bs)) = bs
     \<and> length (decode_all 4 of_be32 bs) = n"
proof (induction n arbitrary: bs)
  case (Suc n)
  then obtain a b c d rest where bs: "bs = [a, b, c, d] @ rest" "length rest = 4 * n"
    by (auto simp: numeral_eq_Suc length_Suc_conv)
  then show ?case
    using Suc.IH [of rest] decode_all_step [of 4 "[a, b, c, d]" of_be32 rest] by (simp add: be32_of_be32)
qed simp

text \<open>
  The words written for a bitfile are, byte for byte in the order of the file, the file
  followed by fewer than \<open>alignment\<close> bytes 0xff, and fill whole units of the medium.
\<close>

lemma bitfile_bytes_kept:
  assumes "alignment = media_alignment media"
  shows "\<exists>k. concat (map be32 (bitfile_words alignment bytes)) = bytes @ replicate k 0xff \<and> k < alignment
    \<and> 4 * length (bitfile_words alignment bytes) mod alignment = 0"
proof -
  define k where "k = (alignment - length bytes mod alignment) mod alignment"
  have al: "alignment = 8 \<or> alignment = 256" using assms by (cases media) simp_all
  have "(length bytes + k) mod alignment = 0"
  proof -
    have "length bytes mod alignment < alignment" using al by auto
    then have "(length bytes mod alignment + (alignment - length bytes mod alignment)) mod alignment = 0"
      by simp
    then show ?thesis unfolding k_def by (metis mod_add_left_eq mod_add_right_eq)
  qed
  then obtain q where q: "length bytes + k = alignment * q" by (auto simp: mod_eq_0_iff_dvd)
  then obtain n where n: "length (bytes @ replicate k 0xff) = 4 * n"
    using al that [of "(alignment div 4) * q"] by auto
  have "k < alignment" using al by (auto simp: k_def)
  moreover have "alignment * q = 4 * n" using n q by simp
  then have "4 * n mod alignment = 0" by (metis mod_mult_self1_is_0)
  ultimately show ?thesis
    using be32_decode_all [OF n] by (auto simp: bitfile_words_def k_def)
qed

text \<open>
  The comparison after a bitfile has been written accepts what was read back exactly when every
  word read equals the word of the file it was written from; a difference is reported as a
  validation failure and nothing else, and no word outside the two vectors is looked at when they
  are long enough.
\<close>

lemma validation_compares_all:
  assumes "ct + n \<le> length check" "base + ct + n \<le> length ws"
  shows "check_words check ws base ct n =
    (if take n (drop ct check) = take n (drop (base + ct) ws) then Inr ()
     else Inl (Thrown APS2_BITFILE_VALIDATION_FAILURE))"
  using assms
proof (induction n arbitrary: ct)
  case 0
  then show ?case by simp
next
  case (Suc n)
  have "take (Suc n) (drop ct check) = check ! ct # take n (drop (Suc ct) check)"
    "take (Suc n) (drop (base + ct) ws) = ws ! (base + ct) # take n (drop (Suc (base + ct)) ws)"
    using Suc.prems by (simp_all add: Cons_nth_drop_Suc [symmetric])
  then show ?case
    using Suc.prems Suc.IH [of "ct + 1"] by (auto simp: not_le)
qed

end
