(* ===== verification/LibAPS2.thy ===== *)
theory LibAPS2
  imports Bringup "HOL-Library.AList" "HOL-Library.Char_ord" "HOL-Library.List_Lexorder"
begin

text \<open>
  The C interface (\<open>libaps2.cpp\<close>): the map of module objects, the shared Ethernet interface and its
  lifetime, the wrappers that turn exceptions into status codes, and the exported functions.
\<close>

section \<open>State\<close>

text \<open>
  \<open>APSs\<close> is the map from serials to owned objects; \<open>None\<close> as a value is the null pointer that
  \<open>operator[]\<close> inserts. What the functions need of the host besides the network is a parameter.
\<close>

record 'n lib = "'n link" +
  APSs :: "(string \<times> aps2 option) list"
  deviceSerials :: "string set"

record host_ops =
  host_file :: "string \<Rightarrow> u8 list option" \<comment> \<open>the contents of a file that can be opened\<close>
  host_alloc :: "nat \<Rightarrow> bool"
  host_tan :: "f32 \<Rightarrow> f32"
  host_cos :: "f32 \<Rightarrow> f32"
  host_ip_text :: "u32 \<Rightarrow> string" \<comment> \<open>\<open>address_v4::to_string\<close>\<close>
  host_ip_parse :: "string \<Rightarrow> u32 option" \<comment> \<open>\<open>address_v4::from_string\<close>, which may throw\<close>

type_synonym ('n, 'a) api = "('n lib, 'a) meth"

section \<open>The shared interface\<close>

text \<open>The weak pointer is alive as long as some object holds the interface.\<close>

definition interface_alive :: "'n lib \<Rightarrow> bool" where
  "interface_alive l \<longleftrightarrow>
     list_ex (\<lambda>(k, p). case p of None \<Rightarrow> False | Some a \<Rightarrow> ethernetRM a) (APSs l)"

text \<open>The destructor closes all sockets; \<open>shutdown\<close> is its effect on the network.\<close>

definition drop_maps :: "('n, unit) api" where
  "drop_maps = modifyM (\<lambda>l. l\<lparr>devInfo := Map.empty, msgQueues := Map.empty, tcp_sockets := Map.empty\<rparr>)"

definition get_interface :: "'n net_ops \<Rightarrow> ('n \<Rightarrow> 'n) \<Rightarrow> ('n, unit) api" where
  "get_interface N shutdown =
     bindM (getM interface_alive) (\<lambda>alive.
       if alive then returnM ()
       else handleM (seqM drop_maps (eth_construct N))
              (\<lambda>e. seqM (net_do (\<lambda>n. ((), shutdown n)))
                 (case e of SystemError \<Rightarrow> throwM (Thrown APS2_UNKNOWN_ERROR) | _ \<Rightarrow> throwM e)))"

text \<open>What happens when a caller's shared pointer goes away.\<close>

definition release_interface :: "('n \<Rightarrow> 'n) \<Rightarrow> ('n, unit) api" where
  "release_interface shutdown =
     bindM (getM interface_alive) (\<lambda>alive.
       if alive then returnM () else seqM (net_do (\<lambda>n. ((), shutdown n))) drop_maps)"

section \<open>Wrappers\<close>

text \<open>A method of one object, run on the shared interface.\<close>

definition with_obj :: "string \<Rightarrow> aps2 \<Rightarrow> ('n, 'a) apsm \<Rightarrow> ('n, 'a) api" where
  "with_obj serial a m l =
     (case m \<lparr>devInfo = devInfo l, msgQueues = msgQueues l, tcp_sockets = tcp_sockets l,
              net = net l, obj = a\<rparr> of
        (r, s) \<Rightarrow> (r, l\<lparr>devInfo := devInfo s, msgQueues := msgQueues s, tcp_sockets := tcp_sockets s,
                       net := net s, APSs := AList.update serial (Some (obj s)) (APSs l)\<rparr>))"

definition at_serial :: "string \<Rightarrow> ('n, 'a) apsm \<Rightarrow> ('n, 'a) api" where
  "at_serial serial m =
     bindM (getM (\<lambda>l. map_of (APSs l) serial)) (\<lambda>p. case p of
         None \<Rightarrow> throwM OutOfRange
       | Some None \<Rightarrow> throwM Undefined
       | Some (Some a) \<Rightarrow> with_obj serial a m)"

text \<open>\<open>APSs[serial]->m\<close>\<close>

definition index_serial :: "string \<Rightarrow> ('n, 'a) apsm \<Rightarrow> ('n, 'a) api" where
  "index_serial serial m =
     bindM (getM (\<lambda>l. map_of (APSs l) serial)) (\<lambda>p. case p of
         None \<Rightarrow> seqM (modifyM (\<lambda>l. l\<lparr>APSs := AList.update serial None (APSs l)\<rparr>)) (throwM Undefined)
       | Some None \<Rightarrow> throwM Undefined
       | Some (Some a) \<Rightarrow> with_obj serial a m)"

text \<open>\<open>catch (APS2_STATUS status) { return status; } catch (...) { return APS2_UNKNOWN_ERROR; }\<close>\<close>

definition to_status :: "exn \<Rightarrow> ('n, APS2_STATUS) api" where
  "to_status e = (case e of Thrown st \<Rightarrow> returnM st
     | _ \<Rightarrow> if catchable e then returnM APS2_UNKNOWN_ERROR else throwM e)"

definition call_status :: "string \<Rightarrow> exn \<Rightarrow> ('n, APS2_STATUS) api" where
  "call_status serial e =
     (if e = OutOfRange
      then bindM (getM (\<lambda>l. map_of (APSs l) serial)) (\<lambda>p.
           returnM (if p = None then APS2_UNCONNECTED else APS2_UNKNOWN_ERROR))
      else to_status e)"

definition aps2_call :: "string \<Rightarrow> ('n, 'a) apsm \<Rightarrow> ('n, APS2_STATUS) api" where
  "aps2_call serial m =
     handleM (bindM (at_serial serial m) (\<lambda>_. returnM APS2_OK)) (call_status serial)"

text \<open>The getter also returns what it stored through the pointer, if it stored anything.\<close>

definition aps2_getter :: "string \<Rightarrow> ('n, 'a) apsm \<Rightarrow> ('n, APS2_STATUS \<times> 'a option) api" where
  "aps2_getter serial m =
     handleM (bindM (at_serial serial m) (\<lambda>x. returnM (APS2_OK, Some x)))
       (\<lambda>e. bindM (call_status serial e) (\<lambda>st. returnM (st, None)))"

definition index_getter :: "string \<Rightarrow> ('n, 'a) apsm \<Rightarrow> ('n, APS2_STATUS \<times> 'a option) api" where
  "index_getter serial m =
     handleM (bindM (index_serial serial m) (\<lambda>x. returnM (APS2_OK, Some x)))
       (\<lambda>e. bindM (to_status e) (\<lambda>st. returnM (st, None)))"

section \<open>Discovery, connecting, resetting\<close>

text \<open>The interface is only held during the call, unless an object keeps it.\<close>

definition holding :: "'n net_ops \<Rightarrow> ('n \<Rightarrow> 'n) \<Rightarrow> ('n, 'a) api \<Rightarrow> ('n, 'a) api" where
  "holding N shutdown m =
     seqM (get_interface N shutdown)
       (handleM (bindM m (\<lambda>x. seqM (release_interface shutdown) (returnM x)))
          (\<lambda>e. seqM (release_interface shutdown) (throwM e)))"

definition get_numDevices :: "'n net_ops \<Rightarrow> ('n \<Rightarrow> 'n) \<Rightarrow> ('n, APS2_STATUS \<times> nat option) api" where
  "get_numDevices N shutdown =
     handleM
       (bindM (holding N shutdown (eth_enumerate N)) (\<lambda>serials.
        seqM (modifyM (\<lambda>l. l\<lparr>deviceSerials := serials\<rparr>)) (returnM (APS2_OK, Some (card serials)))))
       (\<lambda>e. bindM (to_status e) (\<lambda>st. returnM (st, None)))"

definition get_device_IPs :: "('n, APS2_STATUS \<times> string list) api" where
  "get_device_IPs = bindM (getM deviceSerials) (\<lambda>S. returnM (APS2_OK, sorted_list_of_set S))"

definition connect_APS :: "'n net_ops \<Rightarrow> ('n \<Rightarrow> 'n) \<Rightarrow> string \<Rightarrow> ('n, APS2_STATUS) api" where
  "connect_APS N shutdown serial =
     seqM (modifyM (\<lambda>l. if map_of (APSs l) serial = None
             then l\<lparr>APSs := AList.update serial (Some (APS2_construct serial)) (APSs l)\<rparr> else l))
       (handleM
          (seqM (holding N shutdown (at_serial serial (aps2_connect N))) (returnM APS2_OK))
          to_status)"

definition disconnect_APS :: "'n net_ops \<Rightarrow> ('n \<Rightarrow> 'n) \<Rightarrow> string \<Rightarrow> ('n, APS2_STATUS) api" where
  "disconnect_APS N shutdown serial =
     bindM (aps2_call serial (aps2_disconnect N)) (\<lambda>status.
     seqM (modifyM (\<lambda>l. l\<lparr>APSs := AList.delete serial (APSs l)\<rparr>))
     (seqM (release_interface shutdown) (returnM status)))"

definition api_reset :: "'n net_ops \<Rightarrow> ('n \<Rightarrow> 'n) \<Rightarrow> string \<Rightarrow> APS2_RESET_MODE \<Rightarrow> ('n, APS2_STATUS) api" where
  "api_reset N shutdown serial mode =
     (case mode of
        RESET_TCP \<Rightarrow> seqM (holding N shutdown (reset_tcp N serial)) (returnM APS2_OK)
      | _ \<Rightarrow> aps2_call serial (aps2_reset N mode))"

definition init_APS :: "'n net_ops \<Rightarrow> string \<Rightarrow> int \<Rightarrow> ('n, APS2_STATUS) api" where
  "init_APS N serial forceReload = aps2_call serial (aps2_init N (forceReload \<noteq> 0))"

section \<open>Firmware version string\<close>

definition version_text :: "u32 \<Rightarrow> u32 \<Rightarrow> u32 \<Rightarrow> string" where
  "version_text version git_sha1 build_timestamp =
     (let tag_minor = version AND 0xff;
          tag_major = drop_bit 8 version AND 0xff;
          commits_since = drop_bit 16 version AND 0xfff;
          is_dirty = (drop_bit 28 version AND 0xf = 0xd);
          year = drop_bit 24 build_timestamp AND 0xff;
          month = drop_bit 16 build_timestamp AND 0xff;
          day = drop_bit 8 build_timestamp AND 0xff
      in ''v'' @ digits 10 (unat tag_major) @ ''.'' @ digits 10 (unat tag_minor)
         @ (if commits_since > 0
            then ''-'' @ digits 10 (unat commits_since) @ ''-g'' @ digits 16 (unat git_sha1) else [])
         @ (if is_dirty then ''-dirty'' else [])
         @ '' 20'' @ digits 16 (unat year) @ ''-'' @ digits 16 (unat month) @ ''-'' @ digits 16 (unat day))"

text \<open>
  \<open>get_firmware_version\<close>: each argument says whether the caller passed a pointer. A value is read
  at most once, and the first failing read ends the call.
\<close>

definition read_if :: "bool \<Rightarrow> string \<Rightarrow> ('n, u32) apsm \<Rightarrow> ('n, APS2_STATUS \<times> u32 option) api" where
  "read_if want serial m = (if want then aps2_getter serial m else returnM (APS2_OK, None))"

definition lib_firmware_version :: "'n net_ops \<Rightarrow> string \<Rightarrow> bool \<Rightarrow> bool \<Rightarrow> bool \<Rightarrow> bool
    \<Rightarrow> ('n, APS2_STATUS \<times> u32 option \<times> u32 option \<times> u32 option \<times> string option) api" where
  "lib_firmware_version N serial want_v want_g want_b want_s =
     bindM (read_if want_v serial (get_firmware_version N)) (\<lambda>(st1, v).
     if st1 \<noteq> APS2_OK then returnM (st1, v, None, None, None) else
     bindM (read_if want_g serial (get_firmware_git_sha1 N)) (\<lambda>(st2, g).
     if st2 \<noteq> APS2_OK then returnM (st2, v, g, None, None) else
     bindM (read_if want_b serial (get_firmware_build_timestamp N)) (\<lambda>(st3, b).
     if st3 \<noteq> APS2_OK \<or> \<not> want_s then returnM (st3, v, g, b, None) else
     bindM (read_if (\<not> want_v) serial (get_firmware_version N)) (\<lambda>(st4, v').
     if st4 \<noteq> APS2_OK then returnM (st4, v, g, b, None) else
     bindM (read_if (\<not> want_g) serial (get_firmware_git_sha1 N)) (\<lambda>(st5, g').
     if st5 \<noteq> APS2_OK then returnM (st5, v, g, b, None) else
     bindM (read_if (\<not> want_b) serial (get_firmware_build_timestamp N)) (\<lambda>(st6, b').
     if st6 \<noteq> APS2_OK then returnM (st6, v, g, b, None) else
     let pick_value = (\<lambda>want x x'. the (if want then x else x'))
     in returnM (APS2_OK, v, g, b,
          Some (version_text (pick_value want_v v v') (pick_value want_g g g') (pick_value want_b b b')))))))))"

section \<open>Functions that only wrap a method\<close>

definition lib_uptime :: "'n net_ops \<Rightarrow> string \<Rightarrow> ('n, APS2_STATUS \<times> f64 option) api" where
  "lib_uptime N serial = aps2_getter serial (get_uptime N)"
definition lib_fpga_temperature :: "'n net_ops \<Rightarrow> string \<Rightarrow> ('n, APS2_STATUS \<times> f32 option) api" where
  "lib_fpga_temperature N serial = aps2_getter serial (get_fpga_temperature N)"
definition lib_set_sampleRate :: "'n net_ops \<Rightarrow> string \<Rightarrow> u32 \<Rightarrow> ('n, APS2_STATUS) api" where
  "lib_set_sampleRate N serial freq = aps2_call serial (set_sampleRate N freq)"
definition lib_get_sampleRate :: "'n net_ops \<Rightarrow> string \<Rightarrow> ('n, APS2_STATUS \<times> u32 option) api" where
  "lib_get_sampleRate N serial = aps2_getter serial (get_sampleRate N)"
definition lib_set_waveform_float :: "'n net_ops \<Rightarrow> string \<Rightarrow> int \<Rightarrow> f32 list \<Rightarrow> ('n, APS2_STATUS) api" where
  "lib_set_waveform_float N serial ch data = aps2_call serial (set_waveform_f N ch data)"
definition lib_set_waveform_int :: "'n net_ops \<Rightarrow> string \<Rightarrow> int \<Rightarrow> i16 list \<Rightarrow> ('n, APS2_STATUS) api" where
  "lib_set_waveform_int N serial ch data = aps2_call serial (set_waveform_i N ch data)"
definition lib_set_markers :: "'n net_ops \<Rightarrow> string \<Rightarrow> int \<Rightarrow> u8 list \<Rightarrow> ('n, APS2_STATUS) api" where
  "lib_set_markers N serial ch data = aps2_call serial (set_markers N ch data)"
definition lib_write_sequence :: "'n net_ops \<Rightarrow> string \<Rightarrow> u64 list \<Rightarrow> ('n, APS2_STATUS) api" where
  "lib_write_sequence N serial data = aps2_call serial (write_sequence N data)"
definition lib_load_sequence_file :: "'n net_ops \<Rightarrow> host_ops \<Rightarrow> string \<Rightarrow> string \<Rightarrow> ('n, APS2_STATUS) api" where
  "lib_load_sequence_file N H serial seqFile =
     aps2_call serial (load_sequence_file N (host_alloc H) (host_file H seqFile))"
definition lib_clear_channel_data :: "string \<Rightarrow> ('n, APS2_STATUS) api" where
  "lib_clear_channel_data serial = aps2_call serial clear_channel_data"
definition lib_run :: "'n net_ops \<Rightarrow> string \<Rightarrow> ('n, APS2_STATUS) api" where
  "lib_run N serial = aps2_call serial (aps2_run N)"
definition lib_stop :: "'n net_ops \<Rightarrow> string \<Rightarrow> ('n, APS2_STATUS) api" where
  "lib_stop N serial = aps2_call serial (aps2_stop N)"
definition lib_runState :: "string \<Rightarrow> ('n, APS2_STATUS \<times> APS2_RUN_STATE option) api" where
  "lib_runState serial = aps2_getter serial get_runState"
definition lib_set_trigger_source :: "'n net_ops \<Rightarrow> string \<Rightarrow> APS2_TRIGGER_SOURCE \<Rightarrow> ('n, APS2_STATUS) api" where
  "lib_set_trigger_source N serial src = aps2_call serial (set_trigger_source N src)"
definition lib_get_trigger_source :: "'n net_ops \<Rightarrow> string \<Rightarrow> ('n, APS2_STATUS \<times> APS2_TRIGGER_SOURCE option) api" where
  "lib_get_trigger_source N serial = aps2_getter serial (get_trigger_source N)"
definition lib_set_trigger_interval :: "'n net_ops \<Rightarrow> string \<Rightarrow> f64 \<Rightarrow> ('n, APS2_STATUS) api" where
  "lib_set_trigger_interval N serial interval = aps2_call serial (set_trigger_interval N interval)"
definition lib_get_trigger_interval :: "'n net_ops \<Rightarrow> string \<Rightarrow> ('n, APS2_STATUS \<times> f64 option) api" where
  "lib_get_trigger_interval N serial = aps2_getter serial (get_trigger_interval N)"
definition lib_trigger :: "'n net_ops \<Rightarrow> string \<Rightarrow> ('n, APS2_STATUS) api" where
  "lib_trigger N serial = aps2_call serial (aps2_trigger N)"

definition lib_set_channel_delay :: "'n net_ops \<Rightarrow> string \<Rightarrow> int \<Rightarrow> u32 \<Rightarrow> ('n, APS2_STATUS) api" where
  "lib_set_channel_delay N serial ch delay = aps2_call serial (set_channel_bitslip N ch delay)"
definition lib_set_channel_offset :: "'n net_ops \<Rightarrow> string \<Rightarrow> int \<Rightarrow> f32 \<Rightarrow> ('n, APS2_STATUS) api" where
  "lib_set_channel_offset N serial ch offset = aps2_call serial (set_channel_offset N ch offset)"
definition lib_set_channel_scale :: "'n net_ops \<Rightarrow> host_ops \<Rightarrow> string \<Rightarrow> int \<Rightarrow> f32 \<Rightarrow> ('n, APS2_STATUS) api" where
  "lib_set_channel_scale N H serial ch scale =
     aps2_call serial (set_channel_scale N (host_tan H) (host_cos H) ch scale)"
definition lib_set_channel_enabled :: "string \<Rightarrow> int \<Rightarrow> int \<Rightarrow> ('n, APS2_STATUS) api" where
  "lib_set_channel_enabled serial ch enable = aps2_call serial (set_channel_enabled ch (enable \<noteq> 0))"
definition lib_get_channel_delay :: "'n net_ops \<Rightarrow> string \<Rightarrow> int \<Rightarrow> ('n, APS2_STATUS \<times> u32 option) api" where
  "lib_get_channel_delay N serial ch = aps2_getter serial (get_channel_bitslip N ch)"
definition lib_get_channel_offset :: "'n net_ops \<Rightarrow> string \<Rightarrow> int \<Rightarrow> ('n, APS2_STATUS \<times> f32 option) api" where
  "lib_get_channel_offset N serial ch = aps2_getter serial (get_channel_offset N ch)"
definition lib_get_channel_scale :: "'n net_ops \<Rightarrow> string \<Rightarrow> int \<Rightarrow> ('n, APS2_STATUS \<times> f32 option) api" where
  "lib_get_channel_scale N serial ch = aps2_getter serial (get_channel_scale N ch)"

text \<open>\<open>get_channel_enabled\<close> calls \<open>get_channel_offset\<close> and converts the offset to \<open>int\<close>.\<close>

definition float_to_int :: "f32 \<Rightarrow> exn + int" where
  "float_to_int x = (case to_int32 (f32_dec x) of None \<Rightarrow> Inl Undefined | Some k \<Rightarrow> Inr k)"

definition lib_get_channel_enabled :: "'n net_ops \<Rightarrow> string \<Rightarrow> int \<Rightarrow> ('n, APS2_STATUS \<times> int option) api" where
  "lib_get_channel_enabled N serial ch =
     aps2_getter serial (bindM (get_channel_offset N ch) (\<lambda>x. liftE (float_to_int x)))"

definition lib_set_mixer_amplitude_imbalance :: "'n net_ops \<Rightarrow> host_ops \<Rightarrow> string \<Rightarrow> f32 \<Rightarrow> ('n, APS2_STATUS) api" where
  "lib_set_mixer_amplitude_imbalance N H serial amp =
     aps2_call serial (set_mixer_amplitude_imbalance N (host_tan H) (host_cos H) amp)"
definition lib_get_mixer_amplitude_imbalance :: "'n net_ops \<Rightarrow> string \<Rightarrow> ('n, APS2_STATUS \<times> f32 option) api" where
  "lib_get_mixer_amplitude_imbalance N serial = aps2_getter serial (get_mixer_amplitude_imbalance N)"
definition lib_set_mixer_phase_skew :: "'n net_ops \<Rightarrow> host_ops \<Rightarrow> string \<Rightarrow> f32 \<Rightarrow> ('n, APS2_STATUS) api" where
  "lib_set_mixer_phase_skew N H serial skew =
     aps2_call serial (set_mixer_phase_skew N (host_tan H) (host_cos H) skew)"
definition lib_get_mixer_phase_skew :: "'n net_ops \<Rightarrow> string \<Rightarrow> ('n, APS2_STATUS \<times> f32 option) api" where
  "lib_get_mixer_phase_skew N serial = aps2_getter serial (get_mixer_phase_skew N)"
definition lib_set_mixer_correction_matrix :: "'n net_ops \<Rightarrow> string \<Rightarrow> f32 list \<Rightarrow> ('n, APS2_STATUS) api" where
  "lib_set_mixer_correction_matrix N serial mat =
     aps2_call serial (set_mixer_correction_matrix N (take 4 mat))"
definition lib_get_mixer_correction_matrix :: "'n net_ops \<Rightarrow> string \<Rightarrow> ('n, APS2_STATUS \<times> f32 list option) api" where
  "lib_get_mixer_correction_matrix N serial = index_getter serial (get_mixer_correction_matrix N)"
definition lib_set_run_mode :: "'n net_ops \<Rightarrow> string \<Rightarrow> APS2_RUN_MODE \<Rightarrow> ('n, APS2_STATUS) api" where
  "lib_set_run_mode N serial mode = aps2_call serial (set_run_mode N mode)"
definition lib_set_waveform_frequency :: "'n net_ops \<Rightarrow> string \<Rightarrow> f32 \<Rightarrow> ('n, APS2_STATUS) api" where
  "lib_set_waveform_frequency N serial freq = aps2_call serial (set_waveform_frequency N freq)"
definition lib_get_waveform_frequency :: "'n net_ops \<Rightarrow> string \<Rightarrow> ('n, APS2_STATUS \<times> f32 option) api" where
  "lib_get_waveform_frequency N serial = aps2_getter serial (get_waveform_frequency N)"
definition lib_write_memory :: "'n net_ops \<Rightarrow> string \<Rightarrow> u32 \<Rightarrow> u32 list \<Rightarrow> ('n, APS2_STATUS) api" where
  "lib_write_memory N serial addr data = aps2_call serial (write_memory N addr data)"
definition lib_read_memory :: "'n net_ops \<Rightarrow> string \<Rightarrow> u32 \<Rightarrow> u32 \<Rightarrow> ('n, APS2_STATUS \<times> u32 list option) api" where
  "lib_read_memory N serial addr n = index_getter serial (read_memory N addr n)"
definition lib_read_register :: "'n net_ops \<Rightarrow> string \<Rightarrow> u32 \<Rightarrow> ('n, APS2_STATUS \<times> u32 list option) api" where
  "lib_read_register N serial addr = lib_read_memory N serial addr 1"
definition lib_write_bitfile :: "'n net_ops \<Rightarrow> host_ops \<Rightarrow> string \<Rightarrow> string \<Rightarrow> u32
    \<Rightarrow> APS2_BITFILE_STORAGE_MEDIA \<Rightarrow> ('n, APS2_STATUS) api" where
  "lib_write_bitfile N H serial bitFile addr media =
     aps2_call serial (write_bitfile N (host_file H bitFile) addr media)"
definition lib_program_bitfile :: "'n net_ops \<Rightarrow> string \<Rightarrow> u32 \<Rightarrow> ('n, APS2_STATUS) api" where
  "lib_program_bitfile N serial addr = aps2_call serial (program_bitfile N addr)"
definition lib_write_configuration_SDRAM :: "'n net_ops \<Rightarrow> string \<Rightarrow> u32 \<Rightarrow> u32 list \<Rightarrow> ('n, APS2_STATUS) api" where
  "lib_write_configuration_SDRAM N serial addr data =
     aps2_call serial (write_configuration_SDRAM N addr data)"
definition lib_read_configuration_SDRAM :: "'n net_ops \<Rightarrow> string \<Rightarrow> u32 \<Rightarrow> u32
    \<Rightarrow> ('n, APS2_STATUS \<times> u32 list option) api" where
  "lib_read_configuration_SDRAM N serial addr n =
     index_getter serial (read_configuration_SDRAM N addr n)"
definition lib_write_flash :: "'n net_ops \<Rightarrow> string \<Rightarrow> u32 \<Rightarrow> u32 list \<Rightarrow> ('n, APS2_STATUS) api" where
  "lib_write_flash N serial addr data = aps2_call serial (write_flash N addr data)"
definition lib_read_flash :: "'n net_ops \<Rightarrow> string \<Rightarrow> u32 \<Rightarrow> u32 \<Rightarrow> ('n, APS2_STATUS \<times> u32 list option) api" where
  "lib_read_flash N serial addr n = index_getter serial (read_flash N addr n)"

text \<open>These have no handler: an exception leaves the library.\<close>

definition lib_bitfile_writing_task :: "string \<Rightarrow> ('n, APS2_BITFILE_WRITING_TASK) api" where
  "lib_bitfile_writing_task serial = index_serial serial (get_init bitfile_writing_task)"
definition clear_bitfile_writing_progress :: "string \<Rightarrow> ('n, unit) api" where
  "clear_bitfile_writing_progress serial =
     seqM (index_serial serial (set_task STARTING)) (index_serial serial (set_progress (f64_of_int 0)))"
definition lib_flash_progress :: "string \<Rightarrow> ('n, f64) api" where
  "lib_flash_progress serial = index_serial serial (get_init bitfile_writing_task_progress)"
definition lib_get_mac_addr :: "'n net_ops \<Rightarrow> string \<Rightarrow> ('n, u64) api" where
  "lib_get_mac_addr N serial = index_serial serial (get_mac_addr N)"
definition lib_run_DAC_BIST :: "'n net_ops \<Rightarrow> host_ops \<Rightarrow> string \<Rightarrow> int \<Rightarrow> i16 list
    \<Rightarrow> ('n, bool \<times> u32 list) api" where
  "lib_run_DAC_BIST N H serial dac data =
     index_serial serial (run_DAC_BIST N (host_tan H) (host_cos H) dac data)"

definition lib_set_mac_addr :: "'n net_ops \<Rightarrow> string \<Rightarrow> u64 \<Rightarrow> ('n, APS2_STATUS) api" where
  "lib_set_mac_addr N serial mac = aps2_call serial (set_mac_addr N mac)"

definition lib_get_ip_addr :: "'n net_ops \<Rightarrow> host_ops \<Rightarrow> string \<Rightarrow> ('n, APS2_STATUS \<times> string option) api" where
  "lib_get_ip_addr N H serial =
     handleM (bindM (index_serial serial (get_ip_addr N)) (\<lambda>ip. returnM (APS2_OK, Some (host_ip_text H ip))))
       (\<lambda>e. if catchable e then returnM (APS2_UNKNOWN_ERROR, None) else throwM e)"

definition lib_set_ip_addr :: "'n net_ops \<Rightarrow> host_ops \<Rightarrow> string \<Rightarrow> string \<Rightarrow> ('n, APS2_STATUS) api" where
  "lib_set_ip_addr N H serial text =
     (case host_ip_parse H text of
        None \<Rightarrow> throwM SystemError
      | Some ip \<Rightarrow> aps2_call serial (set_ip_addr N ip))"

definition lib_write_SPI_setup :: "'n net_ops \<Rightarrow> string \<Rightarrow> ('n, APS2_STATUS) api" where
  "lib_write_SPI_setup N serial = aps2_call serial (write_SPI_setup N)"
definition lib_get_dhcp_enable :: "'n net_ops \<Rightarrow> string \<Rightarrow> ('n, APS2_STATUS \<times> bool option) api" where
  "lib_get_dhcp_enable N serial = aps2_getter serial (get_dhcp_enable N)"
definition lib_set_dhcp_enable :: "'n net_ops \<Rightarrow> string \<Rightarrow> int \<Rightarrow> ('n, APS2_STATUS) api" where
  "lib_set_dhcp_enable N serial enable = aps2_call serial (set_dhcp_enable N (enable \<noteq> 0))"
definition lib_set_DAC_SD :: "'n net_ops \<Rightarrow> string \<Rightarrow> int \<Rightarrow> u8 \<Rightarrow> ('n, APS2_STATUS) api" where
  "lib_set_DAC_SD N serial dac sd = aps2_call serial (set_DAC_SD N dac sd)"
definition lib_toggle_DAC_clock :: "'n net_ops \<Rightarrow> string \<Rightarrow> int \<Rightarrow> ('n, APS2_STATUS) api" where
  "lib_toggle_DAC_clock N serial dac = aps2_call serial (toggle_DAC_clock N dac)"

end
