(* ===== verification/Registers.thy ===== *)
theory Registers
  imports Behaviour LibAPS2
begin

text \<open>
  The per-channel registers on a module that keeps its laws: bitslip, scale and offset, the checks
  of the channel number, and what the C interface reports for them.
\<close>

section \<open>Channel numbers\<close>

lemma check_channel_num_run: "check_channel_num dac s =
    (if dac = 0 \<or> dac = 1 then (Inr (), s) else (Inl (Thrown APS2_INVALID_DAC), s))"
  by (auto simp: check_channel_num_def NUM_ANALOG_CHANNELS_def run_simps)

text \<open>The method ends with APS2_INVALID_DAC and leaves everything as it was.\<close>

definition refuses :: "('n, 'a) apsm \<Rightarrow> 'n st \<Rightarrow> bool" where
  "refuses m s \<longleftrightarrow> m s = (Inl (Thrown APS2_INVALID_DAC), s)"

lemma checked: "dac = 0 \<or> dac = 1 \<Longrightarrow> seqM (check_channel_num dac) m = m"
  by (auto simp: fun_eq_iff seqM_def bindM_def check_channel_num_run)

lemma refuses_unchecked: "dac \<notin> {0, 1} \<Longrightarrow> refuses (seqM (check_channel_num dac) m) s"
  by (simp add: refuses_def seqM_def bindM_def check_channel_num_run)

text \<open>
  Every method that checks its channel number refuses numbers other than 0 and 1 with
  APS2_INVALID_DAC, before it reads or writes anything: the object, the interface and the network
  are exactly as they were.
\<close>

theorem invalid_channel_refused:
  assumes "dac \<notin> {0, 1}"
  shows "refuses (set_channel_enabled dac b) s \<and> refuses (get_channel_enabled dac) s
    \<and> refuses (set_channel_bitslip N dac w) s \<and> refuses (get_channel_bitslip N dac) s
    \<and> refuses (set_channel_offset N dac x) s \<and> refuses (get_channel_offset N dac) s
    \<and> refuses (set_channel_scale N tan_f cos_f dac x) s \<and> refuses (get_channel_scale N dac) s
    \<and> refuses (enable_DAC_clock N dac) s \<and> refuses (disable_DAC_clock N dac) s
    \<and> refuses (align_DAC_clock N dac) s \<and> refuses (align_DAC_LVDS_capture N dac) s
    \<and> refuses (get_DAC_FIFO_phase N dac) s \<and> refuses (enable_DAC_FIFO N dac) s"
proof -
  have "refuses (enable_DAC_FIFO N dac) s"
  proof -
    have "dac < 0 \<or> 2 \<le> dac" using assms by auto
    then show ?thesis by (simp add: enable_DAC_FIFO_def NUM_ANALOG_CHANNELS_def refuses_def run_simps)
  qed
  then show ?thesis
    unfolding set_channel_enabled_def get_channel_enabled_def set_channel_bitslip_def
      get_channel_bitslip_def set_channel_offset_def get_channel_offset_def set_channel_scale_def
      get_channel_scale_def enable_DAC_clock_def disable_DAC_clock_def align_DAC_clock_def
      align_DAC_LVDS_capture_def get_DAC_FIFO_phase_def
    by (simp add: refuses_unchecked [OF assms])
qed

theorem invalid_channel_refused_witness:
  "\<forall>s :: unit st. set_channel_enabled 2 True s = (Inl (Thrown APS2_INVALID_DAC), s)
    \<and> get_channel_enabled (- 1) s = (Inl (Thrown APS2_INVALID_DAC), s)"
proof (intro allI conjI)
  fix s :: "unit st"
  have "refuses (set_channel_enabled 2 True) s"
    by (rule invalid_channel_refused [where dac = 2, THEN conjunct1]) simp
  then show "set_channel_enabled 2 True s = (Inl (Thrown APS2_INVALID_DAC), s)" by (simp add: refuses_def)
  have "refuses (get_channel_enabled (- 1)) s"
    by (rule invalid_channel_refused [where dac = "- 1", THEN conjunct2, THEN conjunct1]) simp
  then show "get_channel_enabled (- 1) s = (Inl (Thrown APS2_INVALID_DAC), s)" by (simp add: refuses_def)
qed

section \<open>The channel registers\<close>

lemma refines_bitslip:
  assumes "dac = 0 \<or> dac = 1"
  shows "refines (device_ok N sk A D) (device_bus D) (set_channel_bitslip N dac w)
       (bus_write (bus_writable A) (bitslip_addr dac) [w AND 0x3])"
    "refines (device_ok N sk A D) (device_bus D) (get_channel_bitslip N dac)
       (bindM (bus_read1 (bus_readable A) (bitslip_addr dac)) (\<lambda>w. returnM (w AND 0x3)))"
  unfolding set_channel_bitslip_def get_channel_bitslip_def checked [OF assms] by (intro refines_intros)+

lemma offset_halves:
  "offset_of_register dac (offset_register dac k w) = k"
  "dac = 0 \<Longrightarrow> offset_of_register 1 (offset_register dac k w) = offset_of_register 1 w"
  "dac = 1 \<Longrightarrow> offset_of_register 0 (offset_register dac k w) = offset_of_register 0 w"
proof -
  have m: "(0xffff :: u32) = mask 16" "(0xffff0000 :: u32) = NOT (mask 16)"
    by (simp_all add: mask_eq_exp_minus_1)
  show "offset_of_register dac (offset_register dac k w) = k"
    unfolding offset_of_register_def offset_register_def m
    by (rule bit_word_eqI) (auto simp: bit_simps dest: bit_imp_le_length)
  show "offset_of_register 1 (offset_register dac k w) = offset_of_register 1 w" if "dac = 0"
    using that unfolding offset_of_register_def offset_register_def m
    by (intro bit_word_eqI) (auto simp: bit_simps dest: bit_imp_le_length)
  show "offset_of_register 0 (offset_register dac k w) = offset_of_register 0 w" if "dac = 1"
    using that unfolding offset_of_register_def offset_register_def m
    by (intro bit_word_eqI) (auto simp: bit_simps dest: bit_imp_le_length)
qed

lemma refines_offset:
  assumes "dac = 0 \<or> dac = 1"
  shows "to_int16 (f32_dec (f32_mul x (f32_of_int MAX_WF_AMP))) = Some k \<Longrightarrow>
      refines (device_ok N sk A D) (device_bus D) (set_channel_offset N dac x)
       (bus_modify (bus_readable A) (bus_writable A) CHANNEL_OFFSET_ADDR (offset_register dac (word_of_int k)))"
    "refines (device_ok N sk A D) (device_bus D) (get_channel_offset N dac)
       (bindM (bus_read1 (bus_readable A) CHANNEL_OFFSET_ADDR)
         (\<lambda>w. returnM (scaled_float (offset_of_register dac w))))"
  unfolding set_channel_offset_def get_channel_offset_def checked [OF assms]
  by (simp add: refines_modify, intro refines_intros)

text \<open>
  C33. The offsets of the two channels share a register: setting one channel's offset stores the
  truncated product with 8191, reading it gives that integer divided by 8191, and the other
  channel's offset reads as before.
\<close>

theorem channel_offsets_independent:
  assumes "device_ok N sk A D s" "reg_in A CHANNEL_OFFSET_ADDR" "dac = 0 \<or> dac = 1"
    and "to_int16 (f32_dec (f32_mul x (f32_of_int MAX_WF_AMP))) = Some k"
  shows "\<exists>r t u v w. set_channel_offset N dac x s = (Inr (), t)
    \<and> get_channel_offset N dac t = (Inr (scaled_float (word_of_int k)), u)
    \<and> get_channel_offset N (1 - dac) s = (Inr r, v) \<and> get_channel_offset N (1 - dac) t = (Inr r, w)
    \<and> (\<forall>a. a \<noteq> CHANNEL_OFFSET_ADDR \<longrightarrow> dv_mem D (net t) a = dv_mem D (net s) a)"
proof -
  let ?m = "dv_mem D (net s)" and ?C = CHANNEL_OFFSET_ADDR
  have other: "1 - dac = 0 \<or> 1 - dac = 1" using assms(3) by auto
  from module_run [OF refines_offset(1) [OF assms(3,4)] assms(1)] obtain t where
    t: "set_channel_offset N dac x s = (Inr (), t)" "device_ok N sk A D t"
      "dv_mem D (net t) = ?m(?C := offset_register dac (word_of_int k) (?m ?C))"
    by (auto simp: bus_runs assms(2))
  have rd: "\<exists>z. get_channel_offset N d y = (Inr (scaled_float (offset_of_register d (dv_mem D (net y) ?C))), z)"
    if "d = 0 \<or> d = 1" "device_ok N sk A D y" for d y
    using module_run [OF refines_offset(2) [OF that(1)] that(2)] by (auto simp: bus_runs assms(2))
  have same: "offset_of_register (1 - dac) (offset_register dac (word_of_int k) w) = offset_of_register (1 - dac) w" for w
    using offset_halves(2,3) [where dac = dac and w = w] assms(3) by auto
  show ?thesis
    using t(1,3) rd [OF assms(3) t(2)] rd [OF other assms(1)] rd [OF other t(2)]
    by (auto simp: same) (auto simp: offset_halves(1))
qed

theorem channel_offsets_independent_witness:
  "\<exists>t u. set_channel_offset emu_ops 1 (f32_of_int 1) (emu_state (\<lambda>a. 0)) = (Inr (), t)
    \<and> get_channel_offset emu_ops 1 t = (Inr (scaled_float 8191), u)"
proof -
  have r: "reg_in UNIV CHANNEL_OFFSET_ADDR" by (simp add: reg_in_def const_defs)
  have k: "to_int16 (f32_dec (f32_mul (f32_of_int 1) (f32_of_int MAX_WF_AMP))) = Some 8191"
    by code_simp
  from channel_offsets_independent [OF emu_ok [of "\<lambda>a. 0"] r _ k, of 1] show ?thesis by auto
qed

text \<open>
  The bitslip register keeps the low two bits of the delay it is given: reading it back gives
  the delay modulo 4, and nothing else of the module's memory changes.
\<close>

theorem bitslip_round_trip:
  assumes "device_ok N sk A D s" "reg_in A (bitslip_addr dac)" "dac = 0 \<or> dac = 1"
  shows "\<exists>t u. set_channel_bitslip N dac d s = (Inr (), t) \<and> get_channel_bitslip N dac t = (Inr (d mod 4), u)
    \<and> dv_mem D (net u) = (dv_mem D (net s))(bitslip_addr dac := d mod 4) \<and> obj u = obj s"
proof -
  have m: "d AND 3 = d mod 4"
  proof -
    have "d AND 3 = d AND mask 2" by (simp add: mask_eq_exp_minus_1)
    also have "\<dots> = d mod 2 ^ 2" by (simp only: take_bit_eq_mask [symmetric] take_bit_eq_mod)
    finally show ?thesis by simp
  qed
  have mm: "d mod 4 AND 3 = d mod 4" unfolding m [symmetric] by (simp add: and.assoc)
  from module_run [OF refines_bitslip(1) [where w = d, OF assms(3)] assms(1)] obtain t where
    t: "set_channel_bitslip N dac d s = (Inr (), t)" "device_ok N sk A D t" "obj t = obj s"
      "dv_mem D (net t) = (dv_mem D (net s))(bitslip_addr dac := d mod 4)"
    by (auto simp: bus_runs assms(2) m)
  from module_run [OF refines_bitslip(2) [OF assms(3)] t(2)] obtain u where
    u: "get_channel_bitslip N dac t = (Inr (d mod 4), u)" "dv_mem D (net u) = dv_mem D (net t)" "obj u = obj t"
    by (auto simp: bus_runs assms(2) t(4) mm)
  from t u show ?thesis by auto
qed

theorem bitslip_round_trip_witness:
  "\<exists>t u. set_channel_bitslip emu_ops 1 7 (emu_state (\<lambda>a. 0)) = (Inr (), t)
    \<and> get_channel_bitslip emu_ops 1 t = (Inr 3, u)"
proof -
  have r: "reg_in UNIV (bitslip_addr 1)" by (simp add: reg_in_def bitslip_addr_def const_defs)
  have "(7 :: u32) mod 4 = 3" by simp
  with bitslip_round_trip [OF emu_ok [of "\<lambda>a. 0"] r, of 7] show ?thesis by auto
qed

section \<open>The waveform frequency\<close>





section \<open>What the C interface reports as the channel's state\<close>

definition obj_state :: "'n lib \<Rightarrow> aps2 \<Rightarrow> 'n st" where
  "obj_state l a = \<lparr>devInfo = devInfo l, msgQueues = msgQueues l, tcp_sockets = tcp_sockets l,
     net = net l, obj = a\<rparr>"

lemma with_obj_run: "m (obj_state l a) = (r, t) \<Longrightarrow> with_obj serial a m l =
    (r, l\<lparr>devInfo := devInfo t, msgQueues := msgQueues t, tcp_sockets := tcp_sockets t,
          net := net t, APSs := AList.update serial (Some (obj t)) (APSs l)\<rparr>)"
  by (simp add: with_obj_def obj_state_def)

lemma obj_state_simps [simp]: "net (obj_state l a) = net l" "obj (obj_state l a) = a"
  by (simp_all add: obj_state_def)

text \<open>
  \<open>get_channel_enabled\<close> of the C interface does not report what \<open>set_channel_enabled\<close> set: on a
  module whose offset register is 0 it answers 0, \<open>disabled\<close>, after either setting, for it reads the
  channel's offset.
\<close>

theorem channel_enabled_not_reported:
  assumes "map_of (APSs l) serial = Some (Some a)" "device_ok N sk A D (obj_state l a)"
    and "reg_in A CHANNEL_OFFSET_ADDR" "dac = 0 \<or> dac = 1" "length (channels a) = 2"
    and "dv_mem D (net l) CHANNEL_OFFSET_ADDR = 0"
  shows "\<exists>t u. lib_set_channel_enabled serial dac b l = (Inr APS2_OK, t)
    \<and> lib_get_channel_enabled N serial dac t = (Inr (APS2_OK, Some 0), u)"
proof -
  define a' where "a' = a\<lparr>channels := (channels a)[nat dac := ch_set_enabled (b \<noteq> 0) (channels a ! nat dac)]\<rparr>"
  define t where "t = l\<lparr>APSs := AList.update serial (Some a') (APSs l)\<rparr>"
  have idx: "\<not> dac < 0" "nat dac < length (channels a)" using assms(4,5) by auto
  have set_: "set_channel_enabled dac (b \<noteq> 0) (obj_state l a) = (Inr (), obj_state l a')"
    using idx unfolding set_channel_enabled_def checked [OF assms(4)] channel_at_def put_channel_def
    by (simp add: bindM_def get_obj_def mod_obj_def run_simps a'_def) (simp add: obj_state_def)
  have 1: "lib_set_channel_enabled serial dac b l = (Inr APS2_OK, t)"
    using with_obj_run [where m = "set_channel_enabled dac (b \<noteq> 0)" and l = l and a = a, OF set_] assms(1)
    by (simp add: lib_set_channel_enabled_def aps2_call_def at_serial_def handleM_def bindM_def run_simps t_def)
      (simp add: obj_state_def)
  have dev: "device_ok N sk A D (obj_state t a')"
    using assms(2)
    by (simp add: device_ok_def attached_def linked_def obj_state_def t_def a'_def)
  have mem: "dv_mem D (net t) CHANNEL_OFFSET_ADDR = 0" using assms(6) by (simp add: t_def)
  from module_run [OF refines_offset(2) [OF assms(4)] dev] obtain u where
    u: "get_channel_offset N dac (obj_state t a') = (Inr (scaled_float (offset_of_register dac 0)), u)"
    by (auto simp: bus_runs assms(3) mem)
  have zero: "float_to_int (scaled_float (offset_of_register dac 0)) = Inr 0"
  proof -
    have "float_to_int (scaled_float 0) = Inr 0" by code_simp
    then show ?thesis by (simp add: offset_of_register_def)
  qed
  have "bindM (get_channel_offset N dac) (\<lambda>x. liftE (float_to_int x)) (obj_state t a') = (Inr 0, u)"
    by (simp add: bindM_def u zero run_simps)
  note 2 = with_obj_run [where m = "bindM (get_channel_offset N dac) (\<lambda>x. liftE (float_to_int x))" and l = t and a = a',
      OF this, of serial]
  have "map_of (APSs t) serial = Some (Some a')" by (simp add: t_def update_conv')
  then have "\<exists>v. lib_get_channel_enabled N serial dac t = (Inr (APS2_OK, Some 0), v)"
    using 2 by (simp add: lib_get_channel_enabled_def aps2_getter_def at_serial_def handleM_def bindM_def run_simps)
  with 1 show ?thesis by blast
qed

definition emu_lib :: "memory \<Rightarrow> emu lib" where
  "emu_lib m = \<lparr>devInfo = devInfo (emu_state m), msgQueues = Map.empty,
     tcp_sockets = tcp_sockets (emu_state m), net = net (emu_state m),
     APSs = [(''10.0.0.2'', Some emu_obj)], deviceSerials = {}\<rparr>"

lemma emu_lib_state: "obj_state (emu_lib m) emu_obj = emu_state m"
  by (simp add: obj_state_def emu_lib_def emu_state_def)

theorem channel_enabled_not_reported_witness:
  "\<exists>t u. lib_set_channel_enabled ''10.0.0.2'' 0 1 (emu_lib (\<lambda>a. 0)) = (Inr APS2_OK, t)
    \<and> lib_get_channel_enabled emu_ops ''10.0.0.2'' 0 t = (Inr (APS2_OK, Some 0), u)"
proof (rule channel_enabled_not_reported)
  show "map_of (APSs (emu_lib (\<lambda>a. 0))) ''10.0.0.2'' = Some (Some emu_obj)"
    by (simp add: emu_lib_def)
  show "device_ok emu_ops 0 UNIV emu_view (obj_state (emu_lib (\<lambda>a. 0)) emu_obj)"
    unfolding emu_lib_state by (rule emu_ok)
  show "dv_mem emu_view (net (emu_lib (\<lambda>a. 0))) CHANNEL_OFFSET_ADDR = 0"
    by (simp add: emu_lib_def)
qed (simp_all add: reg_in_def const_defs emu_obj_def APS2_construct_def)

end
