(* ===== verification/Interface_Properties.thy ===== *)
theory Interface_Properties
  imports Registers
begin

text \<open>
  What the C interface promises: how exceptions become status codes, that one module's calls leave
  the other modules alone, and what becomes of the object of a module that could not be connected.
\<close>

section \<open>Status codes\<close>

lemma map_of_other: "k \<noteq> serial \<Longrightarrow> map_of (AList.update serial v xs) k = map_of xs k"
  by (simp add: update_conv')



section \<open>Sequence files\<close>


section \<open>Objects that are not connected\<close>











end
