(* ===== verification/Tables.thy ===== *)
theory Tables
  imports Ethernet
begin

text \<open>
  The type invariant of the Ethernet interface's tables: a MAC address is a vector of bytes of no
  fixed length in the code, and every one in the device table and in the message queues has six.
  Every operation of the interface keeps it, whatever bytes arrive.
\<close>

section \<open>Well-formed tables\<close>

definition tables_ok :: "('n, 'z) link_scheme \<Rightarrow> bool" where
  "tables_ok s \<longleftrightarrow> (\<forall>ip info. devInfo s ip = Some info \<longrightarrow> mac_ok (di_macAddr info))
     \<and> (\<forall>ip q. msgQueues s ip = Some q \<longrightarrow> (\<forall>p \<in> set q. packet_macs_ok p))"

abbreviation keeps_tables :: "(('n, 'z) link_scheme, 'a) meth \<Rightarrow> bool" where
  "keeps_tables m \<equiv> keeps tables_ok m"

lemma tables_ok_updates [simp]:
  "tables_ok (s\<lparr>net := n\<rparr>) = tables_ok s"
  "tables_ok (s\<lparr>tcp_sockets := t\<rparr>) = tables_ok s"
  by (simp_all add: tables_ok_def)

lemma tables_ok_same:
  "devInfo t = devInfo s \<Longrightarrow> msgQueues t = msgQueues s \<Longrightarrow> tables_ok t = tables_ok s"
  by (simp add: tables_ok_def)

lemma tables_ok_dev: "tables_ok s \<Longrightarrow> mac_ok (di_macAddr info) \<Longrightarrow>
    tables_ok (s\<lparr>devInfo := (devInfo s)(ip \<mapsto> info)\<rparr>)"
  by (simp add: tables_ok_def)

lemma tables_ok_queue: "tables_ok s \<Longrightarrow> \<forall>p \<in> set q. packet_macs_ok p \<Longrightarrow>
    tables_ok (s\<lparr>msgQueues := (msgQueues s)(ip \<mapsto> q)\<rparr>)"
  by (simp add: tables_ok_def)

lemma tables_ok_drop: "tables_ok s \<Longrightarrow> tables_ok (s\<lparr>msgQueues := (msgQueues s)(ip := None)\<rparr>)"
  by (simp add: tables_ok_def)

lemma mac_ok_init [simp]: "mac_ok (di_macAddr EthernetDevInfo_init)" "mac_ok MACAddr_init"
  by (simp_all add: EthernetDevInfo_init_def MACAddr_init_def mac_ok_def)

lemma packet_of_bytes_macs: "packet_of_bytes bs = Inr p \<Longrightarrow> packet_macs_ok p"
  by (auto simp: packet_of_bytes_def Let_def packet_macs_ok_def mac_ok_def const_defs not_less
      split: if_splits sum.splits)

section \<open>The operations keep them\<close>

lemma keeps_tables_net_do [keeps_intros]: "keeps_tables (net_do f)"
  by (simp add: keeps_def net_do_def)

lemma keeps_tables_sockets [keeps_intros]:
  "(\<And>s. devInfo (f s) = devInfo s) \<Longrightarrow> (\<And>s. msgQueues (f s) = msgQueues s) \<Longrightarrow> keeps_tables (modifyM f)"
  by (rule keeps_modifyM) (simp add: tables_ok_def)

lemma keeps_tables_dev_at [keeps_intros]: "keeps_tables (dev_at ip)"
  unfolding dev_at_def
  by (intro keeps_seqM keeps_getM keeps_modifyM) (simp add: tables_ok_dev)

text \<open>The entry of the device table that a method goes on with is well-formed.\<close>

lemma dev_at_entry:
  assumes "dev_at ip s = (Inr info, t)" "tables_ok s"
  shows "tables_ok t" "mac_ok (di_macAddr info)"
proof -
  show t: "tables_ok t" by (rule keepsD [OF keeps_tables_dev_at assms(2,1)])
  have "devInfo t ip = Some info"
    using assms(1) by (auto simp: dev_at_def seqM_def bindM_def modifyM_def getM_def split: if_splits)
  then show "mac_ok (di_macAddr info)" using t by (simp add: tables_ok_def)
qed

lemma keeps_bind_dev_at:
  assumes "\<And>info. mac_ok (di_macAddr info) \<Longrightarrow> keeps_tables (f info)"
  shows "keeps_tables (bindM (dev_at ip) f)"
proof (rule keepsI)
  fix s r t
  assume ok: "tables_ok s" and run: "bindM (dev_at ip) f s = (r, t)"
  obtain info s1 where d: "dev_at ip s = (Inr info, s1)"
    by (auto simp: dev_at_def seqM_def bindM_def modifyM_def getM_def)
  then have "f info s1 = (r, t)" using run by (simp add: bindM_def)
  then show "tables_ok t" using keepsD [OF assms] dev_at_entry [OF d ok] by blast
qed

text \<open>The receive handler: the bytes that arrive are cut into addresses of six bytes.\<close>

lemma keeps_bind_packet:
  assumes "\<And>p. packet_macs_ok p \<Longrightarrow> keeps_tables (f p)"
  shows "keeps_tables (bindM (liftE (packet_of_bytes bs)) f)"
  using assms packet_of_bytes_macs
  by (cases "packet_of_bytes bs") (auto simp: keeps_def bindM_def liftE_def)

lemma keeps_queue_packet:
  assumes m: "keeps_tables m"
    and g: "\<And>p q. packet_macs_ok p \<Longrightarrow> (\<forall>x \<in> set q. packet_macs_ok x) \<Longrightarrow> keeps_tables (g p q)"
  shows "keeps_tables (bindM (getM (\<lambda>s. msgQueues s ip)) (\<lambda>q. case q of None \<Rightarrow> m
      | Some queue \<Rightarrow> bindM (liftE (packet_of_bytes bs)) (\<lambda>p. g p queue)))"
proof (rule keepsI)
  fix s r t
  assume ok: "tables_ok s"
    and run: "bindM (getM (\<lambda>s. msgQueues s ip)) (\<lambda>q. case q of None \<Rightarrow> m
      | Some queue \<Rightarrow> bindM (liftE (packet_of_bytes bs)) (\<lambda>p. g p queue)) s = (r, t)"
  show "tables_ok t"
  proof (cases "msgQueues s ip")
    case None
    then show ?thesis using run keepsD [OF m ok] by (simp add: bindM_def getM_def)
  next
    case (Some q)
    then have q: "\<forall>x \<in> set q. packet_macs_ok x" using ok by (auto simp: tables_ok_def)
    have "keeps_tables (bindM (liftE (packet_of_bytes bs)) (\<lambda>p. g p q))"
      by (rule keeps_bind_packet) (rule g [OF _ q])
    then show ?thesis
      using run Some ok keepsD by (fastforce simp: bindM_def [of "getM _"] getM_def)
  qed
qed

lemma keeps_tables_sort_packet [keeps_intros]: "keeps_tables (sort_packet bs sndr)"
  unfolding sort_packet_def Let_def
  by (rule keeps_queue_packet)
    (auto intro!: keeps_intros keeps_modifyM keeps_bind_dev_at keeps_bind_packet tables_ok_dev
      tables_ok_queue simp: packet_macs_ok_def)

lemma keeps_tables_waiting [keeps_intros]:
  "keeps_tables (deliver N)" "keeps_tables (sleep_ms N d)" "keeps_tables (udp_send N port bs ep)"
  "keeps_tables (probe N ip)" "keeps_tables (tcp_connect N ip sock)" "keeps_tables (reset_tcp N ip)"
  unfolding probe_def tcp_connect_def reset_tcp_def udp_send_def sleep_ms_def deliver_def
  by (intro keeps_intros)+

lemma keeps_tables_reset [keeps_intros]: "keeps_tables reset_maps"
  unfolding reset_maps_def by (intro keeps_modifyM) (simp add: tables_ok_def)

lemma keeps_tables_construct [keeps_intros]:
  "keeps_tables (udp_open N port)" "keeps_tables (set_broadcast N port)" "keeps_tables (eth_construct N)"
  "keeps_tables (eth_enumerate N)"
  unfolding eth_construct_def udp_open_def set_broadcast_def eth_enumerate_def by (intro keeps_intros)+

lemma keeps_case_exn [keeps_intros]:
  "(\<And>st. keeps I (f st)) \<Longrightarrow> keeps I a \<Longrightarrow> keeps I b \<Longrightarrow> keeps I c \<Longrightarrow> keeps I d \<Longrightarrow> keeps I g \<Longrightarrow>
    keeps I (case e of Thrown st \<Rightarrow> f st | OutOfRange \<Rightarrow> a | SystemError \<Rightarrow> b | RuntimeError \<Rightarrow> c
      | Undefined \<Rightarrow> d | Diverges \<Rightarrow> g)"
  by (cases e) auto

lemma keeps_case_io [keeps_intros]:
  "(\<And>x. keeps I (f x)) \<Longrightarrow> keeps I a \<Longrightarrow> keeps I b \<Longrightarrow>
    keeps I (case e of IoOk x \<Rightarrow> f x | IoTimeout \<Rightarrow> a | IoError \<Rightarrow> b)"
  by (cases e) auto

lemma keeps_tables_connect [keeps_intros]:
  "keeps_tables (eth_connect N ip)" "keeps_tables (eth_disconnect N ip)"
  "keeps_tables (socket_at ip)"
  unfolding eth_connect_def eth_disconnect_def socket_at_def
  by (auto intro!: keeps_intros keeps_modifyM tables_ok_queue tables_ok_drop)

lemma keeps_tables_pop [keeps_intros]: "keeps_tables (pop_message ip)"
  by (fastforce simp: keeps_def pop_message_def tables_ok_def split: option.splits list.splits)

lemma receive_loop_tables:
  "receive_loop N ip k timeout elapsed out s = (r, t) \<Longrightarrow> tables_ok s \<Longrightarrow> tables_ok t"
  by (induction elapsed out s "(r, t)" rule: receive_loop_rule)
    (auto dest: keepsD [OF keeps_tables_pop] keepsD [OF keeps_tables_waiting(2)])

lemma keeps_tables_receiving [keeps_intros]:
  "keeps_tables (eth_receive N ip k timeout)" "keeps_tables (read_with_timeout N ip timeout buf)"
  "keeps_tables (eth_read N ip timeout)"
proof -
  have "keeps_tables (receive_loop N ip k timeout 0 [])" for k timeout
    by (rule keepsI) (rule receive_loop_tables)
  then show receive: "keeps_tables (eth_receive N ip k timeout)" for k timeout
    unfolding eth_receive_def by (intro keeps_intros)
  show "keeps_tables (read_with_timeout N ip timeout buf)" for buf
    unfolding read_with_timeout_def by (intro keeps_intros)
  then show "keeps_tables (eth_read N ip timeout)"
    unfolding eth_read_def by (intro keeps_intros receive)
qed

lemma keeps_tables_send_packets_from [keeps_intros]: "keeps_tables (send_packets_from N ip q ps)"
  by (induction ps arbitrary: q) (auto intro!: keeps_intros)

lemma keeps_tables_sending [keeps_intros]:
  "keeps_tables (send_chunk N ip chunk noACK)" "keeps_tables (send_packet N ip msg r)"
  "keeps_tables (send_packets N ip msgs every)" "keeps_tables (tcp_send_datagram N ip dg)"
  "keeps_tables (udp_send_datagram N ip dg)" "keeps_tables (eth_send N ip dgs)"
  unfolding eth_send_def udp_send_datagram_def tcp_send_datagram_def send_packets_def send_packet_def
    send_chunk_def by (intro keeps_intros)+

end
