(* ===== verification/Object_Invariant.thy ===== *)
theory Object_Invariant
  imports LibAPS2 Tables
begin

text \<open>
  The invariant of a module object: a connected object holds the interface, it has two channels, no
  channel's waveform is longer than its markers, and the writing task is never \<open>DONE\<close>. Every method
  keeps it together with the invariant of the interface's tables, and so does every function of the C
  interface, on every network and for every sequence of calls.
\<close>

section \<open>The Ethernet interface leaves the object alone\<close>

definition obj_ok :: "aps2 \<Rightarrow> bool" where
  "obj_ok a \<longleftrightarrow> (connected a \<longrightarrow> ethernetRM a) \<and> length (channels a) = 2
     \<and> (\<forall>ch \<in> set (channels a). channel_ok ch) \<and> bitfile_writing_task a \<noteq> Some DONE"

text \<open>Whatever is said of the object alone is kept by what does not touch the object.\<close>

abbreviation keeps_about :: "(aps2 \<Rightarrow> bool) \<Rightarrow> ('n, 'a) apsm \<Rightarrow> bool" where
  "keeps_about P m \<equiv> keeps (\<lambda>s. P (obj s)) m"

lemma keeps_about_net_do [keeps_intros]: "keeps_about P (net_do f)"
  by (simp add: keeps_def net_do_def)

lemma keeps_about_modify [keeps_intros]: "(\<And>s. obj (f s) = obj s) \<Longrightarrow> keeps_about P (modifyM f)"
  by (simp add: keeps_def modifyM_def)

lemma keeps_about_dev_at [keeps_intros]: "keeps_about P (dev_at ip)"
  unfolding dev_at_def by (intro keeps_intros) simp

lemma keeps_about_socket_at [keeps_intros]: "keeps_about P (socket_at ip)"
  unfolding socket_at_def by (intro keeps_intros) simp

lemma keeps_about_sort_packet [keeps_intros]: "keeps_about P (sort_packet bs sndr)"
  unfolding sort_packet_def by (intro keeps_intros) simp_all

lemma keeps_about_deliver [keeps_intros]: "keeps_about P (deliver N)"
  unfolding deliver_def by (intro keeps_intros)

lemma keeps_about_sleep [keeps_intros]: "keeps_about P (sleep_ms N d)"
  unfolding sleep_ms_def by (intro keeps_intros)

lemma keeps_about_udp_send [keeps_intros]: "keeps_about P (udp_send N port bs ep)"
  unfolding udp_send_def by (intro keeps_intros)

lemma keeps_about_probe [keeps_intros]: "keeps_about P (probe N ip)"
  unfolding probe_def by (intro keeps_intros)

lemma keeps_about_tcp_connect [keeps_intros]: "keeps_about P (tcp_connect N ip sock)"
  unfolding tcp_connect_def by (intro keeps_intros)

lemma keeps_about_reset_tcp [keeps_intros]: "keeps_about P (reset_tcp N ip)"
  unfolding reset_tcp_def by (intro keeps_intros)

lemma keeps_about_eth_connect [keeps_intros]: "keeps_about P (eth_connect N ip)"
  unfolding eth_connect_def by (intro keeps_intros) simp_all

lemma keeps_about_eth_disconnect [keeps_intros]: "keeps_about P (eth_disconnect N ip)"
  unfolding eth_disconnect_def by (intro keeps_intros) simp_all

lemma keeps_about_pop [keeps_intros]: "keeps_about P (pop_message ip)"
  by (auto simp: keeps_def pop_message_def split: option.splits list.splits)

lemma run_obj:
  fixes s t :: "'n st"
  shows "pop_message ip s = (r, t) \<Longrightarrow> P (obj s) \<Longrightarrow> P (obj t)"
  "sleep_ms N d s = (r', t) \<Longrightarrow> P (obj s) \<Longrightarrow> P (obj t)"
  using keepsD [OF keeps_about_pop, of P s ip r t] keepsD [OF keeps_about_sleep, of P s N d r' t] by simp_all

lemma receive_loop_obj:
  fixes s t :: "'n st"
  shows "receive_loop N ip k timeout elapsed out s = (r, t) \<Longrightarrow> P (obj s) \<Longrightarrow> P (obj t)"
  by (induction elapsed out s "(r, t)" rule: receive_loop_rule) (auto dest: run_obj)

lemma keeps_about_eth_receive [keeps_intros]: "keeps_about P (eth_receive N ip k timeout)"
  unfolding eth_receive_def by (intro keeps_intros keepsI) (rule receive_loop_obj)

lemma keeps_about_read_with_timeout [keeps_intros]: "keeps_about P (read_with_timeout N ip timeout buf)"
  unfolding read_with_timeout_def by (intro keeps_intros)

lemma keeps_about_eth_read [keeps_intros]: "keeps_about P (eth_read N ip timeout)"
  unfolding eth_read_def by (intro keeps_intros)

lemma keeps_about_send_packets_from [keeps_intros]: "keeps_about P (send_packets_from N ip q ps)"
  by (induction ps arbitrary: q) (auto intro!: keeps_intros)

lemma keeps_about_send_chunk [keeps_intros]: "keeps_about P (send_chunk N ip chunk noACK)"
  unfolding send_chunk_def by (intro keeps_intros)

lemma keeps_about_send_packet [keeps_intros]: "keeps_about P (send_packet N ip msg r)"
  unfolding send_packet_def by (intro keeps_intros)

lemma keeps_about_send_packets [keeps_intros]: "keeps_about P (send_packets N ip msg every)"
  unfolding send_packets_def by (intro keeps_intros)

lemma keeps_about_tcp_send [keeps_intros]: "keeps_about P (tcp_send_datagram N ip dg)"
  unfolding tcp_send_datagram_def by (intro keeps_intros)

lemma keeps_about_udp_send_datagram [keeps_intros]: "keeps_about P (udp_send_datagram N ip dg)"
  unfolding udp_send_datagram_def by (intro keeps_intros)

lemma keeps_about_eth_send [keeps_intros]: "keeps_about P (eth_send N ip dgs)"
  unfolding eth_send_def by (intro keeps_intros)

section \<open>The methods\<close>

text \<open>The state of a method is in order: the object, and the tables of the interface.\<close>

definition st_ok :: "'n st \<Rightarrow> bool" where
  "st_ok s \<longleftrightarrow> obj_ok (obj s) \<and> tables_ok s"

abbreviation keeps_obj :: "('n, 'a) apsm \<Rightarrow> bool" where
  "keeps_obj m \<equiv> keeps st_ok m"

lemma st_ok_obj [simp]: "st_ok (s\<lparr>obj := a\<rparr>) \<longleftrightarrow> obj_ok a \<and> tables_ok s"
  by (simp add: st_ok_def tables_ok_def)

lemma keeps_both: "keeps_about obj_ok m \<Longrightarrow> keeps_tables m \<Longrightarrow> keeps_obj m"
  by (simp add: keeps_def st_ok_def)

lemma keeps_obj_ethernet [keeps_intros]:
  "keeps_obj (net_do f)" "keeps_obj (sleep_ms N d)" "keeps_obj (reset_tcp N ip)"
  "keeps_obj (eth_connect N ip)" "keeps_obj (eth_disconnect N ip)"
  "keeps_obj (eth_send N ip dgs)" "keeps_obj (eth_read N ip timeout)"
  by (rule keeps_both; intro keeps_intros)+

text \<open>Changes of the object itself: only these can break the invariant.\<close>

lemma keeps_obj_mod [keeps_intros]: "(\<And>a. obj_ok a \<Longrightarrow> obj_ok (f a)) \<Longrightarrow> keeps_obj (mod_obj f)"
  unfolding mod_obj_def by (simp add: keeps_def modifyM_def st_ok_def tables_ok_def)

lemma obj_ok_updates [simp]:
  "obj_ok (a\<lparr>bitfile_writing_task_progress := x2\<rparr>) = obj_ok a"
  "obj_ok (a\<lparr>samplingRate := x3\<rparr>) = obj_ok a"
  "obj_ok (a\<lparr>legacy_firmware := x4\<rparr>) = obj_ok a"
  "obj_ok (a\<lparr>host_type := x5\<rparr>) = obj_ok a"
  by (simp_all add: obj_ok_def)

lemma keeps_obj_get [keeps_intros]: "keeps_obj (get_obj f)" "keeps_obj (get_init g)"
  unfolding get_init_def get_obj_def by (intro keeps_intros)+

lemma keeps_obj_rm [keeps_intros]: "keeps_obj need_rm" "keeps_obj (rm_send N dgs)" "keeps_obj (rm_read N)"
  unfolding rm_send_def rm_read_def need_rm_def by (intro keeps_intros)+

lemma keeps_obj_requests [keeps_intros]:
  "keeps_obj (request N cmd a)" "keeps_obj (chunked cmd a data z)"
  unfolding request_def chunked_def by (intro keeps_intros)+

lemma keeps_obj_memory [keeps_intros]:
  "keeps_obj (write_memory N a ws)" "keeps_obj (write_memory1 N a w)"
  "keeps_obj (read_memory N a n)" "keeps_obj (read_memory1 N a)"
  "keeps_obj (update_register_bits N g a bits)"
  "keeps_obj (set_register_bit N a bits)" "keeps_obj (clear_register_bit N a bits)"
  unfolding set_register_bit_def clear_register_bit_def update_register_bits_def read_memory1_def
    read_memory_def write_memory1_def write_memory_def by (intro keeps_intros)+

lemma keeps_obj_status [keeps_intros]:
  "keeps_obj (read_status_registers N)" "keeps_obj (status_reg bank r)"
  "keeps_obj (get_firmware_version N)" "keeps_obj (get_firmware_git_sha1 N)"
  "keeps_obj (get_firmware_build_timestamp N)" "keeps_obj (get_uptime N)"
  "keeps_obj (get_fpga_temperature N)"
  unfolding read_status_registers_def status_reg_def get_firmware_version_def get_firmware_git_sha1_def
    get_firmware_build_timestamp_def get_uptime_def get_fpga_temperature_def by (intro keeps_intros)+

lemma keeps_obj_progress [keeps_intros]:
  "keeps_obj (set_task STARTING)" "keeps_obj (set_task ERASING)" "keeps_obj (set_task WRITING)"
  "keeps_obj (set_task VALIDATING)" "keeps_obj (set_progress p)"
  unfolding set_task_def set_progress_def by (intro keeps_intros; simp add: obj_ok_def)+

lemma keeps_obj_send_with_progress [keeps_intros]: "keeps_obj (send_with_progress N n ct dgs)"
  by (induction dgs arbitrary: ct) (auto intro!: keeps_intros)

text \<open>Connecting: the handler drops the interface only while the object is not connected.\<close>

definition open_link :: "'n net_ops \<Rightarrow> ('n, unit) apsm" where
  "open_link N =
     catch_all
       (seqM (bindM (get_obj ipAddr) (eth_connect N)) (mod_obj (\<lambda>a. a\<lparr>connected := True\<rparr>)))
       (seqM (mod_obj (\<lambda>a. a\<lparr>ethernetRM := False\<rparr>)) (throwM (Thrown APS2_FAILED_TO_CONNECT)))"

lemma open_link_obj:
  assumes "open_link N s = (r, t)" "st_ok s" "ethernetRM (obj s)" "\<not> connected (obj s)"
  shows "st_ok t"
proof -
  obtain r1 s1 where c: "eth_connect N (ipAddr (obj s)) s = (r1, s1)" by fastforce
  have "obj s1 = obj s"
    by (rule keepsD [OF keeps_about_eth_connect [where P = "\<lambda>a. a = obj s"] _ c]) simp
  moreover have "tables_ok s1"
    using keepsD [OF keeps_tables_connect(1) _ c] assms(2) by (simp add: st_ok_def)
  ultimately show ?thesis
    using assms c
    by (cases r1) (auto simp: open_link_def catch_all_def handleM_def seqM_def bindM_def get_obj_def
        mod_obj_def run_simps obj_ok_def st_ok_def tables_ok_def split: if_splits)
qed

lemma seq_mod_obj: "seqM (mod_obj f) m s = m (s\<lparr>obj := f (obj s)\<rparr>)"
  by (simp add: seqM_def bindM_def mod_obj_def run_simps)

lemma bind_get_obj: "bindM (get_obj f) m s = m (f (obj s)) s"
  by (simp add: bindM_def get_obj_def run_simps)

lemma keeps_obj_connect [keeps_intros]: "keeps_obj (aps2_connect N)"
proof (rule keepsI)
  fix s r t
  assume ok: "st_ok s" and run: "aps2_connect N s = (r, t)"
  define s0 where "s0 = s\<lparr>obj := (obj s)\<lparr>ethernetRM := True\<rparr>\<rparr>"
  have s0: "st_ok s0" "ethernetRM (obj s0)" "connected (obj s0) = connected (obj s)"
    using ok by (simp_all add: s0_def) (simp add: st_ok_def obj_ok_def)
  define rest where "rest = bindM (read_status_registers N) (\<lambda>bank.
        bindM (status_reg bank USER_FIRMWARE_VERSION) (\<lambda>user.
        seqM (whenM (user \<noteq> 0xbadda555) (mod_obj (\<lambda>a. a\<lparr>legacy_firmware := True\<rparr>)))
        (bindM (status_reg bank HOST_FIRMWARE_VERSION) (\<lambda>host.
         mod_obj (\<lambda>a. a\<lparr>host_type := Some (if bit host APS2_HOST_TYPE_BIT then TDM else APS)\<rparr>)))))"
  have eq: "aps2_connect N s = (if connected (obj s) then (Inr (), s0) else seqM (open_link N) rest s0)"
    unfolding aps2_connect_def open_link_def rest_def s0_def seq_mod_obj bind_get_obj whenM_def
    by (simp add: run_simps)
  show "st_ok t"
  proof (cases "connected (obj s)")
    case True
    then show ?thesis using eq run s0 by simp
  next
    case False
    obtain r1 s1 where o: "open_link N s0 = (r1, s1)" by fastforce
    have ok1: "st_ok s1"
      by (rule open_link_obj [OF o s0(1,2)]) (simp add: s0 False)
    have "keeps_obj rest"
      unfolding rest_def by (intro keeps_intros) simp_all
    then show ?thesis
      using run ok1 o unfolding eq if_not_P [OF False]
      by (cases r1) (auto simp: seqM_def bindM_def dest: keepsD)
  qed
qed

lemma keeps_obj_disconnect [keeps_intros]: "keeps_obj (aps2_disconnect N)"
  unfolding aps2_disconnect_def by (intro keeps_intros) (simp add: obj_ok_def)

lemma keeps_obj_restart [keeps_intros]:
  "keeps_obj (aps2_reset N mode)"
  "keeps_obj (program_bitfile N a)"
  "keeps_obj (run_chip_config N a)"
  "keeps_obj (write_configuration_SDRAM N a data)"
  "keeps_obj (read_configuration_SDRAM N a n)"
  unfolding aps2_reset_def program_bitfile_def run_chip_config_def write_configuration_SDRAM_def read_configuration_SDRAM_def
  by (auto intro!: keeps_intros split: APS2_RESET_MODE.split simp: Let_def)

section \<open>The chips\<close>

lemma keeps_case_sum [keeps_intros]:
  "(\<And>x. keeps I (f x)) \<Longrightarrow> (\<And>y. keeps I (g y)) \<Longrightarrow> keeps I (case r of Inl x \<Rightarrow> f x | Inr y \<Rightarrow> g y)"
  by (cases r) auto

lemma keeps_obj_spi [keeps_intros]:
  "keeps_obj (write_SPI N msg)"
  "keeps_obj (read_SPI N target a)"
  "keeps_obj (read_SPI8 N target a)"
  "keeps_obj (write_DAC_reg N target a d)"
  unfolding read_SPI8_def
    read_SPI_def
    write_DAC_reg_def
    write_SPI_def
  by (auto intro!: keeps_intros)

lemma keeps_obj_pll [keeps_intros]:
  "keeps_obj (setup_PLL N)"
  "keeps_obj (set_PLL_freq N f)"
  "keeps_obj (get_PLL_freq N)"
  "keeps_obj (set_sampleRate N w)"
  "keeps_obj (get_sampleRate N)"
  "keeps_obj (check_clocks_status N)"
  "keeps_obj (setup_VCXO N)"
  unfolding setup_PLL_def
    set_sampleRate_def
    set_PLL_freq_def
    get_sampleRate_def
    get_PLL_freq_def
    check_clocks_status_def
    setup_VCXO_def
  by (auto intro!: keeps_intros)

lemma keeps_obj_dac_clock [keeps_intros]:
  "keeps_obj (check_channel_num dac)"
  "keeps_obj (pick dac x y)"
  "keeps_obj (dac_target dac)"
  "keeps_obj (write_DAC_clock N dac v)"
  "keeps_obj (enable_DAC_clock N dac)"
  "keeps_obj (disable_DAC_clock N dac)"
  "keeps_obj (toggle_DAC_clock N dac)"
  unfolding toggle_DAC_clock_def
    enable_DAC_clock_def
    disable_DAC_clock_def
    write_DAC_clock_def
    dac_target_def
    pick_def
    check_channel_num_def
  by (intro keeps_intros)+

lemma keeps_obj_align_loop [keeps_intros]: "keeps_obj (align_DAC_clock_loop N dac k)"
  by (induction k) (auto intro!: keeps_intros)

lemma keeps_obj_find_edge [keeps_intros]: "keeps_obj (find_edge N target reg ks)"
  by (induction ks) (auto intro!: keeps_intros)

lemma keeps_obj_align [keeps_intros]:
  "keeps_obj (align_DAC_clock N dac)"
  "keeps_obj (disable_DAC_FIFO N dac)"
  "keeps_obj (get_DAC_FIFO_phase N dac)"
  "keeps_obj (enable_DAC_FIFO N dac)"
  "keeps_obj (set_DAC_SD N dac sd)"
  "keeps_obj (align_DAC_LVDS_capture N dac)"
  "keeps_obj (setup_DACs N)"
  unfolding setup_DACs_def
    align_DAC_LVDS_capture_def
    set_DAC_SD_def
    enable_DAC_FIFO_def
    get_DAC_FIFO_phase_def
    disable_DAC_FIFO_def
    align_DAC_clock_def
  by (intro keeps_intros)+

section \<open>The EPROM\<close>

lemma keeps_obj_erase_page [keeps_intros]: "keeps_obj (erase_page N a k)"
  unfolding erase_page_def by (intro keeps_intros)

lemma keeps_obj_erase_loop [keeps_intros]: "keeps_obj (erase_loop N fuel start n e a)"
  by (induction fuel arbitrary: a) (auto simp: Let_def intro!: keeps_intros)

lemma keeps_obj_flash [keeps_intros]:
  "keeps_obj (erase_flash N a n)"
  "keeps_obj (write_flash N a ws)"
  "keeps_obj (read_flash N a n)"
  unfolding write_flash_def
    erase_flash_def
    read_flash_def
  by (auto simp: Let_def intro!: keeps_intros)

lemma keeps_obj_settings [keeps_intros]:
  "keeps_obj (get_mac_addr N)"
  "keeps_obj (get_ip_addr N)"
  "keeps_obj (get_dhcp_enable N)"
  "keeps_obj (write_macip_flash N mac ip d)"
  "keeps_obj (set_mac_addr N mac)"
  "keeps_obj (set_ip_addr N ip)"
  "keeps_obj (set_dhcp_enable N d)"
  "keeps_obj (write_SPI_setup N)"
  unfolding set_mac_addr_def
    set_ip_addr_def
    set_dhcp_enable_def
    write_macip_flash_def
    get_mac_addr_def
    get_ip_addr_def
    get_dhcp_enable_def
    write_SPI_setup_def
  by (intro keeps_intros)+

lemma keeps_obj_media [keeps_intros]:
  "keeps_obj (read_media N media a n)" "keeps_obj (write_media N media a ws)"
  by (cases media; auto intro!: keeps_intros)+

lemma keeps_obj_validate [keeps_intros]: "keeps_obj (validate_loop N media a e ws fuel b)"
  by (induction fuel arbitrary: b) (auto simp: Let_def intro!: keeps_intros)

lemma keeps_obj_write_bitfile [keeps_intros]: "keeps_obj (write_bitfile N file a media)"
  unfolding write_bitfile_def by (intro keeps_intros)

section \<open>Registers, waveforms and sequences\<close>

lemma keeps_obj_channel_at [keeps_intros]: "keeps_obj (channel_at dac)"
  unfolding channel_at_def by (intro keeps_intros)

lemma keeps_obj_channels [keeps_intros]:
  "keeps_obj (set_channel_bitslip N dac w)"
  "keeps_obj (get_channel_bitslip N dac)"
  "keeps_obj (get_channel_enabled dac)"
  "keeps_obj (set_channel_offset N dac x)"
  "keeps_obj (get_channel_offset N dac)"
  unfolding get_channel_offset_def
    set_channel_offset_def
    get_channel_enabled_def
    get_channel_bitslip_def
    set_channel_bitslip_def
  by (intro keeps_intros)+

lemma keeps_obj_mixer [keeps_intros]:
  "keeps_obj (write_rows N a b c d)"
  "keeps_obj (set_mixer_correction_matrix N mat)"
  "keeps_obj (get_mixer_correction_matrix N)"
  "keeps_obj (update_correction_matrix N tan_f cos_f)"
  "keeps_obj (set_channel_scale N tan_f cos_f dac x)"
  "keeps_obj (get_channel_scale N dac)"
  "keeps_obj (set_mixer_amplitude_imbalance N tan_f cos_f x)"
  "keeps_obj (get_mixer_amplitude_imbalance N)"
  "keeps_obj (set_mixer_phase_skew N tan_f cos_f x)"
  "keeps_obj (get_mixer_phase_skew N)"
  unfolding set_channel_scale_def
    set_mixer_amplitude_imbalance_def
    set_mixer_phase_skew_def
    update_correction_matrix_def
    write_rows_def
    set_mixer_correction_matrix_def
    get_mixer_correction_matrix_def
    get_channel_scale_def
    get_mixer_amplitude_imbalance_def
    get_mixer_phase_skew_def
  by (intro keeps_intros)+

lemma keeps_case_host [keeps_intros]:
  "keeps I a \<Longrightarrow> keeps I b \<Longrightarrow> keeps I (case h of APS \<Rightarrow> a | TDM \<Rightarrow> b)"
  by (cases h) auto

lemma keeps_case_mode [keeps_intros]:
  "keeps I a \<Longrightarrow> keeps I b \<Longrightarrow> keeps I c \<Longrightarrow> (\<And>k. keeps I (f k)) \<Longrightarrow>
    keeps I (case h of RUN_SEQUENCE \<Rightarrow> a | TRIG_WAVEFORM \<Rightarrow> b | CW_WAVEFORM \<Rightarrow> c | OTHER_RUN_MODE k \<Rightarrow> f k)"
  by (cases h) auto

lemma keeps_obj_trigger [keeps_intros]:
  "keeps_obj (set_trigger_source N src)"
  "keeps_obj (get_trigger_source N)"
  "keeps_obj (set_trigger_interval N d)"
  "keeps_obj (get_trigger_interval N)"
  "keeps_obj (aps2_trigger N)"
  "keeps_obj (pause_ms N k)"
  "keeps_obj (aps2_run N)"
  "keeps_obj (aps2_stop N)"
  "keeps_obj (get_runState)"
  "keeps_obj (set_waveform_frequency N x)"
  "keeps_obj (get_waveform_frequency N)"
  unfolding aps2_run_def
    aps2_stop_def
    pause_ms_def
    aps2_trigger_def
    set_trigger_source_def
    get_trigger_source_def
    set_trigger_interval_def
    get_trigger_interval_def
    get_runState_def
    set_waveform_frequency_def
    get_waveform_frequency_def
  by (intro keeps_intros)+

lemma keeps_obj_sequence [keeps_intros]:
  "keeps_obj (write_waveform N dac smps)"
  "keeps_obj (write_sequence N data)"
  "keeps_obj (read_sequence N a n)"
  "keeps_obj (write_memory_map N a b c)"
  "keeps_obj (waveform_mode N trig sc)"
  "keeps_obj (set_run_mode N mode)"
  unfolding set_run_mode_def
    waveform_mode_def
    write_waveform_def
    write_sequence_def
    read_sequence_def
    write_memory_map_def
  by (intro keeps_intros)+

section \<open>Methods that change a channel\<close>

lemma obj_ok_put:
  assumes "obj_ok a" "channel_ok ch"
  shows "obj_ok (a\<lparr>channels := (channels a)[i := ch]\<rparr>)"
  using assms set_update_subset_insert [of "channels a" i ch] by (auto simp: obj_ok_def)

lemma keeps_obj_change:
  assumes f: "\<And>ch ch'. channel_ok ch \<Longrightarrow> f ch = Inr ch' \<Longrightarrow> channel_ok ch'"
    and k: "\<And>ch'. keeps_obj (k ch')"
  shows "keeps_obj (bindM (channel_at dac) (\<lambda>ch. bindM (liftE (f ch)) (\<lambda>ch'. seqM (put_channel dac ch') (k ch'))))"
    (is "keeps_obj ?m")
proof (rule keepsI)
  fix s r t
  assume ok: "st_ok s" and run: "?m s = (r, t)"
  show "st_ok t"
  proof (cases "dac < 0 \<or> length (channels (obj s)) \<le> nat dac")
    case True
    then have "fst (channel_at dac s) = Inl Undefined \<and> snd (channel_at dac s) = s"
      by (auto simp: channel_at_def bind_get_obj run_simps)
    then show ?thesis using run ok by (cases "channel_at dac s") (auto simp: bindM_def)
  next
    case False
    define ch where "ch = channels (obj s) ! nat dac"
    have c: "channel_at dac s = (Inr ch, s)"
      using False by (simp add: channel_at_def bind_get_obj run_simps ch_def)
    have "channel_ok ch" using ok False by (simp add: st_ok_def obj_ok_def ch_def)
    show ?thesis
    proof (cases "f ch")
      case (Inl e)
      then show ?thesis using run ok c by (simp add: bindM_def run_simps)
    next
      case (Inr ch')
      let ?s = "s\<lparr>obj := (obj s)\<lparr>channels := (channels (obj s))[nat dac := ch']\<rparr>\<rparr>"
      have "k ch' ?s = (r, t)"
        using run c Inr by (simp add: bindM_def seqM_def put_channel_def mod_obj_def run_simps)
      moreover have "st_ok ?s"
        using obj_ok_put [OF _ f [OF \<open>channel_ok ch\<close> Inr]] ok by (simp add: st_ok_def tables_ok_def)
      ultimately show ?thesis using keepsD [OF k] by blast
    qed
  qed
qed

lemma put_channel_then: "put_channel dac ch = seqM (put_channel dac ch) (returnM ())"
  by (rule ext) (simp add: put_channel_def seq_mod_obj run_simps, simp add: mod_obj_def run_simps)

lemma keeps_obj_set_channel_enabled [keeps_intros]: "keeps_obj (set_channel_enabled dac b)"
  unfolding set_channel_enabled_def
  by (subst put_channel_then, intro keeps_seqM keeps_obj_dac_clock(1),
      rule keeps_obj_change [where f = "\<lambda>ch. Inr (ch_set_enabled b ch)", unfolded liftE_Inr])
    (auto intro: keeps_intros channel_ok_ops)

lemma keeps_obj_change_channel:
  "(\<And>ch ch'. channel_ok ch \<Longrightarrow> f ch = Inr ch' \<Longrightarrow> channel_ok ch') \<Longrightarrow> keeps_obj (change_channel N f dac)"
  unfolding change_channel_def by (rule keeps_obj_change) (auto intro!: keeps_intros)

lemma keeps_obj_waveforms [keeps_intros]:
  "keeps_obj (set_waveform_f N dac fs)" "keeps_obj (set_waveform_i N dac smps)"
  "keeps_obj (set_markers N dac ms)"
  unfolding set_waveform_f_def set_waveform_i_def set_markers_def
  by (auto intro!: keeps_obj_change_channel intro: channel_ok_ops)

lemma keeps_obj_clear [keeps_intros]: "keeps_obj clear_channel_data"
  unfolding clear_channel_data_def
  by (intro keeps_intros) (auto simp: obj_ok_def intro: channel_ok_ops)

lemma keeps_obj_load_waveforms [keeps_intros]:
  "keeps_obj (load_waveforms N alloc n chanct len smps fl)"
  by (induction n arbitrary: chanct len smps fl) (auto simp: Let_def intro!: keeps_intros split: prod.split)

lemma keeps_obj_load_sequence [keeps_intros]:
  "keeps_obj (load_sequence N alloc bytes)" "keeps_obj (load_sequence_file N alloc file)"
  unfolding load_sequence_file_def load_sequence_def by (intro keeps_intros)+

lemma keeps_obj_init [keeps_intros]: "keeps_obj (aps2_init N b)"
  unfolding aps2_init_def by (intro keeps_intros)

lemma keeps_obj_bist [keeps_intros]:
  "keeps_obj (bist_prepare N tan_f cos_f dac tv)" "keeps_obj (bist_reset_pulse N target v)"
  "keeps_obj (bist_clear_pulse N dac target)" "keeps_obj (read_sig_byte4 N target)"
  "keeps_obj (read_BIST_sig N dac target)" "keeps_obj (bist_restart N dac target ccd sd v)"
  "keeps_obj (bist_measure N dac target)" "keeps_obj (bist_finish N dac target ccd sd p1 p2 rs)"
  "keeps_obj (run_DAC_BIST N tan_f cos_f dac tv)"
  unfolding run_DAC_BIST_def bist_finish_def bist_measure_def bist_restart_def read_BIST_sig_def read_sig_byte4_def bist_clear_pulse_def
    bist_reset_pulse_def bist_prepare_def by (intro keeps_intros)+

end
