(* ===== verification/Api_Invariant.thy ===== *)
theory Api_Invariant
  imports Object_Invariant Interface_Properties
begin

text \<open>
  The exported functions of the C interface as steps of a system, and the invariant of the objects
  in every state a client program can reach by calling them.
\<close>

section \<open>The interface functions keep the objects and the tables\<close>

definition objects_ok :: "'n lib \<Rightarrow> bool" where
  "objects_ok l \<longleftrightarrow> (\<forall>k a. (k, Some a) \<in> set (APSs l) \<longrightarrow> obj_ok a)"

definition lib_ok :: "'n lib \<Rightarrow> bool" where
  "lib_ok l \<longleftrightarrow> objects_ok l \<and> tables_ok l"

abbreviation keeps_lib :: "('n, 'a) api \<Rightarrow> bool" where
  "keeps_lib m \<equiv> keeps lib_ok m"

lemma in_update: "(k', x) \<in> set (AList.update k v xs) \<Longrightarrow> (k', x) = (k, v) \<or> (k', x) \<in> set xs"
  by (induction xs) (auto split: if_splits)

lemma in_delete: "x \<in> set (AList.delete k xs) \<Longrightarrow> x \<in> set xs"
  by (simp add: AList.delete_eq)

lemma lib_ok_update:
  "lib_ok l \<Longrightarrow> (\<And>a. p = Some a \<Longrightarrow> obj_ok a) \<Longrightarrow> lib_ok (l\<lparr>APSs := AList.update k p (APSs l)\<rparr>)"
  by (auto simp: lib_ok_def objects_ok_def tables_ok_def dest!: in_update)

lemma lib_ok_net [simp]: "lib_ok (l\<lparr>net := n\<rparr>) = lib_ok l"
  by (simp add: lib_ok_def objects_ok_def)

lemma keeps_lib_modify [keeps_intros]:
  "(\<And>l. APSs (f l) = APSs l) \<Longrightarrow> (\<And>l. devInfo (f l) = devInfo l) \<Longrightarrow> (\<And>l. msgQueues (f l) = msgQueues l) \<Longrightarrow>
    keeps_lib (modifyM f)"
  by (simp add: keeps_def modifyM_def lib_ok_def objects_ok_def tables_ok_def)

text \<open>What does not touch the objects keeps them.\<close>

abbreviation keeps_objects :: "('n, 'a) api \<Rightarrow> bool" where
  "keeps_objects m \<equiv> keeps objects_ok m"

lemma keeps_objects_modify [keeps_intros]: "(\<And>l. APSs (f l) = APSs l) \<Longrightarrow> keeps_objects (modifyM f)"
  by (simp add: keeps_def modifyM_def objects_ok_def)

lemma keeps_objects_net_do [keeps_intros]: "keeps_objects (net_do f)"
  by (simp add: keeps_def net_do_def objects_ok_def)

lemma keeps_objects_dev_at [keeps_intros]: "keeps_objects (dev_at ip)"
  unfolding dev_at_def by (intro keeps_intros) simp

lemma keeps_objects_sort_packet [keeps_intros]: "keeps_objects (sort_packet bs sndr)"
  unfolding sort_packet_def by (intro keeps_intros) simp_all

lemma keeps_objects_network [keeps_intros]:
  "keeps_objects (udp_open N port)" "keeps_objects (set_broadcast N port)" "keeps_objects (eth_construct N)"
  "keeps_objects (deliver N)" "keeps_objects (sleep_ms N d)" "keeps_objects (udp_send N port bs ep)"
  "keeps_objects (probe N ip)" "keeps_objects reset_maps" "keeps_objects (eth_enumerate N)"
  "keeps_objects (reset_tcp N ip)" "keeps_objects drop_maps"
  unfolding eth_construct_def udp_open_def set_broadcast_def eth_enumerate_def reset_maps_def probe_def
    reset_tcp_def udp_send_def sleep_ms_def deliver_def drop_maps_def by (intro keeps_intros; simp)+

lemma keeps_tables_drop_maps [keeps_intros]: "keeps_tables drop_maps"
  unfolding drop_maps_def by (intro keeps_modifyM) (simp add: tables_ok_def)

lemma keeps_lib_both: "keeps_objects m \<Longrightarrow> keeps_tables m \<Longrightarrow> keeps_lib m"
  by (simp add: keeps_def lib_ok_def)

lemma keeps_lib_network [keeps_intros]:
  "keeps_lib (net_do f)" "keeps_lib (eth_construct N)" "keeps_lib (eth_enumerate N)"
  "keeps_lib (reset_tcp N ip)" "keeps_lib (sleep_ms N d)" "keeps_lib drop_maps" "keeps_lib reset_maps"
  by (rule keeps_lib_both; intro keeps_intros)+

lemma keeps_lib_interface [keeps_intros]:
  "keeps_lib (get_interface N shutdown)" "keeps_lib (release_interface shutdown)"
  unfolding get_interface_def release_interface_def by (intro keeps_intros)+

lemma keeps_lib_with_obj:
  assumes "keeps_obj m" "obj_ok a"
  shows "keeps_lib (with_obj serial a m)"
proof (rule keepsI)
  fix l r l'
  assume ok: "lib_ok l" and run: "with_obj serial a m l = (r, l')"
  obtain r1 s where m: "m \<lparr>devInfo = devInfo l, msgQueues = msgQueues l, tcp_sockets = tcp_sockets l,
      net = net l, obj = a\<rparr> = (r1, s)" by fastforce
  then have "st_ok s"
    using keepsD [OF assms(1) _ m] assms(2) ok by (simp add: st_ok_def lib_ok_def tables_ok_def)
  moreover have "lib_ok (l\<lparr>APSs := AList.update serial (Some (obj s)) (APSs l)\<rparr>)"
    using ok calculation by (intro lib_ok_update) (simp_all add: st_ok_def)
  ultimately show "lib_ok l'"
    using run m by (auto simp: with_obj_def lib_ok_def objects_ok_def st_ok_def tables_ok_def)
qed

lemma keeps_lib_lookup:
  assumes "keeps_obj m" "keeps_lib k"
  shows "keeps_lib (bindM (getM (\<lambda>l. map_of (APSs l) serial)) (\<lambda>p. case p of
         None \<Rightarrow> k | Some None \<Rightarrow> throwM Undefined | Some (Some a) \<Rightarrow> with_obj serial a m))"
proof (rule keepsI)
  fix l r l'
  assume ok: "lib_ok l" and run: "bindM (getM (\<lambda>l. map_of (APSs l) serial)) (\<lambda>p. case p of
         None \<Rightarrow> k | Some None \<Rightarrow> throwM Undefined | Some (Some a) \<Rightarrow> with_obj serial a m) l = (r, l')"
  have obj: "obj_ok a" if "map_of (APSs l) serial = Some (Some a)" for a
    using ok map_of_SomeD [OF that] by (auto simp: lib_ok_def objects_ok_def)
  note kept = keepsD [OF keeps_lib_with_obj [OF assms(1) obj] ok]
  show "lib_ok l'"
  proof (cases "map_of (APSs l) serial")
    case None
    then have "k l = (r, l')" using run by (simp add: bindM_def getM_def)
    then show ?thesis by (rule keepsD [OF assms(2) ok])
  next
    case (Some p)
    show ?thesis
    proof (cases p)
      case None
      then show ?thesis using run ok Some by (simp add: bindM_def getM_def throwM_def)
    next
      case (Some a)
      then have m: "map_of (APSs l) serial = Some (Some a)" using \<open>map_of (APSs l) serial = Some p\<close> by simp
      then have "with_obj serial a m l = (r, l')" using run by (simp add: bindM_def getM_def)
      then show ?thesis by (rule kept [OF m])
    qed
  qed
qed

lemma keeps_lib_wrappers [keeps_intros]:
  assumes "keeps_obj m"
  shows "keeps_lib (at_serial serial m)" "keeps_lib (index_serial serial m)"
    "keeps_lib (aps2_call serial m)" "keeps_lib (aps2_getter serial m)" "keeps_lib (index_getter serial m)"
proof -
  have "keeps_lib (seqM (modifyM (\<lambda>l. l\<lparr>APSs := AList.update serial None (APSs l)\<rparr>)) (throwM Undefined))"
    by (intro keeps_intros keeps_modifyM lib_ok_update) simp_all
  then show at: "keeps_lib (at_serial serial m)" "keeps_lib (index_serial serial m)"
    unfolding at_serial_def index_serial_def by (auto intro: keeps_lib_lookup assms keeps_intros)
  have status: "keeps_lib (to_status e)" "keeps_lib (call_status serial e)" for e
    unfolding call_status_def to_status_def by (intro keeps_intros)+
  show "keeps_lib (aps2_call serial m)" "keeps_lib (aps2_getter serial m)" "keeps_lib (index_getter serial m)"
    unfolding aps2_call_def aps2_getter_def index_getter_def by (intro keeps_intros at status)+
qed

lemma keeps_lib_to_status [keeps_intros]: "keeps_lib (to_status e)"
  unfolding to_status_def by (intro keeps_intros)

lemma keeps_lib_read_if [keeps_intros]: "keeps_obj m \<Longrightarrow> keeps_lib (read_if b serial m)"
  unfolding read_if_def by (intro keeps_intros)

lemma keeps_lib_holding [keeps_intros]: "keeps_lib m \<Longrightarrow> keeps_lib (holding N shutdown m)"
  unfolding holding_def by (intro keeps_intros)

lemma obj_ok_construct: "obj_ok (APS2_construct serial)"
  by (auto simp: obj_ok_def APS2_construct_def channel_ok_init)

lemma keeps_lib_connecting [keeps_intros]:
  "keeps_lib (get_numDevices N shutdown)" "keeps_lib get_device_IPs"
  "keeps_lib (connect_APS N shutdown serial)" "keeps_lib (disconnect_APS N shutdown serial)"
  "keeps_lib (api_reset N shutdown serial mode)"
proof -
  have "keeps_lib (modifyM (\<lambda>l. if map_of (APSs l) serial = None
             then l\<lparr>APSs := AList.update serial (Some (APS2_construct serial)) (APSs l)\<rparr> else l))"
    by (rule keeps_modifyM) (auto intro!: lib_ok_update obj_ok_construct)
  then show "keeps_lib (connect_APS N shutdown serial)"
    unfolding connect_APS_def by (rule keeps_seqM) (intro keeps_intros)
  have "keeps_lib (modifyM (\<lambda>l. l\<lparr>APSs := AList.delete serial (APSs l)\<rparr>))"
    by (rule keeps_modifyM) (auto simp: lib_ok_def objects_ok_def tables_ok_def dest!: in_delete)
  then show "keeps_lib (disconnect_APS N shutdown serial)"
    unfolding disconnect_APS_def
    by - (rule keeps_bindM, intro keeps_intros, rule keeps_seqM, assumption, intro keeps_intros)
  show "keeps_lib (get_numDevices N shutdown)" "keeps_lib get_device_IPs"
    unfolding get_numDevices_def get_device_IPs_def by (intro keeps_intros; simp)+
  show "keeps_lib (api_reset N shutdown serial mode)"
    unfolding api_reset_def by (cases mode) (auto intro!: keeps_intros)
qed

lemma keeps_lib_functions1 [keeps_intros]:
  "keeps_lib (init_APS N serial forceReload1)"
  "keeps_lib (lib_firmware_version N serial want_v2 want_g2 want_b2 want_s2)"
  "keeps_lib (lib_uptime N serial)"
  "keeps_lib (lib_fpga_temperature N serial)"
  "keeps_lib (lib_set_sampleRate N serial freq5)"
  "keeps_lib (lib_get_sampleRate N serial)"
  "keeps_lib (lib_set_waveform_float N serial ch7 data7)"
  "keeps_lib (lib_set_waveform_int N serial ch8 data8)"
  "keeps_lib (lib_set_markers N serial ch9 data9)"
  "keeps_lib (lib_write_sequence N serial data10)"
  "keeps_lib (lib_load_sequence_file N H serial seqFile11)"
  "keeps_lib (lib_clear_channel_data serial)"
  "keeps_lib (lib_run N serial)"
  "keeps_lib (lib_stop N serial)"
  "keeps_lib (lib_runState serial)"
  "keeps_lib (lib_set_trigger_source N serial src16)"
  unfolding init_APS_def
    lib_firmware_version_def
    lib_uptime_def
    lib_fpga_temperature_def
    lib_set_sampleRate_def
    lib_get_sampleRate_def
    lib_set_waveform_float_def
    lib_set_waveform_int_def
    lib_set_markers_def
    lib_write_sequence_def
    lib_load_sequence_file_def
    lib_clear_channel_data_def
    lib_run_def
    lib_stop_def
    lib_runState_def
    lib_set_trigger_source_def
  by (intro keeps_intros)+

lemma keeps_lib_functions2 [keeps_intros]:
  "keeps_lib (lib_get_trigger_source N serial)"
  "keeps_lib (lib_set_trigger_interval N serial interval18)"
  "keeps_lib (lib_get_trigger_interval N serial)"
  "keeps_lib (lib_trigger N serial)"
  "keeps_lib (lib_set_channel_delay N serial ch21 delay21)"
  "keeps_lib (lib_set_channel_offset N serial ch22 offset22)"
  "keeps_lib (lib_set_channel_scale N H serial ch23 scale23)"
  "keeps_lib (lib_set_channel_enabled serial ch24 enable24)"
  "keeps_lib (lib_get_channel_delay N serial ch25)"
  "keeps_lib (lib_get_channel_offset N serial ch26)"
  "keeps_lib (lib_get_channel_scale N serial ch27)"
  "keeps_lib (lib_get_channel_enabled N serial ch28)"
  "keeps_lib (lib_set_mixer_amplitude_imbalance N H serial amp29)"
  "keeps_lib (lib_get_mixer_amplitude_imbalance N serial)"
  "keeps_lib (lib_set_mixer_phase_skew N H serial skew31)"
  "keeps_lib (lib_get_mixer_phase_skew N serial)"
  unfolding lib_get_trigger_source_def
    lib_set_trigger_interval_def
    lib_get_trigger_interval_def
    lib_trigger_def
    lib_set_channel_delay_def
    lib_set_channel_offset_def
    lib_set_channel_scale_def
    lib_set_channel_enabled_def
    lib_get_channel_delay_def
    lib_get_channel_offset_def
    lib_get_channel_scale_def
    lib_get_channel_enabled_def
    lib_set_mixer_amplitude_imbalance_def
    lib_get_mixer_amplitude_imbalance_def
    lib_set_mixer_phase_skew_def
    lib_get_mixer_phase_skew_def
  by (intro keeps_intros)+

lemma keeps_lib_functions3 [keeps_intros]:
  "keeps_lib (lib_set_mixer_correction_matrix N serial mat33)"
  "keeps_lib (lib_get_mixer_correction_matrix N serial)"
  "keeps_lib (lib_set_run_mode N serial mode35)"
  "keeps_lib (lib_set_waveform_frequency N serial freq36)"
  "keeps_lib (lib_get_waveform_frequency N serial)"
  "keeps_lib (lib_write_memory N serial addr38 data38)"
  "keeps_lib (lib_read_memory N serial addr39 n39)"
  "keeps_lib (lib_read_register N serial addr40)"
  "keeps_lib (lib_write_bitfile N H serial bitFile41 addr41 media41)"
  "keeps_lib (lib_program_bitfile N serial addr42)"
  "keeps_lib (lib_write_configuration_SDRAM N serial addr43 data43)"
  "keeps_lib (lib_read_configuration_SDRAM N serial addr44 n44)"
  "keeps_lib (lib_write_flash N serial addr45 data45)"
  "keeps_lib (lib_read_flash N serial addr46 n46)"
  "keeps_lib (lib_bitfile_writing_task serial)"
  "keeps_lib (clear_bitfile_writing_progress serial)"
  unfolding lib_read_register_def
    lib_set_mixer_correction_matrix_def
    lib_get_mixer_correction_matrix_def
    lib_set_run_mode_def
    lib_set_waveform_frequency_def
    lib_get_waveform_frequency_def
    lib_write_memory_def
    lib_read_memory_def
    lib_write_bitfile_def
    lib_program_bitfile_def
    lib_write_configuration_SDRAM_def
    lib_read_configuration_SDRAM_def
    lib_write_flash_def
    lib_read_flash_def
    lib_bitfile_writing_task_def
    clear_bitfile_writing_progress_def
  by (intro keeps_intros)+

lemma keeps_lib_functions4 [keeps_intros]:
  "keeps_lib (lib_flash_progress serial)"
  "keeps_lib (lib_get_mac_addr N serial)"
  "keeps_lib (lib_run_DAC_BIST N H serial dac51 data51)"
  "keeps_lib (lib_set_mac_addr N serial mac52)"
  "keeps_lib (lib_get_ip_addr N H serial)"
  "keeps_lib (lib_set_ip_addr N H serial text54)"
  "keeps_lib (lib_write_SPI_setup N serial)"
  "keeps_lib (lib_get_dhcp_enable N serial)"
  "keeps_lib (lib_set_dhcp_enable N serial enable57)"
  "keeps_lib (lib_set_DAC_SD N serial dac58 sd58)"
  "keeps_lib (lib_toggle_DAC_clock N serial dac59)"
  unfolding lib_flash_progress_def
    lib_get_mac_addr_def
    lib_run_DAC_BIST_def
    lib_set_mac_addr_def
    lib_get_ip_addr_def
    lib_set_ip_addr_def
    lib_write_SPI_setup_def
    lib_get_dhcp_enable_def
    lib_set_dhcp_enable_def
    lib_set_DAC_SD_def
    lib_toggle_DAC_clock_def
  by (intro keeps_intros)+

section \<open>Programs that call the interface\<close>

inductive api_step :: "'n net_ops \<Rightarrow> host_ops \<Rightarrow> ('n \<Rightarrow> 'n) \<Rightarrow> 'n lib \<Rightarrow> 'n lib \<Rightarrow> bool"
  for N :: "'n net_ops" and H :: host_ops and shutdown :: "'n \<Rightarrow> 'n" where
  get_numDevices_step: "get_numDevices N shutdown l = (r, l') \<Longrightarrow> api_step N H shutdown l l'"
| get_device_IPs_step: "get_device_IPs l = (r, l') \<Longrightarrow> api_step N H shutdown l l'"
| connect_APS_step: "connect_APS N shutdown serial l = (r, l') \<Longrightarrow> api_step N H shutdown l l'"
| disconnect_APS_step: "disconnect_APS N shutdown serial l = (r, l') \<Longrightarrow> api_step N H shutdown l l'"
| api_reset_step: "api_reset N shutdown serial mode l = (r, l') \<Longrightarrow> api_step N H shutdown l l'"
| init_APS_step: "init_APS N serial forceReload l = (r, l') \<Longrightarrow> api_step N H shutdown l l'"
| lib_firmware_version_step: "lib_firmware_version N serial want_v want_g want_b want_s l = (r, l') \<Longrightarrow> api_step N H shutdown l l'"
| lib_uptime_step: "lib_uptime N serial l = (r, l') \<Longrightarrow> api_step N H shutdown l l'"
| lib_fpga_temperature_step: "lib_fpga_temperature N serial l = (r, l') \<Longrightarrow> api_step N H shutdown l l'"
| lib_set_sampleRate_step: "lib_set_sampleRate N serial freq l = (r, l') \<Longrightarrow> api_step N H shutdown l l'"
| lib_get_sampleRate_step: "lib_get_sampleRate N serial l = (r, l') \<Longrightarrow> api_step N H shutdown l l'"
| lib_set_waveform_float_step: "lib_set_waveform_float N serial ch data l = (r, l') \<Longrightarrow> api_step N H shutdown l l'"
| lib_set_waveform_int_step: "lib_set_waveform_int N serial ch data l = (r, l') \<Longrightarrow> api_step N H shutdown l l'"
| lib_set_markers_step: "lib_set_markers N serial ch data l = (r, l') \<Longrightarrow> api_step N H shutdown l l'"
| lib_write_sequence_step: "lib_write_sequence N serial data l = (r, l') \<Longrightarrow> api_step N H shutdown l l'"
| lib_load_sequence_file_step: "lib_load_sequence_file N H serial seqFile l = (r, l') \<Longrightarrow> api_step N H shutdown l l'"
| lib_clear_channel_data_step: "lib_clear_channel_data serial l = (r, l') \<Longrightarrow> api_step N H shutdown l l'"
| lib_run_step: "lib_run N serial l = (r, l') \<Longrightarrow> api_step N H shutdown l l'"
| lib_stop_step: "lib_stop N serial l = (r, l') \<Longrightarrow> api_step N H shutdown l l'"
| lib_runState_step: "lib_runState serial l = (r, l') \<Longrightarrow> api_step N H shutdown l l'"
| lib_set_trigger_source_step: "lib_set_trigger_source N serial src l = (r, l') \<Longrightarrow> api_step N H shutdown l l'"
| lib_get_trigger_source_step: "lib_get_trigger_source N serial l = (r, l') \<Longrightarrow> api_step N H shutdown l l'"
| lib_set_trigger_interval_step: "lib_set_trigger_interval N serial interval l = (r, l') \<Longrightarrow> api_step N H shutdown l l'"
| lib_get_trigger_interval_step: "lib_get_trigger_interval N serial l = (r, l') \<Longrightarrow> api_step N H shutdown l l'"
| lib_trigger_step: "lib_trigger N serial l = (r, l') \<Longrightarrow> api_step N H shutdown l l'"
| lib_set_channel_delay_step: "lib_set_channel_delay N serial ch delay l = (r, l') \<Longrightarrow> api_step N H shutdown l l'"
| lib_set_channel_offset_step: "lib_set_channel_offset N serial ch offset l = (r, l') \<Longrightarrow> api_step N H shutdown l l'"
| lib_set_channel_scale_step: "lib_set_channel_scale N H serial ch scale l = (r, l') \<Longrightarrow> api_step N H shutdown l l'"
| lib_set_channel_enabled_step: "lib_set_channel_enabled serial ch enable l = (r, l') \<Longrightarrow> api_step N H shutdown l l'"
| lib_get_channel_delay_step: "lib_get_channel_delay N serial ch l = (r, l') \<Longrightarrow> api_step N H shutdown l l'"
| lib_get_channel_offset_step: "lib_get_channel_offset N serial ch l = (r, l') \<Longrightarrow> api_step N H shutdown l l'"
| lib_get_channel_scale_step: "lib_get_channel_scale N serial ch l = (r, l') \<Longrightarrow> api_step N H shutdown l l'"
| lib_get_channel_enabled_step: "lib_get_channel_enabled N serial ch l = (r, l') \<Longrightarrow> api_step N H shutdown l l'"
| lib_set_mixer_amplitude_imbalance_step: "lib_set_mixer_amplitude_imbalance N H serial amp l = (r, l') \<Longrightarrow> api_step N H shutdown l l'"
| lib_get_mixer_amplitude_imbalance_step: "lib_get_mixer_amplitude_imbalance N serial l = (r, l') \<Longrightarrow> api_step N H shutdown l l'"
| lib_set_mixer_phase_skew_step: "lib_set_mixer_phase_skew N H serial skew l = (r, l') \<Longrightarrow> api_step N H shutdown l l'"
| lib_get_mixer_phase_skew_step: "lib_get_mixer_phase_skew N serial l = (r, l') \<Longrightarrow> api_step N H shutdown l l'"
| lib_set_mixer_correction_matrix_step: "lib_set_mixer_correction_matrix N serial mat l = (r, l') \<Longrightarrow> api_step N H shutdown l l'"
| lib_get_mixer_correction_matrix_step: "lib_get_mixer_correction_matrix N serial l = (r, l') \<Longrightarrow> api_step N H shutdown l l'"
| lib_set_run_mode_step: "lib_set_run_mode N serial mode l = (r, l') \<Longrightarrow> api_step N H shutdown l l'"
| lib_set_waveform_frequency_step: "lib_set_waveform_frequency N serial freq l = (r, l') \<Longrightarrow> api_step N H shutdown l l'"
| lib_get_waveform_frequency_step: "lib_get_waveform_frequency N serial l = (r, l') \<Longrightarrow> api_step N H shutdown l l'"
| lib_write_memory_step: "lib_write_memory N serial addr data l = (r, l') \<Longrightarrow> api_step N H shutdown l l'"
| lib_read_memory_step: "lib_read_memory N serial addr n l = (r, l') \<Longrightarrow> api_step N H shutdown l l'"
| lib_read_register_step: "lib_read_register N serial addr l = (r, l') \<Longrightarrow> api_step N H shutdown l l'"
| lib_write_bitfile_step: "lib_write_bitfile N H serial bitFile addr media l = (r, l') \<Longrightarrow> api_step N H shutdown l l'"
| lib_program_bitfile_step: "lib_program_bitfile N serial addr l = (r, l') \<Longrightarrow> api_step N H shutdown l l'"
| lib_write_configuration_SDRAM_step: "lib_write_configuration_SDRAM N serial addr data l = (r, l') \<Longrightarrow> api_step N H shutdown l l'"
| lib_read_configuration_SDRAM_step: "lib_read_configuration_SDRAM N serial addr n l = (r, l') \<Longrightarrow> api_step N H shutdown l l'"
| lib_write_flash_step: "lib_write_flash N serial addr data l = (r, l') \<Longrightarrow> api_step N H shutdown l l'"
| lib_read_flash_step: "lib_read_flash N serial addr n l = (r, l') \<Longrightarrow> api_step N H shutdown l l'"
| lib_bitfile_writing_task_step: "lib_bitfile_writing_task serial l = (r, l') \<Longrightarrow> api_step N H shutdown l l'"
| clear_bitfile_writing_progress_step: "clear_bitfile_writing_progress serial l = (r, l') \<Longrightarrow> api_step N H shutdown l l'"
| lib_flash_progress_step: "lib_flash_progress serial l = (r, l') \<Longrightarrow> api_step N H shutdown l l'"
| lib_get_mac_addr_step: "lib_get_mac_addr N serial l = (r, l') \<Longrightarrow> api_step N H shutdown l l'"
| lib_run_DAC_BIST_step: "lib_run_DAC_BIST N H serial dac data l = (r, l') \<Longrightarrow> api_step N H shutdown l l'"
| lib_set_mac_addr_step: "lib_set_mac_addr N serial mac l = (r, l') \<Longrightarrow> api_step N H shutdown l l'"
| lib_get_ip_addr_step: "lib_get_ip_addr N H serial l = (r, l') \<Longrightarrow> api_step N H shutdown l l'"
| lib_set_ip_addr_step: "lib_set_ip_addr N H serial text l = (r, l') \<Longrightarrow> api_step N H shutdown l l'"
| lib_write_SPI_setup_step: "lib_write_SPI_setup N serial l = (r, l') \<Longrightarrow> api_step N H shutdown l l'"
| lib_get_dhcp_enable_step: "lib_get_dhcp_enable N serial l = (r, l') \<Longrightarrow> api_step N H shutdown l l'"
| lib_set_dhcp_enable_step: "lib_set_dhcp_enable N serial enable l = (r, l') \<Longrightarrow> api_step N H shutdown l l'"
| lib_set_DAC_SD_step: "lib_set_DAC_SD N serial dac sd l = (r, l') \<Longrightarrow> api_step N H shutdown l l'"
| lib_toggle_DAC_clock_step: "lib_toggle_DAC_clock N serial dac l = (r, l') \<Longrightarrow> api_step N H shutdown l l'"
| environment_step: "api_step N H shutdown l (l\<lparr>net := n\<rparr>)"

inductive_cases api_stepE: "api_step N H shutdown l l'"

lemma keeps_lib_run: "m l = (r, l') \<Longrightarrow> keeps_lib m \<Longrightarrow> lib_ok l \<Longrightarrow> lib_ok l'"
  by (rule keepsD)

lemma api_step_ok:
  assumes "api_step N H shutdown l l'" "lib_ok l"
  shows "lib_ok l'"
  using assms(1)
  by (rule api_stepE)
    ((drule keeps_lib_run, (intro keeps_intros; fail), rule assms(2), assumption)
      | (simp add: assms(2)))+

text \<open>The globals when the library is loaded: no object and no interface.\<close>

definition library_loaded :: "'n lib \<Rightarrow> bool" where
  "library_loaded l \<longleftrightarrow> APSs l = [] \<and> devInfo l = Map.empty \<and> msgQueues l = Map.empty \<and> tcp_sockets l = Map.empty"

lemma api_reachable_ok:
  assumes "(api_step N H shutdown)\<^sup>*\<^sup>* l l'" "library_loaded l"
  shows "lib_ok l'"
  using assms(1)
proof (induction rule: rtranclp_induct)
  case base
  show ?case using assms(2) by (simp add: library_loaded_def lib_ok_def objects_ok_def tables_ok_def)
qed (rule api_step_ok)

text \<open>The globals of a program that has not called the library yet.\<close>

definition loaded_lib :: "'n \<Rightarrow> 'n lib" where
  "loaded_lib n = \<lparr>devInfo = Map.empty, msgQueues = Map.empty, tcp_sockets = Map.empty, net = n,
     APSs = [], deviceSerials = {}\<rparr>"

lemma library_loaded_lib [simp]: "library_loaded (loaded_lib n)" "APSs (loaded_lib n) = []"
  by (simp_all add: library_loaded_def loaded_lib_def)

text \<open>When no socket opens, connecting fails but leaves the new object in the map.\<close>

lemma connect_no_socket:
  assumes "APSs l = []" "\<And>p n. fst (net_udp_bind N p n) \<noteq> IoOk ()"
  shows "\<exists>l'. connect_APS N shutdown serial l = (Inr APS2_SOCKET_FAILURE, l')
    \<and> APSs l' = [(serial, Some (APS2_construct serial))]"
proof -
  let ?l = "l\<lparr>APSs := [(serial, Some (APS2_construct serial))]\<rparr>"
  have dead: "interface_alive ?l = False" by (simp add: interface_alive_def APS2_construct_def)
  obtain l' where g: "get_interface N shutdown ?l = (Inl (Thrown APS2_SOCKET_FAILURE), l')"
    and l': "APSs l' = APSs ?l"
    using assms(2) unfolding get_interface_def
    by (simp add: bindM_def getM_def dead handleM_def seqM_def drop_maps_def modifyM_def
        eth_construct_def udp_open_def net_do_def throwM_def)
  have "connect_APS N shutdown serial l = (Inr APS2_SOCKET_FAILURE, l')"
    using assms(1) by (simp add: connect_APS_def holding_def seqM_def bindM_def handleM_def
        modifyM_def g to_status_def returnM_def)
  then show ?thesis using l' by simp
qed

text \<open>
  C7. In every state a program can reach by calling the exported functions, in any order, with any
  arguments and on any network, every module object is in order: a connected one holds the
  interface (no call on it dereferences a null interface), it has exactly two channels, no
  channel has a waveform longer than its markers (so preparing a waveform never reads past them),
  and its bitfile writing task is never DONE (so a client polling for DONE waits forever).
\<close>

theorem api_objects_ok:
  assumes "(api_step N H shutdown)\<^sup>*\<^sup>* l l'" "library_loaded l" "map_of (APSs l') serial = Some (Some a)"
  shows "(connected a \<longrightarrow> ethernetRM a) \<and> length (channels a) = 2
    \<and> (\<forall>ch \<in> set (channels a). length (ch_waveform ch) \<le> length (ch_markers ch))
    \<and> bitfile_writing_task a \<noteq> Some DONE"
proof -
  have "lib_ok l'" by (rule api_reachable_ok [OF assms(1,2)])
  then have "obj_ok a" using map_of_SomeD [OF assms(3)] by (auto simp: lib_ok_def objects_ok_def)
  then show ?thesis by (simp add: obj_ok_def channel_ok_def)
qed

theorem api_objects_ok_witness:
  "\<forall>H n. \<exists>l' a. (api_step (emu_ops\<lparr>net_udp_bind := \<lambda>p n. (IoError, n)\<rparr>) H id)\<^sup>*\<^sup>* (loaded_lib n) l'
    \<and> map_of (APSs l') ''module'' = Some (Some a) \<and> length (channels a) = 2
    \<and> (\<forall>ch \<in> set (channels a). length (ch_waveform ch) \<le> length (ch_markers ch))"
proof (intro allI)
  fix H :: host_ops and n :: emu
  let ?N = "emu_ops\<lparr>net_udp_bind := \<lambda>p n. (IoError, n)\<rparr>" and ?l = "loaded_lib n"
  have fails: "fst (net_udp_bind ?N p n) \<noteq> IoOk ()" for p n by simp
  have empty: "APSs ?l = []" by simp
  from connect_no_socket [OF empty fails, of id "''module''"] obtain l' where
    c: "connect_APS ?N id ''module'' ?l = (Inr APS2_SOCKET_FAILURE, l')"
    and a: "map_of (APSs l') ''module'' = Some (Some (APS2_construct ''module''))" by auto
  have run: "(api_step ?N H id)\<^sup>*\<^sup>* ?l l'" using connect_APS_step [OF c] by (rule r_into_rtranclp)
  from api_objects_ok [OF run library_loaded_lib(1) a] run a
  show "\<exists>l' a. (api_step ?N H id)\<^sup>*\<^sup>* ?l l'
    \<and> map_of (APSs l') ''module'' = Some (Some a) \<and> length (channels a) = 2
    \<and> (\<forall>ch \<in> set (channels a). length (ch_waveform ch) \<le> length (ch_markers ch))" by blast
qed

section \<open>The types of the tables\<close>

text \<open>
  C20. In every state a program can reach by calling the exported functions, in any order, with any
  arguments and whatever bytes arrive on the network, every MAC address in the device table and in
  the packets that wait in the message queues has exactly six bytes, although the code keeps it in a
  vector of no fixed length. So every packet the interface has received or addresses to a known
  module serialises to exactly the \<open>numBytes\<close> the code allocates for it, and never writes past them.
\<close>

theorem tables_well_typed:
  assumes "(api_step N H shutdown)\<^sup>*\<^sup>* l l'" "library_loaded l"
  shows "(devInfo l' ip = Some info \<longrightarrow> length (di_macAddr info) = MAC_ADDR_LEN
      \<and> (\<forall>msg. length (h_src (pk_header msg)) = MAC_ADDR_LEN \<longrightarrow>
           length (serialize (to_mac (di_macAddr info) msg)) = numBytes (to_mac (di_macAddr info) msg)))
    \<and> (msgQueues l' ip = Some queue \<longrightarrow> (\<forall>p \<in> set queue. length (h_dest (pk_header p)) = MAC_ADDR_LEN
      \<and> length (h_src (pk_header p)) = MAC_ADDR_LEN \<and> length (serialize p) = numBytes p))"
proof -
  have ok: "tables_ok l'" using api_reachable_ok [OF assms] by (simp add: lib_ok_def)
  have sent: "length (serialize (to_mac m msg)) = numBytes (to_mac m msg)"
    if "mac_ok m" "length (h_src (pk_header msg)) = MAC_ADDR_LEN" for m msg
    using that by (intro length_serialize) (simp add: packet_macs_ok_def mac_ok_def to_mac_def)
  show ?thesis
    using ok by (auto simp: tables_ok_def sent mac_ok_def packet_macs_ok_def intro!: length_serialize sent)
qed

text \<open>A legacy module that answers everything with its status, for the witness.\<close>

definition status_packet :: "u8 list" where
  "status_packet = replicate 6 0xFF @ [2, 4, 6, 8, 10, 12] @ replicate 72 0"

definition status_ops :: "emu net_ops" where
  "status_ops = emu_ops\<lparr>net_arrivals := \<lambda>n. (replicate 2 (status_packet, (''10.0.0.9'', 0xbb4e)), n)\<rparr>"

lemma status_session:
  "(case connect_APS status_ops id ''10.0.0.9'' (loaded_lib \<lparr>em_mem = \<lambda>a. 0, em_rx = []\<rparr>) of (r, l) \<Rightarrow>
      r = Inr APS2_OK
      \<and> map_option (\<lambda>i. di_macAddr i = [2, 4, 6, 8, 10, 12]) (devInfo l ''10.0.0.9'') = Some True
      \<and> map_option length (msgQueues l ''10.0.0.9'') = Some 1) = True"
  by code_simp

theorem tables_well_typed_witness:
  "\<forall>H. \<exists>l' info queue. (api_step status_ops H id)\<^sup>*\<^sup>* (loaded_lib \<lparr>em_mem = \<lambda>a. 0, em_rx = []\<rparr>) l'
    \<and> devInfo l' ''10.0.0.9'' = Some info \<and> di_macAddr info = [2, 4, 6, 8, 10, 12]
    \<and> msgQueues l' ''10.0.0.9'' = Some queue \<and> length queue = 1
    \<and> (\<forall>p \<in> set queue. length (serialize p) = numBytes p)"
proof
  fix H :: host_ops
  let ?l = "loaded_lib \<lparr>em_mem = \<lambda>a. 0, em_rx = []\<rparr>"
  obtain r l' where c: "connect_APS status_ops id ''10.0.0.9'' ?l = (r, l')" by fastforce
  with status_session obtain info queue where t: "devInfo l' ''10.0.0.9'' = Some info"
    "di_macAddr info = [2, 4, 6, 8, 10, 12]" "msgQueues l' ''10.0.0.9'' = Some queue" "length queue = 1"
    by auto
  have run: "(api_step status_ops H id)\<^sup>*\<^sup>* ?l l'" using connect_APS_step [OF c] by (rule r_into_rtranclp)
  from tables_well_typed [OF run library_loaded_lib(1), of "''10.0.0.9''" info queue] t(3)
  have "\<forall>p \<in> set queue. length (serialize p) = numBytes p" by blast
  with run t show "\<exists>l' info queue. (api_step status_ops H id)\<^sup>*\<^sup>* ?l l'
    \<and> devInfo l' ''10.0.0.9'' = Some info \<and> di_macAddr info = [2, 4, 6, 8, 10, 12]
    \<and> msgQueues l' ''10.0.0.9'' = Some queue \<and> length queue = 1
    \<and> (\<forall>p \<in> set queue. length (serialize p) = numBytes p)" by blast
qed

end
