(* ===== verification/Storage.thy ===== *)
theory Storage
  imports Emulator Chip_Properties
begin

text \<open>
  The two media behind the module's CPLD, the configuration SDRAM and the EPROM: the laws of a CPLD
  that carries out their datagrams, and what erasing, writing and reading do to a medium.
\<close>

section \<open>Datagrams that are carried out\<close>

text \<open>
  Writing the datagram on the connection changes the content by \<open>f\<close> and queues one answer, which
  satisfies \<open>answers\<close> for the content before.
\<close>

definition carries_out :: "'n net_ops \<Rightarrow> nat \<Rightarrow> ('n, 'c) module_view \<Rightarrow> APS2Datagram \<Rightarrow> ('c \<Rightarrow> 'c)
    \<Rightarrow> ('c \<Rightarrow> APS2Datagram \<Rightarrow> bool) \<Rightarrow> bool" where
  "carries_out N sk D dg f answers \<longleftrightarrow>
     (\<forall>n t. dv_ready D n \<and> dv_rx D n = [] \<longrightarrow>
        (\<exists>n' ans. net_tcp_write N sk (wire dg) t n = (IoOk (), n') \<and> dv_ready D n'
          \<and> dv_mem D n' = f (dv_mem D n) \<and> dv_rx D n' = answer_wire ans \<and> answer_ok ans
          \<and> answers (dv_mem D n) ans))"

text \<open>
  The states between two calls: the laws \<open>L\<close> hold, the connection is idle, the content is \<open>c\<close>.
\<close>

definition stage :: "bool \<Rightarrow> 'n net_ops \<Rightarrow> nat \<Rightarrow> ('n, 'c) module_view \<Rightarrow> 'c \<Rightarrow> 'n st \<Rightarrow> bool" where
  "stage L N sk D c s \<longleftrightarrow> L \<and> answering N sk D [] s \<and> dv_mem D (net s) = c"

lemma triple_law:
  "(L \<Longrightarrow> triple (stage L N sk D) c m r c') \<Longrightarrow> triple (stage L N sk D) c m r c'"
  by (auto simp: triple_def stage_def)

lemma answering_linked: "answering N sk D rx s \<Longrightarrow> linked sk s"
  by (simp add: answering_def)

lemma send_run:
  assumes "carries_out N sk D dg f answers" "c_ack (dg_cmd dg)"
    and "\<And>m ans. answers m ans \<Longrightarrow> ack_expected dg False ans" and s: "stage L N sk D c s"
  shows "\<exists>n. rm_send N [dg] s = (Inr (), s\<lparr>net := n\<rparr>) \<and> stage L N sk D (f c) (s\<lparr>net := n\<rparr>)"
proof -
  from s have l: "linked sk s" and r: "dv_ready D (net s) \<and> dv_rx D (net s) = []"
    by (auto simp: stage_def answering_def)
  from assms(1) [unfolded carries_out_def, rule_format, OF r, of COMMS_TIMEOUT] obtain n1 ans where
    w: "net_tcp_write N sk (wire dg) COMMS_TIMEOUT (net s) = (IoOk (), n1)" "dv_ready D n1"
      "dv_mem D n1 = f (dv_mem D (net s))" "dv_rx D n1 = answer_wire ans" "answer_ok ans"
      "answers (dv_mem D (net s)) ans"
    by blast
  have "answering N sk D (answer_wire ans) (s\<lparr>net := n1\<rparr>)"
    using s w by (simp add: stage_def answering_def)
  from eth_read_answer [OF this w(5), of COMMS_TIMEOUT] obtain n2 where
    rd: "eth_read N (ipAddr (obj s)) COMMS_TIMEOUT (s\<lparr>net := n1\<rparr>) = (Inr ans, s\<lparr>net := n2\<rparr>)"
      "answering N sk D [] (s\<lparr>net := n2\<rparr>)" "dv_mem D n2 = dv_mem D n1"
    by auto
  have "check_ack dg ans False = Inr ()"
    using assms(3) [OF w(6)] by (simp add: check_ack_cases)
  then have "tcp_send_datagram N (ipAddr (obj s)) dg s = (Inr (), s\<lparr>net := n2\<rparr>)"
    using w(1) rd(1) assms(2)
    by (simp add: tcp_send_datagram_def bindM_def socket_at_linked [OF l] net_do_def wire_def [symmetric] run_simps)
  then show ?thesis
    using rd w s
    by (intro exI [of _ n2]) (simp add: rm_send_run [OF l] seqM_def bindM_def run_simps stage_def)
qed

lemma send_carried:
  assumes "carries_out N sk D dg f answers" "c_ack (dg_cmd dg)"
    and "\<And>m ans. answers m ans \<Longrightarrow> ack_expected dg False ans"
  shows "triple (stage L N sk D) c (rm_send N [dg]) (Inr ()) (f c)"
  using send_run [OF assms] by (fastforce simp: triple_def)

lemma request_run:
  assumes "carries_out N sk D \<lparr>dg_cmd = cmd, dg_addr = a, dg_payload = []\<rparr> (\<lambda>m. m)
      answers" "\<not> c_ack cmd" "stage L N sk D c s"
  shows "\<exists>ans n. request N cmd a s = (Inr ans, s\<lparr>net := n\<rparr>) \<and> answers c ans
    \<and> stage L N sk D c (s\<lparr>net := n\<rparr>)"
proof -
  let ?dg = "\<lparr>dg_cmd = cmd, dg_addr = a, dg_payload = []\<rparr>"
  note s = assms(3)
  then have l: "linked sk s" and r: "dv_ready D (net s) \<and> dv_rx D (net s) = []"
    by (auto simp: stage_def answering_def)
  from assms(1) [unfolded carries_out_def, rule_format, OF r, of COMMS_TIMEOUT] obtain n1 ans where
    w: "net_tcp_write N sk (wire ?dg) COMMS_TIMEOUT (net s) = (IoOk (), n1)" "dv_ready D n1"
      "dv_mem D n1 = dv_mem D (net s)" "dv_rx D n1 = answer_wire ans" "answer_ok ans"
      "answers (dv_mem D (net s)) ans"
    by blast
  have "rm_send N [?dg] s = (Inr (), s\<lparr>net := n1\<rparr>)"
    using w(1) assms(2)
    by (simp add: rm_send_run [OF l] seqM_def tcp_send_datagram_def bindM_def socket_at_linked [OF l]
        net_do_def wire_def [symmetric] run_simps)
  moreover have "answering N sk D (answer_wire ans) (s\<lparr>net := n1\<rparr>)"
    using s w by (simp add: stage_def answering_def)
  from eth_read_answer [OF this w(5), of COMMS_TIMEOUT] obtain n2 where
    rd: "eth_read N (ipAddr (obj s)) COMMS_TIMEOUT (s\<lparr>net := n1\<rparr>) = (Inr ans, s\<lparr>net := n2\<rparr>)"
      "answering N sk D [] (s\<lparr>net := n2\<rparr>)" "dv_mem D n2 = dv_mem D n1"
    by auto
  moreover have "rm_read N (s\<lparr>net := n1\<rparr>) = (Inr ans, s\<lparr>net := n2\<rparr>)"
    using rm_read_run [of sk "s\<lparr>net := n1\<rparr>"] rd(1) l by simp
  ultimately have "request N cmd a s = (Inr ans, s\<lparr>net := n2\<rparr>)"
    by (simp add: request_def seqM_def bindM_def)
  with rd w s show ?thesis by (auto simp: stage_def)
qed

lemma request_carried:
  assumes "carries_out N sk D \<lparr>dg_cmd = cmd, dg_addr = a, dg_payload = []\<rparr> (\<lambda>m. m)
      (\<lambda>m ans. dg_payload ans = g m)" "\<not> c_ack cmd"
  shows "triple (stage L N sk D) c (bindM (request N cmd a) (\<lambda>result. returnM (dg_payload result)))
    (Inr (g c)) c"
  using request_run [OF assms] by (fastforce simp: triple_def bindM_def run_simps)

text \<open>The notes a transfer makes in the object do not concern the connection.\<close>

lemma triple_notes:
  "triple (stage L N sk D) c (set_task x) (Inr ()) c"
  "triple (stage L N sk D) c (set_progress p) (Inr ()) c"
  by (auto simp: triple_def set_task_def set_progress_def mod_obj_def run_simps stage_def
      answering_def linked_def)

lemma triple_send_with_progress:
  assumes "\<And>p c. p \<in> set ps \<Longrightarrow> triple (stage L N sk D) c (rm_send N [p]) (Inr ()) (g p c)"
  shows "triple (stage L N sk D) c (send_with_progress N tot k ps) (Inr ()) (fold g ps c)"
  using assms
  by (induction ps arbitrary: k c) (auto intro!: triple_returnM triple_seqM triple_notes)

section \<open>The laws of a medium\<close>

definition cpld_write_cmd :: "APS_COMMANDS \<Rightarrow> APS2Command" where
  "cpld_write_cmd command = APS2Command_init\<lparr>c_ack := True, c_sel := True, c_cmd := command_code command\<rparr>"

definition cpld_read_cmd :: "APS_COMMANDS \<Rightarrow> u32 \<Rightarrow> APS2Command" where
  "cpld_read_cmd command k =
     APS2Command_init\<lparr>c_r_w := True, c_sel := True, c_cmd := command_code command, c_cnt := ucast k\<rparr>"

text \<open>
  The CPLD carries out writes of at most 0x100 words and reads on the addresses \<open>R\<close>: \<open>put\<close> is what
  a write does to the content. It answers a write with mode/stat 0.
\<close>

definition transfer_laws :: "'n net_ops \<Rightarrow> nat \<Rightarrow> u32 set \<Rightarrow> 'n device_view \<Rightarrow> APS_COMMANDS
    \<Rightarrow> (memory \<Rightarrow> u32 \<Rightarrow> u32 list \<Rightarrow> memory) \<Rightarrow> bool" where
  "transfer_laws N sk R D command put \<longleftrightarrow>
     (\<forall>a ws. length ws \<le> 0x100 \<and> words_at a (length ws) \<subseteq> R \<longrightarrow>
        carries_out N sk D (dg_piece (cpld_write_cmd command) a ws) (\<lambda>m. put m a ws)
          (\<lambda>m ans. c_mode_stat (dg_cmd ans) = 0))
   \<and> (\<forall>a k. unat k < 2 ^ 16 \<and> words_at a (unat k) \<subseteq> R \<longrightarrow>
        carries_out N sk D \<lparr>dg_cmd = cpld_read_cmd command k, dg_addr = a, dg_payload = []\<rparr> (\<lambda>m. m)
          (\<lambda>m ans. dg_payload ans = load m a (unat k)))"

text \<open>The configuration SDRAM stores the words; programming the EPROM can only clear bits.\<close>

fun burn :: "memory \<Rightarrow> u32 \<Rightarrow> u32 list \<Rightarrow> memory" where
  "burn m a [] = m"
| "burn m a (x # xs) = burn (m(a := m a AND x)) (a + 4) xs"

definition blank :: "nat \<Rightarrow> u32 list" where
  "blank n = replicate n 0xffffffff"

definition page_words :: nat where
  "page_words = 0x4000"

definition dram_laws :: "'n net_ops \<Rightarrow> nat \<Rightarrow> u32 set \<Rightarrow> 'n device_view \<Rightarrow> bool" where
  "dram_laws N sk R D \<longleftrightarrow> transfer_laws N sk R D FPGACONFIG_ACK store"

definition eprom_laws :: "'n net_ops \<Rightarrow> nat \<Rightarrow> u32 set \<Rightarrow> 'n device_view \<Rightarrow> bool" where
  "eprom_laws N sk R D \<longleftrightarrow> transfer_laws N sk R D EPROMIO burn
     \<and> (\<forall>a. a mod 0x10000 = 0 \<and> words_at a page_words \<subseteq> R \<longrightarrow>
          carries_out N sk D \<lparr>dg_cmd = flash_erase_cmd, dg_addr = a, dg_payload = []\<rparr>
            (\<lambda>m. store m a (blank page_words)) (\<lambda>m ans. c_mode_stat (dg_cmd ans) = 0))"

abbreviation dram :: "'n net_ops \<Rightarrow> nat \<Rightarrow> u32 set \<Rightarrow> 'n device_view \<Rightarrow> memory \<Rightarrow> 'n st \<Rightarrow> bool" where
  "dram N sk R D \<equiv> stage (dram_laws N sk R D) N sk D"

abbreviation eprom :: "'n net_ops \<Rightarrow> nat \<Rightarrow> u32 set \<Rightarrow> 'n device_view \<Rightarrow> memory \<Rightarrow> 'n st \<Rightarrow> bool" where
  "eprom N sk R D \<equiv> stage (eprom_laws N sk R D) N sk D"

section \<open>Writing, reading and erasing\<close>

lemma transfer_write:
  assumes laws: "transfer_laws N sk R D command put"
    and cmd: "command = EPROMIO \<or> command = FPGACONFIG_ACK"
    and put: "\<And>m a. put m a [] = m"
      "\<And>m a xs ys. put m a (xs @ ys) = put (put m a xs) (a + 4 * of_nat (length xs)) ys"
    and R: "words_at a (length ws) \<subseteq> R"
  shows "triple (stage L N sk D) c
    (send_with_progress N tot k (dg_pieces (cpld_write_cmd command) a (blocks (unat (0x100 :: u16)) ws)))
    (Inr ()) (put c a ws)"
proof -
  let ?cmd = "cpld_write_cmd command"
  let ?ps = "dg_pieces ?cmd a (blocks (unat (0x100 :: u16)) ws)"
  have "triple (stage L N sk D) c (send_with_progress N tot k ?ps) (Inr ())
      (fold (\<lambda>p m. put m (dg_addr p) (dg_payload p)) ?ps c)"
  proof (rule triple_send_with_progress)
    fix p c
    assume p: "p \<in> set ?ps"
    have eq: "dg_piece ?cmd (dg_addr p) (dg_payload p) = p"
      by (rule dg_pieces_piece [OF p, symmetric])
    then have cmd_p: "dg_cmd p = ?cmd\<lparr>c_cnt := of_nat (length (dg_payload p))\<rparr>"
      by (metis APS2Datagram.select_convs(1) dg_piece_def)
    have "length (dg_payload p) \<le> 0x100 \<and> words_at (dg_addr p) (length (dg_payload p)) \<subseteq> R"
      using cpld.pieces_limit [OF p] cpld.pieces_words_at [OF p] R by auto
    from laws [unfolded transfer_laws_def, THEN conjunct1, rule_format, OF this]
    have law: "carries_out N sk D p (\<lambda>m. put m (dg_addr p) (dg_payload p))
        (\<lambda>m ans. c_mode_stat (dg_cmd ans) = 0)"
      unfolding eq .
    have ack: "ack_expected p False ans" if "c_mode_stat (dg_cmd ans) = 0" for ans
      using cmd that unfolding ack_expected_def cmd_p
      by (auto simp: cpld_write_cmd_def APS2Command_init_def to_command_def)
    have "c_ack (dg_cmd p)"
      unfolding cmd_p by (simp add: cpld_write_cmd_def)
    from send_carried [OF law this ack]
    show "triple (stage L N sk D) c (rm_send N [p]) (Inr ()) (put c (dg_addr p) (dg_payload p))" .
  qed
  then show ?thesis unfolding cpld.puts_all [of put, OF put] .
qed

lemma transfer_read:
  assumes "transfer_laws N sk R D command put" "unat k < 2 ^ 16" "words_at a (unat k) \<subseteq> R"
  shows "triple (stage L N sk D) c
    (bindM (request N (cpld_read_cmd command k) a) (\<lambda>result. returnM (dg_payload result)))
    (Inr (load c a (unat k))) c"
  using assms by (intro request_carried) (simp_all add: transfer_laws_def cpld_read_cmd_def APS2Command_init_def)

lemma burn_append: "burn m a (xs @ ys) = burn (burn m a xs) (a + 4 * of_nat (length xs)) ys"
  by (induction xs arbitrary: m a) (simp_all add: algebra_simps)

lemma burn_blank:
  assumes "\<And>b. b \<in> words_at a (length ws) \<Longrightarrow> m b = 0xffffffff" "length ws \<le> 2 ^ 30"
  shows "burn m a ws = store m a ws"
  using assms
proof (induction ws arbitrary: m a)
  case (Cons w ws)
  have ones: "(0xffffffff :: u32) = mask 32" by (simp add: mask_eq_exp_minus_1)
  have "a \<notin> words_at (a + 4) (length ws)"
    using words_at_not_before [of "length ws" a] Cons.prems(2) by simp
  then have "burn (m(a := w)) (a + 4) ws = store (m(a := w)) (a + 4) ws"
    using Cons.prems by (intro Cons.IH) (auto simp: words_at_Suc)
  moreover have "m a = 0xffffffff" using Cons.prems(1) [of a] by (simp add: words_at_Suc)
  moreover have "0xffffffff AND w = w"
    by (rule bit_word_eqI) (simp add: ones bit_simps)
  ultimately show ?case by simp
qed simp

lemma store_blank:
  "b \<in> words_at a n \<Longrightarrow> store m a (blank n) b = 0xffffffff"
proof (induction n arbitrary: m a)
  case (Suc n)
  then show ?case
    using store_outside [of b "a + 4" "blank n" "m(a := 0xffffffff)"]
    by (cases "b \<in> words_at (a + 4) n") (auto simp: blank_def words_at_Suc)
qed simp

lemma blank_add: "blank (m + n) = blank m @ blank n"
  by (simp add: blank_def replicate_add)

lemma length_blank [simp]: "length (blank n) = n"
  by (simp add: blank_def)

lemma chunked_cpld: "chunked cmd a ws 0x0100 = returnM (dg_pieces cmd a (blocks (unat (0x100 :: u16)) ws))"
  by (simp add: chunked_def dg_chunk_eq)

text \<open>The configuration SDRAM.\<close>

lemma triple_write_dram:
  assumes "a AND 0x7 = 0" "even (length ws)" "words_at a (length ws) \<subseteq> R"
  shows "triple (dram N sk R D) c (write_configuration_SDRAM N a ws) (Inr ()) (store c a ws)"
proof (rule triple_law)
  assume "dram_laws N sk R D"
  then have laws: "transfer_laws N sk R D FPGACONFIG_ACK store" by (simp add: dram_laws_def)
  have g: "(a AND 0x7 \<noteq> 0) = False" "(length ws mod 2 \<noteq> 0) = False"
    using assms(1,2) by (simp_all add: even_iff_mod_2_eq_zero)
  show "triple (dram N sk R D) c (write_configuration_SDRAM N a ws) (Inr ()) (store c a ws)"
    unfolding write_configuration_SDRAM_def g if_False chunked_cpld bindM_returnM
      cpld_write_cmd_def [symmetric]
    by (rule triple_seqM triple_notes transfer_write [OF laws] store.simps store_append assms(3) disjI2 refl)+
qed

lemma triple_read_dram:
  assumes "unat k < 2 ^ 16" "words_at a (unat k) \<subseteq> R"
  shows "triple (dram N sk R D) c (read_configuration_SDRAM N a k) (Inr (load c a (unat k))) c"
  unfolding read_configuration_SDRAM_def cpld_read_cmd_def [symmetric]
  by (rule triple_law, rule transfer_read [where put = store]) (use assms in \<open>simp_all add: dram_laws_def\<close>)

text \<open>The EPROM. The loop over the pages erases \<open>k\<close> of them.\<close>

lemma triple_erase_page:
  assumes "a mod 0x10000 = 0" "words_at a page_words \<subseteq> R"
  shows "triple (eprom N sk R D) c (erase_page N a 0) (Inr 0) (store c a (blank page_words))"
proof (rule triple_law)
  assume "eprom_laws N sk R D"
  then have law: "carries_out N sk D \<lparr>dg_cmd = flash_erase_cmd, dg_addr = a, dg_payload = []\<rparr>
      (\<lambda>m. store m a (blank page_words)) (\<lambda>m ans. c_mode_stat (dg_cmd ans) = 0)"
    using assms by (simp add: eprom_laws_def)
  have "triple (eprom N sk R D) c (rm_send N [\<lparr>dg_cmd = flash_erase_cmd, dg_addr = a, dg_payload = []\<rparr>])
      (Inr ()) (store c a (blank page_words))"
    by (rule send_carried [OF law])
       (simp_all add: flash_erase_cmd_def APS2Command_init_def ack_expected_def to_command_def)
  then show "triple (eprom N sk R D) c (erase_page N a 0) (Inr 0) (store c a (blank page_words))"
    by (auto simp: erase_page_def intro!: triple_handleM triple_seqM triple_returnM)
qed

lemma triple_erase_loop:
  assumes "a mod 0x10000 = 0" "unat a + 0x10000 * Suc k < 2 ^ 32" "k < fuel"
    and "words_at a (page_words * Suc k) \<subseteq> R"
    and "0 < k \<Longrightarrow> unat a + 0x10000 * k < unat stop" "unat stop \<le> unat a + 0x10000 * Suc k"
  shows "triple (eprom N sk R D) c (erase_loop N fuel start n stop a) (Inr ())
    (store c a (blank (page_words * Suc k)))"
  using assms
proof (induction k arbitrary: a c fuel)
  case 0
  then obtain f where f: "fuel = Suc f" by (cases fuel) simp_all
  have "unat (a + 0x10000) = unat a + 0x10000" using "0.prems"(2) by (simp add: unat_word_ariths)
  then have stop: "(a + 0x10000 < stop) = False" using "0.prems"(6) by (simp add: word_less_nat_alt)
  have "triple (eprom N sk R D) c (erase_page N a 0) (Inr 0) (store c a (blank page_words))"
    using "0.prems" by (intro triple_erase_page) simp_all
  then show ?case
    unfolding f erase_loop.simps Let_def stop if_False
    by (auto intro!: triple_bindM triple_seqM triple_notes triple_returnM)
next
  case (Suc k)
  then obtain f where f: "fuel = Suc f" by (cases fuel) simp_all
  have wrap: "unat (a + 0x10000) = unat a + 0x10000" using Suc.prems(2) by (simp add: unat_word_ariths)
  have more: "(a + 0x10000 < stop) = True" using Suc.prems(5) wrap by (simp add: word_less_nat_alt)
  have R: "words_at a page_words \<union> words_at (a + 0x10000) (page_words * Suc k) \<subseteq> R"
    using Suc.prems(4) words_at_append [of a page_words "page_words * Suc k"] by (simp add: page_words_def)
  have "unat (a + 0x10000) mod 0x10000 = 0"
    unfolding wrap using unat_mod_distrib [of a "0x10000"] Suc.prems(1) by simp
  then have al: "(a + 0x10000) mod 0x10000 = 0"
    using unat_mod_distrib [of "a + 0x10000" "0x10000"] by (simp add: unat_eq_zero)
  have page: "triple (eprom N sk R D) c (erase_page N a 0) (Inr 0) (store c a (blank page_words))"
    using Suc.prems R by (intro triple_erase_page) simp_all
  have "triple (eprom N sk R D) (store c a (blank page_words)) (erase_loop N f start n stop (a + 0x10000)) (Inr ())
      (store (store c a (blank page_words)) (a + 0x10000) (blank (page_words * Suc k)))"
    using Suc.prems wrap R al f by (intro Suc.IH) simp_all
  moreover have two: "page_words * Suc (Suc k) = page_words + page_words * Suc k" by simp
  have "store (store c a (blank page_words)) (a + 0x10000) (blank (page_words * Suc k))
      = store c a (blank (page_words * Suc (Suc k)))"
    unfolding two blank_add store_append by (simp add: page_words_def)
  ultimately show ?case
    unfolding f erase_loop.simps Let_def more if_True using page
    by (auto intro!: triple_bindM triple_seqM triple_notes)
qed

text \<open>
  Writing erases all pages the data reaches, at least one, and programs the data padded to 64 words.
\<close>

definition flash_pages :: "nat \<Rightarrow> nat" where
  "flash_pages n = Suc ((n - 1) div page_words)"

definition flash_fits :: "u32 set \<Rightarrow> u32 \<Rightarrow> nat \<Rightarrow> bool" where
  "flash_fits R a n \<longleftrightarrow> a mod 0x10000 = 0 \<and> unat a + 0x10000 * flash_pages n < 2 ^ 32
     \<and> words_at a (page_words * flash_pages n) \<subseteq> R"

definition reflash :: "memory \<Rightarrow> u32 \<Rightarrow> u32 list \<Rightarrow> memory" where
  "reflash c a ws = store (store c a (blank (page_words * flash_pages (length ws)))) a ws"

lemma flash_pages_bound: "n \<le> page_words * flash_pages n"
proof -
  define q r where "q = (n - 1) div page_words" and "r = (n - 1) mod page_words"
  have "n - 1 = page_words * q + r" "r < page_words"
    by (simp_all add: q_def r_def page_words_def)
  then show ?thesis
    unfolding flash_pages_def q_def [symmetric] by (simp add: page_words_def)
qed

lemma flash_fits_words:
  assumes "flash_fits R a n"
  shows "words_at a n \<subseteq> R" "unat a + 4 * n < 2 ^ 32" "n \<le> 2 ^ 30"
proof -
  obtain m where m: "page_words * flash_pages n = n + m"
    using flash_pages_bound [of n] le_Suc_ex by blast
  show "words_at a n \<subseteq> R"
    using assms words_at_append [of a n m] by (auto simp: flash_fits_def m)
  show "unat a + 4 * n < 2 ^ 32" "n \<le> 2 ^ 30"
    using assms flash_pages_bound [of n] by (auto simp: flash_fits_def page_words_def)
qed

lemma page_aligned: "a mod 0x10000 = 0 \<Longrightarrow> n \<le> 16 \<Longrightarrow> a AND mask n = 0" for a :: u32
proof -
  assume "a mod 0x10000 = 0" "n \<le> 16"
  then have "take_bit 16 a = 0" by (simp add: take_bit_eq_mod)
  moreover have "take_bit n a = take_bit n (take_bit 16 a)"
    using \<open>n \<le> 16\<close> by (simp only: take_bit_take_bit min_absorb1)
  ultimately show ?thesis by (simp flip: take_bit_eq_mask)
qed

lemma triple_erase_flash:
  assumes "flash_fits R a n"
  shows "triple (eprom N sk R D) c (erase_flash N a (of_nat (4 * n))) (Inr ())
    (store c a (blank (page_words * flash_pages n)))"
proof -
  let ?k = "(n - 1) div page_words"
  have al: "(a mod 0x10000 \<noteq> 0) = False" and fit: "unat a + 0x10000 * Suc ?k < 2 ^ 32"
    and R: "words_at a (page_words * Suc ?k) \<subseteq> R"
    using assms by (auto simp: flash_fits_def flash_pages_def)
  have "a + of_nat (4 * n) = of_nat (unat a + 4 * n)" by simp
  moreover have small: "unat a + 4 * n < 2 ^ 32" by (rule flash_fits_words [OF assms])
  ultimately have stop: "unat (a + of_nat (4 * n)) = unat a + 4 * n"
    by (simp only: unat_of_nat) (simp add: take_bit_nat_eq_self)
  have "triple (eprom N sk R D) c (erase_loop N 65536 a (of_nat (4 * n)) (a + of_nat (4 * n)) a) (Inr ())
      (store c a (blank (page_words * Suc ?k)))"
  proof (rule triple_erase_loop [OF _ fit _ R])
    show "unat (a + of_nat (4 * n)) \<le> unat a + 0x10000 * Suc ?k"
      using flash_pages_bound [of n] unfolding stop flash_pages_def by (simp add: page_words_def)
    show "unat a + 0x10000 * ?k < unat (a + of_nat (4 * n))" if "0 < ?k"
      using div_times_less_eq_dividend [of "n - 1" page_words] that unfolding stop
      by (cases n) (simp_all add: page_words_def)
    show "?k < 65536" using fit by simp
  qed (use al in simp)
  then show ?thesis
    unfolding erase_flash_def al if_False flash_pages_def
    by (rule triple_seqM [OF triple_notes(1) triple_seqM [OF triple_notes(2)]])
qed

lemma triple_write_flash:
  assumes "flash_fits R a (length (pad64 ws))"
  shows "triple (eprom N sk R D) c (write_flash N a ws) (Inr (pad64 ws)) (reflash c a (pad64 ws))"
proof (rule triple_law)
  let ?ws = "pad64 ws" and ?p = "page_words * flash_pages (length (pad64 ws))"
  assume "eprom_laws N sk R D"
  then have laws: "transfer_laws N sk R D EPROMIO burn" by (simp add: eprom_laws_def)
  have al: "(a AND 0xff \<noteq> 0) = False"
    using page_aligned [of a 8] assms by (simp add: flash_fits_def mask_eq_exp_minus_1)
  have cmd: "APS2Command_init\<lparr>c_ack := True, c_sel := True, c_cmd := command_code EPROMIO,
      c_mode_stat := EPROM_RW\<rparr> = cpld_write_cmd EPROMIO"
    by (simp add: cpld_write_cmd_def APS2Command_init_def EPROM_RW_def)
  obtain m where m: "?p = length ?ws + m"
    using flash_pages_bound [of "length ?ws"] le_Suc_ex by blast
  have burn: "burn (store c a (blank ?p)) a ?ws = reflash c a ?ws"
    unfolding reflash_def
  proof (rule burn_blank)
    show "store c a (blank ?p) b = 0xffffffff" if "b \<in> words_at a (length ?ws)" for b
      using that by (intro store_blank) (simp add: m words_at_append)
  qed (rule flash_fits_words [OF assms])
  show "triple (eprom N sk R D) c (write_flash N a ws) (Inr ?ws) (reflash c a ?ws)"
    unfolding write_flash_def al if_False Let_def cmd chunked_cpld bindM_returnM burn [symmetric]
    by (rule triple_seqM triple_erase_flash [OF assms] triple_notes triple_returnM
        transfer_write [OF laws] burn.simps burn_append flash_fits_words(1) [OF assms] disjI1 refl)+
qed

lemma triple_read_flash:
  assumes "unat k < 2 ^ 16" "words_at a (unat k) \<subseteq> R"
  shows "triple (eprom N sk R D) c (read_flash N a k) (Inr (load c a (unat k))) c"
  unfolding read_flash_def cpld_read_cmd_def [symmetric]
  by (rule triple_law, rule transfer_read [where put = burn]) (use assms in \<open>simp_all add: eprom_laws_def\<close>)

lemma load_reflash: "flash_fits R a (length ws) \<Longrightarrow> load (reflash c a ws) a (length ws) = ws"
  unfolding reflash_def by (rule load_store) (rule flash_fits_words)

lemma reflash_outside:
  "b \<notin> words_at a (page_words * flash_pages (length ws)) \<Longrightarrow> reflash c a ws b = c b"
proof -
  assume b: "b \<notin> words_at a (page_words * flash_pages (length ws))"
  obtain m where m: "page_words * flash_pages (length ws) = length ws + m"
    using flash_pages_bound le_Suc_ex by blast
  then have "b \<notin> words_at a (length ws)" using b by (simp add: words_at_append)
  then show ?thesis unfolding reflash_def using b by (simp add: store_outside)
qed

section \<open>An emulated CPLD\<close>

text \<open>The emulator of \<open>Emulator\<close> with a memory behind a CPLD, as EPROM and as SDRAM.\<close>

fun cpld_handle :: "u32 list \<Rightarrow> emu \<Rightarrow> emu" where
  "cpld_handle (w # addr # payload) n =
     (let cmd = unpack w in
      if c_r_w cmd
      then n\<lparr>em_rx := em_rx n @ answer_wire \<lparr>dg_cmd = cmd, dg_addr = 0,
               dg_payload = load (em_mem n) addr (unat (c_cnt cmd))\<rparr>\<rparr>
      else n\<lparr>em_mem := (if to_command (c_cmd cmd) = FPGACONFIG_ACK then store (em_mem n) addr payload
               else if c_mode_stat cmd = EPROM_ERASE then store (em_mem n) addr (blank page_words)
               else burn (em_mem n) addr payload),
             em_rx := em_rx n @ answer_wire \<lparr>dg_cmd = cmd\<lparr>c_mode_stat := 0\<rparr>, dg_addr = 0, dg_payload = []\<rparr>\<rparr>)"
| "cpld_handle _ n = n"

definition cpld_ops :: "emu net_ops" where
  "cpld_ops = emu_ops\<lparr>net_tcp_write := \<lambda>sk bs t n. (IoOk (), cpld_handle (decode_all 4 of_be32 bs) n)\<rparr>"

lemma cpld_transfer_laws:
  "transfer_laws cpld_ops 0 UNIV emu_view FPGACONFIG_ACK store"
  "transfer_laws cpld_ops 0 UNIV emu_view EPROMIO burn"
proof -
  have u: "unat (ucast k :: u16) = unat k" if "unat k < 65536" for k :: u32
    using that by (simp add: unsigned_ucast_eq take_bit_nat_eq_self)
  show "transfer_laws cpld_ops 0 UNIV emu_view FPGACONFIG_ACK store"
    "transfer_laws cpld_ops 0 UNIV emu_view EPROMIO burn"
    unfolding transfer_laws_def carries_out_def
    by (auto simp: cpld_ops_def emu_view_def decode_wire dg_piece_def cpld_write_cmd_def cpld_read_cmd_def
        APS2Command_init_def to_command_def answer_ok_def response_has_address_def EPROM_ERASE_def u
        Let_def intro!: exI)
qed

lemma cpld_receive_law: "receive_law cpld_ops 0 emu_view"
  by (auto simp: receive_law_def cpld_ops_def emu_ops_def emu_view_def)

lemma cpld_eprom_laws: "eprom_laws cpld_ops 0 UNIV emu_view"
  unfolding eprom_laws_def
proof (intro conjI cpld_transfer_laws)
qed (auto simp: carries_out_def cpld_ops_def emu_view_def decode_wire
      flash_erase_cmd_def APS2Command_init_def to_command_def answer_ok_def response_has_address_def
      EPROM_ERASE_def Let_def intro!: exI)

lemma cpld_stage: "L \<Longrightarrow> stage L cpld_ops 0 emu_view m (emu_state m)"
  using cpld_receive_law
  by (simp add: stage_def answering_def linked_def emu_state_def emu_obj_def emu_info_def
      APS2_construct_def emu_view_def)

end
