(* ===== verification/Session.thy ===== *)
theory Session
  imports Interface_Properties Storage
begin

text \<open>
  A session with a module through the C interface: bringing up the shared interface, finding the
  module, connecting over TCP, reading its status, and disconnecting. After \<open>connect_APS\<close> the object
  is in the states (\<open>on_module\<close>) that the end-to-end properties start from.
\<close>

section \<open>Connected objects\<close>

text \<open>The serial's object is connected to a module with the given memory.\<close>

definition on_module :: "'n net_ops \<Rightarrow> nat \<Rightarrow> u32 set \<Rightarrow> 'n device_view \<Rightarrow> string \<Rightarrow> memory \<Rightarrow> 'n lib \<Rightarrow> bool" where
  "on_module N sk A D serial mem l \<longleftrightarrow>
     (\<exists>a. map_of (APSs l) serial = Some (Some a) \<and> device_ok N sk A D (obj_state l a)) \<and> dv_mem D (net l) = mem"

lemma call_on_module:
  assumes "on_module N sk A D serial mem l"
    and run: "\<And>s. device_ok N sk A D s \<Longrightarrow> dv_mem D (net s) = mem \<Longrightarrow>
      \<exists>t. m s = (Inr x, t) \<and> device_ok N sk A D t \<and> dv_mem D (net t) = mem'"
  shows "\<exists>l'. aps2_call serial m l = (Inr APS2_OK, l') \<and> on_module N sk A D serial mem' l'"
proof -
  from assms(1) obtain a where a: "map_of (APSs l) serial = Some (Some a)"
    "device_ok N sk A D (obj_state l a)" "dv_mem D (net l) = mem" by (auto simp: on_module_def)
  from run [OF a(2)] a(3) obtain t where t: "m (obj_state l a) = (Inr x, t)" "device_ok N sk A D t"
    "dv_mem D (net t) = mem'" by auto
  define l' where "l' = l\<lparr>devInfo := devInfo t, msgQueues := msgQueues t, tcp_sockets := tcp_sockets t,
          net := net t, APSs := AList.update serial (Some (obj t)) (APSs l)\<rparr>"
  have "aps2_call serial m l = (Inr APS2_OK, l')"
    using with_obj_run [where m = m and l = l and a = a, OF t(1), of serial] a(1)
    by (simp add: aps2_call_def at_serial_def handleM_def bindM_def run_simps l'_def)
  moreover have "obj_state l' (obj t) = t" by (simp add: obj_state_def l'_def)
  then have "on_module N sk A D serial mem' l'"
    using t(2,3) by (auto simp: on_module_def l'_def update_conv' intro: exI [of _ "obj t"])
  ultimately show ?thesis by blast
qed

section \<open>Finding and connecting\<close>











section \<open>The session\<close>











end
