(* ===== verification/Console.thy ===== *)
theory Console
  imports LibAPS2 Texts
begin

text \<open>
  What the command line programs share (\<open>src/src/C++/helpers.h\<close> and the standard input): the state
  of a program that calls the C interface, how a program ends, reading from the terminal, and
  choosing a device. What is printed is a list of reports, the data without layout and colours.
\<close>

section \<open>A program around the C interface\<close>

text \<open>
  A value \<open>None\<close> in a report is an uninitialised variable: the program shows what memory holds.
  The address text is not terminated by the library, so unspecified characters can follow it.
\<close>

datatype report =
    Devices_found nat
  | Device_address nat string
  | Version "string option"
  | Uptime "f64 option"
  | Up_since "int \<times> int \<times> int \<times> f32"
  | Connect_failed string
  | Mac_address u64
  | Unterminated_address "string option"
  | Dhcp "bool option"
  | Flash_words "u32 list option"
  | Writing_failed string
  | Passes "bool list"
  | Samples_loaded nat

record 'n tool_state =
  tl_lib :: "'n lib"
  tl_in :: string \<comment> \<open>the characters not yet read from the standard input\<close>
  tl_out :: "report list"

text \<open>
  A program ends early by \<open>return\<close> from \<open>main\<close>, by an exception nobody handles, by undefined
  behaviour, or never.
\<close>

datatype stop = Exit int | Terminated | Misbehaves | Runs_on

type_synonym ('n, 'a) tool = "('n tool_state, stop, 'a) comp"

fun stop_of :: "exn \<Rightarrow> stop" where
  "stop_of Undefined = Misbehaves"
| "stop_of Diverges = Runs_on"
| "stop_of _ = Terminated"

definition call :: "('n, 'a) api \<Rightarrow> ('n, 'a) tool" where
  "call m s =
     (case m (tl_lib s) of
        (Inl e, l) \<Rightarrow> (Inl (stop_of e), s\<lparr>tl_lib := l\<rparr>)
      | (Inr x, l) \<Rightarrow> (Inr x, s\<lparr>tl_lib := l\<rparr>))"

text \<open>A call whose result is ignored.\<close>

definition ignored :: "('n, 'a) api \<Rightarrow> ('n, unit) tool" where
  "ignored m = bindM (call m) (\<lambda>_. returnM ())"

definition show_report :: "report \<Rightarrow> ('n, unit) tool" where
  "show_report x = modifyM (\<lambda>s. s\<lparr>tl_out := tl_out s @ [x]\<rparr>)"

definition set_in :: "string \<Rightarrow> ('n, unit) tool" where
  "set_in cs = modifyM (\<lambda>s. s\<lparr>tl_in := cs\<rparr>)"

section \<open>Reading\<close>

text \<open>\<open>getline(cin, input)\<close>: at the end of the input the line is empty.\<close>

definition getline :: "('n, string) tool" where
  "getline =
     bindM (getM tl_in) (\<lambda>cs.
     seqM (set_in (drop 1 (dropWhile (\<lambda>c. c \<noteq> newline) cs)))
          (returnM (takeWhile (\<lambda>c. c \<noteq> newline) cs)))"

text \<open>\<open>char input; cin.get(input)\<close>: at the end of the input the variable stays uninitialised.\<close>

definition get_char :: "('n, char) tool" where
  "get_char =
     bindM (getM tl_in) (\<lambda>cs. case cs of [] \<Rightarrow> throwM Misbehaves | c # cs \<Rightarrow> seqM (set_in cs) (returnM c))"

text \<open>\<open>cin.get()\<close> for its effect only\<close>

definition skip_char :: "('n, unit) tool" where
  "skip_char = bindM (getM tl_in) (\<lambda>cs. set_in (drop 1 cs))"

text \<open>\<open>std::stoi\<close>; what it throws nobody handles.\<close>

definition stoi :: "string \<Rightarrow> ('n, int) tool" where
  "stoi cs =
     (case scan_number 10 cs of
        None \<Rightarrow> throwM Terminated
      | Some (k, _) \<Rightarrow> if - 2147483648 \<le> k \<and> k \<le> 2147483647 then returnM k else throwM Terminated)"

text \<open>\<open>v[stoi(input) - 1]\<close>\<close>

definition chosen :: "string list \<Rightarrow> string \<Rightarrow> ('n, string) tool" where
  "chosen v input =
     bindM (stoi input) (\<lambda>k. if 1 \<le> k \<and> nat (k - 1) < length v then returnM (v ! nat (k - 1)) else throwM Misbehaves)"

section \<open>Choosing devices\<close>

definition enumerate_slices :: "'n net_ops \<Rightarrow> ('n \<Rightarrow> 'n) \<Rightarrow> ('n, string list) tool" where
  "enumerate_slices N shutdown =
     bindM (call (get_numDevices N shutdown)) (\<lambda>(_, found).
     let numDevices = (case found of None \<Rightarrow> 0 | Some n \<Rightarrow> n) in
     seqM (show_report (Devices_found numDevices))
     (if numDevices < 1 then returnM []
      else bindM (call get_device_IPs) (\<lambda>(_, ips).
           if length ips \<noteq> numDevices then throwM Misbehaves
           else seqM (foreachM [0..<numDevices] (\<lambda>ct. show_report (Device_address (ct + 1) (ips ! ct))))
                  (returnM ips))))"

definition get_device_id :: "'n net_ops \<Rightarrow> ('n \<Rightarrow> 'n) \<Rightarrow> ('n, string) tool" where
  "get_device_id N shutdown =
     bindM (enumerate_slices N shutdown) (\<lambda>ip_addrs.
     case ip_addrs of
       [] \<Rightarrow> returnM []
     | first # _ \<Rightarrow>
         if length ip_addrs > 1
         then bindM getline (\<lambda>input. if input \<noteq> [] then chosen ip_addrs input else returnM first)
         else returnM first)"

definition get_device_ids :: "'n net_ops \<Rightarrow> ('n \<Rightarrow> 'n) \<Rightarrow> ('n, string list) tool" where
  "get_device_ids N shutdown =
     bindM (enumerate_slices N shutdown) (\<lambda>ip_addrs.
     case ip_addrs of
       [] \<Rightarrow> returnM []
     | first # others \<Rightarrow>
         if length ip_addrs > 1
         then bindM getline (\<lambda>input.
              if input = [] then returnM [first]
              else if input = ''all'' then returnM (first # others)
              else bindM (chosen ip_addrs input) (\<lambda>ip. returnM [ip]))
         else returnM [first])"

text \<open>\<open>std::this_thread::sleep_for\<close>: the receive thread only exists while the interface is alive.\<close>

definition sleep_for :: "'n net_ops \<Rightarrow> nat \<Rightarrow> ('n, unit) api" where
  "sleep_for N d =
     bindM (getM interface_alive) (\<lambda>alive.
       if alive then bindM (sleep_ms N d) (\<lambda>_. returnM ())
       else bindM (net_do (net_sleep N d)) (\<lambda>_. returnM ()))"

end
