(* ===== verification/Tools.thy ===== *)
theory Tools
  imports Console
begin

text \<open>
  The command line utilities (\<open>src/src/util\<close>): writing firmware (\<open>program.cpp\<close>), the settings in
  the EPROM (\<open>flash.cpp\<close>), resetting (\<open>reset.cpp\<close>) and the test of the analog data path
  (\<open>dac_bist.cpp\<close>). The vendored option parser is a parameter: a program is given what it found,
  for each option its argument or \<open>None\<close>.
\<close>

section \<open>Writing firmware\<close>

record program_options =
  po_error :: bool
  po_help :: bool
  po_argc :: nat
  po_bitFile :: "string option"
  po_ipAddr :: "string option"
  po_progMode :: "string option"

datatype PROGRAM_TARGET = TARGET_DRAM | TARGET_EPROM | TARGET_EPROM_BACKUP

definition get_target :: "('n, PROGRAM_TARGET) tool" where
  "get_target =
     bindM get_char (\<lambda>input.
       returnM (if input = CHR ''2'' then TARGET_EPROM
                else if input = CHR ''3'' then TARGET_EPROM_BACKUP else TARGET_DRAM))"

definition target_map :: "(string \<times> PROGRAM_TARGET) list" where
  "target_map = [(''DRAM'', TARGET_DRAM), (''EPROM'', TARGET_EPROM), (''BACKUP'', TARGET_EPROM_BACKUP)]"

fun target_place :: "PROGRAM_TARGET \<Rightarrow> u32 \<times> APS2_BITFILE_STORAGE_MEDIA" where
  "target_place TARGET_EPROM = (EPROM_USER_IMAGE_ADDR, BITFILE_MEDIA_EPROM)"
| "target_place TARGET_EPROM_BACKUP = (EPROM_BASE_IMAGE_ADDR, BITFILE_MEDIA_EPROM)"
| "target_place TARGET_DRAM = (0, BITFILE_MEDIA_DRAM)"

text \<open>
  Writing on another thread while this one polls for progress. No code ever sets the task to
  \<open>DONE\<close>, so the polling loop only ends when the thread has: \<open>break\<close> for success, the error exit
  for everything else. Polling changes nothing.
\<close>

definition write_and_poll :: "'n net_ops \<Rightarrow> host_ops \<Rightarrow> string \<Rightarrow> string \<Rightarrow> u32 \<Rightarrow> APS2_BITFILE_STORAGE_MEDIA
    \<Rightarrow> ('n \<Rightarrow> 'n) \<Rightarrow> ('n, unit) tool" where
  "write_and_poll N H ip_addr bitfile target_addr target_media shutdown =
     bindM (call (lib_write_bitfile N H ip_addr bitfile target_addr target_media)) (\<lambda>status.
     if status = APS2_OK then returnM ()
     else seqM (show_report (Writing_failed (get_error_msg status)))
          (seqM (ignored (disconnect_APS N shutdown ip_addr)) (throwM (Exit (- 1)))))"

text \<open>Starting the new firmware from DRAM: the module drops the connection and comes back.\<close>

definition boot_from_DRAM :: "'n net_ops \<Rightarrow> ('n \<Rightarrow> 'n) \<Rightarrow> string \<Rightarrow> u32 \<Rightarrow> ('n, unit) tool" where
  "boot_from_DRAM N shutdown ip_addr target_addr =
     seqM (ignored (lib_program_bitfile N ip_addr target_addr))
     (seqM (ignored (disconnect_APS N shutdown ip_addr))
     (seqM (foreachM [0..<5] (\<lambda>_. call (sleep_for N 1000)))
     (bindM (call (connect_APS N shutdown ip_addr)) (\<lambda>status.
      if status \<noteq> APS2_OK
      then seqM (ignored (disconnect_APS N shutdown ip_addr)) (throwM (Exit (- 1)))
      else bindM (call (lib_firmware_version N ip_addr False False False True)) (\<lambda>(_, _, _, _, version).
           show_report (Version version))))))"

definition program_one :: "'n net_ops \<Rightarrow> host_ops \<Rightarrow> ('n \<Rightarrow> 'n) \<Rightarrow> string \<Rightarrow> PROGRAM_TARGET \<Rightarrow> string
    \<Rightarrow> ('n, unit) tool" where
  "program_one N H shutdown bitfile target ip_addr =
     (let (target_addr, target_media) = target_place target in
      seqM (ignored (connect_APS N shutdown ip_addr))
      (seqM (call (clear_bitfile_writing_progress ip_addr))
      (seqM (write_and_poll N H ip_addr bitfile target_addr target_media shutdown)
      (seqM (whenM (target = TARGET_DRAM) (boot_from_DRAM N shutdown ip_addr target_addr))
            (ignored (disconnect_APS N shutdown ip_addr))))))"

definition program_main :: "'n net_ops \<Rightarrow> host_ops \<Rightarrow> ('n \<Rightarrow> 'n) \<Rightarrow> program_options \<Rightarrow> ('n, int) tool" where
  "program_main N H shutdown opts =
     (if po_error opts then throwM (Exit (- 1))
      else if po_help opts \<or> po_argc opts = 0 then throwM (Exit 0)
      else case po_bitFile opts of
        None \<Rightarrow> throwM (Exit (- 1))
      | Some bitfile \<Rightarrow>
          bindM (case po_ipAddr opts of Some ip \<Rightarrow> returnM [ip] | None \<Rightarrow> get_device_ids N shutdown) (\<lambda>ip_addrs.
          if ip_addrs = [] then throwM (Exit 0)
          else bindM (case po_progMode opts of
                 Some mode \<Rightarrow> (case map_of target_map mode of
                    Some target \<Rightarrow> returnM target | None \<Rightarrow> throwM (Exit (- 1)))
               | None \<Rightarrow> get_target) (\<lambda>target.
               seqM (foreachM ip_addrs (program_one N H shutdown bitfile target)) (returnM 0))))"

section \<open>Resetting\<close>

record reset_options =
  ro_error :: bool
  ro_help :: bool
  ro_ipAddr :: "string option"
  ro_resetMode :: "string option"

definition get_reset_mode :: "('n, APS2_RESET_MODE) tool" where
  "get_reset_mode =
     bindM get_char (\<lambda>input.
       returnM (if input = CHR ''2'' then RECONFIG_EPROM_BASE
                else if input = CHR ''3'' then RESET_TCP else RECONFIG_EPROM_USER))"

definition mode_map :: "(string \<times> APS2_RESET_MODE) list" where
  "mode_map = [(''USER_IMAGE'', RECONFIG_EPROM_USER), (''BASE_IMAGE'', RECONFIG_EPROM_BASE), (''TCP'', RESET_TCP)]"

definition reset_main :: "'n net_ops \<Rightarrow> ('n \<Rightarrow> 'n) \<Rightarrow> reset_options \<Rightarrow> ('n, int) tool" where
  "reset_main N shutdown opts =
     (if ro_error opts then throwM (Exit (- 1))
      else if ro_help opts then throwM (Exit 0)
      else
        bindM (case ro_ipAddr opts of Some ip \<Rightarrow> returnM ip | None \<Rightarrow> get_device_id N shutdown) (\<lambda>deviceSerial.
        if deviceSerial = [] then throwM (Exit 0)
        else bindM (case ro_resetMode opts of
               Some text \<Rightarrow> (case map_of mode_map text of
                  Some mode \<Rightarrow> returnM mode | None \<Rightarrow> throwM (Exit (- 1)))
             | None \<Rightarrow> get_reset_mode) (\<lambda>mode.
             seqM (whenM (mode \<noteq> RESET_TCP) (ignored (connect_APS N shutdown deviceSerial)))
             (seqM (ignored (api_reset N shutdown deviceSerial mode))
             (seqM (whenM (mode \<noteq> RESET_TCP) (ignored (disconnect_APS N shutdown deviceSerial)))
                   (returnM 0))))))"

section \<open>Settings in the EPROM\<close>

record flash_options =
  fo_error :: bool
  fo_help :: bool
  fo_argc :: nat
  fo_ip :: bool
  fo_mac :: bool
  fo_dhcp :: bool
  fo_spi :: bool
  fo_reset :: bool

text \<open>
  \<open>mystream >> std::hex >> mac_addr\<close>: as \<open>strtoull\<close> reads it, 0 if there is no number, the largest
  value if it is too large. It stops at the first character that is no hexadecimal digit.
\<close>

definition scan_hex64 :: "string \<Rightarrow> u64" where
  "scan_hex64 cs =
     (case scan_number 16 cs of None \<Rightarrow> 0
      | Some (k, _) \<Rightarrow> if 2 ^ 64 \<le> \<bar>k\<bar> then - 1 else word_of_int k)"

definition get_mac_input :: "('n, u64) tool" where
  "get_mac_input =
     bindM getline (\<lambda>input.
       if input = [] then returnM 0
       else seqM (show_report (Mac_address (scan_hex64 input))) (returnM (scan_hex64 input)))"

text \<open>The answer is uninitialised when the line has only white space.\<close>

definition get_yes_no_input :: "('n, bool) tool" where
  "get_yes_no_input =
     bindM getline (\<lambda>input.
       if input = [] then returnM False
       else case skip_spaces input of
         [] \<Rightarrow> throwM Misbehaves
       | response # _ \<Rightarrow> returnM (response = CHR ''y'' \<or> response = CHR ''Y''))"

definition flash_show :: "'n net_ops \<Rightarrow> host_ops \<Rightarrow> string \<Rightarrow> ('n, unit) tool" where
  "flash_show N H deviceSerial =
     bindM (call (lib_get_mac_addr N deviceSerial)) (\<lambda>mac.
     seqM (show_report (Mac_address mac))
     (bindM (call (lib_get_ip_addr N H deviceSerial)) (\<lambda>(_, ip).
      seqM (show_report (Unterminated_address ip))
      (bindM (call (lib_get_dhcp_enable N deviceSerial)) (\<lambda>(_, dhcp). show_report (Dhcp dhcp))))))"

text \<open>The words go into an array of 36, of which 32 are shown.\<close>

definition flash_SPI :: "'n net_ops \<Rightarrow> bool \<Rightarrow> string \<Rightarrow> ('n, unit) tool" where
  "flash_SPI N interactiveMode deviceSerial =
     bindM (call (lib_read_flash N deviceSerial 0 32)) (\<lambda>(_, setup).
     if setup \<noteq> None \<and> 36 < length (the setup) then throwM Misbehaves
     else seqM (show_report (Flash_words setup))
     (bindM (if interactiveMode then get_yes_no_input else returnM True) (\<lambda>runSPI.
      whenM runSPI (ignored (lib_write_SPI_setup N deviceSerial)))))"

definition flash_main :: "'n net_ops \<Rightarrow> host_ops \<Rightarrow> ('n \<Rightarrow> 'n) \<Rightarrow> flash_options \<Rightarrow> ('n, int) tool" where
  "flash_main N H shutdown opts =
     (if fo_error opts then throwM (Exit (- 1))
      else if fo_help opts then throwM (Exit 0)
      else let interactiveMode = (fo_argc opts = 0) in
        bindM (get_device_id N shutdown) (\<lambda>deviceSerial.
        if deviceSerial = [] then throwM (Exit 0)
        else
          seqM (ignored (connect_APS N shutdown deviceSerial))
          (seqM (whenM (fo_mac opts \<or> fo_ip opts \<or> interactiveMode) (flash_show N H deviceSerial))
          (seqM (whenM (fo_mac opts \<or> interactiveMode)
                  (bindM get_mac_input (\<lambda>mac_addr.
                     whenM (mac_addr \<noteq> 0) (ignored (lib_set_mac_addr N deviceSerial mac_addr)))))
          (seqM (whenM (fo_ip opts \<or> interactiveMode)
                  (bindM getline (\<lambda>ip_addr.
                     whenM (ip_addr \<noteq> []) (ignored (lib_set_ip_addr N H deviceSerial ip_addr)))))
          (seqM (whenM (fo_dhcp opts \<or> interactiveMode)
                  (bindM get_yes_no_input (\<lambda>dhcp_enable.
                     ignored (lib_set_dhcp_enable N deviceSerial (if dhcp_enable then 1 else 0)))))
          (seqM (whenM (fo_spi opts \<or> interactiveMode) (flash_SPI N interactiveMode deviceSerial))
          (seqM (whenM (fo_reset opts \<or> interactiveMode)
                  (bindM get_yes_no_input (\<lambda>reset_requested.
                     whenM reset_requested (ignored (api_reset N shutdown deviceSerial RECONFIG_EPROM_USER)))))
          (seqM (ignored (disconnect_APS N shutdown deviceSerial)) (returnM 0))))))))))"

section \<open>The test of the analog data path\<close>

text \<open>
  The two streams of random draws, a bit and a 14-bit word each, are parameters: \<open>std::bind\<close> copies
  the generator, so each stream starts anew and they do not share draws.
\<close>

definition print_results :: "u32 list \<Rightarrow> ('n, unit) tool" where
  "print_results results =
     show_report (Passes [results ! 2 = results ! 0, results ! 3 = results ! 1,
       results ! 4 = results ! 2, results ! 5 = results ! 3,
       results ! 6 = results ! 4, results ! 7 = results ! 5])"

definition bit_test_vec :: "(nat \<Rightarrow> bool) \<Rightarrow> nat \<Rightarrow> nat \<Rightarrow> i16 list" where
  "bit_test_vec randbit drawn b =
     map (\<lambda>ct. word_of_int ((if randbit (drawn + ct) then 2 ^ b else 0) * (if b = 13 then - 1 else 1)))
       [0..<1000]"

definition word_test_vec :: "(nat \<Rightarrow> i16) \<Rightarrow> nat \<Rightarrow> i16 list" where
  "word_test_vec randWord drawn = map (\<lambda>ct. randWord (drawn + ct)) [0..<2 ^ 17]"

text \<open>\<open>run_DAC_BIST\<close> copies its results over the caller's vector of eight.\<close>

definition test_with :: "'n net_ops \<Rightarrow> host_ops \<Rightarrow> string \<Rightarrow> int \<Rightarrow> i16 list \<Rightarrow> u32 list \<Rightarrow> ('n, u32 list) tool" where
  "test_with N H deviceSerial dac testVec results =
     bindM (call (lib_run_DAC_BIST N H deviceSerial dac testVec)) (\<lambda>(_, tmpResults).
     if length results < length tmpResults then throwM Misbehaves
     else let results' = tmpResults @ drop (length tmpResults) results
          in seqM (print_results results') (returnM results'))"

fun bits_loop :: "'n net_ops \<Rightarrow> host_ops \<Rightarrow> string \<Rightarrow> (nat \<Rightarrow> bool) \<Rightarrow> nat \<Rightarrow> nat list \<Rightarrow> u32 list
    \<Rightarrow> ('n, u32 list) tool" where
  "bits_loop N H deviceSerial randbit dac [] results = returnM results"
| "bits_loop N H deviceSerial randbit dac (b # bs) results =
     bindM (test_with N H deviceSerial (int dac) (bit_test_vec randbit (1000 * (14 * dac + b)) b) results)
       (\<lambda>results'. bits_loop N H deviceSerial randbit dac bs results')"

fun dacs_loop :: "'n net_ops \<Rightarrow> host_ops \<Rightarrow> string \<Rightarrow> (nat \<Rightarrow> bool) \<Rightarrow> (nat \<Rightarrow> i16) \<Rightarrow> nat list \<Rightarrow> u32 list
    \<Rightarrow> ('n, unit) tool" where
  "dacs_loop N H deviceSerial randbit randWord [] results = returnM ()"
| "dacs_loop N H deviceSerial randbit randWord (dac # dacs) results =
     bindM (bits_loop N H deviceSerial randbit dac [0..<14] results) (\<lambda>results1.
     bindM (test_with N H deviceSerial (int dac) (word_test_vec randWord (2 ^ 17 * dac)) results1) (\<lambda>results2.
     dacs_loop N H deviceSerial randbit randWord dacs results2))"

definition dac_bist_main :: "'n net_ops \<Rightarrow> host_ops \<Rightarrow> ('n \<Rightarrow> 'n) \<Rightarrow> (nat \<Rightarrow> bool) \<Rightarrow> (nat \<Rightarrow> i16)
    \<Rightarrow> ('n, int) tool" where
  "dac_bist_main N H shutdown randbit randWord =
     bindM (get_device_id N shutdown) (\<lambda>deviceSerial.
     if deviceSerial = [] then throwM (Exit 0)
     else seqM (ignored (connect_APS N shutdown deviceSerial))
          (seqM (ignored (lib_stop N deviceSerial))
          (seqM (ignored (init_APS N deviceSerial 0))
          (seqM (dacs_loop N H deviceSerial randbit randWord [0, 1] (replicate 8 0))
          (seqM (ignored (disconnect_APS N shutdown deviceSerial)) (returnM 0))))))"

end
