(* ===== verification/Players.thy ===== *)
theory Players
  imports Console
begin

text \<open>
  The example programs (\<open>src/src/C++\<close>): listing the modules (\<open>enumerate.cpp\<close>) and playing waveforms
  (\<open>play_waveform.cpp\<close>) or a sequence file (\<open>play_sequence.cpp\<close>). The vendored option parser and
  \<open>atof\<close> are parameters: a program is given the options found and their numeric arguments.
\<close>

section \<open>Listing the modules\<close>

text \<open>Days, hours, minutes and seconds, as \<open>std::chrono\<close> computes them on \<open>float\<close>.\<close>

definition f32_sub :: "f32 \<Rightarrow> f32 \<Rightarrow> f32" where
  "f32_sub a b = f32_enc (fp_add (f32_dec a) (fp_mul (fp_of_rat (- 1)) (f32_dec b)))"

definition take_unit :: "int \<Rightarrow> f32 \<Rightarrow> (int \<times> f32) option" where
  "take_unit unit_seconds seconds =
     (case to_int32 (f32_dec (f32_div seconds (f32_of_int unit_seconds))) of
        None \<Rightarrow> None
      | Some n \<Rightarrow> Some (n, f32_sub seconds (f32_mul (f32_of_int n) (f32_of_int unit_seconds))))"

definition uptime_pretty :: "f64 \<Rightarrow> (int \<times> int \<times> int \<times> f32) option" where
  "uptime_pretty uptime =
     (case take_unit 86400 (f32_of_f64 uptime) of None \<Rightarrow> None
      | Some (days, rest) \<Rightarrow> (case take_unit 3600 rest of None \<Rightarrow> None
      | Some (hours, rest) \<Rightarrow> (case take_unit 60 rest of None \<Rightarrow> None
      | Some (minutes, rest) \<Rightarrow> Some (days, hours, minutes, rest))))"

definition enumerate_one :: "'n net_ops \<Rightarrow> ('n \<Rightarrow> 'n) \<Rightarrow> string \<Rightarrow> ('n, unit) tool" where
  "enumerate_one N shutdown serial =
     bindM (call (connect_APS N shutdown serial)) (\<lambda>status.
     if status \<noteq> APS2_OK then show_report (Connect_failed serial)
     else
       bindM (call (lib_firmware_version N serial False False False True)) (\<lambda>(_, _, _, _, version).
       bindM (call (lib_uptime N serial)) (\<lambda>(_, up).
       let uptime = (case up of None \<Rightarrow> f64_of_int 0 | Some t \<Rightarrow> t) in
       case uptime_pretty uptime of
         None \<Rightarrow> throwM Misbehaves
       | Some parts \<Rightarrow>
           seqM (show_report (Version version))
           (seqM (show_report (Up_since parts))
                 (ignored (disconnect_APS N shutdown serial))))))"

definition enumerate_main :: "'n net_ops \<Rightarrow> ('n \<Rightarrow> 'n) \<Rightarrow> ('n, int) tool" where
  "enumerate_main N shutdown =
     bindM (call (get_numDevices N shutdown)) (\<lambda>(_, found).
     let numDevices = (case found of None \<Rightarrow> 0 | Some n \<Rightarrow> n) in
     seqM (show_report (Devices_found numDevices))
     (if numDevices < 1 then throwM (Exit 0)
      else bindM (call get_device_IPs) (\<lambda>(_, serialBuffer).
           if length serialBuffer \<noteq> numDevices then throwM Misbehaves
           else seqM (foreachM serialBuffer (enumerate_one N shutdown)) (returnM 0))))"

section \<open>Playing\<close>

text \<open>
  The loop on key strokes; at the end of the input \<open>cin.get()\<close> gives the same value again and again,
  which is neither key, so the loop never ends.
\<close>

fun trigger_keys :: "'n net_ops \<Rightarrow> string \<Rightarrow> string \<Rightarrow> ('n, unit) tool" where
  "trigger_keys N deviceSerial [] = throwM Runs_on"
| "trigger_keys N deviceSerial (keyStroke # keys) =
     seqM (set_in keys)
       (if keyStroke = CHR ''t''
        then seqM (ignored (lib_trigger N deviceSerial)) (trigger_keys N deviceSerial keys)
        else if keyStroke = CHR ''q'' then returnM ()
        else trigger_keys N deviceSerial keys)"

text \<open>A cast of a number that no enumerator of \<open>APS2_TRIGGER_SOURCE\<close> has gives an unspecified value.\<close>

definition trigger_source_of :: "int option \<Rightarrow> ('n, APS2_TRIGGER_SOURCE) tool" where
  "trigger_source_of mode =
     (case mode of
        None \<Rightarrow> returnM INTERNAL
      | Some k \<Rightarrow> if k = 0 then returnM EXTERNAL else if k = 1 then returnM INTERNAL
          else if k = 2 then returnM SOFTWARE else if k = 3 then returnM SYSTEM else throwM Misbehaves)"

text \<open>\<open>10e-3\<close>\<close>

definition default_interval :: f64 where "default_interval = f64_of_rat (1 / 100)"

text \<open>
  What both players do between connecting and disconnecting; \<open>load\<close> puts the data on the module.
\<close>

definition play :: "'n net_ops \<Rightarrow> ('n \<Rightarrow> 'n) \<Rightarrow> string \<Rightarrow> APS2_TRIGGER_SOURCE \<Rightarrow> f64 \<Rightarrow> APS2_RUN_MODE
    \<Rightarrow> ('n, unit) tool \<Rightarrow> ('n, int) tool" where
  "play N shutdown deviceSerial triggerSource trigInterval mode load_data =
     seqM (ignored (connect_APS N shutdown deviceSerial))
     (bindM (call (lib_uptime N deviceSerial)) (\<lambda>(_, uptime).
      seqM (show_report (Uptime uptime))
      (seqM (ignored (init_APS N deviceSerial 1))
      (seqM load_data
      (seqM (ignored (lib_set_trigger_source N deviceSerial triggerSource))
      (seqM (ignored (lib_set_trigger_interval N deviceSerial trigInterval))
      (seqM (ignored (lib_set_run_mode N deviceSerial mode))
      (seqM (ignored (lib_run N deviceSerial))
      (seqM (if triggerSource = SOFTWARE
             then bindM (getM tl_in) (trigger_keys N deviceSerial)
             else skip_char)
      (seqM (ignored (lib_stop N deviceSerial))
      (seqM (ignored (disconnect_APS N shutdown deviceSerial))
            (returnM 0))))))))))))"

record play_options =
  yo_error :: bool
  yo_help :: bool
  yo_argc :: nat
  yo_wfA :: "string option"
  yo_wfB :: "string option"
  yo_seqFile :: "string option"
  yo_trigMode :: "int option" \<comment> \<open>\<open>atoi\<close> of the argument\<close>
  yo_trigInterval :: "f64 option" \<comment> \<open>\<open>atof\<close> of the argument\<close>

text \<open>
  \<open>std::copy\<close> from an \<open>istream_iterator<int16_t>\<close>: numbers until the first text that is none or is
  out of range; a file that cannot be opened has none.
\<close>

function read_samples :: "string \<Rightarrow> i16 list" where
  "read_samples cs =
     (case scan_number 10 cs of
        None \<Rightarrow> []
      | Some (k, rest) \<Rightarrow>
          if - 32768 \<le> k \<and> k \<le> 32767 then word_of_int k # read_samples rest else [])"
  by pat_completeness auto
termination by (relation "measure length") (auto dest: scan_number_shorter)

declare read_samples.simps [simp del]

definition samples_of_file :: "host_ops \<Rightarrow> string option \<Rightarrow> ('n, i16 list) tool" where
  "samples_of_file H file_name =
     (case file_name of
        None \<Rightarrow> returnM []
      | Some name \<Rightarrow>
          let smps = (case host_file H name of None \<Rightarrow> []
                    | Some bytes \<Rightarrow> read_samples (map (\<lambda>b. char_of (unat b)) bytes))
          in seqM (show_report (Samples_loaded (length smps))) (returnM smps))"

definition pad_to :: "nat \<Rightarrow> i16 list \<Rightarrow> i16 list" where
  "pad_to n smps = take n smps @ replicate (n - length smps) 0"

definition play_waveform_main :: "'n net_ops \<Rightarrow> host_ops \<Rightarrow> ('n \<Rightarrow> 'n) \<Rightarrow> play_options \<Rightarrow> ('n, int) tool" where
  "play_waveform_main N H shutdown opts =
     (if yo_error opts then throwM (Exit (- 1))
      else if yo_help opts \<or> yo_argc opts = 0 then throwM (Exit 0)
      else
        bindM (trigger_source_of (yo_trigMode opts)) (\<lambda>triggerSource.
        bindM (samples_of_file H (yo_wfA opts)) (\<lambda>wfA.
        bindM (samples_of_file H (yo_wfB opts)) (\<lambda>wfB.
        let longestLength = max (length wfA) (length wfB);
            trigInterval = (case yo_trigInterval opts of None \<Rightarrow> default_interval | Some t \<Rightarrow> t) in
        bindM (get_device_id N shutdown) (\<lambda>deviceSerial.
        if deviceSerial = [] then throwM (Exit 0)
        else play N shutdown deviceSerial triggerSource trigInterval TRIG_WAVEFORM
          (seqM (ignored (lib_set_waveform_int N deviceSerial 0 (pad_to longestLength wfA)))
                (ignored (lib_set_waveform_int N deviceSerial 1 (pad_to longestLength wfB)))))))))"

definition play_sequence_main :: "'n net_ops \<Rightarrow> host_ops \<Rightarrow> ('n \<Rightarrow> 'n) \<Rightarrow> play_options \<Rightarrow> ('n, int) tool" where
  "play_sequence_main N H shutdown opts =
     (if yo_error opts then throwM (Exit (- 1))
      else if yo_help opts \<or> yo_argc opts = 0 then throwM (Exit 0)
      else
        bindM (trigger_source_of (yo_trigMode opts)) (\<lambda>triggerSource.
        let trigInterval = (case yo_trigInterval opts of None \<Rightarrow> default_interval | Some t \<Rightarrow> t) in
        case yo_seqFile opts of
          None \<Rightarrow> throwM (Exit (- 1))
        | Some seqFile \<Rightarrow>
            bindM (get_device_id N shutdown) (\<lambda>deviceSerial.
            if deviceSerial = [] then throwM (Exit 0)
            else play N shutdown deviceSerial triggerSource trigInterval RUN_SEQUENCE
              (ignored (lib_load_sequence_file N H deviceSerial seqFile)))))"

end
