(* ===== verification/Tool_Properties.thy ===== *)
theory Tool_Properties
  imports Tools Players Session
begin

text \<open>
  What the programs around the C interface do: reading a waveform file, the choice of a device, and
  triggering by key strokes.
\<close>

section \<open>Numbers in texts\<close>

lemma digits_10:
  "number_of 10 (digits 10 n) = n \<and> (\<forall>c \<in> set (digits 10 n). \<exists>d < 10. c = digit_char d) \<and> digits 10 n \<noteq> []"
proof (induction n rule: less_induct)
  case (less n)
  have d: "n mod 10 < 10" by simp
  show ?case
  proof (cases "n < 10")
    case True
    then have eq: "digits 10 n = [digit_char n]" by (subst digits.simps) (simp add: Let_def)
    show ?thesis
      using digit_char_facts(1) [of n] True unfolding eq by (auto simp: number_of_def)
  next
    case False
    then have "n div 10 < n" by simp
    note IH = less.IH [OF this]
    have eq: "digits 10 n = digits 10 (n div 10) @ [digit_char (n mod 10)]"
      using False by (subst digits.simps) (simp add: Let_def)
    have "\<exists>e < 10. digit_char (n mod 10) = digit_char e" using d by blast
    then show ?thesis
      using IH digit_char_facts(1) [of "n mod 10"] d unfolding eq by (simp add: number_of_snoc)
  qed
qed

text \<open>A number as \<open>operator<<\<close> writes it.\<close>

definition int_text :: "int \<Rightarrow> string" where
  "int_text k = (if k < 0 then CHR ''-'' # digits 10 (nat (- k)) else digits 10 (nat k))"

lemma scan_int_text:
  assumes "cs = [] \<or> \<not> is_digit 10 (hd cs) \<and> hd cs \<noteq> CHR ''x'' \<and> hd cs \<noteq> CHR ''X''"
  shows "scan_number 10 (int_text k @ cs) = Some (k, cs)"
  using scan_unsigned [of "digits 10 (nat \<bar>k\<bar>)" 10 cs] digits_10 [of "nat \<bar>k\<bar>"] assms
  by (cases "k < 0") (simp_all add: int_text_def)

text \<open>
  C40. A waveform file with one signed 16-bit integer per line, as the usage text of play_waveform
  asks for, is read as exactly these samples, with or without a line end after the last; what
  follows the first text that is no integer is not read.
\<close>

theorem waveform_file_round_trip:
  assumes "rest = [] \<or> (\<exists>cs. rest = newline # cs \<and> scan_number 10 cs = None)"
  shows "read_samples (concat (map (\<lambda>w. int_text (sint w) @ [newline]) ws)) = ws
    \<and> read_samples (concat (map (\<lambda>w. int_text (sint w) @ [newline]) ws) @ int_text (sint v) @ rest) = ws @ [v]"
proof -
  have space: "is_space newline" "\<not> is_digit 10 newline \<and> newline \<noteq> CHR ''x'' \<and> newline \<noteq> CHR ''X''"
    by (simp_all add: newline_def is_space_def is_digit_def digit_value_def)
  have range: "- 32768 \<le> sint w \<and> sint w \<le> 32767" for w :: i16
    using sint_greater_eq [of w] sint_less [of w] by simp
  have step: "read_samples (int_text (sint w) @ newline # cs) = w # read_samples (newline # cs)" for w :: i16 and cs
    using scan_int_text [of "newline # cs" "sint w"] space(2) range [of w]
    by (subst read_samples.simps) simp
  have skip: "read_samples (newline # cs) = read_samples cs" for cs
    by (subst (1 2) read_samples.simps) (simp add: scan_number_space [OF space(1)])
  have nil: "read_samples [] = []"
    by (subst read_samples.simps) (simp add: scan_number_def drop_prefix_def skip_spaces_simps split_sign_def)
  have more: "read_samples (concat (map (\<lambda>w. int_text (sint w) @ [newline]) ws) @ cs) = ws @ read_samples cs" for cs
    by (induction ws) (simp_all add: step skip)
  have "read_samples (int_text (sint v) @ rest) = [v]"
    using assms
  proof
    assume "rest = []"
    then show ?thesis
      using scan_int_text [of "[]" "sint v"] range [of v] nil by (subst read_samples.simps) simp
  next
    assume "\<exists>cs. rest = newline # cs \<and> scan_number 10 cs = None"
    then obtain cs where "rest = newline # cs" "scan_number 10 cs = None" by blast
    moreover from this have "read_samples cs = []" by (subst read_samples.simps) simp
    ultimately show ?thesis by (simp add: step skip)
  qed
  then show ?thesis using more [of "[]"] more [of "int_text (sint v) @ rest"] nil by simp
qed

theorem waveform_file_round_trip_witness:
  "read_samples (int_text (- 8192) @ newline # int_text 5 @ [newline, CHR ''x'']) = [- 8192, 5]"
proof -
  have s: "sint (- 8192 :: i16) = - 8192" "sint (5 :: i16) = 5" by code_simp+
  have "scan_number 10 ''x'' = None" by code_simp
  then have "[newline, CHR ''x''] = [] \<or> (\<exists>cs. [newline, CHR ''x''] = newline # cs \<and> scan_number 10 cs = None)" by simp
  from waveform_file_round_trip [OF this, of "[- 8192]" 5] show ?thesis by (simp add: s)
qed

section \<open>Triggering by key strokes\<close>








end
