(* ===== verification/Bitfiles.thy ===== *)
theory Bitfiles
  imports Storage
begin

text \<open>
  \<open>write_bitfile\<close> of \<open>APS2.cpp\<close> on the configuration SDRAM and the EPROM: the interface the two media
  provide, and that under it a written bitfile is stored and passes its validation.
\<close>

section \<open>Bitfiles\<close>

text \<open>
  The interface of the two media: writing whole units of words and reading at most 256 of them back.
  Under it writing a bitfile stores its words and the validation accepts them.
\<close>

locale storage_medium =
  fixes N :: "'n net_ops" and media :: APS2_BITFILE_STORAGE_MEDIA
    and S :: "memory \<Rightarrow> 'n st \<Rightarrow> bool"
    and fits :: "u32 \<Rightarrow> nat \<Rightarrow> bool"
    and written :: "memory \<Rightarrow> u32 \<Rightarrow> u32 list \<Rightarrow> memory"
  assumes put_law: "fits a (length ws) \<Longrightarrow> 4 * length ws mod media_alignment media = 0 \<Longrightarrow>
      triple S c (write_media N media a ws) (Inr ws) (written c a ws)"
    and get_law: "fits a n \<Longrightarrow> i + k \<le> n \<Longrightarrow> k \<le> 256 \<Longrightarrow>
      triple S c (read_media N media (a + 4 * of_nat i) (of_nat k)) (Inr (load c (a + 4 * of_nat i) k)) c"
    and kept_law: "fits a (length ws) \<Longrightarrow> load (written c a ws) a (length ws) = ws"
    and task_law: "triple S c (set_task x) (Inr ()) c"
    and progress_law: "triple S c (set_progress p) (Inr ()) c"
    and fits_range: "fits a n \<Longrightarrow> unat a + 4 * n < 2 ^ 32"
begin

lemma validate_accepts:
  assumes fit: "fits a (length ws)" and c: "load c a (length ws) = ws"
  shows "i \<le> length ws \<Longrightarrow> length ws - i < fuel \<Longrightarrow>
    triple S c (validate_loop N media a (a + 4 * of_nat (length ws)) ws fuel (a + 4 * of_nat i)) (Inr ()) c"
proof (induction fuel arbitrary: i)
  case (Suc fuel)
  let ?n = "length ws" and ?addr = "a + 4 * of_nat i :: u32" and ?stop = "a + 4 * of_nat (length ws) :: u32"
  define k where "k = min 256 (?n - i)"
  have at: "unat (a + 4 * of_nat j) = unat a + 4 * j" if "j \<le> ?n" for j
  proof -
    have "a + 4 * of_nat j = of_nat (unat a + 4 * j)" by simp
    moreover have "unat a + 4 * j < 2 ^ 32" using fits_range [OF fit] that by simp
    ultimately show ?thesis by (simp only: unat_of_nat) (simp add: take_bit_nat_eq_self)
  qed
  have le: "?addr \<le> ?stop" using at [of i] at [of ?n] Suc.prems(1) by (simp add: word_le_nat_alt)
  have left: "unat (?stop - ?addr) = 4 * (?n - i)"
    using unat_sub [OF le] at [of i] at [of ?n] Suc.prems(1) by simp
  have base: "unat (?addr - a) div 4 = i"
    using unat_sub [of a ?addr] at [of i] Suc.prems(1) by (simp add: word_le_nat_alt)
  have "(0x400 \<le> ?stop - ?addr) = (256 \<le> ?n - i)" unfolding word_le_nat_alt left by simp
  moreover have "unat ((?stop - ?addr) div 4) = ?n - i" unfolding unat_div left by simp
  ultimately have len: "(if 0x400 \<le> ?stop - ?addr then 256 else unat ((?stop - ?addr) div 4)) = k"
    unfolding k_def min_def by simp
  have ik: "i + k \<le> ?n" "k \<le> 256" using Suc.prems(1) by (auto simp: k_def)
  have addr': "?addr + 4 * of_nat k = a + 4 * of_nat (i + k)" by (simp add: algebra_simps)
  have "take k (drop i ws) = load c ?addr k"
    using load_part [OF ik(1), of c a] c by simp
  then have "check_words (load c ?addr k) ws i 0 k = Inr ()"
    using validation_compares_all [of 0 k "load c ?addr k" i ws] ik by simp
  then have check: "triple S c (liftE (check_words (load c ?addr k) ws i 0 k)) (Inr ()) c"
    by (simp add: triple_liftE)
  have more: "triple S c (if ?addr + 4 * of_nat k < ?stop
      then validate_loop N media a ?stop ws fuel (?addr + 4 * of_nat k) else returnM ()) (Inr ()) c"
  proof (cases "i + k < ?n")
    case True
    then have "0 < k" by (auto simp: k_def)
    then have "triple S c (validate_loop N media a ?stop ws fuel (?addr + 4 * of_nat k)) (Inr ()) c"
      unfolding addr' using Suc.prems(2) ik True by (intro Suc.IH) simp_all
    then show ?thesis by (auto intro: triple_returnM)
  next
    case False
    then have "i + k = ?n" using ik by simp
    then have "\<not> ?addr + 4 * of_nat k < ?stop" unfolding addr' by simp
    then show ?thesis by (simp add: triple_returnM)
  qed
  show ?case
    unfolding validate_loop.simps Let_def len base
    by (intro triple_bindM [OF get_law [OF fit ik]] triple_seqM [OF check]
        triple_seqM [OF progress_law] more)
qed simp

lemma write_bitfile_law:
  assumes "ws = bitfile_words (media_alignment media) bytes" "fits a (length ws)"
    and "4 * length ws mod media_alignment media = 0"
  shows "triple S c (write_bitfile N (Some bytes) a media) (Inr ()) (written c a ws)"
proof -
  have "triple S (written c a ws) (validate_loop N media a (a + 4 * of_nat (length ws)) ws
      (length ws + 1) (a + 4 * of_nat 0)) (Inr ()) (written c a ws)"
    by (rule validate_accepts [OF assms(2) kept_law [OF assms(2)]]) simp_all
  then have valid: "triple S (written c a ws) (validate_loop N media a (a + 4 * of_nat (length ws)) ws
      (length ws + 1) a) (Inr ()) (written c a ws)" by simp
  show ?thesis
    unfolding write_bitfile_def option.case assms(1) [symmetric]
    by (intro triple_bindM [OF put_law [OF assms(2,3)]] triple_seqM [OF task_law]
        triple_seqM [OF progress_law] valid)
qed

end

definition dram_fits :: "u32 set \<Rightarrow> u32 \<Rightarrow> nat \<Rightarrow> bool" where
  "dram_fits R a n \<longleftrightarrow> a AND 0x7 = 0 \<and> words_at a n \<subseteq> R \<and> unat a + 4 * n < 2 ^ 32"

lemma unat_chunk: "k \<le> 256 \<Longrightarrow> unat (of_nat k :: u32) = k"
  by (simp add: unat_of_nat take_bit_nat_eq_self)

interpretation dram_medium: storage_medium N BITFILE_MEDIA_DRAM "dram N sk R D" "dram_fits R" store
  for N sk R D
proof
  fix a c n i k and ws :: "u32 list"
  show "triple (dram N sk R D) c (write_media N BITFILE_MEDIA_DRAM a ws) (Inr ws) (store c a ws)"
    if "dram_fits R a (length ws)" "4 * length ws mod media_alignment BITFILE_MEDIA_DRAM = 0"
  proof -
    have "even (length ws)" using that(2) by simp presburger
    then show ?thesis
      using that(1) triple_seqM [OF triple_write_dram triple_returnM] by (auto simp: dram_fits_def)
  qed
  show "triple (dram N sk R D) c (read_media N BITFILE_MEDIA_DRAM (a + 4 * of_nat i) (of_nat k))
      (Inr (load c (a + 4 * of_nat i) k)) c"
    if "dram_fits R a n" "i + k \<le> n" "k \<le> 256"
    using triple_read_dram [of "of_nat k" "a + 4 * of_nat i" R N sk D c] words_at_part [of a n R i k] that
    by (simp add: dram_fits_def unat_chunk)
  show "load (store c a ws) a (length ws) = ws" if "dram_fits R a (length ws)"
    using that by (intro load_store) (simp add: dram_fits_def)
qed (simp_all add: triple_notes dram_fits_def)

interpretation eprom_medium: storage_medium N BITFILE_MEDIA_EPROM "eprom N sk R D" "flash_fits R" reflash
  for N sk R D
proof
  fix a c n i k and ws :: "u32 list"
  show "triple (eprom N sk R D) c (write_media N BITFILE_MEDIA_EPROM a ws) (Inr ws) (reflash c a ws)"
    if "flash_fits R a (length ws)" "4 * length ws mod media_alignment BITFILE_MEDIA_EPROM = 0"
  proof -
    have "length ws mod 64 = 0" using that(2) by simp presburger
    then have "pad64 ws = ws" by (simp add: pad64_def)
    then show ?thesis using triple_write_flash [of R a ws] that(1) by simp
  qed
  show "triple (eprom N sk R D) c (read_media N BITFILE_MEDIA_EPROM (a + 4 * of_nat i) (of_nat k))
      (Inr (load c (a + 4 * of_nat i) k)) c"
    if "flash_fits R a n" "i + k \<le> n" "k \<le> 256"
    using triple_read_flash [of "of_nat k" "a + 4 * of_nat i" R N sk D c]
      words_at_part [OF flash_fits_words(1) [OF that(1)] that(2)] that(3) by (simp add: unat_chunk)
  show "unat a + 4 * n < 2 ^ 32" if "flash_fits R a n"
    by (rule flash_fits_words(2) [OF that])
qed (simp_all add: triple_notes load_reflash)

section \<open>A bitfile is stored\<close>

text \<open>A medium, the room a file needs on it, and the words that writing there touches.\<close>

fun medium :: "APS2_BITFILE_STORAGE_MEDIA \<Rightarrow> 'n net_ops \<Rightarrow> nat \<Rightarrow> u32 set \<Rightarrow> 'n device_view
    \<Rightarrow> memory \<Rightarrow> 'n st \<Rightarrow> bool" where
  "medium BITFILE_MEDIA_DRAM N sk R D = dram N sk R D"
| "medium BITFILE_MEDIA_EPROM N sk R D = eprom N sk R D"

fun medium_fits :: "APS2_BITFILE_STORAGE_MEDIA \<Rightarrow> u32 set \<Rightarrow> u32 \<Rightarrow> nat \<Rightarrow> bool" where
  "medium_fits BITFILE_MEDIA_DRAM = dram_fits"
| "medium_fits BITFILE_MEDIA_EPROM = flash_fits"

fun medium_extent :: "APS2_BITFILE_STORAGE_MEDIA \<Rightarrow> nat \<Rightarrow> nat" where
  "medium_extent BITFILE_MEDIA_DRAM n = n"
| "medium_extent BITFILE_MEDIA_EPROM n = page_words * flash_pages n"

text \<open>
  C12. Writing a bitfile to the configuration SDRAM or to the EPROM of a module that keeps the laws of
  the medium succeeds, the validation included. Read back from the medium the bytes are the bytes of
  the file in order, followed by fewer bytes 0xff than the medium's unit, and nothing else
  changes but the rest of the erased pages of the EPROM.
\<close>

theorem bitfile_stored:
  assumes "medium media N sk R D c s" "ws = bitfile_words (media_alignment media) bytes"
    and "medium_fits media R a (length ws)"
  shows "\<exists>t c' k. write_bitfile N (Some bytes) a media s = (Inr (), t) \<and> medium media N sk R D c' t
    \<and> concat (map be32 (load c' a (length ws))) = bytes @ replicate k 0xff \<and> k < media_alignment media
    \<and> (\<forall>b. b \<notin> words_at a (medium_extent media (length ws)) \<longrightarrow> c' b = c b)"
proof -
  obtain k where k: "concat (map be32 ws) = bytes @ replicate k 0xff" "k < media_alignment media"
    "4 * length ws mod media_alignment media = 0"
    using bitfile_bytes_kept [OF refl, of media bytes] assms(2) by auto
  show ?thesis
  proof (cases media)
    case BITFILE_MEDIA_DRAM
    then have fit: "dram_fits R a (length ws)" and s: "dram N sk R D c s" using assms by simp_all
    have "triple (dram N sk R D) c (write_bitfile N (Some bytes) a media) (Inr ()) (store c a ws)"
      using dram_medium.write_bitfile_law [OF _ fit, of bytes] BITFILE_MEDIA_DRAM assms(2) k(3) by simp
    from tripleD [OF this] s obtain t where
      "write_bitfile N (Some bytes) a media s = (Inr (), t)" "dram N sk R D (store c a ws) t" by blast
    then show ?thesis
      using k dram_medium.kept_law [OF fit, of c] BITFILE_MEDIA_DRAM
      by (intro exI [of _ t] exI [of _ "store c a ws"] exI [of _ k]) (simp add: store_outside)
  next
    case BITFILE_MEDIA_EPROM
    then have fit: "flash_fits R a (length ws)" and s: "eprom N sk R D c s" using assms by simp_all
    have "triple (eprom N sk R D) c (write_bitfile N (Some bytes) a media) (Inr ()) (reflash c a ws)"
      using eprom_medium.write_bitfile_law [OF _ fit, of bytes] BITFILE_MEDIA_EPROM assms(2) k(3) by simp
    from tripleD [OF this] s obtain t where
      "write_bitfile N (Some bytes) a media s = (Inr (), t)" "eprom N sk R D (reflash c a ws) t" by blast
    then show ?thesis
      using k load_reflash [OF fit, of c] BITFILE_MEDIA_EPROM
      by (intro exI [of _ t] exI [of _ "reflash c a ws"] exI [of _ k]) (simp add: reflash_outside)
  qed
qed

theorem bitfile_stored_witness:
  "\<exists>t c'. write_bitfile cpld_ops (Some [0xAA, 0x99]) EPROM_USER_IMAGE_ADDR BITFILE_MEDIA_EPROM
      (emu_state (\<lambda>a. 0)) = (Inr (), t)
    \<and> medium BITFILE_MEDIA_EPROM cpld_ops 0 UNIV emu_view c' t \<and> c' 0 = 0
    \<and> (\<exists>k. concat (map be32 (load c' EPROM_USER_IMAGE_ADDR 64)) = [0xAA, 0x99] @ replicate k 0xff)"
proof -
  let ?ws = "bitfile_words (media_alignment BITFILE_MEDIA_EPROM) [0xAA, 0x99]"
  have n: "length (bitfile_words 256 [0xAA, 0x99]) = 64"
    using be32_decode_all [of "[0xAA, 0x99] @ replicate 254 0xff" 64] by (simp add: bitfile_words_def)
  have "medium_fits BITFILE_MEDIA_EPROM UNIV EPROM_USER_IMAGE_ADDR (length ?ws)"
    by (simp add: n flash_fits_def flash_pages_def page_words_def EPROM_USER_IMAGE_ADDR_def)
  from bitfile_stored [OF _ refl this, of cpld_ops 0 emu_view "\<lambda>a. 0" "emu_state (\<lambda>a. 0)"]
  obtain t c' k where t: "write_bitfile cpld_ops (Some [0xAA, 0x99]) EPROM_USER_IMAGE_ADDR BITFILE_MEDIA_EPROM
      (emu_state (\<lambda>a. 0)) = (Inr (), t)" "medium BITFILE_MEDIA_EPROM cpld_ops 0 UNIV emu_view c' t"
    "concat (map be32 (load c' EPROM_USER_IMAGE_ADDR 64)) = [0xAA, 0x99] @ replicate k 0xff"
    "\<And>b. b \<notin> words_at EPROM_USER_IMAGE_ADDR page_words \<Longrightarrow> c' b = 0"
    by (auto simp: n cpld_stage cpld_eprom_laws flash_pages_def page_words_def)
  have "0 \<notin> words_at EPROM_USER_IMAGE_ADDR page_words"
    using words_at_range [of EPROM_USER_IMAGE_ADDR page_words 0]
    by (auto simp: EPROM_USER_IMAGE_ADDR_def page_words_def)
  with t show ?thesis by blast
qed

end
