(* ===== verification/Settings.thy ===== *)
theory Settings
  imports Storage
begin

text \<open>
  The MAC address, the IP address and the DHCP flag in the EPROM (\<open>get_mac_addr\<close>, \<open>set_mac_addr\<close>,
  \<open>get_ip_addr\<close>, ... of \<open>APS2.cpp\<close>): each setter replaces one of them, keeps the other two and
  everything outside their page.
\<close>

section \<open>MAC, IP and DHCP settings\<close>

text \<open>
  The MAC address is recovered from its two words exactly when it has at most 48 bits.
\<close>

lemma mac_words_round_trip:
  "(mac_of_words (macip_words mac ip dhcp ! 0) (macip_words mac ip dhcp ! 1) = mac)
     = (drop_bit 48 mac = 0)
   \<and> macip_words mac ip dhcp ! 2 = ip
   \<and> (macip_words mac ip dhcp ! 3 AND 1 = 1) = dhcp"
proof -
  have m: "(0xffff :: u64) = mask 16" by (simp add: mask_eq_exp_minus_1)
  have w: "mac_of_words (ucast (drop_bit 16 mac)) (push_bit 16 (ucast (mac AND 0xffff))) = take_bit 48 mac"
    unfolding mac_of_words_def m
    by (rule bit_word_eqI) (auto simp: bit_simps dest: bit_imp_le_length)
  have "(take_bit 48 mac = mac) = (drop_bit 48 mac = 0)"
    by (simp add: take_bit_eq_self_iff_drop_bit_eq_0)
  then show ?thesis by (simp add: macip_words_def w)
qed

lemma mac_of_macip_words:
  "mac_of_words (ucast (drop_bit 16 mac)) (push_bit 16 (ucast (mac AND 0xffff))) = take_bit 48 mac"
proof -
  have m: "(0xffff :: u64) = mask 16" by (simp add: mask_eq_exp_minus_1)
  show ?thesis
    unfolding mac_of_words_def m
    by (rule bit_word_eqI) (auto simp: bit_simps dest: bit_imp_le_length)
qed

lemma mac_of_words_short: "take_bit 48 (mac_of_words w0 w1) = mac_of_words w0 w1"
  unfolding mac_of_words_def
  by (rule bit_word_eqI) (auto simp: bit_simps dest: bit_imp_le_length)

text \<open>The three settings a content of the EPROM stands for.\<close>

definition settings :: "memory \<Rightarrow> u64 \<times> u32 \<times> bool" where
  "settings m = (mac_of_words (m EPROM_MACIP_ADDR) (m (EPROM_MACIP_ADDR + 4)),
     m (EPROM_MACIP_ADDR + 8), m (EPROM_MACIP_ADDR + 12) AND 1 = 1)"

definition set_settings :: "memory \<Rightarrow> u64 \<Rightarrow> u32 \<Rightarrow> bool \<Rightarrow> memory" where
  "set_settings m mac ip dhcp = reflash m EPROM_MACIP_ADDR (pad64 (macip_words mac ip dhcp))"

abbreviation settings_page :: "u32 set" where
  "settings_page \<equiv> words_at EPROM_MACIP_ADDR page_words"

lemma settings_fit: "settings_page \<subseteq> R \<Longrightarrow> flash_fits R EPROM_MACIP_ADDR (length (pad64 (macip_words mac ip dhcp)))"
  by (simp add: flash_fits_def flash_pages_def pad64_def macip_words_def EPROM_MACIP_ADDR_def page_words_def)

lemma settings_words:
  assumes "settings_page \<subseteq> R" "i + n \<le> 4"
  shows "words_at (EPROM_MACIP_ADDR + 4 * of_nat i) n \<subseteq> R"
proof -
  have "page_words = i + n + (page_words - (i + n))" using assms(2) by (simp add: page_words_def)
  then show ?thesis
    using assms(1) words_at_append [of EPROM_MACIP_ADDR "i + n" "page_words - (i + n)"]
      words_at_append [of EPROM_MACIP_ADDR i n] by auto
qed

lemma settings_load:
  "load m EPROM_MACIP_ADDR 4 = [w0, w1, w2, w3] \<Longrightarrow>
    settings m = (mac_of_words w0 w1, w2, w3 AND 1 = 1)"
  by (auto simp: settings_def eval_nat_numeral add.assoc)

lemma settings_set: "settings (set_settings m mac ip dhcp) = (take_bit 48 mac, ip, dhcp)"
proof -
  let ?ws = "macip_words mac ip dhcp" and ?m = "set_settings m mac ip dhcp"
  have "load ?m EPROM_MACIP_ADDR (4 + 60) = ?ws @ blank 60"
    using load_reflash [OF settings_fit [OF order_refl], of m mac ip dhcp]
    by (simp add: set_settings_def pad64_def macip_words_def blank_def)
  then have "take 4 (load ?m EPROM_MACIP_ADDR (4 + 60)) = take 4 (?ws @ blank 60)" by (rule arg_cong)
  then have "load ?m EPROM_MACIP_ADDR 4 = ?ws"
    unfolding load_append by (simp add: macip_words_def)
  from settings_load [OF this [unfolded macip_words_def]] show ?thesis
    by (simp add: mac_of_macip_words)
qed

text \<open>Reading the settings.\<close>

lemma triple_vec_at: "i < length xs \<Longrightarrow> xs ! i = x \<Longrightarrow> triple S c (vec_at xs i) (Inr x) c"
  by (auto simp: vec_at_def triple_returnM)

lemma triple_read_setting:
  assumes "settings_page \<subseteq> R" "i + n \<le> 4"
  shows "triple (eprom N sk R D) c (read_flash N (EPROM_MACIP_ADDR + 4 * of_nat i) (of_nat n))
    (Inr (load c (EPROM_MACIP_ADDR + 4 * of_nat i) n)) c"
  using triple_read_flash [of "of_nat n" "EPROM_MACIP_ADDR + 4 * of_nat i" R N sk D c]
    settings_words [OF assms] assms(2) by (simp add: unat_of_nat take_bit_nat_eq_self)

lemma triple_get_settings:
  assumes "settings_page \<subseteq> R" "settings c = (mac, ip, dhcp)"
  shows "triple (eprom N sk R D) c (get_mac_addr N) (Inr mac) c"
    "triple (eprom N sk R D) c (get_ip_addr N) (Inr ip) c"
    "triple (eprom N sk R D) c (get_dhcp_enable N) (Inr dhcp) c"
proof -
  note rd = triple_read_setting [OF assms(1), of _ _ N sk D c]
  have "mac = mac_of_words (load c EPROM_MACIP_ADDR 2 ! 0) (load c EPROM_MACIP_ADDR 2 ! 1)"
    using assms(2) by (simp add: settings_def eval_nat_numeral)
  then show "triple (eprom N sk R D) c (get_mac_addr N) (Inr mac) c"
    using rd [of 0 2] unfolding get_mac_addr_def
    by (auto intro!: triple_bindM triple_vec_at triple_returnM)
  have "ip = load c (EPROM_MACIP_ADDR + EPROM_IP_OFFSET) 1 ! 0"
    using assms(2) by (simp add: settings_def EPROM_IP_OFFSET_def)
  then show "triple (eprom N sk R D) c (get_ip_addr N) (Inr ip) c"
    using rd [of 2 1] unfolding get_ip_addr_def EPROM_IP_OFFSET_def
    by (auto intro!: triple_bindM triple_vec_at)
  have "dhcp = (load c (EPROM_MACIP_ADDR + EPROM_DHCP_OFFSET) 1 ! 0 AND 1 = 1)"
    using assms(2) by (simp add: settings_def EPROM_DHCP_OFFSET_def)
  then show "triple (eprom N sk R D) c (get_dhcp_enable N) (Inr dhcp) c"
    using rd [of 3 1] unfolding get_dhcp_enable_def EPROM_DHCP_OFFSET_def
    by (auto intro!: triple_bindM triple_vec_at triple_returnM)
qed

lemma set_settings_outside: "b \<notin> settings_page \<Longrightarrow> set_settings c mac ip dhcp b = c b"
  unfolding set_settings_def
  by (rule reflash_outside) (simp add: flash_pages_def pad64_def macip_words_def page_words_def)

text \<open>Writing the settings: the three comparisons with what is read back.\<close>

lemma triple_write_macip:
  assumes "settings_page \<subseteq> R"
  shows "triple (eprom N sk R D) c (write_macip_flash N mac ip dhcp)
    (if drop_bit 48 mac = 0 then Inr () else Inl (Thrown APS2_MAC_ADDR_VALIDATION_FAILURE))
    (set_settings c mac ip dhcp)"
proof -
  let ?c = "set_settings c mac ip dhcp"
  note rd = triple_get_settings [OF assms settings_set, of N sk D c mac ip dhcp]
  have wr: "triple (eprom N sk R D) c (write_flash N EPROM_MACIP_ADDR (macip_words mac ip dhcp))
      (Inr (pad64 (macip_words mac ip dhcp))) ?c"
    unfolding set_settings_def by (rule triple_write_flash) (rule settings_fit [OF assms])
  show ?thesis
  proof (cases "drop_bit 48 mac = 0")
    case True
    then have "take_bit 48 mac = mac" by (simp add: take_bit_eq_self_iff_drop_bit_eq_0)
    note mac = rd(1) [unfolded this]
    from True show ?thesis
      unfolding write_macip_flash_def
      by (simp, intro triple_seqM [OF wr] triple_bindM [OF mac], simp)
        (intro triple_bindM [OF rd(2)], simp, intro triple_bindM [OF rd(3)], simp add: triple_returnM)
  next
    case False
    then have "take_bit 48 mac \<noteq> mac" by (simp add: take_bit_eq_self_iff_drop_bit_eq_0)
    with False show ?thesis
      unfolding write_macip_flash_def
      by (auto intro!: triple_seqM [OF wr] triple_bindM [OF rd(1)] triple_throwM)
  qed
qed

lemma triple_setters:
  assumes R: "settings_page \<subseteq> R" and c: "settings c = (mac, ip, dhcp)"
  shows "triple (eprom N sk R D) c (set_mac_addr N mac')
      (if drop_bit 48 mac' = 0 then Inr () else Inl (Thrown APS2_MAC_ADDR_VALIDATION_FAILURE))
      (set_settings c mac' ip dhcp)"
    "triple (eprom N sk R D) c (set_ip_addr N ip') (Inr ()) (set_settings c mac ip' dhcp)"
    "triple (eprom N sk R D) c (set_dhcp_enable N dhcp') (Inr ()) (set_settings c mac ip dhcp')"
proof -
  note rd = triple_get_settings [OF R c, of N sk D]
  have "drop_bit 48 mac = 0"
    using c mac_of_words_short unfolding settings_def by (auto simp flip: take_bit_eq_self_iff_drop_bit_eq_0)
  then have wr: "triple (eprom N sk R D) c (write_macip_flash N mac ip' dhcp') (Inr ())
      (set_settings c mac ip' dhcp')" for ip' dhcp'
    using triple_write_macip [OF R, of N sk D c mac ip' dhcp'] by simp
  show "triple (eprom N sk R D) c (set_mac_addr N mac')
      (if drop_bit 48 mac' = 0 then Inr () else Inl (Thrown APS2_MAC_ADDR_VALIDATION_FAILURE))
      (set_settings c mac' ip dhcp)"
    unfolding set_mac_addr_def by (rule triple_bindM rd triple_write_macip [OF R])+
  show "triple (eprom N sk R D) c (set_ip_addr N ip') (Inr ()) (set_settings c mac ip' dhcp)"
    unfolding set_ip_addr_def by (rule triple_bindM rd wr)+
  show "triple (eprom N sk R D) c (set_dhcp_enable N dhcp') (Inr ()) (set_settings c mac ip dhcp')"
    unfolding set_dhcp_enable_def by (rule triple_bindM rd wr)+
qed

text \<open>What the three getters report in a state.\<close>

definition reports :: "'n net_ops \<Rightarrow> 'n st \<Rightarrow> u64 \<times> u32 \<times> bool \<Rightarrow> bool" where
  "reports N s v \<longleftrightarrow> fst (get_mac_addr N s) = Inr (fst v) \<and> fst (get_ip_addr N s) = Inr (fst (snd v))
     \<and> fst (get_dhcp_enable N s) = Inr (snd (snd v))"

lemma reports_settings: "settings_page \<subseteq> R \<Longrightarrow> eprom N sk R D c s \<Longrightarrow> reports N s (settings c)"
  using triple_get_settings [of R c "fst (settings c)" "fst (snd (settings c))" "snd (snd (settings c))" N sk D]
  unfolding reports_def by (auto dest!: tripleD [of "eprom N sk R D" c _ _ c s])

text \<open>
  A setter ends with the result \<open>r\<close>, leaves the getters reporting \<open>v\<close> and nothing changed outside the
  page of the settings.
\<close>

definition settles :: "'n net_ops \<Rightarrow> nat \<Rightarrow> u32 set \<Rightarrow> 'n device_view \<Rightarrow> memory \<Rightarrow> 'n st
    \<Rightarrow> ('n, unit) apsm \<Rightarrow> exn + unit \<Rightarrow> u64 \<times> u32 \<times> bool \<Rightarrow> bool" where
  "settles N sk R D c s m r v \<longleftrightarrow> (\<exists>t c'. m s = (r, t) \<and> eprom N sk R D c' t \<and> reports N t v
     \<and> (\<forall>b. b \<notin> settings_page \<longrightarrow> c' b = c b))"

lemma triple_settles:
  assumes "triple (eprom N sk R D) c m r (set_settings c mac ip dhcp)" "eprom N sk R D c s"
    and "settings_page \<subseteq> R"
  shows "settles N sk R D c s m r (take_bit 48 mac, ip, dhcp)"
proof -
  obtain t where t: "m s = (r, t)" "eprom N sk R D (set_settings c mac ip dhcp) t"
    using tripleD [OF assms(1)] assms(2) by blast
  have "reports N t (take_bit 48 mac, ip, dhcp)"
    using reports_settings [OF assms(3) t(2)] by (simp add: settings_set)
  with t show ?thesis
    unfolding settles_def by (intro exI [of _ t] exI [of _ "set_settings c mac ip dhcp"])
      (simp add: set_settings_outside)
qed

text \<open>
  C13. The settings in the EPROM of a module that keeps its laws: after \<open>set_ip_addr\<close> or
  \<open>set_dhcp_enable\<close> the three getters report the new value and the two others as before; after
  \<open>set_mac_addr\<close> as well if the address has at most 48 bits. A larger address ends in a validation
  failure, after its low 48 bits have been written. No word outside the page of the settings
  changes.
\<close>

theorem settings_round_trip:
  assumes "eprom N sk R D c s" "settings_page \<subseteq> R" "reports N s (mac, ip, dhcp)"
  shows "settles N sk R D c s (set_mac_addr N new_mac)
      (if drop_bit 48 new_mac = 0 then Inr () else Inl (Thrown APS2_MAC_ADDR_VALIDATION_FAILURE))
      (take_bit 48 new_mac, ip, dhcp)
    \<and> settles N sk R D c s (set_ip_addr N new_ip) (Inr ()) (mac, new_ip, dhcp)
    \<and> settles N sk R D c s (set_dhcp_enable N new_dhcp) (Inr ()) (mac, ip, new_dhcp)"
proof -
  have c: "settings c = (mac, ip, dhcp)"
    using assms(3) reports_settings [OF assms(2,1)]
    by (simp add: reports_def prod_eq_iff)
  then have "take_bit 48 mac = mac"
    using mac_of_words_short by (auto simp: settings_def)
  with triple_settles [OF triple_setters(1) [OF assms(2) c] assms(1,2), of new_mac]
    triple_settles [OF triple_setters(2) [OF assms(2) c] assms(1,2), of new_ip]
    triple_settles [OF triple_setters(3) [OF assms(2) c] assms(1,2), of new_dhcp]
  show ?thesis by simp
qed

theorem settings_round_trip_witness:
  "settles cpld_ops 0 UNIV emu_view (\<lambda>a. 0) (emu_state (\<lambda>a. 0)) (set_ip_addr cpld_ops 0xC0A80502)
     (Inr ()) (0, 0xC0A80502, False)"
proof -
  have e: "eprom cpld_ops 0 UNIV emu_view (\<lambda>a. 0) (emu_state (\<lambda>a. 0))"
    by (rule cpld_stage) (rule cpld_eprom_laws)
  have "reports cpld_ops (emu_state (\<lambda>a. 0)) (0, 0, False)"
    using reports_settings [OF subset_UNIV e] by (simp add: settings_def mac_of_words_def)
  from settings_round_trip [OF e subset_UNIV this] show ?thesis by blast
qed

end
