(* ===== verification/Legacy.thy ===== *)
theory Legacy
  imports Device Sorting
begin

text \<open>
  What the driver makes of a module with legacy firmware, which speaks UDP packets: writes are cut into
  datagrams, packets of 256 words and chunks of 20 packets of which the last is acknowledged; the
  acknowledge comes in through the receive handler, the message queue and the polling loop. On the
  laws of such a module \<open>read_memory\<close> and \<open>write_memory\<close> are a second \<open>register_bus\<close>.
\<close>

section \<open>The laws of a legacy module\<close>

text \<open>The packets among those received that come from the module.\<close>

definition from_module :: "string \<Rightarrow> (u8 list \<times> endpoint) list \<Rightarrow> u8 list list" where
  "from_module ip ps = map fst (filter (\<lambda>p. fst (snd p) = ip) ps)"

text \<open>The module waits for a packet and its memory is \<open>m\<close>.\<close>

definition settled :: "'n device_view \<Rightarrow> memory \<Rightarrow> 'n \<Rightarrow> bool" where
  "settled D m n \<longleftrightarrow> dv_ready D n \<and> dv_mem D n = m"

text \<open>
  The module's answer \<open>bs\<close> arrives after \<open>j\<close> turns of the polling loop, whose sleeps take at most
  twice as long as asked for; other packets may arrive from elsewhere at any time.
\<close>

fun answer_due :: "'n net_ops \<Rightarrow> string \<Rightarrow> 'n device_view \<Rightarrow> memory \<Rightarrow> u8 list \<Rightarrow> nat \<Rightarrow> 'n \<Rightarrow> bool" where
  "answer_due N ip D m bs 0 n \<longleftrightarrow>
     from_module ip (fst (net_arrivals N n)) = [bs] \<and> settled D m (snd (net_arrivals N n))"
| "answer_due N ip D m bs (Suc j) n \<longleftrightarrow>
     from_module ip (fst (net_arrivals N n)) = []
     \<and> fst (net_sleep N 10 (snd (net_arrivals N n))) \<le> 10
     \<and> answer_due N ip D m bs j (snd (net_sleep N 10 (snd (net_arrivals N n))))"

text \<open>It arrives in time, and the packet constructor reads it as a packet with \<open>P\<close>.\<close>

definition answers_with :: "'n net_ops \<Rightarrow> string \<Rightarrow> 'n device_view \<Rightarrow> memory
    \<Rightarrow> (APS2EthernetPacket \<Rightarrow> bool) \<Rightarrow> 'n \<Rightarrow> bool" where
  "answers_with N ip D m P n \<longleftrightarrow> (\<exists>j bs p. 20 * j < COMMS_TIMEOUT \<and> answer_due N ip D m bs j n
     \<and> packet_of_bytes bs = Inr p \<and> P p)"

definition legacy_ack :: "APS2EthernetPacket \<Rightarrow> bool" where
  "legacy_ack p \<longleftrightarrow> c_mode_stat (h_command (pk_header p)) = 0x80 \<and> h_addr (pk_header p) = 0"

text \<open>
  A write packet stores its words; one that asks for an acknowledge is answered, one that does not
  (\<open>USERIO_NACK\<close>) leaves the module waiting. A read request of at most 256 words is answered with
  the words.
\<close>

definition packet_write_law :: "'n net_ops \<Rightarrow> string \<Rightarrow> u32 set \<Rightarrow> 'n device_view \<Rightarrow> bool" where
  "packet_write_law N ip A D \<longleftrightarrow>
     (\<forall>n p m. let cmd = h_command (pk_header p); a = h_addr (pk_header p); ws = pk_payload p;
                 r = net_udp_send N UDP_PORT_OLD (serialize p) (ip, UDP_PORT_OLD) n in
        settled D m n \<and> packet_macs_ok p \<and> \<not> c_ack cmd \<and> \<not> c_r_w cmd \<and> c_cnt cmd = of_nat (length ws) \<and> length ws \<le> MAX_PAYLOAD
          \<and> words_at a (length ws) \<subseteq> A \<longrightarrow>
        (to_command (c_cmd cmd) = USERIO_NACK \<longrightarrow> fst r = IoOk () \<and> settled D (store m a ws) (snd r))
        \<and> (to_command (c_cmd cmd) = USERIO_ACK \<longrightarrow> fst r = IoOk ()
            \<and> answers_with N ip D (store m a ws) legacy_ack (snd r)))"

definition packet_read_law :: "'n net_ops \<Rightarrow> string \<Rightarrow> u32 set \<Rightarrow> 'n device_view \<Rightarrow> bool" where
  "packet_read_law N ip A D \<longleftrightarrow>
     (\<forall>n p m. let cmd = h_command (pk_header p); a = h_addr (pk_header p);
                 r = net_udp_send N UDP_PORT_OLD (serialize p) (ip, UDP_PORT_OLD) n in
        settled D m n \<and> packet_macs_ok p \<and> \<not> c_ack cmd \<and> c_r_w cmd \<and> to_command (c_cmd cmd) = USERIO_ACK \<and> unat (c_cnt cmd) \<le> MAX_PAYLOAD
          \<and> pk_payload p = [] \<and> words_at a (unat (c_cnt cmd)) \<subseteq> A \<longrightarrow>
        fst r = IoOk () \<and> answers_with N ip D m (\<lambda>q. pk_payload q = load m a (unat (c_cnt cmd))) (snd r))"

definition legacy_device :: "'n net_ops \<Rightarrow> string \<Rightarrow> u32 set \<Rightarrow> 'n device_view \<Rightarrow> bool" where
  "legacy_device N ip A D \<longleftrightarrow> packet_write_law N ip A D \<and> packet_read_law N ip A D"

text \<open>The object is connected to the module over UDP; its queue exists and is empty.\<close>

definition queued :: "APS2EthernetPacket list \<Rightarrow> 'n st \<Rightarrow> bool" where
  "queued ps s \<longleftrightarrow> ethernetRM (obj s) \<and> msgQueues s = [ipAddr (obj s) \<mapsto> ps]
     \<and> (\<exists>info. devInfo s (ipAddr (obj s)) = Some info \<and> \<not> di_supports_tcp info
          \<and> di_endpoint info = (ipAddr (obj s), UDP_PORT_OLD) \<and> mac_ok (di_macAddr info))"

definition legacy_ok :: "'n net_ops \<Rightarrow> u32 set \<Rightarrow> 'n device_view \<Rightarrow> 'n st \<Rightarrow> bool" where
  "legacy_ok N A D s \<longleftrightarrow> legacy_device N (ipAddr (obj s)) A D \<and> queued [] s \<and> dv_ready D (net s)"

text \<open>The states with memory \<open>m\<close> and object \<open>x\<close>.\<close>

definition legacy_stage :: "'n net_ops \<Rightarrow> u32 set \<Rightarrow> 'n device_view \<Rightarrow> aps2 \<Rightarrow> memory \<Rightarrow> 'n st \<Rightarrow> bool" where
  "legacy_stage N A D x m s \<longleftrightarrow> legacy_ok N A D s \<and> obj s = x \<and> dv_mem D (net s) = m"

section \<open>Receiving\<close>

text \<open>The receive handler puts the module's packets into its queue, in order, and sorts the others.\<close>

lemma sort_all_queued:
  assumes "queued q s" "map packet_of_bytes (from_module (ipAddr (obj s)) ps) = map Inr pkts"
  shows "\<exists>t. foreachM ps (\<lambda>(bs, sndr). sort_packet bs sndr) s = (Inr (), t) \<and> queued (q @ pkts) t
    \<and> net t = net s \<and> obj t = obj s"
  using assms
proof (induction ps arbitrary: s q pkts)
  case Nil
  then show ?case by (auto simp: from_module_def run_simps)
next
  case (Cons p ps)
  obtain bs sndr where p: "p = (bs, sndr)" by (cases p)
  show ?case
  proof (cases "fst sndr = ipAddr (obj s)")
    case True
    then obtain pkt pkts' where pkts: "pkts = pkt # pkts'" "packet_of_bytes bs = Inr pkt"
      "map packet_of_bytes (from_module (ipAddr (obj s)) ps) = map Inr pkts'"
      using Cons.prems(2) by (auto simp: from_module_def p Cons_eq_map_conv)
    define s1 where "s1 = s\<lparr>msgQueues := [ipAddr (obj s) \<mapsto> q @ [pkt]]\<rparr>"
    have "sort_packet bs sndr s = (Inr (), s1)"
      using Cons.prems(1) True pkts(2) by (simp add: sort_packet_queued [of s sndr q] queued_def s1_def)
    moreover have "queued (q @ [pkt]) s1" using Cons.prems(1) by (simp add: queued_def s1_def)
    from Cons.IH [OF this, of pkts'] pkts(3) obtain t where
      "foreachM ps (\<lambda>(bs, sndr). sort_packet bs sndr) s1 = (Inr (), t)" "queued (q @ pkts) t"
      "net t = net s1" "obj t = obj s1"
      by (auto simp: s1_def pkts(1))
    ultimately show ?thesis by (auto simp: p seqM_def bindM_def s1_def)
  next
    case False
    then have "msgQueues s (fst sndr) = None" using Cons.prems(1) by (simp add: queued_def)
    from sort_packet_unqueued [OF this, of bs] False obtain E where
      E: "sort_packet bs sndr s = (Inr (), s\<lparr>devInfo := E\<rparr>)" "E (ipAddr (obj s)) = devInfo s (ipAddr (obj s))"
      by auto
    have "queued q (s\<lparr>devInfo := E\<rparr>)" using Cons.prems(1) E(2) by (simp add: queued_def)
    from Cons.IH [OF this, of pkts] Cons.prems(2) False obtain t where
      "foreachM ps (\<lambda>(bs, sndr). sort_packet bs sndr) (s\<lparr>devInfo := E\<rparr>) = (Inr (), t)" "queued (q @ pkts) t"
      "net t = net s" "obj t = obj s"
      by (auto simp: from_module_def p)
    with E(1) show ?thesis by (auto simp: p seqM_def bindM_def)
  qed
qed

lemma deliver_queued:
  assumes "queued q s" "net_arrivals N (net s) = (ps, n)"
    and "map packet_of_bytes (from_module (ipAddr (obj s)) ps) = map Inr pkts"
  shows "\<exists>t. deliver N s = (Inr (), t) \<and> queued (q @ pkts) t \<and> net t = n \<and> obj t = obj s"
proof -
  have "queued q (s\<lparr>net := n\<rparr>)" using assms(1) by (simp add: queued_def)
  from sort_all_queued [OF this, of ps pkts] assms(2,3) show ?thesis
    by (auto simp: deliver_def bindM_def net_do_def)
qed

text \<open>The polling loop ends with the answer that is due in time.\<close>

lemma receive_due:
  assumes "answer_due N (ipAddr (obj s)) D m bs j (net s)" "packet_of_bytes bs = Inr p"
    and "queued [] s" "elapsed + 20 * j < timeout"
  shows "\<exists>t. seqM (deliver N) (receive_loop N (ipAddr (obj s)) 1 timeout elapsed []) s = (Inr [p], t)
    \<and> queued [] t \<and> settled D m (net t) \<and> obj t = obj s"
  using assms(1,3,4)
proof (induction j arbitrary: s elapsed)
  case 0
  let ?ip = "ipAddr (obj s)"
  obtain ps n where ps: "net_arrivals N (net s) = (ps, n)" by fastforce
  then have "map packet_of_bytes (from_module ?ip ps) = map Inr [p]" and n: "settled D m n"
    using "0.prems"(1) assms(2) by simp_all
  from deliver_queued [OF "0.prems"(2) ps this(1)] obtain t where
    t: "deliver N s = (Inr (), t)" "queued [p] t" "net t = n" "obj t = obj s" by auto
  define u where "u = t\<lparr>msgQueues := [?ip \<mapsto> []]\<rparr>"
  have "pop_message ?ip t = (Inr (Some p), u)"
    using t(2,4) by (simp add: pop_message_def queued_def u_def)
  then have "receive_loop N ?ip 1 timeout elapsed [] t = (Inr [p], u)"
    using "0.prems"(3) by (subst receive_loop.simps) simp
  moreover have "queued [] u" "net u = n" "obj u = obj s"
    using t by (simp_all add: queued_def u_def)
  ultimately show ?case using t(1) n by (auto simp: seqM_def bindM_def)
next
  case (Suc j)
  let ?ip = "ipAddr (obj s)"
  obtain ps n where ps: "net_arrivals N (net s) = (ps, n)" by fastforce
  define n1 where "n1 = snd (net_sleep N 10 n)"
  define extra where "extra = fst (net_sleep N 10 n)"
  have none: "map packet_of_bytes (from_module ?ip ps) = map Inr []" and extra: "extra \<le> 10"
    and due: "answer_due N ?ip D m bs j n1"
    using Suc.prems(1) ps by (simp_all add: n1_def extra_def)
  from deliver_queued [OF Suc.prems(2) ps none] obtain t where
    t: "deliver N s = (Inr (), t)" "queued [] t" "net t = n" "obj t = obj s" by auto
  define u where "u = t\<lparr>net := n1\<rparr>"
  have u: "queued [] u" "net u = n1" "obj u = obj s" using t by (simp_all add: queued_def u_def)
  have "seqM (deliver N) (receive_loop N (ipAddr (obj u)) 1 timeout (elapsed + (10 + extra)) []) u
      = seqM (deliver N) (receive_loop N ?ip 1 timeout (elapsed + (10 + extra)) []) u"
    by (simp only: u(3))
  moreover have "elapsed + (10 + extra) + 20 * j < timeout" using Suc.prems(3) extra by simp
  ultimately obtain v where
    v: "seqM (deliver N) (receive_loop N ?ip 1 timeout (elapsed + (10 + extra)) []) u = (Inr [p], v)"
      "queued [] v" "settled D m (net v)" "obj v = obj s"
    using Suc.IH [of u "elapsed + (10 + extra)"] due u by auto
  have pop: "pop_message ?ip t = (Inr None, t)" using t(2,4) by (simp add: pop_message_def queued_def)
  have sleep: "net_do (net_sleep N 10) t = (Inr extra, u)"
    by (simp add: net_do_def extra_def u_def n1_def t(3))
  have "receive_loop N ?ip 1 timeout elapsed [] t
      = seqM (deliver N) (receive_loop N ?ip 1 timeout (elapsed + (10 + extra)) []) u"
    using Suc.prems(3) pop sleep
    by (subst receive_loop.simps)
      (simp add: sleep_ms_def seqM_def bindM_def run_simps split: prod.split sum.split)
  with v t(1) show ?case by (auto simp: seqM_def bindM_def)
qed

text \<open>Without any packet from the module it ends with a time-out.\<close>

lemma deliver_none:
  assumes "\<forall>n. from_module (ipAddr (obj s)) (fst (net_arrivals N n)) = []" "queued [] s"
  obtains t where "deliver N s = (Inr (), t)" "queued [] t" "obj t = obj s"
  using deliver_queued [OF assms(2), of N "fst (net_arrivals N (net s))" "snd (net_arrivals N (net s))" "[]"]
    assms(1) by auto

lemma receive_never:
  fixes s :: "'n st"
  assumes "\<forall>n. from_module (ipAddr (obj s)) (fst (net_arrivals N n)) = []" "queued [] s"
  shows "fst (eth_receive N (ipAddr (obj s)) 1 timeout s) = Inl (Thrown APS2_RECEIVE_TIMEOUT)"
proof -
  define x where "x = obj s"
  have none: "\<forall>n. from_module (ipAddr x) (fst (net_arrivals N n)) = []" using assms(1) by (simp add: x_def)
  have pop: "pop_message (ipAddr x) t = (Inr None, t)" if "queued [] t" "obj t = x" for t :: "'n st"
    using that by (simp add: pop_message_def queued_def)
  have sleep: "\<exists>dt u. sleep_ms N 10 t = (Inr dt, u) \<and> queued [] u \<and> obj u = x"
    if "queued [] t" "obj t = x" for t :: "'n st"
  proof -
    have "queued [] (t\<lparr>net := snd (net_sleep N 10 (net t))\<rparr>)" using that(1) by (simp add: queued_def)
    from deliver_none [OF _ this, of N] none that(2) obtain u where
      "deliver N (t\<lparr>net := snd (net_sleep N 10 (net t))\<rparr>) = (Inr (), u)" "queued [] u" "obj u = x" by auto
    then show ?thesis by (auto simp: sleep_ms_def net_do_def bindM_def seqM_def run_simps)
  qed
  have loop: "fst r = Inl (Thrown APS2_RECEIVE_TIMEOUT)"
    if "receive_loop N (ipAddr x) 1 timeout elapsed out t = r" "queued [] t \<and> obj t = x" for elapsed out t r
    using that
  proof (induction elapsed out t r rule: receive_loop_rule)
    case (enough elapsed out s p s1)
    then show ?case using pop [of s] by auto
  next
    case (failed elapsed out s m s1 e s2)
    then show ?case using pop [of s] sleep [of s] by auto
  next
    case (again elapsed out s m s1 dt s2 r)
    then show ?case using pop [of s] sleep [of s] by auto
  qed simp
  from deliver_none [OF assms] obtain t where "deliver N s = (Inr (), t)" "queued [] t" "obj t = x"
    by (auto simp: x_def)
  with loop [OF refl, of t 0 "[]"] show ?thesis by (simp add: eth_receive_def seqM_def bindM_def x_def)
qed

text \<open>The device table entry of the module.\<close>

lemma dev_at_queued:
  assumes "queued q s"
  obtains info where "dev_at (ipAddr (obj s)) s = (Inr info, s)" "\<not> di_supports_tcp info"
    "di_endpoint info = (ipAddr (obj s), UDP_PORT_OLD)" "mac_ok (di_macAddr info)"
  using assms by (auto simp: queued_def dev_at_def run_simps seqM_def bindM_def)

lemma eth_read_legacy:
  assumes "answers_with N (ipAddr (obj s)) D m P (net s)" "queued [] s"
  shows "\<exists>p t. eth_read N (ipAddr (obj s)) COMMS_TIMEOUT s
      = (Inr \<lparr>dg_cmd = h_command (pk_header p), dg_addr = h_addr (pk_header p), dg_payload = pk_payload p\<rparr>, t)
    \<and> P p \<and> queued [] t \<and> settled D m (net t) \<and> obj t = obj s"
proof -
  obtain info where i: "dev_at (ipAddr (obj s)) s = (Inr info, s)" "\<not> di_supports_tcp info"
    using dev_at_queued [OF assms(2)] .
  obtain j bs p where a: "20 * j < COMMS_TIMEOUT" "answer_due N (ipAddr (obj s)) D m bs j (net s)"
    "packet_of_bytes bs = Inr p" "P p"
    using assms(1) by (auto simp: answers_with_def)
  from receive_due [OF a(2,3) assms(2), of 0 COMMS_TIMEOUT] a(1) obtain t where
    "eth_receive N (ipAddr (obj s)) 1 COMMS_TIMEOUT s = (Inr [p], t)" "queued [] t"
    "settled D m (net t)" "obj t = obj s"
    by (auto simp: eth_receive_def)
  with i a(4) show ?thesis by (auto simp: eth_read_def bindM_def returnM_def)
qed

section \<open>Sending packets\<close>

text \<open>A packet that writes; the sequence number and the destination play no role.\<close>

definition writes :: "u32 set \<Rightarrow> APS_COMMANDS \<Rightarrow> APS2EthernetPacket \<Rightarrow> bool" where
  "writes A command p \<longleftrightarrow> (let cmd = h_command (pk_header p); ws = pk_payload p in
     packet_macs_ok p \<and> \<not> c_ack cmd \<and> \<not> c_r_w cmd \<and> to_command (c_cmd cmd) = command \<and> c_cnt cmd = of_nat (length ws)
     \<and> length ws \<le> MAX_PAYLOAD \<and> words_at (h_addr (pk_header p)) (length ws) \<subseteq> A)"

definition put_packet :: "APS2EthernetPacket \<Rightarrow> memory \<Rightarrow> memory" where
  "put_packet p m = store m (h_addr (pk_header p)) (pk_payload p)"

lemma packet_macs_seqNum [simp]:
  "packet_macs_ok (p\<lparr>pk_header := (pk_header p)\<lparr>h_seqNum := q\<rparr>\<rparr>) = packet_macs_ok p"
  by (simp add: packet_macs_ok_def)

lemma writes_seqNum [simp]:
  "writes A c (p\<lparr>pk_header := (pk_header p)\<lparr>h_seqNum := q\<rparr>\<rparr>) = writes A c p"
  "put_packet (p\<lparr>pk_header := (pk_header p)\<lparr>h_seqNum := q\<rparr>\<rparr>) = put_packet p"
  by (simp_all add: writes_def put_packet_def fun_eq_iff)

lemma packet_writes:
  assumes "packet_write_law N ip A D" "writes A command p" "settled D m n"
    and "net_udp_send N UDP_PORT_OLD (serialize p) (ip, UDP_PORT_OLD) n = (r, n')"
  shows "command = USERIO_NACK \<Longrightarrow> r = IoOk () \<and> settled D (put_packet p m) n'"
    "command = USERIO_ACK \<Longrightarrow> r = IoOk () \<and> answers_with N ip D (put_packet p m) legacy_ack n'"
  using assms(1) [unfolded packet_write_law_def, THEN spec [of _ n], THEN spec [of _ p], THEN spec [of _ m]] assms(2-4)
  by (auto simp: writes_def put_packet_def Let_def)

lemma send_one_packet:
  assumes "queued [] s" "net_udp_send N UDP_PORT_OLD (serialize (p\<lparr>pk_header := (pk_header p)\<lparr>h_seqNum := q\<rparr>\<rparr>))
      (ipAddr (obj s), UDP_PORT_OLD) (net s) = (IoOk (), n)"
  shows "send_packets_from N (ipAddr (obj s)) q (p # ps) s
    = send_packets_from N (ipAddr (obj s)) (q + 1) ps (s\<lparr>net := n\<rparr>)"
proof -
  obtain info where "dev_at (ipAddr (obj s)) s = (Inr info, s)"
    "di_endpoint info = (ipAddr (obj s), UDP_PORT_OLD)"
    using dev_at_queued [OF assms(1)] .
  with assms(2) show ?thesis
    by (simp add: bindM_def seqM_def udp_send_def net_do_def run_simps)
qed

text \<open>A chunk: its packets store their words, the last one's acknowledge is awaited.\<close>

lemma send_chunk_packets:
  assumes "packet_write_law N (ipAddr (obj s)) A D" "queued [] s" "settled D m (net s)"
    and "\<And>p. p \<in> set ps \<Longrightarrow> writes A USERIO_NACK p" "writes A USERIO_ACK l"
  shows "\<exists>n. send_packets_from N (ipAddr (obj s)) q (ps @ [l]) s = (Inr (), s\<lparr>net := n\<rparr>)
    \<and> answers_with N (ipAddr (obj s)) D (fold put_packet (ps @ [l]) m) legacy_ack n"
  using assms(1-4)
proof (induction ps arbitrary: s q m)
  case Nil
  define l' where "l' = l\<lparr>pk_header := (pk_header l)\<lparr>h_seqNum := q\<rparr>\<rparr>"
  obtain r n where r: "net_udp_send N UDP_PORT_OLD (serialize l') (ipAddr (obj s), UDP_PORT_OLD) (net s) = (r, n)"
    by fastforce
  have "writes A USERIO_ACK l'" "put_packet l' = put_packet l" using assms(5) by (simp_all add: l'_def)
  with packet_writes(2) [OF Nil(1) this(1) Nil(3) r] have
    "r = IoOk ()" "answers_with N (ipAddr (obj s)) D (put_packet l m) legacy_ack n" by auto
  then show ?case
    using send_one_packet [OF Nil(2), where N = N and p = l and q = q and n = n and ps = "[]"] r by (auto simp: l'_def run_simps)
next
  case (Cons p ps)
  define p' where "p' = p\<lparr>pk_header := (pk_header p)\<lparr>h_seqNum := q\<rparr>\<rparr>"
  obtain r n where r: "net_udp_send N UDP_PORT_OLD (serialize p') (ipAddr (obj s), UDP_PORT_OLD) (net s) = (r, n)"
    by fastforce
  have "writes A USERIO_NACK p'" "put_packet p' = put_packet p" using Cons.prems(4) by (simp_all add: p'_def)
  with packet_writes(1) [OF Cons.prems(1) this(1) Cons.prems(3) r] have
    n: "r = IoOk ()" "settled D (put_packet p m) n" by auto
  have "queued [] (s\<lparr>net := n\<rparr>)" using Cons.prems(2) by (simp add: queued_def)
  from Cons.IH [of "s\<lparr>net := n\<rparr>" "put_packet p m" "q + 1", OF _ this] Cons.prems n(2) obtain n2 where
    "send_packets_from N (ipAddr (obj s)) (q + 1) (ps @ [l]) (s\<lparr>net := n\<rparr>) = (Inr (), s\<lparr>net := n2\<rparr>)"
    "answers_with N (ipAddr (obj s)) D (fold put_packet (ps @ [l]) (put_packet p m)) legacy_ack n2"
    by auto
  then show ?case
    using send_one_packet [OF Cons.prems(2), where N = N and p = p and q = q and n = n and ps = "ps @ [l]"] r n(1)
    by (auto simp: p'_def simp del: send_packets_from.simps)
qed

lemma legacy_stageD:
  assumes "legacy_stage N A D x m s"
  shows "legacy_device N (ipAddr x) A D" "queued [] s" "settled D m (net s)" "obj s = x"
  using assms by (auto simp: legacy_stage_def legacy_ok_def settled_def)

lemma legacy_stageI:
  "legacy_device N (ipAddr x) A D \<Longrightarrow> queued [] s \<Longrightarrow> settled D m (net s) \<Longrightarrow> obj s = x \<Longrightarrow>
    legacy_stage N A D x m s"
  by (auto simp: legacy_stage_def legacy_ok_def settled_def)

lemma triple_dev_at:
  assumes "\<And>info. mac_ok (di_macAddr info) \<Longrightarrow> triple (legacy_stage N A D x) m (f info) r b"
  shows "triple (legacy_stage N A D x) m (bindM (dev_at (ipAddr x)) f) r b"
  unfolding triple_def
proof (intro allI impI)
  fix s
  assume s: "legacy_stage N A D x m s"
  obtain info where "dev_at (ipAddr x) s = (Inr info, s)" "mac_ok (di_macAddr info)"
    using dev_at_queued [OF legacy_stageD(2) [OF s]] legacy_stageD(4) [OF s] by auto
  with assms [of info] s show "\<exists>t. bindM (dev_at (ipAddr x)) f s = (r, t) \<and> legacy_stage N A D x b t"
    by (auto simp: bindM_def dest: tripleD)
qed

lemma triple_send_chunk:
  assumes "\<And>p. p \<in> set ps \<Longrightarrow> writes A USERIO_NACK p" "writes A USERIO_ACK l"
  shows "triple (legacy_stage N A D x) m (send_chunk N (ipAddr x) (ps @ [l]) False) (Inr ())
    (fold put_packet (ps @ [l]) m)"
  unfolding triple_def
proof (intro allI impI)
  fix s
  assume s: "legacy_stage N A D x m s"
  note st = legacy_stageD [OF s]
  have "packet_write_law N (ipAddr (obj s)) A D" using st(1,4) by (simp add: legacy_device_def)
  from send_chunk_packets [OF this st(2,3) assms, where q = 0] obtain n where
    n: "send_packets_from N (ipAddr x) 0 (ps @ [l]) s = (Inr (), s\<lparr>net := n\<rparr>)"
      "answers_with N (ipAddr x) D (fold put_packet (ps @ [l]) m) legacy_ack n"
    using st(4) by auto
  have "queued [] (s\<lparr>net := n\<rparr>)" using st(2) by (simp add: queued_def)
  with eth_read_legacy [of N "s\<lparr>net := n\<rparr>" D "fold put_packet (ps @ [l]) m" legacy_ack] n(2) st(4) obtain p t where
    t: "eth_read N (ipAddr x) COMMS_TIMEOUT (s\<lparr>net := n\<rparr>)
        = (Inr \<lparr>dg_cmd = h_command (pk_header p), dg_addr = h_addr (pk_header p), dg_payload = pk_payload p\<rparr>, t)"
      "legacy_ack p" "queued [] t" "settled D (fold put_packet (ps @ [l]) m) (net t)" "obj t = x"
    by auto
  have "check_ack \<lparr>dg_cmd = h_command (pk_header l), dg_addr = h_addr (pk_header l), dg_payload = []\<rparr>
      \<lparr>dg_cmd = h_command (pk_header p), dg_addr = h_addr (pk_header p), dg_payload = pk_payload p\<rparr> True = Inr ()"
    using t(2) assms(2) by (auto simp: check_ack_cases ack_expected_def legacy_ack_def writes_def Let_def)
  then have "send_chunk N (ipAddr x) (ps @ [l]) False s = (Inr (), t)"
    using n(1) t(1) by (simp add: send_chunk_def seqM_def bindM_def run_simps)
  with t legacy_stageI [OF st(1)] show "\<exists>t. send_chunk N (ipAddr x) (ps @ [l]) False s = (Inr (), t)
      \<and> legacy_stage N A D x (fold put_packet (ps @ [l]) m) t"
    by blast
qed

text \<open>Preparing a chunk: only the last packet asks for an acknowledge.\<close>

lemma command_1_9: "to_command c = USERIO_ACK \<Longrightarrow> c = 1" "to_command (9 :: 4 word) = USERIO_NACK"
  "to_command (1 :: 4 word) = USERIO_ACK" for c :: "4 word"
  using command_code_to_command [of c] by (simp_all add: to_command_def)

lemma prepared_writes:
  assumes "writes A USERIO_ACK p" "mac_ok mac"
  shows "writes A USERIO_NACK (no_ack (to_mac mac p))" "writes A USERIO_ACK (want_ack (no_ack (to_mac mac p)))"
proof -
  have "c_cmd (h_command (pk_header p)) = 1"
    using assms command_1_9(1) by (auto simp: writes_def Let_def)
  then show "writes A USERIO_NACK (no_ack (to_mac mac p))" "writes A USERIO_ACK (want_ack (no_ack (to_mac mac p)))"
    using assms by (auto simp: writes_def packet_macs_ok_def no_ack_def want_ack_def to_mac_def Let_def command_1_9)
qed

lemma put_prepared [simp]:
  "put_packet (no_ack (to_mac mac p)) = put_packet p"
  "put_packet (want_ack p) = put_packet p"
  by (simp_all add: put_packet_def no_ack_def want_ack_def to_mac_def Let_def fun_eq_iff)

lemma prepare_chunk_snoc:
  "prepare_chunk mac False (ps @ [l]) = map (\<lambda>p. no_ack (to_mac mac p)) ps @ [want_ack (no_ack (to_mac mac l))]"
  by (simp add: prepare_chunk_def Let_def)

lemma fold_prepared: "fold put_packet (map (\<lambda>p. no_ack (to_mac mac p)) ps) m = fold put_packet ps m"
  by (induction ps arbitrary: m) simp_all

lemma triple_send_prepared:
  assumes "mac_ok mac" "chunk \<noteq> []" "\<And>p. p \<in> set chunk \<Longrightarrow> writes A USERIO_ACK p"
  shows "triple (legacy_stage N A D x) m (send_chunk N (ipAddr x) (prepare_chunk mac False chunk) False)
    (Inr ()) (fold put_packet chunk m)"
proof -
  obtain ps l where c: "chunk = ps @ [l]" using assms(2) by (metis rev_exhaust)
  have w: "writes A USERIO_ACK p" if "p \<in> set ps \<or> p = l" for p using assms(3) that by (auto simp: c)
  have "triple (legacy_stage N A D x) m (send_chunk N (ipAddr x) (prepare_chunk mac False chunk) False) (Inr ())
      (fold put_packet (map (\<lambda>p. no_ack (to_mac mac p)) ps @ [want_ack (no_ack (to_mac mac l))]) m)"
    unfolding c prepare_chunk_snoc by (rule triple_send_chunk) (auto intro: prepared_writes w assms(1))
  then show ?thesis
    by (simp add: c fold_prepared)
qed

lemma fold_fold: "fold (\<lambda>xs. fold f xs) xss m = fold f (concat xss) m"
  by (induction xss arbitrary: m) simp_all

lemma triple_send_packets:
  fixes N :: "'a net_ops"
  assumes "msg \<noteq> []" "0 < every" "\<And>p. p \<in> set msg \<Longrightarrow> writes A USERIO_ACK p"
  shows "triple (legacy_stage N A D x) m (send_packets N (ipAddr x) msg every) (Inr 0) (fold put_packet msg m)"
proof -
  define f where "f = (\<lambda>chunk. bindM (dev_at (ipAddr x)) (\<lambda>info.
      send_chunk N (ipAddr x) (prepare_chunk (di_macAddr info) False chunk) False) :: ('a, unit) apsm)"
  have step: "triple (legacy_stage N A D x) m (f chunk) (Inr ()) (fold put_packet chunk m)"
    if chunk: "chunk \<in> set (blocks every msg)" for chunk m
  proof -
    have "chunk \<noteq> []" using blocks_bounds [OF assms(2) chunk] by simp
    moreover have "set chunk \<subseteq> set (concat (blocks every msg))" using chunk by auto
    then have "set chunk \<subseteq> set msg" by (simp add: concat_blocks assms(2))
    ultimately show ?thesis
      unfolding f_def using assms(3) by (intro triple_dev_at triple_send_prepared) auto
  qed
  have "triple (legacy_stage N A D x) m (foreachM (blocks every msg) f) (Inr ()) (fold put_packet msg m)"
    using triple_foreachM [where xs = "blocks every msg" and f = f and g = "fold put_packet" and c = m, OF step]
    by (simp add: fold_fold concat_blocks assms(2))
  then show ?thesis
    using assms(1,2) by (auto simp: send_packets_def f_def intro!: triple_seqM triple_returnM)
qed

section \<open>Memory access\<close>

lemma pk_chunk_macs: "p \<in> set (pk_chunk a ws cmd) \<Longrightarrow> packet_macs_ok p"
proof -
  have "p \<in> set (pk_chunk_loop cmd q a ws) \<Longrightarrow> packet_macs_ok p" for cmd q a ws
    by (induction q a ws rule: pk_chunk_loop_induct)
      (auto simp: pk_chunk_loop_steps pk_piece_def packet_init_def packet_cmd_def packet_full_def
        packet_macs_ok_def mac_ok_def MACAddr_init_def split: if_splits)
  then show "p \<in> set (pk_chunk a ws cmd) \<Longrightarrow> packet_macs_ok p" by (simp add: pk_chunk_def)
qed

lemma triple_write_piece:
  assumes "words_at a (length ws) \<subseteq> A"
  shows "triple (legacy_stage N A D x) m (udp_send_datagram N (ipAddr x) (dg_piece memory_write_cmd a ws))
    (Inr ()) (store m a ws)"
proof -
  let ?cmd = "memory_write_cmd\<lparr>c_cnt := of_nat (length ws)\<rparr>"
  let ?ps = "pk_chunk a ws ?cmd"
  have w: "writes A USERIO_ACK p" if "p \<in> set ?ps" for p
  proof -
    have "words_at (h_addr (pk_header p)) (length (pk_payload p)) \<subseteq> A"
      using frames.pieces_words_at [OF that] assms by blast
    with pk_chunk_macs [OF that] that [unfolded pk_chunk_def, THEN pk_chunk_members] show ?thesis
      by (auto simp: writes_def memory_write_cmd_def APS2Command_init_def command_1_9)
  qed
  have "fold put_packet ?ps m = store m a ws"
    using frames.stores_all [of a ws ?cmd m] by (simp add: put_packet_def [abs_def])
  moreover have "0 < (if 20 \<le> length ?ps then 20 else length ?ps)" using pk_chunk_nonempty by simp
  ultimately have "triple (legacy_stage N A D x) m
      (send_packets N (ipAddr x) ?ps (if 20 \<le> length ?ps then 20 else length ?ps)) (Inr 0) (store m a ws)"
    using triple_send_packets [OF pk_chunk_nonempty _ w] by metis
  moreover have "\<not> c_r_w memory_write_cmd" by (simp add: memory_write_cmd_def APS2Command_init_def)
  ultimately show ?thesis
    by (auto simp: udp_send_datagram_def dg_piece_def Let_def intro!: triple_bindM triple_returnM)
qed

lemma triple_rm_send:
  assumes "triple (legacy_stage N A D x) m (foreachM dgs (udp_send_datagram N (ipAddr x))) (Inr ()) m'"
  shows "triple (legacy_stage N A D x) m (rm_send N dgs) (Inr ()) m'"
  unfolding triple_def
proof (intro allI impI)
  fix s
  assume s: "legacy_stage N A D x m s"
  obtain info where "dev_at (ipAddr x) s = (Inr info, s)" "\<not> di_supports_tcp info"
    using dev_at_queued [OF legacy_stageD(2) [OF s]] legacy_stageD(4) [OF s] by auto
  moreover have "ethernetRM (obj s)" using legacy_stageD(2) [OF s] by (simp add: queued_def)
  ultimately have "rm_send N dgs s = foreachM dgs (udp_send_datagram N (ipAddr x)) s"
    using legacy_stageD(4) [OF s]
    by (simp add: rm_send_def need_rm_def get_obj_def seqM_def bindM_def run_simps eth_send_def)
  with tripleD [OF assms] s show "\<exists>t. rm_send N dgs s = (Inr (), t) \<and> legacy_stage N A D x m' t" by simp
qed

lemma triple_write_memory:
  assumes "bus_writable A a (length ws)"
  shows "triple (legacy_stage N A D x) m (write_memory N a ws) (Inr ()) (store m a ws)"
proof -
  let ?ps = "dg_pieces memory_write_cmd a (blocks (unat (0xfffc :: u16)) ws)"
  have guards: "(a < MEMORY_ADDR + 0x40000000 \<and> a AND 0xf \<noteq> 0) = False"
    "(a < MEMORY_ADDR + 0x40000000 \<and> length ws mod 4 \<noteq> 0) = False"
    using assms by (auto simp: bus_writable_def aligned_write_def const_defs)
  have "triple (legacy_stage N A D x) m (udp_send_datagram N (ipAddr x) p) (Inr ())
      (store m (dg_addr p) (dg_payload p))"
    if "p \<in> set ?ps" for p m
  proof -
    have "words_at (dg_addr p) (length (dg_payload p)) \<subseteq> A"
      using sdram.pieces_words_at [OF that] assms by (auto simp: bus_writable_def)
    then show ?thesis
      using triple_write_piece [of "dg_addr p" "dg_payload p" A N D x m] dg_pieces_piece [OF that] by simp
  qed
  from triple_foreachM [where xs = ?ps and c = m and f = "udp_send_datagram N (ipAddr x)"
      and g = "\<lambda>p m. store m (dg_addr p) (dg_payload p)", OF this]
  have "triple (legacy_stage N A D x) m (foreachM ?ps (udp_send_datagram N (ipAddr x))) (Inr ()) (store m a ws)"
    by (simp only: sdram.stores_all)
  then show ?thesis
    unfolding write_memory_def guards if_False chunked_pieces bindM_returnM by (rule triple_rm_send)
qed

text \<open>A read request is one packet, and its answer is one packet.\<close>

lemma send_read_packet:
  assumes "legacy_stage N A D x m s" "k \<le> MAX_PAYLOAD" "words_at a k \<subseteq> A"
  shows "\<exists>n. udp_send_datagram N (ipAddr x)
        \<lparr>dg_cmd = memory_read_cmd (of_nat k), dg_addr = a, dg_payload = []\<rparr> s = (Inr (), s\<lparr>net := n\<rparr>)
      \<and> answers_with N (ipAddr x) D m (\<lambda>q. pk_payload q = load m a k) n"
proof -
  note st = legacy_stageD [OF assms(1)]
  let ?cmd = "memory_read_cmd (of_nat k)"
  have k: "unat (of_nat k :: u16) = k" "(ucast (of_nat k :: u32) :: u16) = of_nat k"
    using assms(2) by (simp_all add: MAX_PAYLOAD_def unat_of_nat take_bit_nat_eq_self unsigned_of_nat)
  obtain info where i: "dev_at (ipAddr x) s = (Inr info, s)" "di_endpoint info = (ipAddr x, UDP_PORT_OLD)"
    "mac_ok (di_macAddr info)"
    using dev_at_queued [OF st(2)] st(4) by auto
  define p where "p = (hd (pk_chunk a [] ?cmd))\<lparr>pk_header := (pk_header (hd (pk_chunk a [] ?cmd)))
      \<lparr>h_command := (h_command (pk_header (hd (pk_chunk a [] ?cmd))))\<lparr>c_r_w := True, c_cnt := c_cnt ?cmd\<rparr>,
       h_dest := di_macAddr info, h_seqNum := 0\<rparr>\<rparr>"
  have p: "h_addr (pk_header p) = a" "pk_payload p = []" "c_r_w (h_command (pk_header p))"
    "to_command (c_cmd (h_command (pk_header p))) = USERIO_ACK" "c_cnt (h_command (pk_header p)) = of_nat k"
    "\<not> c_ack (h_command (pk_header p))"
    by (simp_all add: p_def pk_chunk_def pk_chunk_loop_last memory_read_cmd_def APS2Command_init_def k(2)
        command_1_9 MAX_PAYLOAD_def)
  have macs: "packet_macs_ok p"
    using pk_chunk_macs [of "hd (pk_chunk a [] ?cmd)" a "[]" ?cmd] pk_chunk_nonempty i(3)
    by (simp add: p_def packet_macs_ok_def)
  obtain r n where r: "net_udp_send N UDP_PORT_OLD (serialize p) (ipAddr x, UDP_PORT_OLD) (net s) = (r, n)"
    by fastforce
  have "packet_read_law N (ipAddr x) A D" using st(1) by (simp add: legacy_device_def)
  from this [unfolded packet_read_law_def, THEN spec [of _ "net s"], THEN spec [of _ p], THEN spec [of _ m]]
  have "r = IoOk () \<and> answers_with N (ipAddr x) D m (\<lambda>q. pk_payload q = load m a k) n"
    using st(3) p macs assms(2,3) r by (simp add: k(1))
  moreover have "c_r_w ?cmd" by (simp add: memory_read_cmd_def)
  ultimately show ?thesis
    using i r unfolding p_def
    by (intro exI [of _ n]) (simp add: udp_send_datagram_def send_packet_def send_chunk_def Let_def bindM_def seqM_def udp_send_def
        net_do_def run_simps)
qed

lemma triple_read_memory:
  assumes "k \<le> MAX_PAYLOAD" "words_at a k \<subseteq> A"
  shows "triple (legacy_stage N A D x) m (read_memory N a (of_nat k)) (Inr (load m a k)) m"
  unfolding triple_def
proof (intro allI impI)
  fix s
  assume s: "legacy_stage N A D x m s"
  note st = legacy_stageD [OF s]
  from send_read_packet [OF s assms] obtain n where
    n: "udp_send_datagram N (ipAddr x) \<lparr>dg_cmd = memory_read_cmd (of_nat k), dg_addr = a, dg_payload = []\<rparr> s
        = (Inr (), s\<lparr>net := n\<rparr>)"
      "answers_with N (ipAddr x) D m (\<lambda>q. pk_payload q = load m a k) n" by blast
  have q: "queued [] (s\<lparr>net := n\<rparr>)" using st(2) by (simp add: queued_def)
  obtain info where i: "dev_at (ipAddr x) s = (Inr info, s)" "\<not> di_supports_tcp info"
    using dev_at_queued [OF st(2)] st(4) by auto
  have e: "ethernetRM x" using st(2,4) by (simp add: queued_def)
  have send: "rm_send N [\<lparr>dg_cmd = memory_read_cmd (of_nat k), dg_addr = a, dg_payload = []\<rparr>] s
      = (Inr (), s\<lparr>net := n\<rparr>)"
    using n(1) i e st(4)
    by (simp add: rm_send_def need_rm_def get_obj_def seqM_def bindM_def run_simps eth_send_def)
  from eth_read_legacy [OF _ q, of N D m "\<lambda>q. pk_payload q = load m a k"] n(2) st(4) obtain dg t where
    t: "eth_read N (ipAddr x) COMMS_TIMEOUT (s\<lparr>net := n\<rparr>) = (Inr dg, t)"
      "dg_payload dg = load m a k" "queued [] t" "settled D m (net t)" "obj t = x"
    by auto
  have "read_memory N a (of_nat k) s = (Inr (load m a k), t)"
    using send t(1,2) e st(4)
    by (simp add: read_memory_def request_def rm_read_def need_rm_def get_obj_def seqM_def bindM_def run_simps)
  with legacy_stageI [OF st(1) t(3-5)]
  show "\<exists>t. read_memory N a (of_nat k) s = (Inr (load m a k), t) \<and> legacy_stage N A D x m t" by blast
qed

section \<open>The second bus\<close>

definition packet_readable :: "u32 set \<Rightarrow> u32 \<Rightarrow> nat \<Rightarrow> bool" where
  "packet_readable A a n \<longleftrightarrow> n \<le> MAX_PAYLOAD \<and> words_at a n \<subseteq> A"

lemma legacy_stage_ok: "legacy_ok N A D s \<Longrightarrow> legacy_stage N A D (obj s) (dv_mem D (net s)) s"
  by (simp add: legacy_stage_def)

interpretation legacy: register_bus
    "read_memory N" "write_memory N" "legacy_ok N A D" "device_bus D" "packet_readable A" "bus_writable A"
  for N A D
proof
  show "refines (legacy_ok N A D) (device_bus D) (read_memory N a n) (bus_read (packet_readable A) a n)" for a n
    unfolding refines_def
  proof (intro allI impI)
    fix s
    assume ok: "legacy_ok N A D s"
      and d: "fst (bus_read (packet_readable A) a n (device_bus D s)) \<noteq> Inl Undefined"
    then have "packet_readable A a (unat n)"
      by (auto simp: bus_read_def device_bus_def split: if_splits)
    then have "triple (legacy_stage N A D (obj s)) (dv_mem D (net s)) (read_memory N a n)
        (Inr (load (dv_mem D (net s)) a (unat n))) (dv_mem D (net s))"
      using triple_read_memory [of "unat n" a A N D "obj s" "dv_mem D (net s)"] by (simp add: packet_readable_def)
    from tripleD [OF this] legacy_stage_ok [OF ok] obtain t where
      "read_memory N a n s = (Inr (load (dv_mem D (net s)) a (unat n)), t)"
      "legacy_stage N A D (obj s) (dv_mem D (net s)) t" by blast
    with \<open>packet_readable A a (unat n)\<close>
    show "fst (read_memory N a n s) = fst (bus_read (packet_readable A) a n (device_bus D s))
        \<and> legacy_ok N A D (snd (read_memory N a n s))
        \<and> device_bus D (snd (read_memory N a n s)) = snd (bus_read (packet_readable A) a n (device_bus D s))"
      by (auto simp: bus_read_def device_bus_def packet_readable_def legacy_stage_def)
  qed
  show "refines (legacy_ok N A D) (device_bus D) (write_memory N a ws) (bus_write (bus_writable A) a ws)" for a ws
    unfolding refines_def
  proof (intro allI impI)
    fix s
    assume ok: "legacy_ok N A D s"
      and d: "fst (bus_write (bus_writable A) a ws (device_bus D s)) \<noteq> Inl Undefined"
    then have "bus_writable A a (length ws)"
      by (auto simp: bus_write_def device_bus_def split: if_splits)
    from tripleD [OF triple_write_memory [OF this]] legacy_stage_ok [OF ok] obtain t where
      "write_memory N a ws s = (Inr (), t)"
      "legacy_stage N A D (obj s) (store (dv_mem D (net s)) a ws) t" by blast
    with \<open>bus_writable A a (length ws)\<close>
    show "fst (write_memory N a ws s) = fst (bus_write (bus_writable A) a ws (device_bus D s))
        \<and> legacy_ok N A D (snd (write_memory N a ws s))
        \<and> device_bus D (snd (write_memory N a ws s)) = snd (bus_write (bus_writable A) a ws (device_bus D s))"
      by (auto simp: bus_write_def device_bus_def legacy_stage_def)
  qed
qed

end
