(* ===== verification/Legacy_Properties.thy ===== *)
theory Legacy_Properties
  imports Legacy Emulator
begin

text \<open>
  Reading and writing the memory of a legacy module end to end, and that the polling loop returns an
  answer that comes in time. The witnesses run on an emulated legacy module.
\<close>

section \<open>An emulated legacy module\<close>

text \<open>It takes a packet apart, and keeps the bytes of its answer until packets are collected.\<close>

definition legacy_answer :: "APS2Command \<Rightarrow> u8 list \<Rightarrow> u8 list" where
  "legacy_answer cmd content = replicate 16 0 @ be32 (packed cmd) @ content"

definition legacy_handle :: "u8 list \<Rightarrow> emu \<Rightarrow> emu" where
  "legacy_handle bs n =
     (case packet_of_bytes bs of
        Inl e \<Rightarrow> n
      | Inr p \<Rightarrow>
          let cmd = h_command (pk_header p); a = h_addr (pk_header p); k = unat (c_cnt cmd) in
          if c_r_w cmd
          then n\<lparr>em_rx := legacy_answer cmd (be32 a @ concat (map be32 (load (em_mem n) a k)))\<rparr>
          else n\<lparr>em_mem := store (em_mem n) a (take k (pk_payload p)),
                 em_rx := (if to_command (c_cmd cmd) = USERIO_ACK
                   then legacy_answer (cmd\<lparr>c_ack := True, c_mode_stat := 0x80\<rparr>) [] else em_rx n)\<rparr>)"

definition legacy_ops :: "emu net_ops" where
  "legacy_ops = emu_ops\<lparr>net_udp_send := \<lambda>port bs ep n. (IoOk (), legacy_handle bs n),
     net_arrivals := \<lambda>n. if em_rx n = [] then ([], n)
       else ([(em_rx n, (''10.0.0.2'', UDP_PORT_OLD))], n\<lparr>em_rx := []\<rparr>)\<rparr>"

definition legacy_view :: "emu device_view" where
  "legacy_view = \<lparr>dv_ready = (\<lambda>n. em_rx n = []), dv_rx = em_rx, dv_mem = em_mem\<rparr>"

lemma payload_words_be32s: "payload_words (concat (map be32 ws)) = Inr ws"
  using payload_words_padded [of ws 0] by simp

lemma parse_answer:
  "packet_of_bytes (legacy_answer cmd content) =
     (let addressed = (\<not> c_ack cmd \<and> needs_address (to_command (c_cmd cmd))) in
      if addressed \<and> length content < 4 then Inl Undefined
      else case payload_words (if addressed then drop 4 content else content) of
        Inl e \<Rightarrow> Inl e
      | Inr ws \<Rightarrow> Inr \<lparr>pk_header = \<lparr>h_dest = replicate 6 0, h_src = replicate 6 0,
          h_frameType = of_be16 [0, 0], h_seqNum = of_be16 [0, 0], h_command = cmd,
          h_addr = (if addressed then of_be32 (take 4 content) else 0)\<rparr>, pk_payload = ws\<rparr>)"
proof -
  have "of_be32 (take 4 (drop 16 (legacy_answer cmd content))) = packed cmd"
    by (simp add: legacy_answer_def be32.dec_enc)
  then show ?thesis
    unfolding packet_of_bytes_def Let_def
    by (simp add: legacy_answer_def eval_nat_numeral split: sum.split)
qed

lemma user_has_address:
  "to_command (c_cmd (h_command (pk_header p))) \<in> {USERIO_ACK, USERIO_NACK} \<Longrightarrow> has_address p"
  by (auto simp: has_address_def)

lemma legacy_handle_serialize:
  assumes "packet_macs_ok p" "\<not> c_ack (h_command (pk_header p))"
    and "to_command (c_cmd (h_command (pk_header p))) \<in> {USERIO_ACK, USERIO_NACK}"
  shows "\<exists>z. packet_of_bytes (serialize p) = Inr (p\<lparr>pk_payload := pk_payload p @ z\<rparr>)"
  using serialize_round_trip [OF assms(1)] user_has_address [OF assms(3)] assms(2) by auto

lemma legacy_answers:
  assumes "packet_of_bytes (em_rx n) = Inr q" "P q" "em_rx n \<noteq> []"
  shows "answers_with legacy_ops ''10.0.0.2'' legacy_view (em_mem n) P n"
  unfolding answers_with_def
  by (rule exI [of _ 0], rule exI [of _ "em_rx n"], rule exI [of _ q])
    (simp add: assms COMMS_TIMEOUT_def from_module_def legacy_ops_def settled_def legacy_view_def)

lemma legacy_answer_nonempty: "legacy_answer cmd content \<noteq> []"
  by (simp add: legacy_answer_def)

lemma legacy_ops_simps:
  "net_udp_send legacy_ops port bs ep n = (IoOk (), legacy_handle bs n)"
  "settled legacy_view m n = (em_rx n = [] \<and> em_mem n = m)"
  by (auto simp: legacy_ops_def settled_def legacy_view_def)

lemma legacy_packet_write: "packet_write_law legacy_ops ''10.0.0.2'' UNIV legacy_view"
  unfolding packet_write_law_def Let_def legacy_ops_simps fst_conv snd_conv
proof (intro allI impI)
  fix n :: emu and p :: APS2EthernetPacket and m
  let ?cmd = "h_command (pk_header p)" and ?ws = "pk_payload p"
  assume h: "(em_rx n = [] \<and> em_mem n = m) \<and> packet_macs_ok p \<and> \<not> c_ack ?cmd \<and> \<not> c_r_w ?cmd
    \<and> c_cnt ?cmd = of_nat (length ?ws) \<and> length ?ws \<le> MAX_PAYLOAD \<and> words_at (h_addr (pk_header p)) (length ?ws) \<subseteq> UNIV"
  have k: "unat (of_nat (length ?ws) :: u16) = length ?ws"
    using h by (simp add: MAX_PAYLOAD_def unat_of_nat take_bit_nat_eq_self)
  have handle: "legacy_handle (serialize p) n = n\<lparr>em_mem := store m (h_addr (pk_header p)) ?ws,
      em_rx := (if to_command (c_cmd ?cmd) = USERIO_ACK
        then legacy_answer (?cmd\<lparr>c_ack := True, c_mode_stat := 0x80\<rparr>) [] else [])\<rparr>"
    if "to_command (c_cmd ?cmd) \<in> {USERIO_ACK, USERIO_NACK}"
    using legacy_handle_serialize [OF _ _ that] h k by (auto simp: legacy_handle_def Let_def)
  have ack: "packet_of_bytes (legacy_answer (?cmd\<lparr>c_ack := True, c_mode_stat := 0x80\<rparr>) []) = Inr q \<Longrightarrow> legacy_ack q"
    for q by (auto simp: parse_answer legacy_ack_def)
  obtain q where q: "packet_of_bytes (legacy_answer (?cmd\<lparr>c_ack := True, c_mode_stat := 0x80\<rparr>) []) = Inr q"
    by (auto simp: parse_answer)
  show "(to_command (c_cmd ?cmd) = USERIO_NACK \<longrightarrow> IoOk () = IoOk () \<and>
        em_rx (legacy_handle (serialize p) n) = [] \<and> em_mem (legacy_handle (serialize p) n) = store m (h_addr (pk_header p)) ?ws)
    \<and> (to_command (c_cmd ?cmd) = USERIO_ACK \<longrightarrow> IoOk () = IoOk () \<and>
        answers_with legacy_ops ''10.0.0.2'' legacy_view (store m (h_addr (pk_header p)) ?ws) legacy_ack
          (legacy_handle (serialize p) n))"
  proof (intro conjI impI)
    assume "to_command (c_cmd ?cmd) = USERIO_ACK"
    then show "answers_with legacy_ops ''10.0.0.2'' legacy_view (store m (h_addr (pk_header p)) ?ws) legacy_ack
          (legacy_handle (serialize p) n)"
      using legacy_answers [of "legacy_handle (serialize p) n" q legacy_ack] q ack [OF q] legacy_answer_nonempty
      by (simp add: handle)
  qed (simp_all add: handle)
qed

lemma legacy_packet_read: "packet_read_law legacy_ops ''10.0.0.2'' UNIV legacy_view"
  unfolding packet_read_law_def Let_def legacy_ops_simps fst_conv snd_conv
proof (intro allI impI)
  fix n :: emu and p :: APS2EthernetPacket and m
  let ?cmd = "h_command (pk_header p)" and ?a = "h_addr (pk_header p)"
  assume h: "(em_rx n = [] \<and> em_mem n = m) \<and> packet_macs_ok p \<and> \<not> c_ack ?cmd \<and> c_r_w ?cmd
    \<and> to_command (c_cmd ?cmd) = USERIO_ACK \<and> unat (c_cnt ?cmd) \<le> MAX_PAYLOAD \<and> pk_payload p = []
    \<and> words_at ?a (unat (c_cnt ?cmd)) \<subseteq> UNIV"
  let ?bs = "legacy_answer ?cmd (be32 ?a @ concat (map be32 (load m ?a (unat (c_cnt ?cmd)))))"
  have handle: "legacy_handle (serialize p) n = n\<lparr>em_rx := ?bs\<rparr>"
    using legacy_handle_serialize [of p] h by (auto simp: legacy_handle_def Let_def)
  obtain q where q: "packet_of_bytes ?bs = Inr q" "pk_payload q = load m ?a (unat (c_cnt ?cmd))"
    using h by (auto simp: parse_answer payload_words_be32s)
  show "IoOk () = IoOk () \<and> answers_with legacy_ops ''10.0.0.2'' legacy_view m
      (\<lambda>q. pk_payload q = load m ?a (unat (c_cnt ?cmd))) (legacy_handle (serialize p) n)"
    using legacy_answers [of "legacy_handle (serialize p) n" q] q h legacy_answer_nonempty by (simp add: handle)
qed

text \<open>An object connected to it.\<close>

definition legacy_state :: "memory \<Rightarrow> emu st" where
  "legacy_state m = (emu_state m)\<lparr>devInfo := [''10.0.0.2'' \<mapsto> EthernetDevInfo_init\<lparr>di_endpoint := (''10.0.0.2'', UDP_PORT_OLD)\<rparr>],
     msgQueues := [''10.0.0.2'' \<mapsto> []], tcp_sockets := Map.empty\<rparr>"

lemma legacy_state_ok: "legacy_ok legacy_ops UNIV legacy_view (legacy_state m)"
  using legacy_packet_write legacy_packet_read
  by (simp add: legacy_ok_def legacy_device_def queued_def legacy_state_def emu_state_def emu_obj_def
      APS2_construct_def EthernetDevInfo_init_def legacy_view_def mac_ok_def MACAddr_init_def)

section \<open>Properties\<close>

text \<open>
  C23. On a connected legacy module that keeps its laws, a write of any length, cut into datagrams,
  packets of 256 words and chunks of 20 packets of which the last is acknowledged, succeeds and
  stores exactly its words; up to 256 of them at a time can then be read back from any place.
\<close>

theorem legacy_memory_round_trip:
  assumes "legacy_ok N A D s" "bus_writable A a (length ws)" "length ws \<le> 2 ^ 30"
  shows "\<exists>t. write_memory N a ws s = (Inr (), t) \<and> legacy_ok N A D t \<and> obj t = obj s
    \<and> dv_mem D (net t) = store (dv_mem D (net s)) a ws
    \<and> (\<forall>i k. i + k \<le> length ws \<and> k \<le> 256 \<longrightarrow>
        (\<exists>u. read_memory N (a + 4 * of_nat i) (of_nat k) t = (Inr (take k (drop i ws)), u) \<and> legacy_ok N A D u))"
proof -
  from refines_run [OF legacy.write_law [where a = a and ws = ws] assms(1), of "Inr ()"] assms(2) obtain t where
    t: "write_memory N a ws s = (Inr (), t)" "legacy_ok N A D t"
      "device_bus D t = (store (dv_mem D (net s)) a ws, obj s)"
    by (auto simp: bus_write_def device_bus_def)
  let ?m = "dv_mem D (net t)"
  have m: "load ?m a (length ws) = ws"
    using load_store [OF assms(3)] t(3) by (simp add: device_bus_def)
  have "\<exists>u. read_memory N (a + 4 * of_nat i) (of_nat k) t = (Inr (take k (drop i ws)), u) \<and> legacy_ok N A D u"
    if "i + k \<le> length ws" "k \<le> 256" for i k
  proof -
    have part: "take k (drop i ws) = load ?m (a + 4 * of_nat i) k"
      using load_part [OF that(1), of ?m a] m by simp
    have "words_at (a + 4 * of_nat i) k \<subseteq> A"
      using words_at_part [OF _ that(1)] assms(2) by (simp add: bus_writable_def)
    then have "packet_readable A (a + 4 * of_nat i) (unat (of_nat k :: u32))"
      using that(2) by (simp add: packet_readable_def MAX_PAYLOAD_def unat_of_nat take_bit_nat_eq_self)
    with refines_run [OF legacy.read_law [where a = "a + 4 * of_nat i" and n = "of_nat k"] t(2),
        of "Inr (load ?m (a + 4 * of_nat i) k)"]
    show ?thesis
      using that(2) by (auto simp: bus_read_def device_bus_def part unat_of_nat take_bit_nat_eq_self)
  qed
  with t show ?thesis by (auto simp: device_bus_def)
qed

theorem legacy_memory_round_trip_witness:
  "\<exists>t u. write_memory legacy_ops 0x10 (replicate 1000 7) (legacy_state (\<lambda>a. 0)) = (Inr (), t)
    \<and> read_memory legacy_ops 0x20 2 t = (Inr [7, 7], u)"
proof -
  have "bus_writable UNIV 0x10 (length (replicate 1000 (7 :: u32)))"
    by (simp add: bus_writable_def aligned_write_def)
  from legacy_memory_round_trip [OF legacy_state_ok [of "\<lambda>a. 0"] this] obtain t where
    t: "write_memory legacy_ops 0x10 (replicate 1000 7) (legacy_state (\<lambda>a. 0)) = (Inr (), t)"
    "\<forall>i k. i + k \<le> 1000 \<and> k \<le> 256 \<longrightarrow> (\<exists>u. read_memory legacy_ops (0x10 + 4 * of_nat i) (of_nat k) t
      = (Inr (take k (drop i (replicate 1000 7))), u) \<and> legacy_ok legacy_ops UNIV legacy_view u)"
    by auto
  show ?thesis using t(1) t(2) [rule_format, of 4 2] by (auto simp: numeral_2_eq_2)
qed

text \<open>
  C24. Waiting for a packet of a connected legacy module: if one comes in time, that is after so many
  turns of the polling loop that their sleeps, which may take twice as long as asked for, end before
  the time-out, \<open>receive\<close> returns it, whatever other packets arrive; if none ever comes it ends with
  APS2_RECEIVE_TIMEOUT.
\<close>

theorem receive_in_time:
  assumes "queued [] s"
  shows "(answer_due N (ipAddr (obj s)) D m bs j (net s) \<and> packet_of_bytes bs = Inr p \<and> 20 * j < timeout \<longrightarrow>
      (\<exists>t. eth_receive N (ipAddr (obj s)) 1 timeout s = (Inr [p], t) \<and> queued [] t))
    \<and> ((\<forall>n. from_module (ipAddr (obj s)) (fst (net_arrivals N n)) = []) \<longrightarrow>
      fst (eth_receive N (ipAddr (obj s)) 1 timeout s) = Inl (Thrown APS2_RECEIVE_TIMEOUT))"
proof (intro conjI impI)
  assume "answer_due N (ipAddr (obj s)) D m bs j (net s) \<and> packet_of_bytes bs = Inr p \<and> 20 * j < timeout"
  with receive_due [of N s D m bs j p 0 timeout] assms
  show "\<exists>t. eth_receive N (ipAddr (obj s)) 1 timeout s = (Inr [p], t) \<and> queued [] t"
    by (auto simp: eth_receive_def)
next
  assume none: "\<forall>n. from_module (ipAddr (obj s)) (fst (net_arrivals N n)) = []"
  show "fst (eth_receive N (ipAddr (obj s)) 1 timeout s) = Inl (Thrown APS2_RECEIVE_TIMEOUT)"
    using receive_never [OF none assms] .
qed

theorem receive_in_time_witness:
  "(\<exists>p t. eth_receive legacy_ops ''10.0.0.2'' 1 1000
      ((legacy_state (\<lambda>a. 0))\<lparr>net := \<lparr>em_mem = \<lambda>a. 0, em_rx = legacy_answer APS2Command_init []\<rparr>\<rparr>) = (Inr [p], t))
    \<and> fst (eth_receive emu_ops ''10.0.0.2'' 1 1000 (legacy_state (\<lambda>a. 0))) = Inl (Thrown APS2_RECEIVE_TIMEOUT)"
proof -
  let ?s = "(legacy_state (\<lambda>a. 0))\<lparr>net := \<lparr>em_mem = \<lambda>a. 0, em_rx = legacy_answer APS2Command_init []\<rparr>\<rparr>"
  have q: "queued [] (legacy_state (\<lambda>a. 0))" "queued [] ?s"
    using legacy_state_ok [of "\<lambda>a. 0"] by (simp_all add: legacy_ok_def queued_def)
  have ip: "ipAddr (obj (legacy_state (\<lambda>a. 0))) = ''10.0.0.2''"
    by (simp add: legacy_state_def emu_state_def emu_obj_def APS2_construct_def)
  obtain p where p: "packet_of_bytes (legacy_answer APS2Command_init []) = Inr p"
    by (auto simp: parse_answer APS2Command_init_def to_command_def Let_def)
  have "answer_due legacy_ops ''10.0.0.2'' legacy_view (\<lambda>a. 0) (legacy_answer APS2Command_init []) 0 (net ?s)"
    by (simp add: legacy_ops_def from_module_def settled_def legacy_view_def legacy_answer_def)
  moreover have "\<forall>n. from_module ''10.0.0.2'' (fst (net_arrivals emu_ops n)) = []"
    by (simp add: emu_ops_def from_module_def)
  ultimately show ?thesis
    using receive_in_time [OF q(1), of emu_ops legacy_view "\<lambda>a. 0" "[]" 0 p 1000]
      receive_in_time [OF q(2), of legacy_ops legacy_view "\<lambda>a. 0" "legacy_answer APS2Command_init []" 0 p 1000] p
    by (auto simp: ip)
qed

end
