(* ===== verification/Chips.thy ===== *)
theory Chips
  imports Storage
begin

text \<open>
  The chips behind the SPI bus, as the stream of command words describes them (\<open>constants.h\<close>): the
  laws of a module that carries out such a stream, and what the driver's writes and reads of chip
  registers do on it.
\<close>

section \<open>Command streams\<close>

text \<open>
  The registers of the chips, by the target byte of the chip and the register's address, the byte
  the last read instruction fetched, and the words sent to the VCXO controller.
\<close>

record chipset =
  sp_reg :: "u8 \<Rightarrow> u16 \<Rightarrow> u8"
  sp_latch :: u8
  sp_vcxo :: "u32 list"

text \<open>
  What a read returns is up to the chip: \<open>R chip regs a\<close> for register \<open>a\<close> when the registers were
  written with \<open>regs\<close>. An instruction is an address and, on top, a read bit.
\<close>

type_synonym readout = "u8 \<Rightarrow> (u16 \<Rightarrow> u8) \<Rightarrow> u16 \<Rightarrow> u8"

definition put_reg :: "u8 \<Rightarrow> u16 \<Rightarrow> u8 \<Rightarrow> chipset \<Rightarrow> chipset" where
  "put_reg chip a v c = c\<lparr>sp_reg := (sp_reg c)(chip := (sp_reg c chip)(a := v))\<rparr>"

definition get_reg :: "readout \<Rightarrow> u8 \<Rightarrow> u16 \<Rightarrow> chipset \<Rightarrow> u8" where
  "get_reg R chip a c = R chip (sp_reg c chip) a"

definition single_of :: "u8 \<Rightarrow> u8 option" where
  "single_of t =
     (if t = CHIPCONFIG_IO_TARGET_DAC_0_SINGLE then Some CHIPCONFIG_IO_TARGET_DAC_0
      else if t = CHIPCONFIG_IO_TARGET_DAC_1_SINGLE then Some CHIPCONFIG_IO_TARGET_DAC_1
      else if t = CHIPCONFIG_IO_TARGET_PLL_SINGLE then Some CHIPCONFIG_IO_TARGET_PLL else None)"

definition reads_one :: "APSChipConfigCommand \<Rightarrow> bool" where
  "reads_one cmd \<longleftrightarrow> cc_spicnt_data cmd = 1 \<and>
     (if cc_target cmd = CHIPCONFIG_IO_TARGET_PLL then bit (cc_instr cmd) 15
      else cc_target cmd \<in> {CHIPCONFIG_IO_TARGET_DAC_0, CHIPCONFIG_IO_TARGET_DAC_1} \<and> bit (cc_instr cmd) 7)"

definition instr_addr :: "u8 \<Rightarrow> u16 \<Rightarrow> u16" where
  "instr_addr chip i = (if chip = CHIPCONFIG_IO_TARGET_PLL then i AND 0x1fff else i AND 0x1f)"

text \<open>
  The words of a stream up to its end mark: single byte writes, reads, VCXO commands, each followed
  by a data word, and pauses.
\<close>

fun spi_run :: "readout \<Rightarrow> u32 list \<Rightarrow> chipset \<Rightarrow> chipset" where
  "spi_run R [] c = c"
| "spi_run R (w # ws) c =
     (let cmd = cc_unpack w; t = cc_target cmd in
      if t = CHIPCONFIG_IO_TARGET_EOL then c
      else if t = CHIPCONFIG_IO_TARGET_VCXO then spi_run R (tl ws) (c\<lparr>sp_vcxo := sp_vcxo c @ [hd ws]\<rparr>)
      else if reads_one cmd
      then spi_run R ws (c\<lparr>sp_latch := get_reg R t (instr_addr t (cc_instr cmd)) c\<rparr>)
      else case single_of t of
             Some chip \<Rightarrow> spi_run R ws (put_reg chip (instr_addr chip (cc_instr cmd)) (cc_spicnt_data cmd) c)
           | None \<Rightarrow> spi_run R ws c)"

text \<open>The streams this describes: complete, with no other kind of word.\<close>

definition plain_word :: "APSChipConfigCommand \<Rightarrow> bool" where
  "plain_word cmd \<longleftrightarrow> cc_target cmd = CHIPCONFIG_IO_TARGET_PAUSE \<or> reads_one cmd
     \<or> (case single_of (cc_target cmd) of None \<Rightarrow> False
        | Some chip \<Rightarrow> \<not> bit (cc_instr cmd) (if chip = CHIPCONFIG_IO_TARGET_PLL then 15 else 7))"

fun stream_ok :: "u32 list \<Rightarrow> bool" where
  "stream_ok [] = False"
| "stream_ok (w # ws) =
     (let cmd = cc_unpack w; t = cc_target cmd in
      if t = CHIPCONFIG_IO_TARGET_EOL then True
      else if t = CHIPCONFIG_IO_TARGET_VCXO then ws \<noteq> [] \<and> stream_ok (tl ws)
      else plain_word cmd \<and> stream_ok ws)"

text \<open>
  The module carries out a stream sent to it in one datagram and answers success; a read request
  then returns a word whose top byte is the byte fetched last.
\<close>

definition spi_write_cmd :: APS2Command where
  "spi_write_cmd = APS2Command_init\<lparr>c_ack := True, c_sel := True, c_cmd := command_code CHIPCONFIGIO\<rparr>"

definition spi_read_cmd :: APS2Command where
  "spi_read_cmd = APS2Command_init\<lparr>c_r_w := True, c_sel := True, c_cmd := command_code CHIPCONFIGIO, c_cnt := 1\<rparr>"

definition chip_laws :: "'n net_ops \<Rightarrow> nat \<Rightarrow> readout \<Rightarrow> ('n, chipset) module_view \<Rightarrow> bool" where
  "chip_laws N sk R D \<longleftrightarrow>
     (\<forall>msg. length msg \<le> 0x100 \<and> stream_ok msg \<longrightarrow>
          carries_out N sk D (dg_piece spi_write_cmd 0 msg) (spi_run R msg)
            (\<lambda>c ans. c_mode_stat (dg_cmd ans) = 0))
     \<and> carries_out N sk D \<lparr>dg_cmd = spi_read_cmd, dg_addr = 0, dg_payload = []\<rparr> (\<lambda>c. c)
          (\<lambda>c ans. c_mode_stat (dg_cmd ans) = 0
             \<and> (\<exists>w. dg_payload ans = [w] \<and> drop_bit 24 w = ucast (sp_latch c)))"

text \<open>The states between two calls: the content of the chips, and the module's object.\<close>

definition chips :: "'n net_ops \<Rightarrow> nat \<Rightarrow> readout \<Rightarrow> ('n, chipset) module_view \<Rightarrow> chipset \<times> aps2 \<Rightarrow> 'n st \<Rightarrow> bool" where
  "chips N sk R D x s \<longleftrightarrow> stage (chip_laws N sk R D) N sk D (fst x) s \<and> obj s = snd x"

section \<open>Writing and reading registers\<close>

lemma cc_target_eol [simp]: "cc_target (cc_unpack spi_eol) = CHIPCONFIG_IO_TARGET_EOL"
  by (simp add: spi_eol_def cc_init_def)

lemma chips_law: "(chip_laws N sk R D \<Longrightarrow> triple (chips N sk R D) x m r x') \<Longrightarrow> triple (chips N sk R D) x m r x'"
  by (auto simp: triple_def chips_def stage_def)

lemma write_SPI_one:
  "length msg < 0x100 \<Longrightarrow> write_SPI N msg = rm_send N [dg_piece spi_write_cmd 0 (msg @ [spi_eol])]"
  by (simp add: write_SPI_def chunked_def dg_chunk_eq blocks_step [of "0x100"] bindM_returnM spi_write_cmd_def)

lemma spi_write_acked:
  "c_ack (dg_cmd (dg_piece spi_write_cmd 0 ws))"
  "c_mode_stat (dg_cmd ans) = 0 \<Longrightarrow> ack_expected (dg_piece spi_write_cmd 0 ws) False ans"
  by (simp_all add: dg_piece_def spi_write_cmd_def APS2Command_init_def ack_expected_def to_command_def)

lemma triple_write_SPI:
  assumes "stream_ok (msg @ [spi_eol])" "length msg < 0x100"
  shows "triple (chips N sk R D) (c, a) (write_SPI N msg) (Inr ()) (spi_run R (msg @ [spi_eol]) c, a)"
proof (rule chips_law)
  assume "chip_laws N sk R D"
  then have law: "carries_out N sk D (dg_piece spi_write_cmd 0 (msg @ [spi_eol])) (spi_run R (msg @ [spi_eol]))
      (\<lambda>c ans. c_mode_stat (dg_cmd ans) = 0)"
    using assms by (simp add: chip_laws_def)
  show "triple (chips N sk R D) (c, a) (write_SPI N msg) (Inr ()) (spi_run R (msg @ [spi_eol]) c, a)"
    unfolding triple_def chips_def write_SPI_one [OF assms(2)]
    using send_run [OF law spi_write_acked] by fastforce
qed

text \<open>The words of the driver's messages.\<close>

lemma spi_run_eol [simp]: "spi_run R (spi_eol # ws) c = c"
  by simp

lemma stream_ok_eol [simp]: "stream_ok (spi_eol # ws)"
  by simp

lemma single_of_cases:
  "single_of t = Some chip \<Longrightarrow> t \<noteq> CHIPCONFIG_IO_TARGET_EOL \<and> t \<noteq> CHIPCONFIG_IO_TARGET_VCXO
    \<and> t \<notin> {CHIPCONFIG_IO_TARGET_PLL, CHIPCONFIG_IO_TARGET_DAC_0, CHIPCONFIG_IO_TARGET_DAC_1}"
  by (auto simp: single_of_def const_defs split: if_splits)

lemma spi_run_single:
  assumes "single_of t = Some chip"
  shows "spi_run R (cc_packed \<lparr>cc_instr = i, cc_spicnt_data = d, cc_target = t\<rparr> # ws) c
    = spi_run R ws (put_reg chip (instr_addr chip i) d c)"
  using assms single_of_cases [OF assms] by (simp add: reads_one_def Let_def)

lemma stream_ok_single:
  assumes "single_of t = Some chip" "\<not> bit i (if chip = CHIPCONFIG_IO_TARGET_PLL then 15 else 7)"
  shows "stream_ok (cc_packed \<lparr>cc_instr = i, cc_spicnt_data = d, cc_target = t\<rparr> # ws) = stream_ok ws"
  using assms single_of_cases [OF assms(1)] by (simp add: plain_word_def Let_def)

lemma spi_run_read:
  "reads_one cmd \<Longrightarrow> spi_run R (cc_packed cmd # ws) c
    = spi_run R ws (c\<lparr>sp_latch := get_reg R (cc_target cmd) (instr_addr (cc_target cmd) (cc_instr cmd)) c\<rparr>)"
  by (auto simp: reads_one_def Let_def const_defs split: if_splits)

lemma stream_ok_read: "reads_one cmd \<Longrightarrow> stream_ok (cc_packed cmd # ws) = stream_ok ws"
  by (auto simp: plain_word_def Let_def) (auto simp: reads_one_def const_defs split: if_splits)

text \<open>Addresses that fit the instruction of a chip.\<close>

definition chip_addr :: "u8 \<Rightarrow> u16 \<Rightarrow> bool" where
  "chip_addr chip a \<longleftrightarrow> (if chip = CHIPCONFIG_IO_TARGET_PLL then a < 0x2000 else a < 0x20)"

lemma less_mask_bits:
  fixes w :: "'a::len word"
  assumes "w < 2 ^ n" "n < LENGTH('a)"
  shows "w AND mask n = w" "\<And>k. n \<le> k \<Longrightarrow> \<not> bit w k"
proof -
  show "w AND mask n = w" using assms mask_eq_iff_w2p [of n w] by (simp add: word_size)
  then have "take_bit n w = w" by (simp add: take_bit_eq_mask)
  then show "\<And>k. n \<le> k \<Longrightarrow> \<not> bit w k"
    by (metis bit_take_bit_iff not_le)
qed

lemma chip_addr_instr:
  assumes "chip_addr chip a"
  shows "instr_addr chip a = a" "\<not> bit a (if chip = CHIPCONFIG_IO_TARGET_PLL then 15 else 7)"
proof -
  have m: "(0x1fff :: u16) = mask 13" "(0x1f :: u16) = mask 5" by (simp_all add: mask_eq_exp_minus_1)
  show "instr_addr chip a = a"
    using assms less_mask_bits(1) [of a 13] less_mask_bits(1) [of a 5]
    by (simp add: chip_addr_def instr_addr_def m split: if_splits)
  show "\<not> bit a (if chip = CHIPCONFIG_IO_TARGET_PLL then 15 else 7)"
    using assms less_mask_bits(2) [of a 13 15] less_mask_bits(2) [of a 5 7]
    by (simp add: chip_addr_def split: if_splits)
qed

lemma spi_run_words:
  assumes "single_of t = Some chip" "\<forall>(a, d) \<in> set ads. chip_addr chip a"
  shows "spi_run R (map (\<lambda>(a, d). cc_packed \<lparr>cc_instr = a, cc_spicnt_data = d, cc_target = t\<rparr>) ads @ ws) c
      = spi_run R ws (fold (\<lambda>(a, d). put_reg chip a d) ads c)"
    "stream_ok (map (\<lambda>(a, d). cc_packed \<lparr>cc_instr = a, cc_spicnt_data = d, cc_target = t\<rparr>) ads @ ws) = stream_ok ws"
  using assms(2)
  by (induction ads arbitrary: c)
    (auto simp: spi_run_single [OF assms(1)] stream_ok_single [OF assms(1)] chip_addr_instr
      simp del: spi_run.simps stream_ok.simps)

lemma triple_write_PLL:
  assumes "\<forall>(a, d) \<in> set ads. a < 0x2000" "length ads < 0x100"
  shows "triple (chips N sk R D) (c, x) (write_SPI N (build_PLL_SPI_msg ads)) (Inr ())
    (fold (\<lambda>(a, d). put_reg CHIPCONFIG_IO_TARGET_PLL a d) ads c, x)"
proof -
  have s: "single_of CHIPCONFIG_IO_TARGET_PLL_SINGLE = Some CHIPCONFIG_IO_TARGET_PLL"
    by (simp add: single_of_def const_defs)
  have a: "\<forall>(a, d) \<in> set ads. chip_addr CHIPCONFIG_IO_TARGET_PLL a"
    using assms(1) by (auto simp: chip_addr_def)
  have l: "length (build_PLL_SPI_msg ads) < 0x100" using assms(2) by (simp add: build_PLL_SPI_msg_def)
  show ?thesis
    using triple_write_SPI [OF _ l, where N = N and sk = sk and R = R and D = D and c = c and a = x] spi_run_words(1) [OF s a, where R = R and ws = "[spi_eol]"]
      spi_run_words(2) [OF s a, where ws = "[spi_eol]"]
    by (simp add: build_PLL_SPI_msg_def del: spi_run.simps stream_ok.simps)
qed

definition dac_of :: "CHIPCONFIG_IO_TARGET \<Rightarrow> u8" where
  "dac_of target = (if target = CHIPCONFIG_TARGET_DAC_0 then CHIPCONFIG_IO_TARGET_DAC_0 else CHIPCONFIG_IO_TARGET_DAC_1)"

definition is_dac :: "CHIPCONFIG_IO_TARGET \<Rightarrow> bool" where
  "is_dac target \<longleftrightarrow> target = CHIPCONFIG_TARGET_DAC_0 \<or> target = CHIPCONFIG_TARGET_DAC_1"

lemma triple_write_DAC:
  assumes "is_dac target" "a < 0x20"
  shows "triple (chips N sk R D) (c, x) (write_DAC_reg N target a v) (Inr ()) (put_reg (dac_of target) a v c, x)"
proof -
  define t where "t = (if target = CHIPCONFIG_TARGET_DAC_0 then CHIPCONFIG_IO_TARGET_DAC_0_SINGLE
    else CHIPCONFIG_IO_TARGET_DAC_1_SINGLE)"
  have s: "single_of t = Some (dac_of target)"
    by (simp add: t_def dac_of_def single_of_def const_defs)
  have a: "\<forall>(b, d) \<in> set [(a, v)]. chip_addr (dac_of target) b"
    using assms(2) by (simp add: chip_addr_def dac_of_def const_defs)
  have "build_DAC_SPI_msg target [(a, v)] = Inr (DAC_SPI_words t [(a, v)])"
    using assms(1) by (auto simp: build_DAC_SPI_msg_def is_dac_def t_def)
  then have "write_DAC_reg N target a v = write_SPI N (DAC_SPI_words t [(a, v)])"
    by (simp add: write_DAC_reg_def liftE_Inr bindM_returnM)
  then show ?thesis
    using triple_write_SPI [where msg = "DAC_SPI_words t [(a, v)]" and N = N and sk = sk and R = R and D = D and c = c and a = x] spi_run_words(1) [OF s a, where R = R and ws = "[spi_eol]"]
      spi_run_words(2) [OF s a, where ws = "[spi_eol]"]
    by (simp add: DAC_SPI_words_def del: spi_run.simps stream_ok.simps)
qed

text \<open>A read fetches the register, four times, and returns the byte.\<close>

definition chip_of :: "CHIPCONFIG_IO_TARGET \<Rightarrow> u8" where
  "chip_of target = (if target = CHIPCONFIG_TARGET_PLL then CHIPCONFIG_IO_TARGET_PLL else dac_of target)"

lemma spi_read_instr_reads:
  assumes "is_dac target \<or> target = CHIPCONFIG_TARGET_PLL" "chip_addr (chip_of target) a"
  shows "\<exists>cmd. spi_read_instr target a = Some cmd \<and> reads_one cmd \<and> cc_target cmd = chip_of target
    \<and> instr_addr (chip_of target) (cc_instr cmd) = a"
proof -
  have m: "(0x1fff :: u16) = mask 13" "(0x1f :: u16) = mask 5" by (simp_all add: mask_eq_exp_minus_1)
  have pll: "pll_packed \<lparr>pll_addr = ucast a, pll_W = 0, pll_r_w = True\<rparr> AND 0x1fff = a AND mask 13"
    "bit (pll_packed \<lparr>pll_addr = ucast a, pll_W = 0, pll_r_w = True\<rparr>) 15"
    by (rule bit_word_eqI) (auto simp: m pll_packed_def bit_simps bit_push_bit_iff simp del: push_bit_of_1)
  have dac: "(ucast (dac_packed \<lparr>dac_addr = ucast a, dac_N = 0, dac_r_w = True\<rparr>) :: u16) AND 0x1f = a AND mask 5"
    "bit (ucast (dac_packed \<lparr>dac_addr = ucast a, dac_N = 0, dac_r_w = True\<rparr>) :: u16) 7"
    by (rule bit_word_eqI) (auto simp: m dac_packed_def bit_simps bit_push_bit_iff simp del: push_bit_of_1)
  have a: "a AND mask (if chip_of target = CHIPCONFIG_IO_TARGET_PLL then 13 else 5) = a"
    using chip_addr_instr(1) [OF assms(2)] by (simp add: instr_addr_def m split: if_splits)
  show ?thesis
    using assms(1) a
    by (intro exI [of _ "the (spi_read_instr target a)"])
      (auto simp: spi_read_instr_def Let_def is_dac_def chip_of_def dac_of_def reads_one_def instr_addr_def
        pll dac const_defs)
qed

lemma triple_read_SPI:
  assumes "is_dac target \<or> target = CHIPCONFIG_TARGET_PLL" "chip_addr (chip_of target) a"
  shows "triple (chips N sk R D) (c, x) (read_SPI N target a) (Inr (ucast (get_reg R (chip_of target) a c)))
    (c\<lparr>sp_latch := get_reg R (chip_of target) a c\<rparr>, x)"
proof (rule chips_law)
  assume laws: "chip_laws N sk R D"
  from spi_read_instr_reads [OF assms] obtain cmd where
    cmd: "spi_read_instr target a = Some cmd" "reads_one cmd" "cc_target cmd = chip_of target"
      "instr_addr (chip_of target) (cc_instr cmd) = a" by blast
  let ?v = "get_reg R (chip_of target) a c"
  let ?c = "c\<lparr>sp_latch := ?v\<rparr>" and ?msg = "replicate 4 (cc_packed cmd)"
  have "stream_ok (?msg @ [spi_eol])" "spi_run R (?msg @ [spi_eol]) c = ?c"
    using cmd by (simp_all add: numeral_eq_Suc stream_ok_read spi_run_read get_reg_def del: spi_run.simps stream_ok.simps)
  then have sent: "triple (chips N sk R D) (c, x) (write_SPI N ?msg) (Inr ()) (?c, x)"
    using triple_write_SPI [where msg = ?msg and N = N and sk = sk and R = R and D = D and c = c and a = x]
    by simp
  have law: "carries_out N sk D \<lparr>dg_cmd = spi_read_cmd, dg_addr = 0, dg_payload = []\<rparr> (\<lambda>c. c)
      (\<lambda>c ans. c_mode_stat (dg_cmd ans) = 0 \<and> (\<exists>w. dg_payload ans = [w] \<and> drop_bit 24 w = ucast (sp_latch c)))"
    using laws by (simp add: chip_laws_def)
  define answer where "answer = bindM (request N spi_read_cmd 0) (\<lambda>result.
           if c_mode_stat (dg_cmd result) \<noteq> 0x00 then throwM (Thrown APS2_COMMS_ERROR)
           else bindM (vec_at (dg_payload result) 0) (\<lambda>w. returnM (drop_bit 24 w)))"
  have "triple (chips N sk R D) (?c, x) answer (Inr (ucast ?v)) (?c, x)"
    unfolding triple_def
  proof (intro allI impI)
    fix s
    assume s: "chips N sk R D (?c, x) s"
    from request_run [OF law, of "chip_laws N sk R D" ?c s] s obtain ans n w where
      r: "request N spi_read_cmd 0 s = (Inr ans, s\<lparr>net := n\<rparr>)" "c_mode_stat (dg_cmd ans) = 0"
        "dg_payload ans = [w]" "drop_bit 24 w = (ucast ?v :: u32)" "chips N sk R D (?c, x) (s\<lparr>net := n\<rparr>)"
      by (auto simp: chips_def spi_read_cmd_def APS2Command_init_def)
    have "answer s = (Inr (ucast ?v), s\<lparr>net := n\<rparr>)"
      using r by (simp add: answer_def bindM_def vec_at_def run_simps)
    with r(5) show "\<exists>t. answer s = (Inr (ucast ?v), t) \<and> chips N sk R D (?c, x) t" by blast
  qed
  with sent show "triple (chips N sk R D) (c, x) (read_SPI N target a) (Inr (ucast ?v)) (?c, x)"
    unfolding read_SPI_def cmd(1) option.case answer_def spi_read_cmd_def [symmetric] by (rule triple_seqM)
qed

section \<open>One chip\<close>

text \<open>The chips with the registers of one chip and the last byte read.\<close>

definition with_regs :: "u8 \<Rightarrow> (u16 \<Rightarrow> u8) \<Rightarrow> u8 \<Rightarrow> chipset \<Rightarrow> chipset" where
  "with_regs chip r l c = c\<lparr>sp_reg := (sp_reg c)(chip := r), sp_latch := l\<rparr>"

lemma with_regs_same: "with_regs chip (sp_reg c chip) (sp_latch c) c = c"
  by (simp add: with_regs_def)

lemma put_reg_with [simp]: "put_reg chip a v (with_regs chip r l c) = with_regs chip (r(a := v)) l c"
  by (simp add: put_reg_def with_regs_def)

lemma sp_reg_with [simp]: "sp_reg (with_regs chip r l c) chip = r"
  by (simp add: with_regs_def)

lemma get_reg_with [simp]: "get_reg R chip a (with_regs chip r l c) = R chip r a"
  by (simp add: get_reg_def)

lemma fold_put_reg: "fold (\<lambda>(a, d). put_reg chip a d) ads (with_regs chip r l c)
    = with_regs chip (fold (\<lambda>(a, d) r. r(a := d)) ads r) l c"
  by (induction ads arbitrary: r) auto

lemma latch_with [simp]: "(with_regs chip r l c)\<lparr>sp_latch := v\<rparr> = with_regs chip r v c"
  by (simp add: with_regs_def)

text \<open>The driver's operations on it, for the proofs that follow a method step by step.\<close>

lemma triple_put_DAC:
  "is_dac target \<Longrightarrow> a < 0x20 \<Longrightarrow> triple (chips N sk R D) (with_regs (dac_of target) r l c, x)
    (write_DAC_reg N target a v) (Inr ()) (with_regs (dac_of target) (r(a := v)) l c, x)"
  using triple_write_DAC [of target a N sk R D "with_regs (dac_of target) r l c" x v] by simp

lemma triple_get_DAC:
  assumes "is_dac target" "a < 0x20"
  shows "triple (chips N sk R D) (with_regs (dac_of target) r l c, x) (read_SPI N target a)
      (Inr (ucast (R (dac_of target) r a))) (with_regs (dac_of target) r (R (dac_of target) r a) c, x)"
    "triple (chips N sk R D) (with_regs (dac_of target) r l c, x) (read_SPI8 N target a)
      (Inr (R (dac_of target) r a)) (with_regs (dac_of target) r (R (dac_of target) r a) c, x)"
proof -
  have "chip_of target = dac_of target" "chip_addr (dac_of target) a"
    using assms by (auto simp: chip_of_def is_dac_def chip_addr_def dac_of_def const_defs)
  then show read: "triple (chips N sk R D) (with_regs (dac_of target) r l c, x) (read_SPI N target a)
      (Inr (ucast (R (dac_of target) r a))) (with_regs (dac_of target) r (R (dac_of target) r a) c, x)"
    using triple_read_SPI [of target a N sk R D "with_regs (dac_of target) r l c" x] assms(1) by simp
  have "(ucast (ucast (R (dac_of target) r a) :: u32) :: u8) = R (dac_of target) r a"
    by (rule bit_word_eqI) (simp add: bit_simps)
  then show "triple (chips N sk R D) (with_regs (dac_of target) r l c, x) (read_SPI8 N target a)
      (Inr (R (dac_of target) r a)) (with_regs (dac_of target) r (R (dac_of target) r a) c, x)"
    unfolding read_SPI8_def using triple_bindM [OF read triple_returnM] by metis
qed

lemma triple_get_PLL:
  assumes "a < 0x2000"
  shows "triple (chips N sk R D) (with_regs CHIPCONFIG_IO_TARGET_PLL r l c, x) (read_SPI N CHIPCONFIG_TARGET_PLL a)
      (Inr (ucast (R CHIPCONFIG_IO_TARGET_PLL r a)))
      (with_regs CHIPCONFIG_IO_TARGET_PLL r (R CHIPCONFIG_IO_TARGET_PLL r a) c, x)"
  using triple_read_SPI [of CHIPCONFIG_TARGET_PLL a N sk R D "with_regs CHIPCONFIG_IO_TARGET_PLL r l c" x] assms
  by (simp add: chip_of_def chip_addr_def)

lemma triple_obj:
  "triple (chips N sk R D) (c, a) (get_obj f) (Inr (f a)) (c, a)"
  "ethernetRM (g a) = ethernetRM a \<Longrightarrow> ipAddr (g a) = ipAddr a \<Longrightarrow>
    triple (chips N sk R D) (c, a) (mod_obj g) (Inr ()) (c, g a)"
  by (auto simp: triple_def get_obj_def mod_obj_def run_simps chips_def stage_def answering_def linked_def)

section \<open>A module that carries out command streams\<close>

text \<open>It shows that the laws can hold for every way the chips may answer, and runs the witnesses.\<close>

record chip_emu =
  ce_chips :: chipset
  ce_rx :: "u8 list"

fun chip_handle :: "readout \<Rightarrow> u32 list \<Rightarrow> chip_emu \<Rightarrow> chip_emu" where
  "chip_handle R (w # addr # payload) n =
     (let cmd = unpack w in
      if c_r_w cmd
      then n\<lparr>ce_rx := ce_rx n @ answer_wire \<lparr>dg_cmd = cmd, dg_addr = 0,
               dg_payload = [push_bit 24 (ucast (sp_latch (ce_chips n)))]\<rparr>\<rparr>
      else n\<lparr>ce_chips := spi_run R payload (ce_chips n),
             ce_rx := ce_rx n @ answer_wire \<lparr>dg_cmd = cmd\<lparr>c_mode_stat := 0\<rparr>, dg_addr = 0, dg_payload = []\<rparr>\<rparr>)"
| "chip_handle R _ n = n"

definition chip_ops :: "readout \<Rightarrow> chip_emu net_ops" where
  "chip_ops R =
     \<lparr>net_ifaddrs = (\<lambda>n. []), net_valid_ip = (\<lambda>ip. True), net_broadcast = (\<lambda>ip mask. ip),
      net_udp_bind = (\<lambda>p n. (IoOk (), n)), net_udp_broadcast_on = (\<lambda>p n. (IoOk (), n)),
      net_udp_send = (\<lambda>p bs ep n. (IoOk (), n)), net_arrivals = (\<lambda>n. ([], n)),
      net_sleep = (\<lambda>d n. (0, n)), net_tcp_open = (\<lambda>n. (0, n)),
      net_tcp_connect = (\<lambda>sk ep t n. (IoOk (), n)),
      net_tcp_write = (\<lambda>sk bs t n. (IoOk (), chip_handle R (decode_all 4 of_be32 bs) n)),
      net_tcp_receive = (\<lambda>sk k t n. if ce_rx n = [] \<and> 0 < k then (IoTimeout, n)
         else (IoOk (take k (ce_rx n)), n\<lparr>ce_rx := drop k (ce_rx n)\<rparr>)),
      net_tcp_close = (\<lambda>sk n. n)\<rparr>"

definition chip_view :: "(chip_emu, chipset) module_view" where
  "chip_view = \<lparr>dv_ready = (\<lambda>n. True), dv_rx = ce_rx, dv_mem = ce_chips\<rparr>"

lemma drop_push_byte: "drop_bit 24 (push_bit 24 (ucast (b :: u8)) :: u32) = ucast b"
  by (rule bit_word_eqI) (auto simp: bit_simps dest: bit_imp_le_length)

lemma chip_ops_laws: "chip_laws (chip_ops R) 0 R chip_view"
  unfolding chip_laws_def carries_out_def
  by (auto simp: chip_ops_def chip_view_def decode_wire dg_piece_def spi_write_cmd_def spi_read_cmd_def
      APS2Command_init_def to_command_def answer_ok_def response_has_address_def drop_push_byte Let_def intro!: exI)

definition chip_state :: "chipset \<Rightarrow> chip_emu st" where
  "chip_state c = \<lparr>devInfo = [''10.0.0.2'' \<mapsto> emu_info], msgQueues = Map.empty,
     tcp_sockets = [''10.0.0.2'' \<mapsto> Some 0], net = \<lparr>ce_chips = c, ce_rx = []\<rparr>, obj = emu_obj\<rparr>"

lemma chip_state_ok: "chips (chip_ops R) 0 R chip_view (c, emu_obj) (chip_state c)"
proof -
  have "receive_law (chip_ops R) 0 chip_view"
    by (auto simp: receive_law_def chip_ops_def chip_view_def)
  then show ?thesis
    using chip_ops_laws
    by (simp add: chips_def stage_def answering_def linked_def chip_state_def emu_obj_def emu_info_def
        APS2_construct_def chip_view_def)
qed

definition blank_chips :: chipset where
  "blank_chips = \<lparr>sp_reg = (\<lambda>chip a. 0), sp_latch = 0, sp_vcxo = []\<rparr>"

end
