(* ===== verification/Alignment.thy ===== *)
theory Alignment
  imports Chips
begin

text \<open>
  The sampling rate and the DACs, end to end: what the driver's alignment procedures leave in the
  registers of the chips of a module that carries out their command streams.
\<close>

section \<open>The sampling rate\<close>

lemma triple_set_rate:
  assumes "pllCyclesVal (sint f) = Some cycles" "samplingRate a \<noteq> f"
  shows "triple (chips N sk R D) (with_regs CHIPCONFIG_IO_TARGET_PLL r l c, a) (set_sampleRate N f) (Inr ())
    (with_regs CHIPCONFIG_IO_TARGET_PLL (r(0x190 := cycles, 0x191 := pllBypassVal (sint f), 0x232 := 1)) l c,
      a\<lparr>samplingRate := f\<rparr>)"
proof -
  let ?ads = "[(0x190, cycles), (0x191, pllBypassVal (sint f)), (0x232 :: u16, 0x1)]"
  let ?c' = "with_regs CHIPCONFIG_IO_TARGET_PLL (r(0x190 := cycles, 0x191 := pllBypassVal (sint f), 0x232 := 1)) l c"
  have "triple (chips N sk R D) (with_regs CHIPCONFIG_IO_TARGET_PLL r l c, a)
      (write_SPI N (build_PLL_SPI_msg ?ads)) (Inr ()) (?c', a)"
    using triple_write_PLL [where ads = ?ads and c = "with_regs CHIPCONFIG_IO_TARGET_PLL r l c" and x = a
        and N = N and sk = sk and R = R and D = D] by simp
  then have "triple (chips N sk R D) (with_regs CHIPCONFIG_IO_TARGET_PLL r l c, a) (set_PLL_freq N (sint f))
      (Inr 0) (?c', a)"
    unfolding set_PLL_freq_def assms(1) option.case by (rule triple_seqM) (rule triple_returnM)
  then show ?thesis
    unfolding set_sampleRate_def
    by - (rule triple_bindM, rule triple_obj, simp add: assms(2) whenM_def, rule triple_bindM, assumption,
      rule triple_obj, simp_all)
qed

lemma triple_get_rate:
  assumes "pll_decode (ucast (R CHIPCONFIG_IO_TARGET_PLL r 0x190)) (ucast (R CHIPCONFIG_IO_TARGET_PLL r 0x191)) = Inr f"
  shows "triple (chips N sk R D) (with_regs CHIPCONFIG_IO_TARGET_PLL r l c, a) (get_sampleRate N) (Inr (word_of_int f))
    (with_regs CHIPCONFIG_IO_TARGET_PLL r (R CHIPCONFIG_IO_TARGET_PLL r 0x191) c, a\<lparr>samplingRate := word_of_int f\<rparr>)"
proof -
  have g: "triple (chips N sk R D) (c', a) (seqM (mod_obj (\<lambda>a. a\<lparr>samplingRate := w\<rparr>)) (get_obj samplingRate))
      (Inr w) (c', a\<lparr>samplingRate := w\<rparr>)" for c' w
    using triple_obj(1) [where a = "a\<lparr>samplingRate := w\<rparr>" and f = samplingRate and c = c' and N = N and sk = sk
        and R = R and D = D]
    by (intro triple_seqM [OF triple_obj(2)]) simp_all
  show ?thesis
    unfolding get_sampleRate_def get_PLL_freq_def
    by (rule triple_bindM, rule triple_bindM, rule triple_get_PLL, simp, rule triple_bindM,
        rule triple_get_PLL, simp, subst assms, rule triple_liftE, rule g)
qed

lemma triple_run:
  "triple (chips N sk R D) (c, a) m r (c', a') \<Longrightarrow> chips N sk R D (c, a) s \<Longrightarrow>
    \<exists>t. m s = (r, t) \<and> chips N sk R D (c', a') t"
  by (rule tripleD)

lemma sint_eqD: "sint w = sint v \<Longrightarrow> w = v"
  by (rule signed_word_eqI)

lemma set_rate_unknown:
  assumes "f \<notin> {200, 300, 600, 1200}" "samplingRate (obj s) \<noteq> f"
  shows "set_sampleRate N f s = (Inr (), s\<lparr>obj := (obj s)\<lparr>samplingRate := f\<rparr>\<rparr>)"
proof -
  have "sint f \<noteq> 200" "sint f \<noteq> 300" "sint f \<noteq> 600" "sint f \<noteq> 1200"
    using assms(1) sint_eqD [of f 200] sint_eqD [of f 300] sint_eqD [of f 600] sint_eqD [of f 1200] by auto
  then show ?thesis
    using assms(2)
    by (simp add: set_sampleRate_def set_PLL_freq_def pllCyclesVal_def get_obj_def mod_obj_def whenM_def bindM_def run_simps)
qed

text \<open>
  C16. On a module that carries out command streams, with a PLL whose divider registers read back what
  was written, setting one of the four sampling rates the table has, when it is not the rate recorded
  already, writes the divider, the bypass and the update register of the PLL and nothing else of any
  chip, and records the rate; the rate read from the chip afterwards is the one set. This holds from
  every state of the chips, so it needs no particular history. A rate that is not in the table is
  recorded as if it had been set, although nothing is sent and no error is raised.
\<close>

theorem sample_rate_round_trip:
  assumes "chips N sk R D (c, a) s" "samplingRate a \<noteq> f"
    and "\<And>r b. b \<in> {0x190, 0x191} \<Longrightarrow> R CHIPCONFIG_IO_TARGET_PLL r b = r b"
  shows "if f \<in> {200, 300, 600, 1200}
    then \<exists>t u v c'. set_sampleRate N f s = (Inr (), t) \<and> get_sampleRate N t = (Inr f, u)
      \<and> pllCyclesVal (sint f) = Some v
      \<and> c' = put_reg CHIPCONFIG_IO_TARGET_PLL 0x232 1 (put_reg CHIPCONFIG_IO_TARGET_PLL 0x191 (if f = 1200 then 0x80 else 0)
          (put_reg CHIPCONFIG_IO_TARGET_PLL 0x190 v c))
      \<and> chips N sk R D (c', a\<lparr>samplingRate := f\<rparr>) t
      \<and> (\<exists>b. chips N sk R D (c'\<lparr>sp_latch := b\<rparr>, a\<lparr>samplingRate := f\<rparr>) u)
    else set_sampleRate N f s = (Inr (), s\<lparr>obj := a\<lparr>samplingRate := f\<rparr>\<rparr>)"
proof (cases "f \<in> {200, 300, 600, 1200}")
  case False
  then show ?thesis using set_rate_unknown [of f s N] assms(1,2) by (simp add: chips_def)
next
  case True
  let ?P = CHIPCONFIG_IO_TARGET_PLL
  define r l where "r = sp_reg c ?P" and "l = sp_latch c"
  have c: "c = with_regs ?P r l c" by (simp add: r_def l_def with_regs_same)
  obtain v where v: "pllCyclesVal (sint f) = Some v" "pllBypassVal (sint f) = (if f = 1200 then 0x80 else 0)"
    "pll_decode (ucast v) (ucast (pllBypassVal (sint f))) = Inr (sint f)"
    using True by (auto simp: pllCyclesVal_def pllBypassVal_def pll_decode_def)
  define r' where "r' = r(0x190 := v, 0x191 := pllBypassVal (sint f), 0x232 := 1)"
  have "triple (chips N sk R D) (c, a) (set_sampleRate N f) (Inr ()) (with_regs ?P r' l c, a\<lparr>samplingRate := f\<rparr>)"
    using triple_set_rate [OF v(1) assms(2), where r = r and l = l and c = c] c by (simp add: r'_def)
  from triple_run [OF this assms(1)] obtain t where
    t: "set_sampleRate N f s = (Inr (), t)" "chips N sk R D (with_regs ?P r' l c, a\<lparr>samplingRate := f\<rparr>) t" by blast
  have "pll_decode (ucast (R ?P r' 0x190)) (ucast (R ?P r' 0x191)) = Inr (sint f)"
    using v(3) by (simp add: assms(3) r'_def)
  from triple_run [OF triple_get_rate [where R = R, OF this] t(2)] obtain u where
    "get_sampleRate N t = (Inr f, u)"
    "chips N sk R D (with_regs ?P r' (R ?P r' 0x191) c, a\<lparr>samplingRate := f\<rparr>) u"
    by auto
  moreover have "with_regs ?P r' l c = put_reg ?P 0x232 1 (put_reg ?P 0x191 (if f = 1200 then 0x80 else 0) (put_reg ?P 0x190 v c))"
    by (subst (2) c) (simp add: r'_def v(2))
  moreover have "with_regs ?P r' (R ?P r' 0x191) c = (with_regs ?P r' l c)\<lparr>sp_latch := R ?P r' 0x191\<rparr>"
    by simp
  ultimately show ?thesis
    using t v(1) unfolding if_P [OF True]
    by (intro exI [of _ t] exI [of _ u] exI [of _ v] exI [of _ "with_regs ?P r' l c"] conjI
        exI [of _ "R ?P r' 0x191"]) (simp_all only:)
qed

theorem sample_rate_round_trip_witness:
  "\<exists>t u. set_sampleRate (chip_ops (\<lambda>chip r. r)) 300 (chip_state blank_chips) = (Inr (), t)
    \<and> get_sampleRate (chip_ops (\<lambda>chip r. r)) t = (Inr 300, u) \<and> samplingRate (obj t) = 300"
proof -
  have f: "(300 :: u32) \<in> {200, 300, 600, 1200}" "samplingRate emu_obj \<noteq> 300"
    by (simp_all add: emu_obj_def APS2_construct_def)
  from sample_rate_round_trip [OF chip_state_ok f(2), where R = "\<lambda>chip r. r" and c = blank_chips] f(1)
  obtain t u c' where "set_sampleRate (chip_ops (\<lambda>chip r. r)) 300 (chip_state blank_chips) = (Inr (), t)"
    "get_sampleRate (chip_ops (\<lambda>chip r. r)) t = (Inr 300, u)"
    "chips (chip_ops (\<lambda>chip r. r)) 0 (\<lambda>chip r. r) chip_view (c', emu_obj\<lparr>samplingRate := 300\<rparr>) t"
    by auto
  then show ?thesis by (auto simp: chips_def)
qed

section \<open>The LVDS capture of a DAC\<close>

text \<open>
  A search over the delays from \<open>j\<close> on, when the check bit reads back set exactly below the edge
  \<open>m\<close>: it returns the edge, or 16, and leaves some delay in the register.
\<close>

lemma triple_find_edge:
  assumes "is_dac target" "j \<le> m" "m \<le> 16" "j \<le> 16"
    and "\<And>k. k < 16 \<Longrightarrow> bit (R (dac_of target) (r(ucast DAC_MSDMHD_ADDR := g (of_nat k))) (ucast DAC_SD_ADDR)) 0 \<longleftrightarrow> k < m"
  shows "\<exists>y' l'. triple (chips N sk R D) (with_regs (dac_of target) (r(ucast DAC_MSDMHD_ADDR := y)) l c, a)
    (find_edge N target g (map of_nat [j..<16])) (Inr (of_nat m))
    (with_regs (dac_of target) (r(ucast DAC_MSDMHD_ADDR := y')) l' c, a)"
  using assms(2,4)
proof (induction "16 - j" arbitrary: j y l)
  case 0
  then have "j = 16" "m = 16" using assms(3) by simp_all
  then show ?case using triple_returnM by fastforce
next
  case (Suc n)
  then have j: "j < 16" "[j..<16] = j # [Suc j..<16]" by (simp_all add: upt_conv_Cons)
  let ?r = "r(ucast DAC_MSDMHD_ADDR := g (of_nat j))"
  let ?b = "R (dac_of target) ?r (ucast DAC_SD_ADDR)"
  have put: "triple (chips N sk R D) (with_regs (dac_of target) (r(ucast DAC_MSDMHD_ADDR := y)) l c, a)
      (write_DAC_reg N target (ucast DAC_MSDMHD_ADDR) (g (of_nat j))) (Inr ()) (with_regs (dac_of target) ?r l c, a)"
    using triple_put_DAC [OF assms(1), of "ucast DAC_MSDMHD_ADDR" N sk R D "r(ucast DAC_MSDMHD_ADDR := y)"]
    by (simp add: const_defs)
  have get: "triple (chips N sk R D) (with_regs (dac_of target) ?r l c, a)
      (read_SPI8 N target (ucast DAC_SD_ADDR)) (Inr ?b) (with_regs (dac_of target) ?r ?b c, a)"
    by (rule triple_get_DAC [OF assms(1)]) (simp add: const_defs)
  show ?case
  proof (cases "j = m")
    case True
    then have b: "\<not> bit ?b 0" using assms(5) [of j] j(1) by simp
    have "triple (chips N sk R D) (with_regs (dac_of target) (r(ucast DAC_MSDMHD_ADDR := y)) l c, a)
        (find_edge N target g (map of_nat [j..<16])) (Inr (of_nat m)) (with_regs (dac_of target) ?r ?b c, a)"
      unfolding j(2) list.map find_edge.simps
      by (rule triple_seqM [OF put], rule triple_bindM [OF get], subst if_P [OF b], unfold True,
          rule triple_returnM)
    then show ?thesis by blast
  next
    case False
    then have b: "\<not> \<not> bit ?b 0" using assms(5) [of j] j(1) Suc.prems by simp
    from False obtain y' l' where
      "triple (chips N sk R D) (with_regs (dac_of target) ?r ?b c, a)
        (find_edge N target g (map of_nat [Suc j..<16])) (Inr (of_nat m))
        (with_regs (dac_of target) (r(ucast DAC_MSDMHD_ADDR := y')) l' c, a)"
      using Suc.hyps(1) [of "Suc j"] Suc.hyps(2) Suc.prems j(1) by fastforce
    then have "triple (chips N sk R D) (with_regs (dac_of target) (r(ucast DAC_MSDMHD_ADDR := y)) l c, a)
        (find_edge N target g (map of_nat [j..<16])) (Inr (of_nat m))
        (with_regs (dac_of target) (r(ucast DAC_MSDMHD_ADDR := y')) l' c, a)"
      unfolding j(2) list.map find_edge.simps
      by - (rule triple_seqM [OF put], rule triple_bindM [OF get], subst if_not_P [OF b])
    then show ?thesis by blast
  qed
qed

definition dac_chip :: "int \<Rightarrow> CHIPCONFIG_IO_TARGET" where
  "dac_chip dac = (if dac = 0 then CHIPCONFIG_TARGET_DAC_0 else CHIPCONFIG_TARGET_DAC_1)"

lemma is_dac_chip [simp]: "is_dac (dac_chip dac)"
  by (simp add: is_dac_def dac_chip_def)

lemma triple_channel:
  assumes "dac = 0 \<or> dac = 1"
  shows "triple S c (check_channel_num dac) (Inr ()) c" "triple S c (dac_target dac) (Inr (dac_chip dac)) c"
  using assms by (auto simp: check_channel_num_def dac_target_def pick_def dac_chip_def NUM_ANALOG_CHANNELS_def
      intro: triple_returnM)

lemma triple_set_SD:
  assumes "dac = 0 \<or> dac = 1"
  shows "triple (chips N sk R D) (with_regs (dac_of (dac_chip dac)) r l c, a) (set_DAC_SD N dac sd) (Inr ())
    (with_regs (dac_of (dac_chip dac)) (r(ucast DAC_SD_ADDR := push_bit 4 (sd AND 0xf))) l c, a)"
  unfolding set_DAC_SD_def
  by (rule triple_bindM, rule triple_channel [OF assms], rule triple_put_DAC) (simp_all add: const_defs)

lemma triple_disable_FIFO:
  assumes "dac = 0 \<or> dac = 1"
  shows "triple (chips N sk R D) (with_regs (dac_of (dac_chip dac)) r l c, a) (disable_DAC_FIFO N dac) (Inr ())
    (with_regs (dac_of (dac_chip dac))
      (r(ucast DAC_SYNC_ADDR := R (dac_of (dac_chip dac)) r (ucast DAC_SYNC_ADDR) AND NOT 0x4))
      (R (dac_of (dac_chip dac)) r (ucast DAC_SYNC_ADDR)) c, a)"
  unfolding disable_DAC_FIFO_def
  by (rule triple_bindM, rule triple_channel [OF assms], rule triple_bindM, rule triple_get_DAC,
      simp, simp add: const_defs, rule triple_put_DAC) (simp_all add: const_defs)

lemma triple_align:
  assumes dac: "dac = 0 \<or> dac = 1" and m: "m \<le> 16" "h \<le> 16" and ch: "chip = dac_of (dac_chip dac)"
    and r1: "r1 = r(ucast DAC_CONTROLLERCLOCK_ADDR := 5)"
    and r2: "r2 = r1(ucast DAC_SYNC_ADDR := R chip r1 (ucast DAC_SYNC_ADDR) AND NOT 0x4)"
    and r4: "r4 = r2(ucast DAC_CONTROLLER_ADDR := 0, ucast DAC_SD_ADDR := 0)"
    and eye: "\<And>k. k < 16 \<Longrightarrow> bit (R chip (r4(ucast DAC_MSDMHD_ADDR := push_bit 4 (of_nat k))) (ucast DAC_SD_ADDR)) 0 \<longleftrightarrow> k < m"
      "\<And>k. k < 16 \<Longrightarrow> bit (R chip (r4(ucast DAC_MSDMHD_ADDR := of_nat k)) (ucast DAC_SD_ADDR)) 0 \<longleftrightarrow> k < h"
  shows "\<exists>l'. triple (chips N sk R D) (with_regs chip r l c, a) (align_DAC_LVDS_capture N dac) (Inr ())
    (with_regs chip (r4(ucast DAC_MSDMHD_ADDR := 0, ucast DAC_SD_ADDR := push_bit 4 (optimal_SD (of_nat m) (of_nat h) AND 0xf))) l' c, a)"
proof -
  note get = triple_get_DAC(2) [OF is_dac_chip] and put = triple_put_DAC [OF is_dac_chip]
  have addr: "ucast DAC_CONTROLLERCLOCK_ADDR < (0x20 :: u16)" "ucast DAC_INTERRUPT_ADDR < (0x20 :: u16)"
    "ucast DAC_MSDMHD_ADDR < (0x20 :: u16)" "ucast DAC_SD_ADDR < (0x20 :: u16)" "ucast DAC_CONTROLLER_ADDR < (0x20 :: u16)"
    by (simp_all add: const_defs)
  let ?S = "\<lambda>r l. (with_regs chip r l c, a)"
  define tune where "tune = bindM (find_edge N (dac_chip dac) (\<lambda>MSD. push_bit 4 MSD OR 0) delays) (\<lambda>edgeMSD.
        bindM (find_edge N (dac_chip dac) (\<lambda>MHD. push_bit 4 0 OR MHD) delays) (\<lambda>edgeMHD.
        seqM (write_DAC_reg N (dac_chip dac) (ucast DAC_MSDMHD_ADDR) 0)
             (set_DAC_SD N dac (optimal_SD edgeMSD edgeMHD))))"
  have self: "r4 = r4(ucast DAC_MSDMHD_ADDR := r4 (ucast DAC_MSDMHD_ADDR))" by simp
  have tuned: "\<exists>l'. triple (chips N sk R D) (?S r4 l) tune (Inr ())
      (?S (r4(ucast DAC_MSDMHD_ADDR := 0, ucast DAC_SD_ADDR := push_bit 4 (optimal_SD (of_nat m) (of_nat h) AND 0xf))) l')" for l
  proof -
    from triple_find_edge [where R = R and target = "dac_chip dac" and r = r4 and m = m and j = 0
        and g = "\<lambda>MSD. push_bit 4 MSD OR 0" and y = "r4 (ucast DAC_MSDMHD_ADDR)" and l = l and N = N and sk = sk and D = D and c = c and a = a]
      m eye(1) obtain y1 l1 where
      1: "triple (chips N sk R D) (?S r4 l) (find_edge N (dac_chip dac) (\<lambda>MSD. push_bit 4 MSD OR 0) delays)
          (Inr (of_nat m)) (?S (r4(ucast DAC_MSDMHD_ADDR := y1)) l1)"
      by (auto simp: ch delays_def)
    from triple_find_edge [where R = R and target = "dac_chip dac" and r = r4 and m = h and j = 0
        and g = "\<lambda>MHD. push_bit 4 0 OR MHD" and y = y1 and l = l1 and N = N and sk = sk and D = D and c = c and a = a]
      m eye(2) obtain y2 l2 where
      2: "triple (chips N sk R D) (?S (r4(ucast DAC_MSDMHD_ADDR := y1)) l1)
          (find_edge N (dac_chip dac) (\<lambda>MHD. push_bit 4 0 OR MHD) delays)
          (Inr (of_nat h)) (?S (r4(ucast DAC_MSDMHD_ADDR := y2)) l2)"
      by (auto simp: ch delays_def)
    have 3: "triple (chips N sk R D) (?S (r4(ucast DAC_MSDMHD_ADDR := y2)) l2)
        (write_DAC_reg N (dac_chip dac) (ucast DAC_MSDMHD_ADDR) 0) (Inr ()) (?S (r4(ucast DAC_MSDMHD_ADDR := 0)) l2)"
      using put [OF addr(3), where r = "r4(ucast DAC_MSDMHD_ADDR := y2)" and N = N and sk = sk and R = R and D = D
          and l = l2 and c = c and x = a and v = 0] by (simp add: ch)
    show ?thesis
      unfolding tune_def ch
      by (intro exI, rule triple_bindM [OF 1 [unfolded ch]], rule triple_bindM [OF 2 [unfolded ch]],
          rule triple_seqM [OF 3 [unfolded ch]], rule triple_set_SD [OF dac])
  qed
  from tuned [of "R chip r2 (ucast DAC_CONTROLLER_ADDR)"] obtain l' where
    tuned: "triple (chips N sk R D) (?S (r2(ucast DAC_CONTROLLER_ADDR := 0, ucast DAC_SD_ADDR := push_bit 4 (0 AND 0xf)))
      (R chip r2 (ucast DAC_CONTROLLER_ADDR))) tune (Inr ())
      (?S (r4(ucast DAC_MSDMHD_ADDR := 0, ucast DAC_SD_ADDR := push_bit 4 (optimal_SD (of_nat m) (of_nat h) AND 0xf))) l')"
    by (auto simp: r4)
  show ?thesis
    unfolding align_DAC_LVDS_capture_def
    by (intro exI, rule triple_seqM, rule triple_channel [OF dac], rule triple_bindM, rule triple_channel [OF dac],
        unfold tune_def [symmetric] ch,
        rule triple_bindM, rule get, rule addr, rule triple_seqM, rule put, rule addr, unfold r1 [symmetric],
        rule triple_seqM, rule triple_disable_FIFO [OF dac], unfold ch [symmetric] r2 [symmetric] ,
        unfold ch,
        rule triple_bindM, rule get, rule addr, rule triple_bindM, rule get, rule addr,
        rule triple_bindM, rule get, rule addr, rule triple_bindM, rule get, rule addr,
        rule triple_seqM, rule put, rule addr, rule triple_seqM, rule triple_set_SD [OF dac],
        rule tuned [unfolded ch])
qed

lemma optimal_SD_nibble:
  assumes "m \<le> 16" "h \<le> 16"
  shows "optimal_SD (of_nat m) (of_nat h) = word_of_int ((int h - int m) sdiv 2)"
    "m \<le> h \<Longrightarrow> drop_bit 4 (push_bit 4 (optimal_SD (of_nat m) (of_nat h) AND 0xf)) = (of_nat ((h - m) div 2) :: u8)"
proof -
  have u: "uint (of_nat k :: u8) = int k" if "k \<le> 16" for k
    using that by (simp add: uint_nat unat_of_nat)
  then show o: "optimal_SD (of_nat m) (of_nat h) = word_of_int ((int h - int m) sdiv 2)"
    using assms by (simp add: optimal_SD_def)
  assume le: "m \<le> h"
  have "(int h - int m) sdiv 2 = int ((h - m) div 2)"
    using le by (cases "m = h") (simp_all add: signed_divide_int_def of_nat_diff zdiv_int)
  then have w: "optimal_SD (of_nat m) (of_nat h) = of_nat ((h - m) div 2)" by (simp add: o)
  have small: "(of_nat ((h - m) div 2) :: u8) < 2 ^ 4"
    using assms by (simp add: word_less_nat_alt unat_of_nat)
  have f: "(0xf :: u8) = mask 4" by (simp add: mask_eq_exp_minus_1)
  have "drop_bit 4 (push_bit 4 x) = x" if "x < 2 ^ 4" for x :: u8
  proof (rule bit_word_eqI)
    fix n
    show "bit (drop_bit 4 (push_bit 4 x)) n = bit x n"
      using less_mask_bits(2) [of x 4 n] that by (cases "4 \<le> n") (auto simp: bit_simps dest: bit_imp_le_length)
  qed
  then show "drop_bit 4 (push_bit 4 (optimal_SD (of_nat m) (of_nat h) AND 0xf)) = (of_nat ((h - m) div 2) :: u8)"
    using small less_mask_bits(1) [OF small] by (simp add: w f)
qed

text \<open>
  The registers of a DAC after the alignment, from those before it, for the edges \<open>m\<close> and \<open>h\<close>; and
  what it is for the check bit to read back set below the edges.
\<close>

definition captured :: "nat \<Rightarrow> nat \<Rightarrow> (u16 \<Rightarrow> u8) \<Rightarrow> (u16 \<Rightarrow> u8) \<Rightarrow> bool" where
  "captured m h r r' \<longleftrightarrow>
     r' (ucast DAC_SD_ADDR) = push_bit 4 (word_of_int ((int h - int m) sdiv 2) AND 0xf)
     \<and> (m \<le> h \<longrightarrow> drop_bit 4 (r' (ucast DAC_SD_ADDR)) = of_nat ((h - m) div 2))
     \<and> r' (ucast DAC_MSDMHD_ADDR) = 0 \<and> r' (ucast DAC_CONTROLLER_ADDR) = 0
     \<and> r' (ucast DAC_CONTROLLERCLOCK_ADDR) = 5 \<and> \<not> bit (r' (ucast DAC_SYNC_ADDR)) 2
     \<and> (\<forall>b. b \<notin> {ucast DAC_SD_ADDR, ucast DAC_MSDMHD_ADDR, ucast DAC_CONTROLLER_ADDR,
           ucast DAC_CONTROLLERCLOCK_ADDR, ucast DAC_SYNC_ADDR} \<longrightarrow> r' b = r b)"

definition window :: "readout \<Rightarrow> u8 \<Rightarrow> nat \<Rightarrow> nat \<Rightarrow> bool" where
  "window R chip m h \<longleftrightarrow> m \<le> 16 \<and> h \<le> 16
     \<and> (\<forall>r k. r (ucast DAC_SD_ADDR) = 0 \<longrightarrow> r (ucast DAC_CONTROLLER_ADDR) = 0 \<longrightarrow> k < 16 \<longrightarrow>
          (bit (R chip (r(ucast DAC_MSDMHD_ADDR := push_bit 4 (of_nat k))) (ucast DAC_SD_ADDR)) 0 \<longleftrightarrow> k < m)
        \<and> (bit (R chip (r(ucast DAC_MSDMHD_ADDR := of_nat k)) (ucast DAC_SD_ADDR)) 0 \<longleftrightarrow> k < h))"

lemma align_LVDS_run:
  assumes "chips N sk R D (c, a) s" "dac = 0 \<or> dac = 1" "chip = dac_of (dac_chip dac)" "window R chip m h"
  shows "\<exists>t c'. align_DAC_LVDS_capture N dac s = (Inr (), t) \<and> chips N sk R D (c', a) t
    \<and> captured m h (sp_reg c chip) (sp_reg c' chip) \<and> (\<forall>k. k \<noteq> chip \<longrightarrow> sp_reg c' k = sp_reg c k)"
proof -
  have m: "m \<le> 16" "h \<le> 16" using assms(4) by (simp_all add: window_def)
  define r l where "r = sp_reg c chip" and "l = sp_latch c"
  have c: "c = with_regs chip r l c" by (simp add: r_def l_def with_regs_same)
  define r1 where "r1 = r(ucast DAC_CONTROLLERCLOCK_ADDR := 5)"
  define r2 where "r2 = r1(ucast DAC_SYNC_ADDR := R chip r1 (ucast DAC_SYNC_ADDR) AND NOT 0x4)"
  define r4 where "r4 = r2(ucast DAC_CONTROLLER_ADDR := 0, ucast DAC_SD_ADDR := 0)"
  define r5 where "r5 = r4(ucast DAC_MSDMHD_ADDR := 0, ucast DAC_SD_ADDR := push_bit 4 (optimal_SD (of_nat m) (of_nat h) AND 0xf))"
  have off: "r4 (ucast DAC_SD_ADDR) = 0" "r4 (ucast DAC_CONTROLLER_ADDR) = 0"
    by (simp_all add: r4_def const_defs)
  from triple_align [where R = R and N = N and sk = sk and D = D and l = l and c = c and a = a,
      OF assms(2) m assms(3) r1_def r2_def r4_def]
    assms(4) off obtain l' where
    "triple (chips N sk R D) (with_regs chip r l c, a) (align_DAC_LVDS_capture N dac) (Inr ()) (with_regs chip r5 l' c, a)"
    unfolding r5_def window_def by blast
  from tripleD [OF this] assms(1) c obtain t where
    "align_DAC_LVDS_capture N dac s = (Inr (), t)" "chips N sk R D (with_regs chip r5 l' c, a) t" by metis
  moreover have "\<not> bit (x AND NOT 0x4 :: u8) 2" for x by (simp add: bit_simps)
  ultimately show ?thesis
    using optimal_SD_nibble [OF m]
    by (intro exI [of _ t] exI [of _ "with_regs chip r5 l' c"])
      (simp add: captured_def r5_def r4_def r2_def r1_def r_def const_defs with_regs_def)
qed

text \<open>
  C14. Aligning the LVDS capture of a DAC. Let the DAC's check bit, with the sample delay and the
  controller modes off, read back set exactly for the setup delays below \<open>m\<close> and for the hold delays
  below \<open>h\<close>; an edge of 16 is one that never comes. Then \<open>align_DAC_LVDS_capture\<close> returns with the
  sample delay at half the distance between the edges, modulo 16 (so exactly the middle when the hold
  edge is not before the setup edge), the two delays and the controller modes cleared, the controller
  clock divided as the code asks for and the FIFO off. No other register of the chip and no other
  chip has changed.
\<close>

theorem LVDS_capture_aligned:
  assumes "chips N sk R D (c, a) s" "dac = 0 \<or> dac = 1" "m \<le> 16" "h \<le> 16" "chip = dac_of (dac_chip dac)"
    and "\<And>r k. r (ucast DAC_SD_ADDR) = 0 \<Longrightarrow> r (ucast DAC_CONTROLLER_ADDR) = 0 \<Longrightarrow> k < 16 \<Longrightarrow>
        (bit (R chip (r(ucast DAC_MSDMHD_ADDR := push_bit 4 (of_nat k))) (ucast DAC_SD_ADDR)) 0 \<longleftrightarrow> k < m)
      \<and> (bit (R chip (r(ucast DAC_MSDMHD_ADDR := of_nat k)) (ucast DAC_SD_ADDR)) 0 \<longleftrightarrow> k < h)"
  shows "\<exists>t c'. align_DAC_LVDS_capture N dac s = (Inr (), t) \<and> chips N sk R D (c', a) t
    \<and> sp_reg c' chip (ucast DAC_SD_ADDR) = push_bit 4 (word_of_int ((int h - int m) sdiv 2) AND 0xf)
    \<and> (m \<le> h \<longrightarrow> drop_bit 4 (sp_reg c' chip (ucast DAC_SD_ADDR)) = of_nat ((h - m) div 2))
    \<and> sp_reg c' chip (ucast DAC_MSDMHD_ADDR) = 0 \<and> sp_reg c' chip (ucast DAC_CONTROLLER_ADDR) = 0
    \<and> sp_reg c' chip (ucast DAC_CONTROLLERCLOCK_ADDR) = 5 \<and> \<not> bit (sp_reg c' chip (ucast DAC_SYNC_ADDR)) 2
    \<and> (\<forall>b. b \<notin> {ucast DAC_SD_ADDR, ucast DAC_MSDMHD_ADDR, ucast DAC_CONTROLLER_ADDR,
          ucast DAC_CONTROLLERCLOCK_ADDR, ucast DAC_SYNC_ADDR} \<longrightarrow> sp_reg c' chip b = sp_reg c chip b)
    \<and> (\<forall>k. k \<noteq> chip \<longrightarrow> sp_reg c' k = sp_reg c k)"
proof -
  have "window R chip m h" using assms(3,4,6) by (simp add: window_def)
  from align_LVDS_run [OF assms(1,2,5) this] show ?thesis unfolding captured_def by blast
qed

text \<open>A DAC whose window reaches five setup delays and nine hold delays.\<close>

definition eye_readout :: readout where
  "eye_readout chip r b =
     (if b = ucast DAC_SD_ADDR \<and> chip \<noteq> CHIPCONFIG_IO_TARGET_PLL
      then (r b AND 0xf0) OR of_bool (drop_bit 4 (r (ucast DAC_MSDMHD_ADDR)) < 5 \<and> r (ucast DAC_MSDMHD_ADDR) AND 0xf < 9)
      else r b)"

lemma less_16_cases: "k < 16 \<Longrightarrow> k \<in> {0, 1, 2, 3, 4, 5, 6, 7, 8, 9, 10, 11, 12, 13, 14, 15 :: nat}"
  by simp presburger

lemma eye_window: "chip \<noteq> CHIPCONFIG_IO_TARGET_PLL \<Longrightarrow> window eye_readout chip 5 9"
proof -
  assume "chip \<noteq> CHIPCONFIG_IO_TARGET_PLL"
  then have "(bit (eye_readout chip (r(ucast DAC_MSDMHD_ADDR := push_bit 4 (of_nat k))) (ucast DAC_SD_ADDR)) 0 \<longleftrightarrow> k < 5)
      \<and> (bit (eye_readout chip (r(ucast DAC_MSDMHD_ADDR := of_nat k)) (ucast DAC_SD_ADDR)) 0 \<longleftrightarrow> k < 9)"
    if "r (ucast DAC_SD_ADDR) = 0" "k < 16" for r k
    using less_16_cases [OF that(2)] that(1) by (auto simp: eye_readout_def const_defs)
  then show ?thesis unfolding window_def by simp
qed

theorem LVDS_capture_aligned_witness:
  "\<exists>t. align_DAC_LVDS_capture (chip_ops eye_readout) 0 (chip_state blank_chips) = (Inr (), t)
    \<and> sp_reg (ce_chips (net t)) CHIPCONFIG_IO_TARGET_DAC_0 (ucast DAC_SD_ADDR) = 0x20"
proof -
  have d: "(0 :: int) = 0 \<or> (0 :: int) = 1" "(5 :: nat) \<le> 16" "(9 :: nat) \<le> 16"
    "CHIPCONFIG_IO_TARGET_DAC_0 = dac_of (dac_chip 0)" by (simp_all add: dac_of_def dac_chip_def)
  have "window eye_readout CHIPCONFIG_IO_TARGET_DAC_0 5 9" by (rule eye_window) (simp add: const_defs)
  then show ?thesis
    using LVDS_capture_aligned [OF chip_state_ok [of eye_readout blank_chips] d] unfolding window_def
    by (fastforce simp: chips_def stage_def chip_view_def signed_divide_int_def)
qed

section \<open>The FIFO of a DAC\<close>

lemma triple_phase:
  assumes "dac = 0 \<or> dac = 1" "chip = dac_of (dac_chip dac)"
  shows "triple (chips N sk R D) (with_regs chip r l c, a) (get_DAC_FIFO_phase N dac)
    (Inr (DAC_FIFO_phase (ucast (R chip r (ucast DAC_FIFOSTAT_ADDR)))))
    (with_regs chip r (R chip r (ucast DAC_FIFOSTAT_ADDR)) c, a)"
  unfolding get_DAC_FIFO_phase_def assms(2)
  by (rule triple_seqM, rule triple_channel [OF assms(1)], rule triple_bindM, rule triple_channel [OF assms(1)],
      rule triple_bindM, rule triple_get_DAC(1) [OF is_dac_chip], simp add: const_defs, rule triple_returnM)

text \<open>
  C32. Enabling the FIFO of a DAC sets bit 2 of the sync register and keeps its other bits as they read
  back; the offset then written to the FIFO register is in 0..3 and two away, modulo 4, from
  (phase + 1) / 2 for the phase the DAC reports with the FIFO on and offset 0. No other register of
  the chip and no other chip changes.
\<close>

theorem FIFO_enabled:
  assumes "chips N sk R D (c, a) s" "dac = 0 \<or> dac = 1" "chip = dac_of (dac_chip dac)"
    and "on = (sp_reg c chip)(ucast DAC_SYNC_ADDR := R chip (sp_reg c chip) (ucast DAC_SYNC_ADDR) OR 0x4,
      ucast DAC_FIFOSTAT_ADDR := 0)"
    and "phase = DAC_FIFO_phase (ucast (R chip on (ucast DAC_FIFOSTAT_ADDR)))"
  shows "\<exists>t c' off. enable_DAC_FIFO N dac s = (Inr (), t) \<and> chips N sk R D (c', a) t
    \<and> 0 \<le> off \<and> off < 4 \<and> (off + 2) mod 4 = ((uint phase + 1) div 2) mod 4
    \<and> sp_reg c' chip = on(ucast DAC_FIFOSTAT_ADDR := word_of_int off)
    \<and> (\<forall>k. k \<noteq> chip \<longrightarrow> sp_reg c' k = sp_reg c k)"
proof -
  define r l where "r = sp_reg c chip" and "l = sp_latch c"
  have c: "c = with_regs chip r l c" by (simp add: r_def l_def with_regs_same)
  define r1 where "r1 = r(ucast DAC_SYNC_ADDR := R chip r (ucast DAC_SYNC_ADDR) OR 0x4)"
  have on: "on = r1(ucast DAC_FIFOSTAT_ADDR := 0)" using assms(4) by (simp add: r1_def r_def)
  let ?off = "word_of_int (FIFO_offset phase) :: u8"
  define r3 where "r3 = on(ucast DAC_FIFOSTAT_ADDR := ?off)"
  have valid: "(dac < 0 \<or> NUM_ANALOG_CHANNELS \<le> dac) = False"
    using assms(2) by (auto simp: NUM_ANALOG_CHANNELS_def)
  have addr: "ucast DAC_SYNC_ADDR < (0x20 :: u16)" "ucast DAC_FIFOSTAT_ADDR < (0x20 :: u16)"
    by (simp_all add: const_defs)
  note get = triple_get_DAC(2) [OF is_dac_chip] and put = triple_put_DAC [OF is_dac_chip]
  have "\<exists>l'. triple (chips N sk R D) (with_regs chip r l c, a) (enable_DAC_FIFO N dac) (Inr ()) (with_regs chip r3 l' c, a)"
    unfolding enable_DAC_FIFO_def valid if_False assms(3)
    by (intro exI, rule triple_bindM, rule triple_channel [OF assms(2)], rule triple_bindM, rule get, rule addr,
        rule triple_seqM, rule put, rule addr, unfold assms(3) [symmetric], unfold r1_def [symmetric], unfold assms(3),
        rule triple_seqM, rule put, rule addr, unfold on [symmetric],
        rule triple_bindM, rule triple_phase [OF assms(2) refl], unfold assms(3) [symmetric] assms(5) [symmetric],
        unfold assms(3), rule triple_seqM, rule put, rule addr, unfold r3_def [symmetric],
        rule triple_bindM, rule triple_phase [OF assms(2) refl], rule triple_returnM)
  then obtain l' where "triple (chips N sk R D) (with_regs chip r l c, a) (enable_DAC_FIFO N dac) (Inr ()) (with_regs chip r3 l' c, a)" ..
  from tripleD [OF this] assms(1) c obtain t where
    "enable_DAC_FIFO N dac s = (Inr (), t)" "chips N sk R D (with_regs chip r3 l' c, a) t" by metis
  then show ?thesis
    using FIFO_offset_correct [of 4 0 phase]
    by (intro exI [of _ t] exI [of _ "with_regs chip r3 l' c"] exI [of _ "FIFO_offset phase"])
      (simp add: r3_def with_regs_def)
qed

text \<open>A DAC that always reports phase 7.\<close>

definition late_readout :: readout where
  "late_readout chip r b = (if b = ucast DAC_FIFOSTAT_ADDR then 0x70 else r b)"

theorem FIFO_enabled_witness:
  "\<exists>t. enable_DAC_FIFO (chip_ops late_readout) 1 (chip_state blank_chips) = (Inr (), t)
    \<and> sp_reg (ce_chips (net t)) CHIPCONFIG_IO_TARGET_DAC_1 (ucast DAC_FIFOSTAT_ADDR) = 2"
proof -
  have d: "(1 :: int) = 0 \<or> (1 :: int) = 1" "CHIPCONFIG_IO_TARGET_DAC_1 = dac_of (dac_chip 1)"
    by (simp_all add: dac_of_def dac_chip_def)
  have p: "7 = DAC_FIFO_phase (ucast (late_readout CHIPCONFIG_IO_TARGET_DAC_1 r (ucast DAC_FIFOSTAT_ADDR)))" for r
    by (simp add: DAC_FIFO_phase_def late_readout_def)
  have two: "off = 2" if "0 \<le> off" "off < 4" "(off + 2) mod 4 = ((uint (7 :: u8) + 1) div 2) mod 4" for off :: int
    using that by simp presburger
  from FIFO_enabled [OF chip_state_ok [of late_readout blank_chips] d refl p] obtain t c' off where
    "enable_DAC_FIFO (chip_ops late_readout) 1 (chip_state blank_chips) = (Inr (), t)"
    "chips (chip_ops late_readout) 0 late_readout chip_view (c', emu_obj) t"
    "sp_reg c' CHIPCONFIG_IO_TARGET_DAC_1 (ucast DAC_FIFOSTAT_ADDR) = word_of_int off" "off = 2"
    using two by fastforce
  then show ?thesis by (auto simp: chips_def stage_def chip_view_def)
qed

end
