(* ===== verification/Boot.thy ===== *)
theory Boot
  imports Alignment
begin

text \<open>
  The start-up image: what \<open>write_SPI_setup\<close> leaves in the EPROM is a command stream, and running it
  from there (as a module does when it starts, or on \<open>run_chip_config\<close>) does to the chips what the
  driver's own set-up methods do.
\<close>

section \<open>The parts of the image\<close>

definition vcxo_words :: "u32 list" where
  "vcxo_words = decode_all 4 of_be32 VCXO_INIT"

definition vcxo_msg :: "u32 list" where
  "vcxo_msg = concat (map (\<lambda>w. [cc_packed (cc_init\<lparr>cc_target := CHIPCONFIG_IO_TARGET_VCXO\<rparr>), w]) vcxo_words)"

lemma build_VCXO_INIT: "build_VCXO_SPI_msg VCXO_INIT = Inr vcxo_msg"
  by (simp add: build_VCXO_SPI_msg_def vcxo_msg_def vcxo_words_def VCXO_INIT_def)

lemma spi_run_vcxo:
  "spi_run R (concat (map (\<lambda>w. [cc_packed (cc_init\<lparr>cc_target := CHIPCONFIG_IO_TARGET_VCXO\<rparr>), w]) ds) @ ws) c
    = spi_run R ws (c\<lparr>sp_vcxo := sp_vcxo c @ ds\<rparr>)"
  "stream_ok (concat (map (\<lambda>w. [cc_packed (cc_init\<lparr>cc_target := CHIPCONFIG_IO_TARGET_VCXO\<rparr>), w]) ds) @ ws)
    = stream_ok ws"
  by (induction ds arbitrary: c) (auto simp: const_defs Let_def)

lemma pll_single: "single_of CHIPCONFIG_IO_TARGET_PLL_SINGLE = Some CHIPCONFIG_IO_TARGET_PLL"
  by (simp add: single_of_def const_defs)

lemma PLL_INIT_addrs: "\<forall>(a, d) \<in> set PLL_INIT. a < 0x2000" "length PLL_INIT < 0x100"
  by (simp_all add: PLL_INIT_def)

text \<open>The chips after the default set-up.\<close>

definition set_up :: "chipset \<Rightarrow> chipset" where
  "set_up c = fold (\<lambda>(a, d). put_reg CHIPCONFIG_IO_TARGET_PLL a d) PLL_INIT
     (c\<lparr>sp_vcxo := sp_vcxo c @ vcxo_words\<rparr>)"

definition boot_stream :: "u32 list" where
  "boot_stream = vcxo_msg @ build_PLL_SPI_msg PLL_INIT @ [0x00000800, spi_eol]"

lemma boot_stream_run: "spi_run R (boot_stream @ ws) c = set_up c" "stream_ok (boot_stream @ ws)"
proof -
  have a: "\<forall>(a, d) \<in> set PLL_INIT. chip_addr CHIPCONFIG_IO_TARGET_PLL a"
    using PLL_INIT_addrs by (auto simp: chip_addr_def)
  have pause: "spi_run R (0x00000800 # w) c = spi_run R w c" "stream_ok (0x00000800 # w) = stream_ok w" for c w
    by (simp_all add: cc_unpack_def reads_one_def single_of_def plain_word_def Let_def const_defs)
  have tail: "spi_run R (0x00000800 # spi_eol # ws) c = c" "stream_ok (0x00000800 # spi_eol # ws)" for c
    unfolding pause by simp_all
  show "spi_run R (boot_stream @ ws) c = set_up c" "stream_ok (boot_stream @ ws)"
    using spi_run_words(1) [OF pll_single a, where ws = "0x00000800 # spi_eol # ws"]
      spi_run_words(2) [OF pll_single a, where ws = "0x00000800 # spi_eol # ws"] tail
    by (simp_all add: boot_stream_def vcxo_msg_def spi_run_vcxo build_PLL_SPI_msg_def set_up_def
        del: spi_run.simps stream_ok.simps)
qed

lemma triple_set_up:
  "triple (chips N sk R D) (c, a) (setup_VCXO N) (Inr ()) (c\<lparr>sp_vcxo := sp_vcxo c @ vcxo_words\<rparr>, a)"
  "triple (chips N sk R D) (c\<lparr>sp_vcxo := sp_vcxo c @ vcxo_words\<rparr>, a) (setup_PLL N) (Inr 0)
    (set_up c, a\<lparr>samplingRate := 1200\<rparr>)"
proof -
  have "length vcxo_msg < 0x100" by code_simp
  then show "triple (chips N sk R D) (c, a) (setup_VCXO N) (Inr ()) (c\<lparr>sp_vcxo := sp_vcxo c @ vcxo_words\<rparr>, a)"
    using triple_write_SPI [where msg = vcxo_msg and N = N and sk = sk and R = R and D = D and c = c and a = a]
    by (simp add: setup_VCXO_def build_VCXO_INIT liftE_Inr bindM_returnM vcxo_msg_def spi_run_vcxo
        del: spi_run.simps stream_ok.simps)
  show "triple (chips N sk R D) (c\<lparr>sp_vcxo := sp_vcxo c @ vcxo_words\<rparr>, a) (setup_PLL N) (Inr 0)
      (set_up c, a\<lparr>samplingRate := 1200\<rparr>)"
    unfolding setup_PLL_def set_up_def
    by (rule triple_seqM, rule triple_write_PLL [OF PLL_INIT_addrs], rule triple_seqM, rule triple_obj,
        simp, simp, rule triple_returnM)
qed

section \<open>Booting from the EPROM\<close>

text \<open>
  C15. The start-up image that \<open>write_SPI_setup\<close> leaves in an EPROM that keeps its laws is a complete
  command stream at address 0, and running what is stored there does to the chips of a module,
  whatever their state, exactly what the driver's \<open>setup_VCXO\<close> followed by \<open>setup_PLL\<close> does; the padding
  behind it is never looked at. Only the first page of the EPROM changes.
\<close>

theorem boot_image_equivalent:
  assumes "eprom N sk A D m s" "words_at 0 page_words \<subseteq> A" "chips N' sk' R D' (c, a) s'"
  shows "\<exists>t m' u1 u2 c'. write_SPI_setup N s = (Inr (), t) \<and> eprom N sk A D m' t
    \<and> stream_ok (load m' 0 64) \<and> spi_run R (load m' 0 64) c = c'
    \<and> setup_VCXO N' s' = (Inr (), u1) \<and> setup_PLL N' u1 = (Inr 0, u2)
    \<and> chips N' sk' R D' (c', a\<lparr>samplingRate := 1200\<rparr>) u2
    \<and> (\<forall>b. b \<notin> words_at 0 page_words \<longrightarrow> m' b = m b)"
proof -
  have len: "length boot_stream = 31" by code_simp
  define pad where "pad = pad64 boot_stream"
  have pad: "\<exists>ws. pad = boot_stream @ ws" "length pad = 64"
    using len by (simp_all add: pad_def pad64_def)
  have fits: "flash_fits A 0 (length pad)"
    using assms(2) by (simp add: flash_fits_def flash_pages_def page_words_def pad(2))
  have "write_SPI_setup N = bindM (write_flash N 0 boot_stream) (\<lambda>_. returnM ())"
    by (simp add: write_SPI_setup_def build_VCXO_INIT liftE_Inr bindM_returnM boot_stream_def)
  then have "triple (eprom N sk A D) m (write_SPI_setup N) (Inr ()) (reflash m 0 pad)"
    using triple_bindM [OF triple_write_flash [OF fits [unfolded pad_def]] triple_returnM] by (simp add: pad_def)
  from tripleD [OF this] assms(1) obtain t where
    t: "write_SPI_setup N s = (Inr (), t)" "eprom N sk A D (reflash m 0 pad) t" by blast
  have "load (reflash m 0 pad) 0 64 = pad"
    using load_reflash [OF fits] pad(2) by simp
  then have run: "spi_run R (load (reflash m 0 pad) 0 64) c = set_up c" "stream_ok (load (reflash m 0 pad) 0 64)"
    using boot_stream_run pad(1) by auto
  from tripleD [OF triple_set_up(1)] assms(3) obtain u1 where
    u1: "setup_VCXO N' s' = (Inr (), u1)" "chips N' sk' R D' (c\<lparr>sp_vcxo := sp_vcxo c @ vcxo_words\<rparr>, a) u1" by blast
  from tripleD [OF triple_set_up(2)] u1(2) obtain u2 where
    u2: "setup_PLL N' u1 = (Inr 0, u2)" "chips N' sk' R D' (set_up c, a\<lparr>samplingRate := 1200\<rparr>) u2" by blast
  have "reflash m 0 pad b = m b" if "b \<notin> words_at 0 page_words" for b
    using that by (intro reflash_outside) (simp add: flash_pages_def page_words_def pad(2))
  with t run u1(1) u2 show ?thesis
    by (intro exI [of _ t] exI [of _ "reflash m 0 pad"] exI [of _ u1] exI [of _ u2] exI [of _ "set_up c"]) simp
qed

theorem boot_image_equivalent_witness:
  "\<exists>t m' u1 u2. write_SPI_setup cpld_ops (emu_state (\<lambda>a. 0)) = (Inr (), t)
    \<and> eprom cpld_ops 0 UNIV emu_view m' t
    \<and> setup_VCXO (chip_ops (\<lambda>chip r. r)) (chip_state blank_chips) = (Inr (), u1)
    \<and> setup_PLL (chip_ops (\<lambda>chip r. r)) u1 = (Inr 0, u2)
    \<and> ce_chips (net u2) = spi_run (\<lambda>chip r. r) (load m' 0 64) blank_chips"
proof -
  have e: "eprom cpld_ops 0 UNIV emu_view (\<lambda>a. 0) (emu_state (\<lambda>a. 0))"
    by (rule cpld_stage) (rule cpld_eprom_laws)
  from boot_image_equivalent [OF e subset_UNIV chip_state_ok [of "\<lambda>chip r. r" blank_chips]]
  show ?thesis by (fastforce simp: chips_def stage_def chip_view_def)
qed

end
