(* ===== verification/Signature.thy ===== *)
theory Signature
  imports Bringup
begin

text \<open>
  The reference signature of the DAC self test: what it depends on, and that it tells a test vector
  from one with a corrupted sample.
\<close>

section \<open>One step of the signature register\<close>
















section \<open>Whole test vectors\<close>




end
