(* ===== verification/Board.thy ===== *)
theory Board
  imports Alignment Behaviour
begin

text \<open>
  A whole module on its connection: its memory, the chips behind the SPI bus and what it measures.
  What is proved of the memory alone (\<open>Device\<close>) and of the chips alone (\<open>Chips\<close>) holds on it, through
  the two views that hide the other half.
\<close>

section \<open>The laws of a board\<close>

text \<open>The content: the memory, the chips and every command stream sent so far.\<close>

record board =
  bd_mem :: memory
  bd_chips :: chipset
  bd_sent :: "u32 list list"

text \<open>
  The registers that report measurements: what they read, \<open>M a\<close>, may depend on the streams sent, such
  as those that switch the clock of a DAC.
\<close>

definition measured :: "u32 set" where
  "measured = {PLL_STATUS_ADDR, PHASE_COUNT_A_ADDR, PHASE_COUNT_B_ADDR}"

text \<open>
  \<open>A\<close> are the addresses that read back what was written, \<open>B\<close> says which status banks the module may
  answer with.
\<close>

definition board_laws :: "'n net_ops \<Rightarrow> nat \<Rightarrow> u32 set \<Rightarrow> readout \<Rightarrow> (u32 \<Rightarrow> u32 list list \<Rightarrow> u32)
    \<Rightarrow> (APSStatusBank_t \<Rightarrow> bool) \<Rightarrow> ('n, board) module_view \<Rightarrow> bool" where
  "board_laws N sk A R M B D \<longleftrightarrow>
     (\<forall>a ws. length ws < 2 ^ 16 \<and> words_at a (length ws) \<subseteq> A \<longrightarrow>
        carries_out N sk D (dg_piece memory_write_cmd a ws) (\<lambda>b. b\<lparr>bd_mem := store (bd_mem b) a ws\<rparr>)
          (\<lambda>b. write_ack a))
   \<and> (\<forall>a k. unat k < 2 ^ 16 \<and> words_at a (unat k) \<subseteq> A \<longrightarrow>
        carries_out N sk D \<lparr>dg_cmd = memory_read_cmd k, dg_addr = a, dg_payload = []\<rparr> (\<lambda>b. b)
          (\<lambda>b. read_response (load (bd_mem b) a (unat k))))
   \<and> (\<forall>a \<in> measured.
        carries_out N sk D \<lparr>dg_cmd = memory_read_cmd 1, dg_addr = a, dg_payload = []\<rparr> (\<lambda>b. b)
          (\<lambda>b. read_response [M a (bd_sent b)]))
   \<and> carries_out N sk D \<lparr>dg_cmd = status_request, dg_addr = 0, dg_payload = []\<rparr> (\<lambda>b. b)
       (\<lambda>b ans. length (dg_payload ans) = NUM_STATUS_REGISTERS \<and> B (dg_payload ans))
   \<and> (\<forall>msg. length msg \<le> 0x100 \<and> stream_ok msg \<longrightarrow>
        carries_out N sk D (dg_piece spi_write_cmd 0 msg)
          (\<lambda>b. b\<lparr>bd_chips := spi_run R msg (bd_chips b), bd_sent := bd_sent b @ [msg]\<rparr>)
          (\<lambda>b ans. c_mode_stat (dg_cmd ans) = 0))
   \<and> carries_out N sk D \<lparr>dg_cmd = spi_read_cmd, dg_addr = 0, dg_payload = []\<rparr> (\<lambda>b. b)
       (\<lambda>b ans. c_mode_stat (dg_cmd ans) = 0
          \<and> (\<exists>w. dg_payload ans = [w] \<and> drop_bit 24 w = ucast (sp_latch (bd_chips b))))
   \<and> quiet_law N D"

text \<open>The states between two calls, with all of the content, and without the streams sent.\<close>

definition board_at :: "'n net_ops \<Rightarrow> nat \<Rightarrow> u32 set \<Rightarrow> readout \<Rightarrow> (u32 \<Rightarrow> u32 list list \<Rightarrow> u32)
    \<Rightarrow> (APSStatusBank_t \<Rightarrow> bool) \<Rightarrow> ('n, board) module_view \<Rightarrow> board \<times> aps2 \<Rightarrow> 'n st \<Rightarrow> bool" where
  "board_at N sk A R M B D x s \<longleftrightarrow> stage (board_laws N sk A R M B D) N sk D (fst x) s \<and> obj s = snd x"

definition on_board :: "'n net_ops \<Rightarrow> nat \<Rightarrow> u32 set \<Rightarrow> readout \<Rightarrow> (u32 \<Rightarrow> u32 list list \<Rightarrow> u32)
    \<Rightarrow> (APSStatusBank_t \<Rightarrow> bool) \<Rightarrow> ('n, board) module_view \<Rightarrow> memory \<times> chipset \<times> aps2 \<Rightarrow> 'n st \<Rightarrow> bool" where
  "on_board N sk A R M B D x s \<longleftrightarrow> (case x of (m, c, a) \<Rightarrow>
     \<exists>l. board_at N sk A R M B D (\<lparr>bd_mem = m, bd_chips = c, bd_sent = l\<rparr>, a) s)"

section \<open>The two views\<close>

text \<open>A part \<open>v\<close> of the content, while \<open>P\<close> holds of the rest.\<close>

definition part_view :: "('n, 'b) module_view \<Rightarrow> ('b \<Rightarrow> bool) \<Rightarrow> ('b \<Rightarrow> 'c) \<Rightarrow> ('n, 'c) module_view" where
  "part_view D P v =
     \<lparr>dv_ready = (\<lambda>n. dv_ready D n \<and> P (dv_mem D n)), dv_rx = dv_rx D, dv_mem = (\<lambda>n. v (dv_mem D n))\<rparr>"

lemma part_view_simps [simp]:
  "dv_ready (part_view D P v) n \<longleftrightarrow> dv_ready D n \<and> P (dv_mem D n)"
  "dv_rx (part_view D P v) = dv_rx D" "dv_mem (part_view D P v) n = v (dv_mem D n)"
  by (simp_all add: part_view_def)

lemma carries_out_part:
  assumes "carries_out N sk D dg f ans" "\<And>b. P b \<Longrightarrow> P (f b)" "\<And>b. P b \<Longrightarrow> v (f b) = g (v b)"
    "\<And>b x. P b \<Longrightarrow> ans b x \<Longrightarrow> ans' (v b) x"
  shows "carries_out N sk (part_view D P v) dg g ans'"
  unfolding carries_out_def
proof (intro allI impI)
  fix n t
  assume "dv_ready (part_view D P v) n \<and> dv_rx (part_view D P v) n = []"
  then have n: "dv_ready D n \<and> dv_rx D n = []" and p: "P (dv_mem D n)" by simp_all
  from assms(1) [unfolded carries_out_def, rule_format, OF n, of t] assms(2-4) [OF p]
  show "\<exists>n' x. net_tcp_write N sk (wire dg) t n = (IoOk (), n') \<and> dv_ready (part_view D P v) n'
      \<and> dv_mem (part_view D P v) n' = g (dv_mem (part_view D P v) n)
      \<and> dv_rx (part_view D P v) n' = answer_wire x \<and> answer_ok x \<and> ans' (dv_mem (part_view D P v) n) x"
    by force
qed

lemma receive_law_part: "receive_law N sk D \<Longrightarrow> receive_law N sk (part_view D P v)"
  by (fastforce simp: receive_law_def)

lemma quiet_law_part: "quiet_law N D \<Longrightarrow> quiet_law N (part_view D P v)"
  by (simp add: quiet_law_def)

definition chips_view :: "('n, board) module_view \<Rightarrow> memory \<Rightarrow> ('n, chipset) module_view" where
  "chips_view D m = part_view D (\<lambda>b. bd_mem b = m) bd_chips"

definition memory_view :: "('n, board) module_view \<Rightarrow> chipset \<Rightarrow> u32 list list \<Rightarrow> 'n device_view" where
  "memory_view D c l = part_view D (\<lambda>b. bd_chips b = c \<and> bd_sent b = l) bd_mem"

lemma chips_part: "board_laws N sk A R M B D \<Longrightarrow> chip_laws N sk R (chips_view D m)"
  unfolding chip_laws_def chips_view_def board_laws_def
  by (intro conjI allI impI; (elim conjE, rule carries_out_part, blast, simp_all)?)

lemma memory_part:
  assumes "board_laws N sk A R M B D" "receive_law N sk D"
  shows "memory_device N sk A (memory_view D c l)"
proof -
  let ?V = "memory_view D c l"
  have stores: "carries_out N sk ?V (dg_piece memory_write_cmd a ws) (\<lambda>m. store m a ws) (\<lambda>m. write_ack a)"
    if "length ws < 2 ^ 16 \<and> words_at a (length ws) \<subseteq> A" for a ws
    unfolding memory_view_def
    by (rule carries_out_part [OF assms(1) [unfolded board_laws_def, THEN conjunct1, rule_format, OF that]]) simp_all
  have loads: "carries_out N sk ?V \<lparr>dg_cmd = memory_read_cmd k, dg_addr = a, dg_payload = []\<rparr> (\<lambda>m. m)
      (\<lambda>m. read_response (load m a (unat k)))" if "unat k < 2 ^ 16 \<and> words_at a (unat k) \<subseteq> A" for a k
    unfolding memory_view_def
    by (rule carries_out_part [OF assms(1) [unfolded board_laws_def, THEN conjunct2, THEN conjunct1, rule_format, OF that]])
      simp_all
  have "write_law N sk A ?V"
    unfolding write_law_def
    using stores [unfolded carries_out_def] by (metis write_ack_answer)
  moreover have "read_law N sk A ?V"
    unfolding read_law_def
    using loads [unfolded carries_out_def] by (metis read_response_answer length_load)
  ultimately show ?thesis
    using assms receive_law_part quiet_law_part
    by (auto simp: memory_device_def board_laws_def memory_view_def)
qed

section \<open>Transfer\<close>

lemma board_at_answering:
  "board_at N sk A R M B D (b, a) s \<Longrightarrow> board_laws N sk A R M B D \<and> answering N sk D [] s
    \<and> dv_mem D (net s) = b \<and> obj s = a"
  by (simp add: board_at_def stage_def)

text \<open>What is proved of the chips alone holds on the board, and leaves the memory.\<close>

lemma on_board_chips:
  assumes "on_board N sk A R M B D (m, c, a) s"
  shows "\<exists>E. chips N sk R E (c, a) s
    \<and> (\<forall>t c' a'. chips N sk R E (c', a') t \<longrightarrow> on_board N sk A R M B D (m, c', a') t)"
proof (intro exI [of _ "chips_view D m"] conjI allI impI)
  from assms obtain l where b: "board_laws N sk A R M B D" "answering N sk D [] s"
    "dv_mem D (net s) = \<lparr>bd_mem = m, bd_chips = c, bd_sent = l\<rparr>" "obj s = a"
    by (auto simp: on_board_def dest: board_at_answering)
  then show "chips N sk R (chips_view D m) (c, a) s"
    using chips_part [OF b(1)] receive_law_part
    by (auto simp: chips_def stage_def answering_def chips_view_def)
  fix t c' a'
  assume "chips N sk R (chips_view D m) (c', a') t"
  then show "on_board N sk A R M B D (m, c', a') t"
    using b by (auto simp: chips_def stage_def answering_def chips_view_def on_board_def board_at_def
        intro!: exI [of _ "bd_sent (dv_mem D (net t))"])
qed

lemma triple_chips:
  assumes "\<And>E. triple (chips N sk R E) (c, a) k r (c', a')"
  shows "triple (on_board N sk A R M B D) (m, c, a) k r (m, c', a')"
  unfolding triple_def
proof (intro allI impI)
  fix s
  assume "on_board N sk A R M B D (m, c, a) s"
  from on_board_chips [OF this] tripleD [OF assms]
  show "\<exists>t. k s = (r, t) \<and> on_board N sk A R M B D (m, c', a') t" by blast
qed

text \<open>What is proved of the memory alone holds on the board, and leaves the chips.\<close>

lemma triple_registers:
  assumes "\<And>E. refines (device_ok N sk A E) (device_bus E) k g" "g (m, a) = (r, (m', a'))" "r \<noteq> Inl Undefined"
  shows "triple (on_board N sk A R M B D) (m, c, a) k r (m', c, a')"
  unfolding triple_def
proof (intro allI impI)
  fix s
  assume "on_board N sk A R M B D (m, c, a) s"
  then obtain l where b: "board_laws N sk A R M B D" "answering N sk D [] s"
    "dv_mem D (net s) = \<lparr>bd_mem = m, bd_chips = c, bd_sent = l\<rparr>" "obj s = a"
    by (auto simp: on_board_def dest: board_at_answering)
  let ?V = "memory_view D c l"
  have "receive_law N sk D" using b(2) by (simp add: answering_def)
  then have "device_ok N sk A ?V s"
    using memory_part [OF b(1)] b
    by (simp add: device_ok_def attached_def answering_def memory_view_def)
  moreover have "g (dv_mem ?V (net s), obj s) = (r, (m', a'))"
    using assms(2) b by (simp add: memory_view_def)
  ultimately obtain t where
    t: "k s = (r, t)" "device_ok N sk A ?V t" "dv_mem ?V (net t) = m'" "obj t = a'"
    using module_run [OF assms(1), of ?V s r m' a'] assms(3) by auto
  then show "\<exists>t. k s = (r, t) \<and> on_board N sk A R M B D (m', c, a') t"
    using b by (intro exI [of _ t])
      (auto simp: device_ok_def attached_def answering_def memory_view_def on_board_def board_at_def stage_def
        intro!: exI [of _ l])
qed

text \<open>Steps with all of the content are steps without the streams sent.\<close>

lemma triple_on_board:
  assumes "\<And>l. \<exists>l'. triple (board_at N sk A R M B D) (\<lparr>bd_mem = m, bd_chips = c, bd_sent = l\<rparr>, a) k r
      (\<lparr>bd_mem = m', bd_chips = c', bd_sent = l'\<rparr>, a')"
  shows "triple (on_board N sk A R M B D) (m, c, a) k r (m', c', a')"
  using assms unfolding triple_def on_board_def by fastforce

lemma on_board_obj:
  "triple (on_board N sk A R M B D) (m, c, a) (get_obj f) (Inr (f a)) (m, c, a)"
  "ethernetRM (g a) = ethernetRM a \<Longrightarrow> ipAddr (g a) = ipAddr a \<Longrightarrow>
    triple (on_board N sk A R M B D) (m, c, a) (mod_obj g) (Inr ()) (m, c, g a)"
  by (auto intro!: triple_chips triple_obj)

section \<open>What the board measures\<close>

lemma board_law:
  "(board_laws N sk A R M B D \<Longrightarrow> triple (board_at N sk A R M B D) x m r x') \<Longrightarrow> triple (board_at N sk A R M B D) x m r x'"
  by (auto simp: triple_def board_at_def stage_def)

lemma triple_measure:
  assumes "p \<in> measured"
  shows "triple (board_at N sk A R M B D) (b, a) (read_memory1 N p) (Inr (M p (bd_sent b))) (b, a)"
proof (rule board_law)
  assume "board_laws N sk A R M B D"
  then have law: "carries_out N sk D \<lparr>dg_cmd = memory_read_cmd 1, dg_addr = p, dg_payload = []\<rparr> (\<lambda>b. b)
      (\<lambda>b. read_response [M p (bd_sent b)])"
    using assms by (simp add: board_laws_def)
  have "\<not> c_ack (memory_read_cmd 1)" by (simp add: memory_read_cmd_def APS2Command_init_def)
  note run = request_run [OF law this]
  show "triple (board_at N sk A R M B D) (b, a) (read_memory1 N p) (Inr (M p (bd_sent b))) (b, a)"
    unfolding triple_def
  proof (intro allI impI)
    fix s
    assume s: "board_at N sk A R M B D (b, a) s"
    with run [of "board_laws N sk A R M B D" b s] obtain ans n where
      "request N (memory_read_cmd 1) p s = (Inr ans, s\<lparr>net := n\<rparr>)" "read_response [M p (bd_sent b)] ans"
      "stage (board_laws N sk A R M B D) N sk D b (s\<lparr>net := n\<rparr>)" by (auto simp: board_at_def)
    with s show "\<exists>t. read_memory1 N p s = (Inr (M p (bd_sent b)), t) \<and> board_at N sk A R M B D (b, a) t"
      by (intro exI [of _ "s\<lparr>net := n\<rparr>"])
        (simp add: read_memory1_def read_memory_def bindM_def run_simps vec_at_def read_response_def board_at_def)
  qed
qed

text \<open>Waiting: whatever UDP packets arrive, the connection stays and nothing changes.\<close>

lemma linked_sorted:
  assumes "linked sk s"
  shows "\<exists>t. foreachM ps (\<lambda>(bs, from). sort_packet bs from) s = (Inr (), t) \<and> linked sk t \<and> net t = net s \<and> obj t = obj s"
  using assms
proof (induction ps arbitrary: s)
  case Nil
  then show ?case by (simp add: run_simps)
next
  case (Cons p ps)
  have "msgQueues s (fst (snd p)) = None" using Cons.prems by (simp add: linked_def)
  from sort_packet_unqueued [OF this, of "fst p"] obtain X where
    X: "sort_packet (fst p) (snd p) s = (Inr (), s\<lparr>devInfo := X\<rparr>)"
      "\<And>ip info. devInfo s ip = Some info \<Longrightarrow> di_supports_tcp info \<Longrightarrow> \<exists>info'. X ip = Some info' \<and> di_supports_tcp info'"
    by blast
  have "linked sk (s\<lparr>devInfo := X\<rparr>)"
    using Cons.prems X(2) [of "ipAddr (obj s)"] by (auto simp: linked_def)
  from Cons.IH [OF this] show ?case
    using X(1) by (cases p) (auto simp: seqM_def bindM_def)
qed

lemma board_sleep:
  assumes "board_at N sk A R M B D x s"
  shows "\<exists>d t. sleep_ms N k s = (Inr d, t) \<and> board_at N sk A R M B D x t"
proof -
  obtain b a where x: "x = (b, a)" by fastforce
  from assms have b: "board_laws N sk A R M B D" "answering N sk D [] s" "dv_mem D (net s) = b" "obj s = a"
    using board_at_answering [of N sk A R M B D b a s] by (auto simp: x)
  then have q: "quiet_law N D" by (simp add: board_laws_def)
  define n1 where "n1 = snd (net_sleep N k (net s))"
  define n2 where "n2 = snd (net_arrivals N n1)"
  have 1: "dv_ready D n1 \<and> dv_mem D n1 = b \<and> dv_rx D n1 = []"
    using q b by (simp add: quiet_law_def n1_def answering_def)
  then have 2: "dv_ready D n2 \<and> dv_mem D n2 = b \<and> dv_rx D n2 = []"
    using q by (simp add: quiet_law_def n2_def)
  have "linked sk (s\<lparr>net := n2\<rparr>)" using b(2) by (simp add: answering_def)
  from linked_sorted [OF this, of "fst (net_arrivals N n1)"] obtain t where
    "foreachM (fst (net_arrivals N n1)) (\<lambda>(bs, from). sort_packet bs from) (s\<lparr>net := n2\<rparr>) = (Inr (), t)"
    "linked sk t" "net t = n2" "obj t = obj s" by auto
  with b 2 show ?thesis
    by (intro exI [of _ "k + fst (net_sleep N k (net s))"] exI [of _ t])
      (auto simp: sleep_ms_def deliver_def net_do_def bindM_def seqM_def run_simps n1_def n2_def x board_at_def
        stage_def answering_def split: prod.split)
qed

lemma triple_sleep: "triple (board_at N sk A R M B D) x (bindM (sleep_ms N k) (\<lambda>_. returnM ())) (Inr ()) x"
  unfolding triple_def
proof (intro allI impI)
  fix s
  assume "board_at N sk A R M B D x s"
  from board_sleep [OF this, of k] obtain d t where "sleep_ms N k s = (Inr d, t)" "board_at N sk A R M B D x t"
    by blast
  then show "\<exists>t. bindM (sleep_ms N k) (\<lambda>_. returnM ()) s = (Inr (), t) \<and> board_at N sk A R M B D x t"
    by (simp add: bindM_def run_simps)
qed

section \<open>The clocks of the DACs\<close>

text \<open>A command stream on the whole board.\<close>

lemma triple_stream:
  assumes "stream_ok (msg @ [spi_eol])" "length msg < 0x100"
  shows "triple (board_at N sk A R M B D) (b, a) (write_SPI N msg) (Inr ())
    (b\<lparr>bd_chips := spi_run R (msg @ [spi_eol]) (bd_chips b), bd_sent := bd_sent b @ [msg @ [spi_eol]]\<rparr>, a)"
proof (rule board_law)
  assume "board_laws N sk A R M B D"
  then have law: "carries_out N sk D (dg_piece spi_write_cmd 0 (msg @ [spi_eol]))
      (\<lambda>b. b\<lparr>bd_chips := spi_run R (msg @ [spi_eol]) (bd_chips b), bd_sent := bd_sent b @ [msg @ [spi_eol]]\<rparr>)
      (\<lambda>b ans. c_mode_stat (dg_cmd ans) = 0)"
    using assms by (simp add: board_laws_def)
  show "triple (board_at N sk A R M B D) (b, a) (write_SPI N msg) (Inr ())
    (b\<lparr>bd_chips := spi_run R (msg @ [spi_eol]) (bd_chips b), bd_sent := bd_sent b @ [msg @ [spi_eol]]\<rparr>, a)"
    unfolding triple_def board_at_def write_SPI_one [OF assms(2)]
    using send_run [OF law spi_write_acked] by fastforce
qed

text \<open>Switching the clock of a DAC off and on: the two streams, and what they do to the PLL.\<close>

definition clock_reg :: "int \<Rightarrow> u16" where
  "clock_reg dac = (if dac = 0 then 0xF0 else 0xF1)"

definition clock_stream :: "int \<Rightarrow> u8 \<Rightarrow> u32 list" where
  "clock_stream dac v = build_PLL_SPI_msg [(clock_reg dac, v), (0x232, 0x1)] @ [spi_eol]"

definition clock_toggled :: "int \<Rightarrow> board \<Rightarrow> board" where
  "clock_toggled dac b = b\<lparr>bd_chips := put_reg CHIPCONFIG_IO_TARGET_PLL 0x232 1
       (put_reg CHIPCONFIG_IO_TARGET_PLL (clock_reg dac) 0 (bd_chips b)),
     bd_sent := bd_sent b @ [clock_stream dac 2, clock_stream dac 0]\<rparr>"

definition phase_addr :: "int \<Rightarrow> u32" where
  "phase_addr dac = (if dac = 0 then PHASE_COUNT_A_ADDR else PHASE_COUNT_B_ADDR)"

lemma triple_clock:
  assumes "dac = 0 \<or> dac = 1"
  shows "triple (board_at N sk A R M B D) (b, a) (write_DAC_clock N dac v) (Inr ())
    (b\<lparr>bd_chips := put_reg CHIPCONFIG_IO_TARGET_PLL 0x232 1 (put_reg CHIPCONFIG_IO_TARGET_PLL (clock_reg dac) v (bd_chips b)),
       bd_sent := bd_sent b @ [clock_stream dac v]\<rparr>, a)"
proof -
  let ?msg = "build_PLL_SPI_msg [(clock_reg dac, v), (0x232, 0x1)]"
  have s: "single_of CHIPCONFIG_IO_TARGET_PLL_SINGLE = Some CHIPCONFIG_IO_TARGET_PLL"
    by (simp add: single_of_def const_defs)
  have ads: "\<forall>(x, y) \<in> set [(clock_reg dac, v), (0x232, 0x1)]. chip_addr CHIPCONFIG_IO_TARGET_PLL x"
    by (simp add: chip_addr_def clock_reg_def)
  have msg: "?msg @ [spi_eol] = map (\<lambda>(x, y). cc_packed \<lparr>cc_instr = x, cc_spicnt_data = y,
      cc_target = CHIPCONFIG_IO_TARGET_PLL_SINGLE\<rparr>) [(clock_reg dac, v), (0x232, 0x1)] @ [spi_eol]"
    by (simp add: build_PLL_SPI_msg_def)
  have ok: "stream_ok (?msg @ [spi_eol])"
    unfolding msg spi_run_words(2) [OF s ads] by simp
  have run: "spi_run R (?msg @ [spi_eol]) c = put_reg CHIPCONFIG_IO_TARGET_PLL 0x232 1
      (put_reg CHIPCONFIG_IO_TARGET_PLL (clock_reg dac) v c)" for c
    unfolding msg spi_run_words(1) [OF s ads] by simp
  have "length ?msg < 0x100" by (simp add: build_PLL_SPI_msg_def)
  from triple_stream [where N = N and sk = sk and A = A and R = R and M = M and B = B and D = D and b = b and a = a, OF ok this]
  have "triple (board_at N sk A R M B D) (b, a) (write_SPI N ?msg) (Inr ())
    (b\<lparr>bd_chips := put_reg CHIPCONFIG_IO_TARGET_PLL 0x232 1 (put_reg CHIPCONFIG_IO_TARGET_PLL (clock_reg dac) v (bd_chips b)),
       bd_sent := bd_sent b @ [clock_stream dac v]\<rparr>, a)"
    unfolding run clock_stream_def .
  then show ?thesis
    using assms by (auto simp: write_DAC_clock_def pick_def clock_reg_def bindM_returnM)
qed

lemma put_reg_again:
  "put_reg chip x u (put_reg chip y w (put_reg chip x u (put_reg chip y v c))) = put_reg chip x u (put_reg chip y w c)"
  by (rule chipset.equality) (auto simp: put_reg_def fun_eq_iff)

lemma channel_checked: "dac = 0 \<or> dac = 1 \<Longrightarrow> check_channel_num dac = returnM ()"
  by (auto simp: check_channel_num_def NUM_ANALOG_CHANNELS_def)

lemma triple_toggle:
  assumes "dac = 0 \<or> dac = 1"
  shows "triple (board_at N sk A R M B D) (b, a) (toggle_DAC_clock N dac) (Inr ()) (clock_toggled dac b, a)"
proof -
  have m: "toggle_DAC_clock N dac = seqM (write_DAC_clock N dac 2) (write_DAC_clock N dac 0)"
    by (simp only: toggle_DAC_clock_def disable_DAC_clock_def enable_DAC_clock_def channel_checked [OF assms]
        seqM_def bindM_returnM)
  let ?b = "b\<lparr>bd_chips := put_reg CHIPCONFIG_IO_TARGET_PLL 0x232 1
      (put_reg CHIPCONFIG_IO_TARGET_PLL (clock_reg dac) 2 (bd_chips b)), bd_sent := bd_sent b @ [clock_stream dac 2]\<rparr>"
  have "triple (board_at N sk A R M B D) (?b, a) (write_DAC_clock N dac 0) (Inr ()) (clock_toggled dac b, a)"
    using triple_clock [where b = ?b and v = 0, OF assms] by (simp add: put_reg_again clock_toggled_def)
  then show ?thesis
    unfolding m by (rule triple_seqM [OF triple_clock [OF assms]])
qed

lemma triple_align_clock:
  assumes "dac = 0 \<or> dac = 1"
  shows "\<exists>k \<le> tries. (\<forall>j < k. \<not> phase_below_half (M (phase_addr dac) (bd_sent ((clock_toggled dac ^^ j) b))))
    \<and> (k < tries \<longrightarrow> phase_below_half (M (phase_addr dac) (bd_sent ((clock_toggled dac ^^ k) b))))
    \<and> triple (board_at N sk A R M B D) (b, a) (align_DAC_clock_loop N dac tries) (Inr ()) ((clock_toggled dac ^^ k) b, a)"
proof (induction tries arbitrary: b)
  case 0
  then show ?case by (simp add: triple_returnM)
next
  case (Suc tries)
  let ?p = "phase_addr dac" and ?b = "clock_toggled dac b"
  have pick: "pick dac PHASE_COUNT_A_ADDR PHASE_COUNT_B_ADDR = returnM ?p"
    using assms by (auto simp: pick_def phase_addr_def)
  have p: "?p \<in> measured" by (simp add: measured_def phase_addr_def)
  note read = triple_measure [where b = b and a = a and N = N and sk = sk and A = A and R = R and M = M and B = B and D = D, OF p]
  show ?case
  proof (cases "phase_below_half (M ?p (bd_sent b))")
    case True
    then have "triple (board_at N sk A R M B D) (b, a) (align_DAC_clock_loop N dac (Suc tries)) (Inr ()) (b, a)"
      unfolding align_DAC_clock_loop.simps pick bindM_returnM
      by - (rule triple_bindM [OF read], simp add: triple_returnM)
    then show ?thesis using True by (intro exI [of _ 0]) simp
  next
    case False
    from Suc.IH [of ?b] obtain k where
      k: "k \<le> tries" "\<forall>j < k. \<not> phase_below_half (M ?p (bd_sent ((clock_toggled dac ^^ j) ?b)))"
        "k < tries \<longrightarrow> phase_below_half (M ?p (bd_sent ((clock_toggled dac ^^ k) ?b)))"
        "triple (board_at N sk A R M B D) (?b, a) (align_DAC_clock_loop N dac tries) (Inr ()) ((clock_toggled dac ^^ k) ?b, a)"
      by blast
    have "triple (board_at N sk A R M B D) (b, a) (align_DAC_clock_loop N dac (Suc tries)) (Inr ())
        ((clock_toggled dac ^^ k) ?b, a)"
      unfolding align_DAC_clock_loop.simps pick bindM_returnM
      by (rule triple_bindM [OF read], subst if_not_P [OF False],
          rule triple_seqM [OF triple_toggle [OF assms] triple_seqM [OF triple_sleep k(4)]])
    moreover have "\<not> phase_below_half (M ?p (bd_sent ((clock_toggled dac ^^ j) b)))" if "j < Suc k" for j
      using that k(2) False by (cases j) (simp_all add: funpow_swap1)
    ultimately show ?thesis
      using k(1,3) by (intro exI [of _ "Suc k"]) (simp add: funpow_swap1)
  qed
qed

section \<open>Measured phases\<close>

text \<open>The quotient in \<open>double\<close> is below one half exactly for the lower half of the 16 bit counts.\<close>

lemma rnd_fraction:
  assumes "1 / 2 ^ 16 < x" "x \<le> 1"
  shows "\<bar>rnd 52 11 x - x\<bar> \<le> 1 / 2 ^ 53"
proof -
  have x: "0 < x" using assms(1) by (rule less_trans [rotated]) simp
  have "(2 :: rat) powi (- 16) < 2 powi (ilog2 x + 1)"
    using ilog2_bounds [OF x] assms(1) by (simp add: power_int_minus divide_simps)
  then have "- 16 \<le> ilog2 x + 1"
    using power_int_increasing [of "ilog2 x + 1" "- 16" "2 :: rat"] by force
  then have "emin 11 \<le> ilog2 x" by (simp add: emin_def)
  from rnd_error [OF x this, of 52]
  have "\<bar>rnd 52 11 x - x\<bar> \<le> 2 powi ilog2 x / 2 ^ 53"
    by (simp add: power_int_diff)
  also have "\<dots> \<le> 1 / 2 ^ 53"
    using ilog2_bounds [OF x] assms(2) by (intro divide_right_mono) auto
  finally show ?thesis .
qed

lemma f64_dec_of_int:
  assumes "0 \<le> k" "k < 2 ^ 53"
  shows "f64_dec (f64_of_int k) = FFin False (of_int k)"
proof -
  have "(of_int k :: rat) < of_int (2 ^ 53)" using assms(2) by (simp only: of_int_less_iff)
  then have "(of_int k :: rat) < 2 ^ 1023" by simp
  moreover have "rnd 52 11 (of_int k) = of_int k" using assms by (intro rnd_int) auto
  ultimately show ?thesis
    using assms(1) unfolding f64_of_int_def fp_of_rat_int by (subst f64_dec_enc) auto
qed

lemma phase_below_half_iff: "phase_below_half w \<longleftrightarrow> w AND 0xffff < 0x8000"
proof -
  define v where "v = uint (w AND 0xffff)"
  have "w AND 0xffff \<le> 0xffff" by (rule word_and_le1)
  then have v: "0 \<le> v" "v \<le> 65535" by (simp_all add: v_def word_le_def)
  have half: "f64_dec (f64_of_rat (1 / 2)) = FFin False (1 / 2)" by code_simp
  define x :: rat where "x = of_int v / 65535"
  have x: "0 \<le> x" "x \<le> 1" using v by (simp_all add: x_def)
  have "f64_dec (f64_of_int 0xffff) = FFin False 65535"
    using f64_dec_of_int [of 65535] by simp
  moreover have "f64_dec (f64_of_int v) = FFin False (of_int v)" using v by (intro f64_dec_of_int) auto
  ultimately have "f64_dec (f64_div (f64_of_int v) (f64_of_int 0xffff)) = FFin False (rnd 52 11 x)"
    using x by (simp add: f64_div_def f64_dec_enc x_def [symmetric])
  then have b: "phase_below_half w \<longleftrightarrow> rnd 52 11 x < 1 / 2"
    by (simp add: phase_below_half_def f64_less_def half v_def)
  have "rnd 52 11 x < 1 / 2 \<longleftrightarrow> v < 0x8000"
  proof (cases "v = 0")
    case True
    then show ?thesis by (simp add: x_def)
  next
    case False
    then have "1 / 2 ^ 16 < x" using v by (simp add: x_def field_simps)
    from rnd_fraction [OF this x(2)] have e: "rnd 52 11 x \<le> x + 1 / 2 ^ 53" "x - 1 / 2 ^ 53 \<le> rnd 52 11 x"
      unfolding abs_le_iff by linarith+
    show ?thesis
    proof (cases "v < 0x8000")
      case True
      then have "x \<le> 32767 / 65535" by (simp add: x_def divide_le_cancel)
      moreover have "32767 / 65535 + 1 / 2 ^ 53 < (1 / 2 :: rat)" by simp
      ultimately have "rnd 52 11 x < 1 / 2" using e(1) by linarith
      then show ?thesis using True by simp
    next
      case False
      then have "32768 / 65535 \<le> x" by (simp add: x_def)
      moreover have "(1 / 2 :: rat) \<le> 32768 / 65535 - 1 / 2 ^ 53" by simp
      ultimately have "\<not> rnd 52 11 x < 1 / 2" using e(2) by linarith
      then show ?thesis using False by simp
    qed
  qed
  then show ?thesis by (simp add: b v_def word_less_def)
qed

section \<open>A board that keeps the laws\<close>

text \<open>It shows that the laws can hold, whatever the module measures, and runs the witnesses.\<close>

record board_emu =
  be_board :: board
  be_rx :: "u8 list"

definition board_answer :: "APS2Datagram \<Rightarrow> board_emu \<Rightarrow> board_emu" where
  "board_answer ans n = n\<lparr>be_rx := be_rx n @ answer_wire ans\<rparr>"

fun board_handle :: "readout \<Rightarrow> (u32 \<Rightarrow> u32 list list \<Rightarrow> u32) \<Rightarrow> APSStatusBank_t \<Rightarrow> u32 list \<Rightarrow> board_emu \<Rightarrow> board_emu" where
  "board_handle R M bank (w # addr # payload) n =
     (let cmd = unpack w; b = be_board n in
      case to_command (c_cmd cmd) of
        STATUS \<Rightarrow> board_answer \<lparr>dg_cmd = cmd\<lparr>c_cnt := of_nat (length bank)\<rparr>, dg_addr = 0, dg_payload = bank\<rparr> n
      | CHIPCONFIGIO \<Rightarrow>
          if c_r_w cmd
          then board_answer \<lparr>dg_cmd = cmd, dg_addr = 0, dg_payload = [push_bit 24 (ucast (sp_latch (bd_chips b)))]\<rparr> n
          else board_answer \<lparr>dg_cmd = cmd\<lparr>c_mode_stat := 0\<rparr>, dg_addr = 0, dg_payload = []\<rparr>
                 (n\<lparr>be_board := b\<lparr>bd_chips := spi_run R payload (bd_chips b), bd_sent := bd_sent b @ [payload]\<rparr>\<rparr>)
      | USERIO_ACK \<Rightarrow>
          if c_r_w cmd
          then board_answer \<lparr>dg_cmd = cmd, dg_addr = addr, dg_payload =
                 (if addr \<in> measured \<and> c_cnt cmd = 1 then [M addr (bd_sent b)]
                  else load (bd_mem b) addr (unat (c_cnt cmd)))\<rparr> n
          else board_answer \<lparr>dg_cmd = cmd\<lparr>c_mode_stat := 0x81\<rparr>, dg_addr = addr, dg_payload = []\<rparr>
                 (n\<lparr>be_board := b\<lparr>bd_mem := store (bd_mem b) addr payload\<rparr>\<rparr>)
      | _ \<Rightarrow> n)"
| "board_handle R M bank _ n = n"

definition board_ops :: "readout \<Rightarrow> (u32 \<Rightarrow> u32 list list \<Rightarrow> u32) \<Rightarrow> APSStatusBank_t \<Rightarrow> board_emu net_ops" where
  "board_ops R M bank =
     \<lparr>net_ifaddrs = (\<lambda>n. []), net_valid_ip = (\<lambda>ip. True), net_broadcast = (\<lambda>ip mask. ip),
      net_udp_bind = (\<lambda>p n. (IoOk (), n)), net_udp_broadcast_on = (\<lambda>p n. (IoOk (), n)),
      net_udp_send = (\<lambda>p bs ep n. (IoOk (), n)), net_arrivals = (\<lambda>n. ([], n)),
      net_sleep = (\<lambda>d n. (0, n)), net_tcp_open = (\<lambda>n. (0, n)),
      net_tcp_connect = (\<lambda>sk ep t n. (IoOk (), n)),
      net_tcp_write = (\<lambda>sk bs t n. (IoOk (), board_handle R M bank (decode_all 4 of_be32 bs) n)),
      net_tcp_receive = (\<lambda>sk k t n. if be_rx n = [] \<and> 0 < k then (IoTimeout, n)
         else (IoOk (take k (be_rx n)), n\<lparr>be_rx := drop k (be_rx n)\<rparr>)),
      net_tcp_close = (\<lambda>sk n. n)\<rparr>"

definition board_view :: "(board_emu, board) module_view" where
  "board_view = \<lparr>dv_ready = (\<lambda>n. True), dv_rx = be_rx, dv_mem = be_board\<rparr>"

lemma board_ops_laws:
  assumes "length bank = NUM_STATUS_REGISTERS"
  shows "board_laws (board_ops R M bank) 0 (- measured) R M (\<lambda>b. b = bank) board_view"
proof -
  note emu = board_ops_def board_view_def decode_wire dg_piece_def APS2Command_init_def to_command_def Let_def
    board_answer_def answer_ok_def response_has_address_def
  have count: "unat (ucast k :: u16) = unat k \<and> (of_nat (unat k) :: u16) = ucast k" if "unat k < 65536" for k :: u32
    using that by (simp add: unsigned_ucast_eq take_bit_nat_eq_self)
  have outside: "\<not> (a \<in> measured \<and> (ucast k :: u16) = 1)"
    if "words_at a (unat k) \<subseteq> - measured" "unat k < 65536" for a k :: u32
  proof
    assume a: "a \<in> measured \<and> (ucast k :: u16) = 1"
    then have "unat k = 1" using count [OF that(2)] by (metis unat_1)
    then show False using a that(1) by (simp add: words_at_def)
  qed
  show ?thesis
    unfolding board_laws_def
  proof (intro conjI allI ballI impI)
    show "quiet_law (board_ops R M bank) board_view" by (simp add: quiet_law_def emu)
  next
    fix a :: u32 and ws :: "u32 list"
    assume "length ws < 2 ^ 16 \<and> words_at a (length ws) \<subseteq> - measured"
    show "carries_out (board_ops R M bank) 0 board_view (dg_piece memory_write_cmd a ws)
        (\<lambda>b. b\<lparr>bd_mem := store (bd_mem b) a ws\<rparr>) (\<lambda>b. write_ack a)"
      by (auto simp: carries_out_def emu memory_write_cmd_def write_ack_def intro!: exI)
  next
    fix a k :: u32
    assume "unat k < 2 ^ 16 \<and> words_at a (unat k) \<subseteq> - measured"
    then show "carries_out (board_ops R M bank) 0 board_view \<lparr>dg_cmd = memory_read_cmd k, dg_addr = a, dg_payload = []\<rparr>
        (\<lambda>b. b) (\<lambda>b. read_response (load (bd_mem b) a (unat k)))"
      using count [of k] outside [of a k]
      by (auto simp: carries_out_def emu memory_read_cmd_def read_response_def intro!: exI)
  next
    fix a :: u32
    assume "a \<in> measured"
    then show "carries_out (board_ops R M bank) 0 board_view \<lparr>dg_cmd = memory_read_cmd 1, dg_addr = a, dg_payload = []\<rparr>
        (\<lambda>b. b) (\<lambda>b. read_response [M a (bd_sent b)])"
      by (auto simp: carries_out_def emu memory_read_cmd_def read_response_def intro!: exI)
  next
    show "carries_out (board_ops R M bank) 0 board_view \<lparr>dg_cmd = status_request, dg_addr = 0, dg_payload = []\<rparr> (\<lambda>b. b)
       (\<lambda>b ans. length (dg_payload ans) = NUM_STATUS_REGISTERS \<and> dg_payload ans = bank)"
      using assms by (auto simp: carries_out_def emu status_request_def const_defs intro!: exI)
  next
    fix msg :: "u32 list"
    show "carries_out (board_ops R M bank) 0 board_view (dg_piece spi_write_cmd 0 msg)
        (\<lambda>b. b\<lparr>bd_chips := spi_run R msg (bd_chips b), bd_sent := bd_sent b @ [msg]\<rparr>)
        (\<lambda>b ans. c_mode_stat (dg_cmd ans) = 0)"
      by (auto simp: carries_out_def emu spi_write_cmd_def intro!: exI)
  next
    show "carries_out (board_ops R M bank) 0 board_view \<lparr>dg_cmd = spi_read_cmd, dg_addr = 0, dg_payload = []\<rparr> (\<lambda>b. b)
       (\<lambda>b ans. c_mode_stat (dg_cmd ans) = 0
          \<and> (\<exists>w. dg_payload ans = [w] \<and> drop_bit 24 w = ucast (sp_latch (bd_chips b))))"
      by (auto simp: carries_out_def emu spi_read_cmd_def drop_push_byte intro!: exI)
  qed
qed

definition board_state :: "board \<Rightarrow> board_emu st" where
  "board_state b = \<lparr>devInfo = [''10.0.0.2'' \<mapsto> emu_info], msgQueues = Map.empty,
     tcp_sockets = [''10.0.0.2'' \<mapsto> Some 0], net = \<lparr>be_board = b, be_rx = []\<rparr>, obj = emu_obj\<rparr>"

lemma board_state_ok:
  assumes "length bank = NUM_STATUS_REGISTERS"
  shows "board_at (board_ops R M bank) 0 (- measured) R M (\<lambda>b. b = bank) board_view (b, emu_obj) (board_state b)"
proof -
  have "receive_law (board_ops R M bank) 0 board_view"
    by (auto simp: receive_law_def board_ops_def board_view_def)
  then show ?thesis
    using board_ops_laws [OF assms]
    by (simp add: board_at_def stage_def answering_def linked_def board_state_def emu_obj_def emu_info_def
        APS2_construct_def board_view_def)
qed

end
