(* ===== verification/Start_Up.thy ===== *)
theory Start_Up
  imports Board
begin

text \<open>
  Bringing up a whole module: the alignment of the DAC clocks, the check of the clocks and \<open>init\<close>, from
  the registers and chips it finds to those it leaves.
\<close>

section \<open>The clocks of the DACs\<close>

lemma toggled_board:
  "bd_mem ((clock_toggled dac ^^ k) b) = bd_mem b"
  "bd_chips ((clock_toggled dac ^^ k) b) = (if k = 0 then bd_chips b
     else put_reg CHIPCONFIG_IO_TARGET_PLL 0x232 1 (put_reg CHIPCONFIG_IO_TARGET_PLL (clock_reg dac) 0 (bd_chips b)))"
  "bd_sent ((clock_toggled dac ^^ k) b) = bd_sent b @ concat (replicate k [clock_stream dac 2, clock_stream dac 0])"
  by (induction k arbitrary: b) (simp_all add: funpow_swap1 clock_toggled_def put_reg_again)

lemma align_clock_run:
  assumes "dac = 0 \<or> dac = 1"
  shows "\<exists>k \<le> MAX_DAC_CLOCK_PHASE_TEST_TRIES.
      (\<forall>j < k. \<not> phase_below_half (M (phase_addr dac) (bd_sent ((clock_toggled dac ^^ j) b))))
    \<and> (k < MAX_DAC_CLOCK_PHASE_TEST_TRIES \<longrightarrow>
        phase_below_half (M (phase_addr dac) (bd_sent ((clock_toggled dac ^^ k) b))))
    \<and> triple (board_at N sk A R M B D) (b, a) (align_DAC_clock N dac) (Inr ()) ((clock_toggled dac ^^ k) b, a)"
  unfolding align_DAC_clock_def channel_checked [OF assms] seqM_def bindM_returnM
  by (rule triple_align_clock [OF assms])

text \<open>
  C30. \<open>align_DAC_clock\<close>: the phase of the DAC's clock is measured again after every switching of the
  clock. The method switches the clock off and on until the measured count, of 16 bits, is in its
  lower half, and at most 20 times; \<open>k\<close> is the number of times. Each time exactly the two streams are
  sent, so afterwards the clock is enabled and the PLL updated if \<open>k\<close> is not 0, and nothing else of the
  chips or of the memory has changed. A clock that never aligns is switched 20 times, and the method
  returns all the same.
\<close>

theorem DAC_clock_aligned:
  assumes "board_at N sk A R M B D (\<lparr>bd_mem = m, bd_chips = c, bd_sent = l\<rparr>, a) s" "dac = 0 \<or> dac = 1"
    and "sent = (\<lambda>j. l @ concat (replicate j [clock_stream dac 2, clock_stream dac 0]))"
    and "phase = (\<lambda>j. M (if dac = 0 then PHASE_COUNT_A_ADDR else PHASE_COUNT_B_ADDR) (sent j) AND 0xffff)"
  shows "\<exists>t k c'. align_DAC_clock N dac s = (Inr (), t)
    \<and> board_at N sk A R M B D (\<lparr>bd_mem = m, bd_chips = c', bd_sent = sent k\<rparr>, a) t
    \<and> k \<le> 20 \<and> (\<forall>j < k. 0x8000 \<le> phase j) \<and> (k < 20 \<longrightarrow> phase k < 0x8000)
    \<and> c' = (if k = 0 then c else put_reg CHIPCONFIG_IO_TARGET_PLL 0x232 1
              (put_reg CHIPCONFIG_IO_TARGET_PLL (if dac = 0 then 0xF0 else 0xF1) 0 c))"
proof -
  let ?b = "\<lparr>bd_mem = m, bd_chips = c, bd_sent = l\<rparr>"
  have phase: "phase_below_half (M (phase_addr dac) (bd_sent ((clock_toggled dac ^^ j) ?b))) \<longleftrightarrow> phase j < 0x8000" for j
    by (simp add: phase_below_half_iff toggled_board assms(3,4) phase_addr_def)
  from align_clock_run [OF assms(2), where b = ?b and M = M and N = N and sk = sk and A = A and R = R and B = B
      and D = D and a = a] obtain k where
    k: "k \<le> 20" "\<forall>j < k. \<not> phase j < 0x8000" "k < 20 \<longrightarrow> phase k < 0x8000"
    and t: "triple (board_at N sk A R M B D) (?b, a) (align_DAC_clock N dac) (Inr ()) ((clock_toggled dac ^^ k) ?b, a)"
    unfolding phase by (auto simp: const_defs)
  define c' where "c' = (if k = 0 then c else put_reg CHIPCONFIG_IO_TARGET_PLL 0x232 1
              (put_reg CHIPCONFIG_IO_TARGET_PLL (if dac = 0 then 0xF0 else 0xF1) 0 c))"
  have b: "(clock_toggled dac ^^ k) ?b = \<lparr>bd_mem = m, bd_chips = c', bd_sent = sent k\<rparr>"
    by (rule board.equality) (simp_all add: toggled_board assms(3) clock_reg_def c'_def)
  from tripleD [OF t assms(1)] obtain u where
    u: "align_DAC_clock N dac s = (Inr (), u)"
      "board_at N sk A R M B D (\<lparr>bd_mem = m, bd_chips = c', bd_sent = sent k\<rparr>, a) u" unfolding b by blast
  show ?thesis
    by (rule exI [of _ u], rule exI [of _ k], rule exI [of _ c'], intro conjI u k(1,3) c'_def)
      (use k(2) in \<open>simp_all add: not_less c'_def\<close>)
qed

text \<open>A clock that aligns when it has been switched three times.\<close>

definition third_time :: "u32 \<Rightarrow> u32 list list \<Rightarrow> u32" where
  "third_time a l = (if length l < 6 then 0xffff else 0x7fff)"

theorem DAC_clock_aligned_witness:
  "\<exists>t. align_DAC_clock (board_ops late_readout third_time (replicate 16 0)) 1
      (board_state \<lparr>bd_mem = \<lambda>a. 0, bd_chips = blank_chips, bd_sent = []\<rparr>) = (Inr (), t)
    \<and> length (bd_sent (be_board (net t))) = 6
    \<and> sp_reg (bd_chips (be_board (net t))) CHIPCONFIG_IO_TARGET_PLL 0x232 = 1"
proof -
  define sent where "sent = (\<lambda>j. [] @ concat (replicate j [clock_stream 1 2, clock_stream 1 0]))"
  define phase where "phase = (\<lambda>j. third_time (if (1 :: int) = 0 then PHASE_COUNT_A_ADDR else PHASE_COUNT_B_ADDR) (sent j) AND 0xffff)"
  have len: "length (sent j) = 2 * j" for j unfolding sent_def by (induction j) simp_all
  have phase: "phase j < 0x8000 \<longleftrightarrow> 3 \<le> j" for j
    unfolding phase_def third_time_def len by auto
  have bank: "length (replicate 16 0 :: u32 list) = NUM_STATUS_REGISTERS" by (simp add: const_defs)
  have d: "(1 :: int) = 0 \<or> (1 :: int) = 1" by simp
  from DAC_clock_aligned [OF board_state_ok [OF bank, where R = late_readout and M = third_time
      and b = "\<lparr>bd_mem = \<lambda>a. 0, bd_chips = blank_chips, bd_sent = []\<rparr>"] d sent_def phase_def]
  obtain t k c' where
    t: "align_DAC_clock (board_ops late_readout third_time (replicate 16 0)) 1
      (board_state \<lparr>bd_mem = \<lambda>a. 0, bd_chips = blank_chips, bd_sent = []\<rparr>) = (Inr (), t)"
    and at: "board_at (board_ops late_readout third_time (replicate 16 0)) 0 (- measured) late_readout third_time
      (\<lambda>b. b = replicate 16 0) board_view (\<lparr>bd_mem = \<lambda>a. 0, bd_chips = c', bd_sent = sent k\<rparr>, emu_obj) t"
    and k: "\<forall>j < k. 0x8000 \<le> phase j" "k < 20 \<longrightarrow> phase k < 0x8000" "k \<le> 20"
    and c': "c' = (if k = 0 then blank_chips else put_reg CHIPCONFIG_IO_TARGET_PLL 0x232 1
              (put_reg CHIPCONFIG_IO_TARGET_PLL (if (1 :: int) = 0 then 0xF0 else 0xF1) 0 blank_chips))"
    by blast
  have "\<not> 3 < k" using k(1) phase [of 3] by (auto simp: not_less [symmetric])
  then have "k = 3" using k(2) phase [of k] by simp
  with t at c' len [of 3] show ?thesis
    by (intro exI [of _ t]) (simp add: board_at_def stage_def board_view_def put_reg_def)
qed

section \<open>The check of the clocks\<close>

text \<open>What the check finds, for a status bank and the register of the clock managers.\<close>

definition clocks_verdict :: "bool \<Rightarrow> APSStatusBank_t \<Rightarrow> u32 \<Rightarrow> exn + unit" where
  "clocks_verdict legacy bank w =
     (if bank ! 6 AND 0x3 \<noteq> 0x3 then Inl (Thrown APS2_PLL_LOST_LOCK)
      else if \<forall>b \<in> {MMCM_SYS_LOCK_BIT, MMCM_CFG_LOCK_BIT, MIG_C0_LOCK_BIT, MIG_C0_CAL_BIT, MIG_C1_LOCK_BIT, MIG_C1_CAL_BIT}.
                bit (if legacy then bank ! 3 else w) b
      then Inr () else Inl (Thrown APS2_MMCM_LOST_LOCK))"

lemma triple_obj_at:
  "triple (board_at N sk A R M B D) (b, a) (get_obj f) (Inr (f a)) (b, a)"
  by (auto simp: triple_def get_obj_def run_simps board_at_def)

lemma status_run:
  assumes "board_at N sk A R M B D (b, a) s"
  shows "\<exists>bank t. read_status_registers N s = (Inr bank, t) \<and> board_at N sk A R M B D (b, a) t
    \<and> length bank = NUM_STATUS_REGISTERS \<and> B bank"
proof -
  from assms have b: "board_laws N sk A R M B D" "stage (board_laws N sk A R M B D) N sk D b s"
    by (auto simp: board_at_def stage_def)
  have law: "carries_out N sk D \<lparr>dg_cmd = status_request, dg_addr = 0, dg_payload = []\<rparr> (\<lambda>b. b)
       (\<lambda>b ans. length (dg_payload ans) = NUM_STATUS_REGISTERS \<and> B (dg_payload ans))"
    using b(1) by (simp add: board_laws_def)
  have "\<not> c_ack status_request" by (simp add: status_request_def APS2Command_init_def)
  from request_run [OF law this b(2)] obtain ans n where
    r: "request N status_request 0 s = (Inr ans, s\<lparr>net := n\<rparr>)"
      "length (dg_payload ans) = NUM_STATUS_REGISTERS" "B (dg_payload ans)"
      "stage (board_laws N sk A R M B D) N sk D b (s\<lparr>net := n\<rparr>)" by blast
  with assms show ?thesis
    by (intro exI [of _ "dg_payload ans"] exI [of _ "s\<lparr>net := n\<rparr>"])
      (simp add: read_status_registers_def bindM_def run_simps fits_status_bank_def board_at_def)
qed

lemma check_clocks_run:
  fixes s :: "'n st"
  assumes "board_at N sk A R M B D (b, a) s" "\<And>bank. B bank \<Longrightarrow> clocks_verdict (legacy_firmware a) bank (M PLL_STATUS_ADDR (bd_sent b)) = v"
  shows "\<exists>t. check_clocks_status N s = (v, t) \<and> board_at N sk A R M B D (b, a) t"
proof -
  from status_run [OF assms(1)] obtain bank t where
    st: "read_status_registers N s = (Inr bank, t)" "board_at N sk A R M B D (b, a) t"
      "length bank = NUM_STATUS_REGISTERS" "B bank" by blast
  let ?w = "M PLL_STATUS_ADDR (bd_sent b)"
  define check :: "u32 \<Rightarrow> ('n, unit) apsm" where "check = (\<lambda>pll_status. if \<forall>b \<in> set clock_lock_bits. bit pll_status b then returnM ()
             else throwM (Thrown APS2_MMCM_LOST_LOCK))"
  have status: "(status_reg bank r :: ('n, u32) apsm) = returnM (bank ! status_index r)" for r
    using status_index_less [of r] st(3) by (simp add: status_reg_def vec_at_def)
  have "PLL_STATUS_ADDR \<in> measured" by (simp add: measured_def)
  note read = triple_measure [where N = N and sk = sk and A = A and R = R and M = M and B = B and D = D and b = b and a = a, OF this]
  have "triple (board_at N sk A R M B D) (b, a)
      (if legacy_firmware a then status_reg bank USER_STATUS else read_memory1 N PLL_STATUS_ADDR)
      (Inr (if legacy_firmware a then bank ! 3 else ?w)) (b, a)"
    using read by (simp add: status triple_returnM)
  moreover have "triple (board_at N sk A R M B D) (b, a) (check w)
      (if \<forall>b \<in> set clock_lock_bits. bit w b then Inr () else Inl (Thrown APS2_MMCM_LOST_LOCK)) (b, a)" for w
    by (simp add: check_def triple_returnM triple_throwM)
  ultimately have "triple (board_at N sk A R M B D) (b, a)
     (bindM (get_obj legacy_firmware) (\<lambda>legacy.
        bindM (if legacy then status_reg bank USER_STATUS else read_memory1 N PLL_STATUS_ADDR) check))
     (if \<forall>b \<in> set clock_lock_bits. bit (if legacy_firmware a then bank ! 3 else ?w) b then Inr ()
      else Inl (Thrown APS2_MMCM_LOST_LOCK)) (b, a)"
    by (intro triple_bindM [OF triple_obj_at]) (rule triple_bindM)
  from tripleD [OF this st(2)] have "\<exists>u. check_clocks_status N s = (clocks_verdict (legacy_firmware a) bank ?w, u)
      \<and> board_at N sk A R M B D (b, a) u"
    using st(1,2)
    by (auto simp: check_clocks_status_def check_def bindM_Inr status bindM_returnM clocks_verdict_def
        clock_lock_bits_def throwM_def)
  then show ?thesis using assms(2) [OF st(4)] by simp
qed

section \<open>Steps of \<open>init\<close>\<close>

lemma on_board_rate:
  assumes "\<And>r b. b \<in> {0x190, 0x191} \<Longrightarrow> R CHIPCONFIG_IO_TARGET_PLL r b = r b"
    and "pll_decode (ucast (sp_reg c CHIPCONFIG_IO_TARGET_PLL 0x190)) (ucast (sp_reg c CHIPCONFIG_IO_TARGET_PLL 0x191)) = Inr f"
  shows "triple (on_board N sk A R M B D) (m, c, a) (get_sampleRate N) (Inr (word_of_int f))
    (m, c\<lparr>sp_latch := sp_reg c CHIPCONFIG_IO_TARGET_PLL 0x191\<rparr>, a\<lparr>samplingRate := word_of_int f\<rparr>)"
proof (rule triple_chips)
  fix E
  let ?P = CHIPCONFIG_IO_TARGET_PLL
  have c: "with_regs ?P (sp_reg c ?P) (sp_latch c) c = c" by (rule with_regs_same)
  have l: "with_regs ?P (sp_reg c ?P) v c = c\<lparr>sp_latch := v\<rparr>" for v by (simp add: with_regs_def)
  show "triple (chips N sk R E) (c, a) (get_sampleRate N) (Inr (word_of_int f))
      (c\<lparr>sp_latch := sp_reg c ?P 0x191\<rparr>, a\<lparr>samplingRate := word_of_int f\<rparr>)"
    using triple_get_rate [where R = R and r = "sp_reg c ?P" and f = f and l = "sp_latch c" and c = c and N = N
        and sk = sk and D = E and a = a] assms
    by (simp add: c l)
qed

text \<open>Steps with a result that is only known to exist.\<close>

lemma on_board_at: "on_board N sk A R M B D (m, c, a) s \<Longrightarrow>
    \<exists>l. board_at N sk A R M B D (\<lparr>bd_mem = m, bd_chips = c, bd_sent = l\<rparr>, a) s"
  by (simp add: on_board_def)

lemma at_on_board: "board_at N sk A R M B D (b, a) s \<Longrightarrow> on_board N sk A R M B D (bd_mem b, bd_chips b, a) s"
  by (cases b) (auto simp: on_board_def)

definition clock_settled :: "int \<Rightarrow> chipset \<Rightarrow> chipset \<Rightarrow> bool" where
  "clock_settled dac c c' \<longleftrightarrow> c' = c \<or> c' = put_reg CHIPCONFIG_IO_TARGET_PLL 0x232 1
     (put_reg CHIPCONFIG_IO_TARGET_PLL (clock_reg dac) 0 c)"

lemma on_board_clock:
  assumes "on_board N sk A R M B D (m, c, a) s" "dac = 0 \<or> dac = 1"
  shows "\<exists>t c'. align_DAC_clock N dac s = (Inr (), t) \<and> on_board N sk A R M B D (m, c', a) t \<and> clock_settled dac c c'"
proof -
  from on_board_at [OF assms(1)] obtain l where
    s: "board_at N sk A R M B D (\<lparr>bd_mem = m, bd_chips = c, bd_sent = l\<rparr>, a) s" by blast
  from align_clock_run [OF assms(2), of M "\<lparr>bd_mem = m, bd_chips = c, bd_sent = l\<rparr>" N sk A R B D a] obtain k where
    "triple (board_at N sk A R M B D) (\<lparr>bd_mem = m, bd_chips = c, bd_sent = l\<rparr>, a) (align_DAC_clock N dac) (Inr ())
      ((clock_toggled dac ^^ k) \<lparr>bd_mem = m, bd_chips = c, bd_sent = l\<rparr>, a)" by blast
  from tripleD [OF this s] obtain t where "align_DAC_clock N dac s = (Inr (), t)"
    "board_at N sk A R M B D ((clock_toggled dac ^^ k) \<lparr>bd_mem = m, bd_chips = c, bd_sent = l\<rparr>, a) t" by blast
  from this(1) at_on_board [OF this(2)] show ?thesis
    by (intro exI [of _ t] exI) (auto simp: toggled_board clock_settled_def)
qed

lemma on_board_capture:
  assumes "on_board N sk A R M B D (m, c, a) s" "dac = 0 \<or> dac = 1" "window R (dac_of (dac_chip dac)) e h"
  shows "\<exists>t c'. align_DAC_LVDS_capture N dac s = (Inr (), t) \<and> on_board N sk A R M B D (m, c', a) t
    \<and> captured e h (sp_reg c (dac_of (dac_chip dac))) (sp_reg c' (dac_of (dac_chip dac)))
    \<and> (\<forall>k. k \<noteq> dac_of (dac_chip dac) \<longrightarrow> sp_reg c' k = sp_reg c k)"
proof -
  from on_board_chips [OF assms(1)] obtain E where
    E: "chips N sk R E (c, a) s" "\<And>t c' a'. chips N sk R E (c', a') t \<Longrightarrow> on_board N sk A R M B D (m, c', a') t"
    by blast
  from align_LVDS_run [OF E(1) assms(2) refl assms(3)] E(2) show ?thesis by blast
qed

text \<open>
  What \<open>setup_DACs\<close> leaves: the DACs captured, the clock registers of the PLL as they were or enabled,
  all other registers as they were.
\<close>

definition DACs_set_up :: "nat \<times> nat \<Rightarrow> nat \<times> nat \<Rightarrow> chipset \<Rightarrow> chipset \<Rightarrow> bool" where
  "DACs_set_up edges0 edges1 c c' \<longleftrightarrow>
     captured (fst edges0) (snd edges0) (sp_reg c CHIPCONFIG_IO_TARGET_DAC_0) (sp_reg c' CHIPCONFIG_IO_TARGET_DAC_0)
     \<and> captured (fst edges1) (snd edges1) (sp_reg c CHIPCONFIG_IO_TARGET_DAC_1) (sp_reg c' CHIPCONFIG_IO_TARGET_DAC_1)
     \<and> (\<forall>b \<in> {0xF0, 0xF1}. sp_reg c' CHIPCONFIG_IO_TARGET_PLL b \<in> {sp_reg c CHIPCONFIG_IO_TARGET_PLL b, 0})
     \<and> (\<forall>b. b \<notin> {0xF0, 0xF1, 0x232} \<longrightarrow> sp_reg c' CHIPCONFIG_IO_TARGET_PLL b = sp_reg c CHIPCONFIG_IO_TARGET_PLL b)
     \<and> (\<forall>k. k \<notin> {CHIPCONFIG_IO_TARGET_DAC_0, CHIPCONFIG_IO_TARGET_DAC_1, CHIPCONFIG_IO_TARGET_PLL} \<longrightarrow>
          sp_reg c' k = sp_reg c k)"

lemma clock_settled_regs:
  assumes "clock_settled dac c c'" "dac = 0 \<or> dac = 1"
  shows "k \<noteq> CHIPCONFIG_IO_TARGET_PLL \<Longrightarrow> sp_reg c' k = sp_reg c k"
    "b \<notin> {0xF0, 0xF1, 0x232} \<Longrightarrow> sp_reg c' CHIPCONFIG_IO_TARGET_PLL b = sp_reg c CHIPCONFIG_IO_TARGET_PLL b"
    "b \<in> {0xF0, 0xF1} \<Longrightarrow> sp_reg c' CHIPCONFIG_IO_TARGET_PLL b \<in> {sp_reg c CHIPCONFIG_IO_TARGET_PLL b, 0}"
  using assms by (auto simp: clock_settled_def put_reg_def clock_reg_def)

lemma setup_DACs_run:
  assumes "on_board N sk A R M B D (m, c, a) s"
    and "window R CHIPCONFIG_IO_TARGET_DAC_0 (fst e0) (snd e0)" "window R CHIPCONFIG_IO_TARGET_DAC_1 (fst e1) (snd e1)"
  shows "\<exists>t c'. setup_DACs N s = (Inr (), t) \<and> on_board N sk A R M B D (m, c', a) t \<and> DACs_set_up e0 e1 c c'"
proof -
  let ?P = CHIPCONFIG_IO_TARGET_PLL and ?D0 = CHIPCONFIG_IO_TARGET_DAC_0 and ?D1 = CHIPCONFIG_IO_TARGET_DAC_1
  have d: "(0 :: int) = 0 \<or> (0 :: int) = 1" "(1 :: int) = 0 \<or> (1 :: int) = 1"
    "dac_of (dac_chip 0) = ?D0" "dac_of (dac_chip 1) = ?D1"
    by (simp_all add: dac_of_def dac_chip_def)
  have ne: "?D0 \<noteq> ?D1" "?D0 \<noteq> ?P" "?D1 \<noteq> ?P" by (simp_all add: const_defs)
  from on_board_clock [OF assms(1) d(1)] obtain s1 c1 where
    1: "align_DAC_clock N 0 s = (Inr (), s1)" "on_board N sk A R M B D (m, c1, a) s1" "clock_settled 0 c c1" by blast
  from on_board_clock [OF 1(2) d(2)] obtain s2 c2 where
    2: "align_DAC_clock N 1 s1 = (Inr (), s2)" "on_board N sk A R M B D (m, c2, a) s2" "clock_settled 1 c1 c2" by blast
  from on_board_capture [OF 2(2) d(1), of "fst e0" "snd e0", unfolded d(3), OF assms(2)] obtain s3 c3 where
    3: "align_DAC_LVDS_capture N 0 s2 = (Inr (), s3)" "on_board N sk A R M B D (m, c3, a) s3"
      "captured (fst e0) (snd e0) (sp_reg c2 ?D0) (sp_reg c3 ?D0)" "\<And>k. k \<noteq> ?D0 \<Longrightarrow> sp_reg c3 k = sp_reg c2 k" by blast
  from on_board_capture [OF 3(2) d(2), of "fst e1" "snd e1", unfolded d(4), OF assms(3)] obtain s4 c4 where
    4: "align_DAC_LVDS_capture N 1 s3 = (Inr (), s4)" "on_board N sk A R M B D (m, c4, a) s4"
      "captured (fst e1) (snd e1) (sp_reg c3 ?D1) (sp_reg c4 ?D1)" "\<And>k. k \<noteq> ?D1 \<Longrightarrow> sp_reg c4 k = sp_reg c3 k" by blast
  note settled = clock_settled_regs [OF 1(3) d(1)] clock_settled_regs [OF 2(3) d(2)]
  have "sp_reg c2 k = sp_reg c k" if "k \<noteq> ?P" for k using settled(1,4) that by simp
  moreover have "sp_reg c4 ?P = sp_reg c2 ?P" using 3(4) 4(4) ne by metis
  moreover have "sp_reg c2 ?P b \<in> {sp_reg c ?P b, 0}" if "b \<in> {0xF0, 0xF1}" for b
    using settled(3,6) [OF that] by auto
  ultimately have "DACs_set_up e0 e1 c c4"
    using 3(3,4) 4(3,4) settled(2,5) ne by (simp add: DACs_set_up_def)
  with 1 2 3 4 show ?thesis
    by (intro exI [of _ s4] exI [of _ c4]) (simp add: setup_DACs_def seqM_def bindM_def)
qed

section \<open>\<open>init\<close>\<close>

text \<open>What \<open>init\<close> needs: an APS whose PLL reads back a rate, and a verdict on the clocks that stays.\<close>

definition clocks_report :: "readout \<Rightarrow> (u32 \<Rightarrow> u32 list list \<Rightarrow> u32) \<Rightarrow> (APSStatusBank_t \<Rightarrow> bool) \<Rightarrow> chipset \<Rightarrow> aps2
    \<Rightarrow> int \<Rightarrow> exn + unit \<Rightarrow> bool" where
  "clocks_report R M B c a f v \<longleftrightarrow> host_type a = Some APS
     \<and> (\<forall>r b. b \<in> {0x190, 0x191} \<longrightarrow> R CHIPCONFIG_IO_TARGET_PLL r b = r b)
     \<and> pll_decode (ucast (sp_reg c CHIPCONFIG_IO_TARGET_PLL 0x190)) (ucast (sp_reg c CHIPCONFIG_IO_TARGET_PLL 0x191)) = Inr f
     \<and> (\<forall>bank l. B bank \<longrightarrow> clocks_verdict (legacy_firmware a) bank (M PLL_STATUS_ADDR l) = v)"

definition reload :: "'n net_ops \<Rightarrow> u32 \<Rightarrow> ('n, unit) apsm" where
  "reload N initReg =
     seqM (set_register_bit N RESETS_ADDR [IO_CHA_RST_BIT, IO_CHB_RST_BIT])
     (seqM (clear_register_bit N RESETS_ADDR [IO_CHA_RST_BIT, IO_CHB_RST_BIT])
     (seqM (setup_DACs N)
     (seqM clear_channel_data
     (seqM (bindM (write_memory_map N WFA_OFFSET WFB_OFFSET SEQ_OFFSET) (\<lambda>_. returnM ()))
           (write_memory1 N INIT_STATUS_ADDR (initReg OR 0x1))))))"

lemma init_clocks:
  assumes "on_board N sk A R M B D (m, c, a) s" "clocks_report R M B c a f v"
  shows "\<exists>u. on_board N sk A R M B D
        (m, c\<lparr>sp_latch := sp_reg c CHIPCONFIG_IO_TARGET_PLL 0x191\<rparr>, a\<lparr>samplingRate := word_of_int f\<rparr>) u
    \<and> aps2_init N force s = (case v of Inl e \<Rightarrow> (Inl e, u)
        | Inr _ \<Rightarrow> bindM (read_memory1 N INIT_STATUS_ADDR) (\<lambda>initReg.
             seqM (whenM (initReg AND 0x1 \<noteq> 0x1 \<or> force) (reload N initReg)) (returnM APS2_OK)) u)"
proof -
  let ?c = "c\<lparr>sp_latch := sp_reg c CHIPCONFIG_IO_TARGET_PLL 0x191\<rparr>" and ?a = "a\<lparr>samplingRate := word_of_int f\<rparr>"
  have h: "get_init host_type s = (Inr APS, s)"
    using assms by (auto simp: on_board_def board_at_def clocks_report_def get_init_def get_obj_def bindM_def run_simps)
  have "triple (on_board N sk A R M B D) (m, c, a) (get_sampleRate N) (Inr (word_of_int f)) (m, ?c, ?a)"
    by (rule on_board_rate) (use assms(2) in \<open>auto simp: clocks_report_def\<close>)
  from tripleD [OF this assms(1)] obtain t where
    t: "get_sampleRate N s = (Inr (word_of_int f), t)" "on_board N sk A R M B D (m, ?c, ?a) t" by blast
  from on_board_at [OF t(2)] obtain l where
    l: "board_at N sk A R M B D (\<lparr>bd_mem = m, bd_chips = ?c, bd_sent = l\<rparr>, ?a) t" by blast
  have "clocks_verdict (legacy_firmware ?a) bank (M PLL_STATUS_ADDR (bd_sent \<lparr>bd_mem = m, bd_chips = ?c, bd_sent = l\<rparr>)) = v"
    if "B bank" for bank using assms(2) that by (simp add: clocks_report_def)
  from check_clocks_run [OF l this] obtain u where
    u: "check_clocks_status N t = (v, u)"
      "board_at N sk A R M B D (\<lparr>bd_mem = m, bd_chips = ?c, bd_sent = l\<rparr>, ?a) u" by blast
  define rest where "rest = bindM (read_memory1 N INIT_STATUS_ADDR) (\<lambda>initReg.
             seqM (whenM (initReg AND 0x1 \<noteq> 0x1 \<or> force) (reload N initReg)) (returnM APS2_OK))"
  have ne: "APS \<noteq> TDM" by simp
  have "aps2_init N force s = seqM (check_clocks_status N) rest t"
    unfolding aps2_init_def reload_def [symmetric] rest_def [symmetric] bindM_Inr [where m = "get_init host_type", OF h]
      if_not_P [OF ne] bindM_Inr [where m = "get_sampleRate N", OF t(1)] by (rule refl)
  also have "\<dots> = (case v of Inl e \<Rightarrow> (Inl e, u) | Inr _ \<Rightarrow> rest u)"
    by (cases v) (simp_all add: seqM_def bindM_def u(1))
  finally have "aps2_init N force s = (case v of Inl e \<Rightarrow> (Inl e, u) | Inr _ \<Rightarrow> rest u)" .
  with at_on_board [OF u(2)] show ?thesis unfolding rest_def by auto
qed

definition init_regs :: "u32 set" where
  "init_regs = {RESETS_ADDR, WFA_OFFSET_ADDR, WFB_OFFSET_ADDR, SEQ_OFFSET_ADDR, INIT_STATUS_ADDR}"

lemma init_regs_in: "init_regs \<subseteq> A \<Longrightarrow> x \<in> init_regs \<Longrightarrow> reg_in A x"
  by (auto simp: init_regs_def reg_in_def const_defs)

definition init_memory :: "memory \<Rightarrow> memory" where
  "init_memory m = m(RESETS_ADDR := unset_bit IO_CHB_RST_BIT (unset_bit IO_CHA_RST_BIT (m RESETS_ADDR)),
     WFA_OFFSET_ADDR := MEMORY_ADDR + WFA_OFFSET, WFB_OFFSET_ADDR := MEMORY_ADDR + WFB_OFFSET,
     SEQ_OFFSET_ADDR := MEMORY_ADDR + SEQ_OFFSET, INIT_STATUS_ADDR := m INIT_STATUS_ADDR OR 0x1)"

lemma on_board_write1:
  "reg_in A x \<Longrightarrow> triple (on_board N sk A R M B D) (m, c, a) (write_memory1 N x w) (Inr ()) (m(x := w), c, a)"
  by (rule triple_registers [OF refines_write1]) (simp_all add: bus_write1_run)

lemma on_board_read1:
  "reg_in A x \<Longrightarrow> triple (on_board N sk A R M B D) (m, c, a) (read_memory1 N x) (Inr (m x)) (m, c, a)"
  by (rule triple_registers [OF refines_read1]) (simp_all add: bus_read1_run)

lemma on_board_bits:
  assumes "reg_in A x" "\<forall>b \<in> set bits. b < 32"
  shows "triple (on_board N sk A R M B D) (m, c, a) (set_register_bit N x bits) (Inr ()) (m(x := fold set_bit bits (m x)), c, a)"
    "triple (on_board N sk A R M B D) (m, c, a) (clear_register_bit N x bits) (Inr ()) (m(x := fold unset_bit bits (m x)), c, a)"
  by (rule triple_registers [OF refines_set_register_bit [OF assms(2)]], simp add: bus_modify_run assms(1), simp)
    (rule triple_registers [OF refines_clear_register_bit [OF assms(2)]], simp add: bus_modify_run assms(1), simp)

lemma reload_run:
  assumes "on_board N sk A R M B D (m, c, a) s" "init_regs \<subseteq> A"
    and "window R CHIPCONFIG_IO_TARGET_DAC_0 (fst e0) (snd e0)" "window R CHIPCONFIG_IO_TARGET_DAC_1 (fst e1) (snd e1)"
  shows "\<exists>t c'. reload N (m INIT_STATUS_ADDR) s = (Inr (), t) \<and> DACs_set_up e0 e1 c c'
    \<and> on_board N sk A R M B D (init_memory m, c', a\<lparr>channels := map clear_data (channels a)\<rparr>) t"
proof -
  let ?bits = "[IO_CHA_RST_BIT, IO_CHB_RST_BIT]" and ?a = "a\<lparr>channels := map clear_data (channels a)\<rparr>"
  have bits: "\<forall>b \<in> set ?bits. b < 32" by (simp add: const_defs)
  note reg = init_regs_in [OF assms(2)]
  have r: "reg_in A RESETS_ADDR" by (rule reg) (simp add: init_regs_def)
  from tripleD [OF on_board_bits(1) [OF r bits] assms(1)] obtain s1 where
    1: "set_register_bit N RESETS_ADDR ?bits s = (Inr (), s1)"
      "on_board N sk A R M B D (m(RESETS_ADDR := fold set_bit ?bits (m RESETS_ADDR)), c, a) s1" by blast
  let ?m = "m(RESETS_ADDR := unset_bit IO_CHB_RST_BIT (unset_bit IO_CHA_RST_BIT (m RESETS_ADDR)))"
  have "fold unset_bit ?bits (fold set_bit ?bits w) = unset_bit IO_CHB_RST_BIT (unset_bit IO_CHA_RST_BIT w)" for w :: u32
    by (rule bit_word_eqI) (auto simp: bit_simps)
  with tripleD [OF on_board_bits(2) [OF r bits] 1(2)] obtain s2 where
    2: "clear_register_bit N RESETS_ADDR ?bits s1 = (Inr (), s2)" "on_board N sk A R M B D (?m, c, a) s2" by auto
  from setup_DACs_run [OF 2(2) assms(3,4)] obtain s3 c' where
    3: "setup_DACs N s2 = (Inr (), s3)" "on_board N sk A R M B D (?m, c', a) s3" "DACs_set_up e0 e1 c c'" by blast
  have "triple (on_board N sk A R M B D) (?m, c', a)
      (seqM clear_channel_data
        (seqM (bindM (write_memory_map N WFA_OFFSET WFB_OFFSET SEQ_OFFSET) (\<lambda>_. returnM ()))
           (write_memory1 N INIT_STATUS_ADDR (m INIT_STATUS_ADDR OR 0x1)))) (Inr ())
      (init_memory m, c', ?a)"
    unfolding clear_channel_data_def write_memory_map_def init_memory_def
    by (rule triple_seqM, rule on_board_obj(2), simp, simp, rule triple_seqM, rule triple_bindM,
        (rule triple_seqM, rule on_board_write1, rule reg, simp add: init_regs_def)+, rule triple_returnM,
        rule triple_returnM, rule on_board_write1, rule reg, simp add: init_regs_def)
  from tripleD [OF this 3(2)] obtain t where
    "seqM clear_channel_data
        (seqM (bindM (write_memory_map N WFA_OFFSET WFB_OFFSET SEQ_OFFSET) (\<lambda>_. returnM ()))
           (write_memory1 N INIT_STATUS_ADDR (m INIT_STATUS_ADDR OR 0x1))) s3 = (Inr (), t)"
    "on_board N sk A R M B D (init_memory m, c', ?a) t" by blast
  with 1(1) 2(1) 3(1,3) show ?thesis
    by (intro exI [of _ t] exI [of _ c'])
      (simp add: reload_def bindM_Inr seqM_def [of "set_register_bit N RESETS_ADDR ?bits"]
        seqM_def [of "clear_register_bit N RESETS_ADDR ?bits"] seqM_def [of "setup_DACs N"])
qed

lemma bit_0_and: "(w :: u32) AND 1 \<noteq> 1 \<longleftrightarrow> \<not> bit w 0"
proof -
  have "w AND 1 = of_bool (bit w 0)"
    by (rule bit_word_eqI) (auto simp: bit_simps)
  then show ?thesis by simp
qed

text \<open>
  A call of \<open>init\<close> on a module that has been initialised, without the force flag, and one that
  initialises it.
\<close>

lemma init_idle:
  assumes "on_board N sk A R M B D (m, c, a) s" "clocks_report R M B c a f (Inr ())" "init_regs \<subseteq> A"
    and "bit (m INIT_STATUS_ADDR) 0"
  shows "\<exists>t c'. aps2_init N False s = (Inr APS2_OK, t)
    \<and> on_board N sk A R M B D (m, c', a\<lparr>samplingRate := word_of_int f\<rparr>) t \<and> sp_reg c' = sp_reg c"
proof -
  from init_clocks [OF assms(1,2), of False] obtain u where
    u: "on_board N sk A R M B D (m, c\<lparr>sp_latch := sp_reg c CHIPCONFIG_IO_TARGET_PLL 0x191\<rparr>, a\<lparr>samplingRate := word_of_int f\<rparr>) u"
      "aps2_init N False s = bindM (read_memory1 N INIT_STATUS_ADDR) (\<lambda>initReg.
           seqM (whenM (initReg AND 0x1 \<noteq> 0x1 \<or> False) (reload N initReg)) (returnM APS2_OK)) u" by auto
  have r: "reg_in A INIT_STATUS_ADDR" by (rule init_regs_in [OF assms(3)]) (simp add: init_regs_def)
  from tripleD [OF on_board_read1 [OF r] u(1)] obtain t where
    "read_memory1 N INIT_STATUS_ADDR u = (Inr (m INIT_STATUS_ADDR), t)"
    "on_board N sk A R M B D (m, c\<lparr>sp_latch := sp_reg c CHIPCONFIG_IO_TARGET_PLL 0x191\<rparr>, a\<lparr>samplingRate := word_of_int f\<rparr>) t"
    by blast
  with u(2) show ?thesis
    using bit_0_and [of "m INIT_STATUS_ADDR"] assms(4)
    by (intro exI [of _ t] exI [of _ "c\<lparr>sp_latch := sp_reg c CHIPCONFIG_IO_TARGET_PLL 0x191\<rparr>"])
      (simp add: bindM_def seqM_def whenM_def run_simps)
qed

lemma init_reloads:
  assumes "on_board N sk A R M B D (m, c, a) s" "clocks_report R M B c a f (Inr ())" "init_regs \<subseteq> A"
    and "window R CHIPCONFIG_IO_TARGET_DAC_0 (fst e0) (snd e0)" "window R CHIPCONFIG_IO_TARGET_DAC_1 (fst e1) (snd e1)"
    and "force \<or> \<not> bit (m INIT_STATUS_ADDR) 0"
  shows "\<exists>t c'. aps2_init N force s = (Inr APS2_OK, t) \<and> DACs_set_up e0 e1 c c'
    \<and> on_board N sk A R M B D (init_memory m, c',
        a\<lparr>samplingRate := word_of_int f, channels := map clear_data (channels a)\<rparr>) t"
proof -
  let ?c = "c\<lparr>sp_latch := sp_reg c CHIPCONFIG_IO_TARGET_PLL 0x191\<rparr>" and ?a = "a\<lparr>samplingRate := word_of_int f\<rparr>"
  from init_clocks [OF assms(1,2), of force] obtain u where
    u: "on_board N sk A R M B D (m, ?c, ?a) u"
      "aps2_init N force s = bindM (read_memory1 N INIT_STATUS_ADDR) (\<lambda>initReg.
           seqM (whenM (initReg AND 0x1 \<noteq> 0x1 \<or> force) (reload N initReg)) (returnM APS2_OK)) u" by auto
  have r: "reg_in A INIT_STATUS_ADDR" by (rule init_regs_in [OF assms(3)]) (simp add: init_regs_def)
  from tripleD [OF on_board_read1 [OF r] u(1)] obtain s1 where
    1: "read_memory1 N INIT_STATUS_ADDR u = (Inr (m INIT_STATUS_ADDR), s1)" "on_board N sk A R M B D (m, ?c, ?a) s1"
    by blast
  from reload_run [OF 1(2) assms(3-5)] obtain t c' where
    t: "reload N (m INIT_STATUS_ADDR) s1 = (Inr (), t)" "DACs_set_up e0 e1 ?c c'"
      "on_board N sk A R M B D (init_memory m, c', ?a\<lparr>channels := map clear_data (channels ?a)\<rparr>) t" by blast
  have "m INIT_STATUS_ADDR AND 0x1 \<noteq> 0x1 \<or> force"
    using assms(6) bit_0_and [of "m INIT_STATUS_ADDR"] by auto
  then have "aps2_init N force s = (Inr APS2_OK, t)"
    using u(2) 1(1) t(1) by (simp add: bindM_def seqM_def whenM_def run_simps)
  with t show ?thesis by (intro exI [of _ t] exI [of _ c']) (simp add: DACs_set_up_def)
qed

text \<open>
  C6. \<open>init\<close> on a connected APS with locked clocks, whose DACs have the data windows \<open>e0\<close> and \<open>e1\<close> (the
  setup and the hold edge). When the module says that it is initialised and the caller does not force
  it, nothing is written. Otherwise the reset bits of both channels end cleared, the offsets of the
  waveforms and the sequence are set, bit 0 of the initialisation status is set and no other word of
  the memory changes; both DACs are captured in the middle of their windows, the PLL keeps all
  registers but those of the DAC clocks, and the driver forgets the waveforms of both channels. After
  either, a second call without force succeeds and changes neither the memory nor a register of a chip.
\<close>

theorem init_brings_up:
  assumes "on_board N sk A R M B D (m, c, a) s" "clocks_report R M B c a f (Inr ())"
    and "{RESETS_ADDR, WFA_OFFSET_ADDR, WFB_OFFSET_ADDR, SEQ_OFFSET_ADDR, INIT_STATUS_ADDR} \<subseteq> A"
    and "window R CHIPCONFIG_IO_TARGET_DAC_0 (fst e0) (snd e0)" "window R CHIPCONFIG_IO_TARGET_DAC_1 (fst e1) (snd e1)"
  shows "\<exists>t m' c' a' u c''. aps2_init N force s = (Inr APS2_OK, t) \<and> on_board N sk A R M B D (m', c', a') t
    \<and> (if bit (m INIT_STATUS_ADDR) 0 \<and> \<not> force
       then m' = m \<and> sp_reg c' = sp_reg c \<and> a' = a\<lparr>samplingRate := word_of_int f\<rparr>
       else m' = m(RESETS_ADDR := unset_bit IO_CHB_RST_BIT (unset_bit IO_CHA_RST_BIT (m RESETS_ADDR)),
              WFA_OFFSET_ADDR := MEMORY_ADDR + WFA_OFFSET, WFB_OFFSET_ADDR := MEMORY_ADDR + WFB_OFFSET,
              SEQ_OFFSET_ADDR := MEMORY_ADDR + SEQ_OFFSET, INIT_STATUS_ADDR := m INIT_STATUS_ADDR OR 0x1)
         \<and> DACs_set_up e0 e1 c c'
         \<and> a' = a\<lparr>samplingRate := word_of_int f, channels := map clear_data (channels a)\<rparr>)
    \<and> aps2_init N False t = (Inr APS2_OK, u) \<and> on_board N sk A R M B D (m', c'', a') u \<and> sp_reg c'' = sp_reg c'"
proof (cases "bit (m INIT_STATUS_ADDR) 0 \<and> \<not> force")
  case True
  have A: "init_regs \<subseteq> A" using assms(3) by (simp add: init_regs_def)
  from init_idle [OF assms(1,2) A] True obtain t c' where
    t: "aps2_init N False s = (Inr APS2_OK, t)" "on_board N sk A R M B D (m, c', a\<lparr>samplingRate := word_of_int f\<rparr>) t"
      "sp_reg c' = sp_reg c" by blast
  have "clocks_report R M B c' (a\<lparr>samplingRate := word_of_int f\<rparr>) f (Inr ())"
    using assms(2) t(3) by (simp add: clocks_report_def)
  from init_idle [OF t(2) this A] True obtain u c'' where
    "aps2_init N False t = (Inr APS2_OK, u)" "on_board N sk A R M B D (m, c'', a\<lparr>samplingRate := word_of_int f\<rparr>) u"
    "sp_reg c'' = sp_reg c'" by auto
  with t True show ?thesis
    by (intro exI [of _ t] exI [of _ m] exI [of _ c'] exI [of _ "a\<lparr>samplingRate := word_of_int f\<rparr>"]
        exI [of _ u] exI [of _ c'']) simp
next
  case False
  let ?a = "a\<lparr>samplingRate := word_of_int f, channels := map clear_data (channels a)\<rparr>"
  have A: "init_regs \<subseteq> A" using assms(3) by (simp add: init_regs_def)
  from init_reloads [OF assms(1,2) A assms(4,5), of force] False obtain t c' where
    t: "aps2_init N force s = (Inr APS2_OK, t)" "DACs_set_up e0 e1 c c'" "on_board N sk A R M B D (init_memory m, c', ?a) t"
    by blast
  have now: "clocks_report R M B c' ?a f (Inr ())" "bit (init_memory m INIT_STATUS_ADDR) 0"
    using assms(2) t(2) by (simp_all add: clocks_report_def DACs_set_up_def init_memory_def bit_simps)
  have "?a\<lparr>samplingRate := word_of_int f\<rparr> = ?a" by simp
  with init_idle [OF t(3) now(1) A now(2)] obtain u c'' where
    "aps2_init N False t = (Inr APS2_OK, u)" "on_board N sk A R M B D (init_memory m, c'', ?a) u" "sp_reg c'' = sp_reg c'"
    by metis
  with t show ?thesis
    unfolding if_not_P [OF False]
    by (intro exI [of _ t] exI [of _ "init_memory m"] exI [of _ c'] exI [of _ ?a] exI [of _ u] exI [of _ c''])
      (simp add: init_memory_def)
qed

text \<open>A module with every clock locked, and one with none, whose DACs have a window each.\<close>

definition steady :: "u32 \<Rightarrow> u32 list list \<Rightarrow> u32" where
  "steady a l = (if a = PLL_STATUS_ADDR then 0xffffffff else 0)"

definition blank_board :: board where
  "blank_board = \<lparr>bd_mem = \<lambda>a. 0, bd_chips = blank_chips, bd_sent = []\<rparr>"

lemma blank_board_ok:
  assumes "length bank = NUM_STATUS_REGISTERS"
  shows "on_board (board_ops eye_readout steady bank) 0 (- measured) eye_readout steady (\<lambda>b. b = bank) board_view
    (\<lambda>a. 0, blank_chips, emu_obj) (board_state blank_board)"
  using at_on_board [OF board_state_ok [OF assms, of eye_readout steady blank_board]] by (simp add: blank_board_def)

lemma blank_board_report:
  assumes "clocks_verdict (legacy_firmware emu_obj) bank 0xffffffff = v"
  shows "clocks_report eye_readout steady (\<lambda>b. b = bank) blank_chips emu_obj 600 v"
  using assms
  by (auto simp: clocks_report_def steady_def emu_obj_def APS2_construct_def eye_readout_def blank_chips_def pll_decode_def)

lemma all_ones_bit: "n < 32 \<Longrightarrow> bit (0xffffffff :: u32) n"
proof -
  have m: "(0xffffffff :: u32) = mask 32" by (simp add: mask_eq_exp_minus_1)
  show "n < 32 \<Longrightarrow> bit (0xffffffff :: u32) n" unfolding m by (simp add: bit_mask_iff del: mask_eq_exp_minus_1)
qed

theorem init_brings_up_witness:
  "\<exists>t. aps2_init (board_ops eye_readout steady (replicate 16 0xffffffff)) False (board_state blank_board) = (Inr APS2_OK, t)
    \<and> bd_mem (be_board (net t)) INIT_STATUS_ADDR = 1
    \<and> bd_mem (be_board (net t)) SEQ_OFFSET_ADDR = MEMORY_ADDR + SEQ_OFFSET
    \<and> sp_reg (bd_chips (be_board (net t))) CHIPCONFIG_IO_TARGET_DAC_1 (ucast DAC_SD_ADDR) = 0x20"
proof -
  have bank: "length (replicate 16 0xffffffff :: u32 list) = NUM_STATUS_REGISTERS" by (simp add: const_defs)
  have r: "clocks_report eye_readout steady (\<lambda>b. b = replicate 16 0xffffffff) blank_chips emu_obj 600 (Inr ())"
    by (rule blank_board_report) (simp add: clocks_verdict_def all_ones_bit const_defs)
  have A: "{RESETS_ADDR, WFA_OFFSET_ADDR, WFB_OFFSET_ADDR, SEQ_OFFSET_ADDR, INIT_STATUS_ADDR} \<subseteq> - measured"
    by (simp add: measured_def const_defs)
  have w: "window eye_readout CHIPCONFIG_IO_TARGET_DAC_0 (fst (5, 9)) (snd (5, 9))"
    "window eye_readout CHIPCONFIG_IO_TARGET_DAC_1 (fst (5, 9)) (snd (5, 9))"
    using eye_window [of CHIPCONFIG_IO_TARGET_DAC_0] eye_window [of CHIPCONFIG_IO_TARGET_DAC_1] by (simp_all add: const_defs)
  from init_brings_up [OF blank_board_ok [OF bank] r A w, of False] obtain t m' c' a' where
    "aps2_init (board_ops eye_readout steady (replicate 16 0xffffffff)) False (board_state blank_board) = (Inr APS2_OK, t)"
    and at: "on_board (board_ops eye_readout steady (replicate 16 0xffffffff)) 0 (- measured) eye_readout steady
      (\<lambda>b. b = replicate 16 0xffffffff) board_view (m', c', a') t"
    and "m' = (\<lambda>a. 0)(RESETS_ADDR := unset_bit IO_CHB_RST_BIT (unset_bit IO_CHA_RST_BIT 0),
              WFA_OFFSET_ADDR := MEMORY_ADDR + WFA_OFFSET, WFB_OFFSET_ADDR := MEMORY_ADDR + WFB_OFFSET,
              SEQ_OFFSET_ADDR := MEMORY_ADDR + SEQ_OFFSET, INIT_STATUS_ADDR := 0 OR 0x1)"
      "DACs_set_up (5, 9) (5, 9) blank_chips c'"
    by auto
  then have "m' INIT_STATUS_ADDR = 1 \<and> m' SEQ_OFFSET_ADDR = MEMORY_ADDR + SEQ_OFFSET
      \<and> sp_reg c' CHIPCONFIG_IO_TARGET_DAC_1 (ucast DAC_SD_ADDR) = 0x20"
    "aps2_init (board_ops eye_readout steady (replicate 16 0xffffffff)) False (board_state blank_board) = (Inr APS2_OK, t)"
    by (simp_all add: DACs_set_up_def captured_def signed_divide_int_def const_defs)
  moreover have "bd_mem (be_board (net t)) = m' \<and> bd_chips (be_board (net t)) = c'"
    using at by (auto simp: on_board_def board_at_def stage_def board_view_def)
  ultimately show ?thesis by blast
qed

text \<open>
  C18. A module whose clocks are not locked is not initialised: \<open>init\<close> ends with \<open>APS2_PLL_LOST_LOCK\<close>, or
  with \<open>APS2_MMCM_LOST_LOCK\<close> when the distribution PLL is locked but a clock manager or a memory
  controller is not (told by the status bank of a legacy firmware, by the register of a new one),
  forced or not; no word of the memory and no register of a chip has changed.
\<close>

theorem init_needs_clocks:
  assumes "on_board N sk A R M B D (m, c, a) s" "clocks_report R M B c a f (Inl e)"
  shows "\<exists>t c'. aps2_init N force s = (Inl e, t) \<and> sp_reg c' = sp_reg c
    \<and> on_board N sk A R M B D (m, c', a\<lparr>samplingRate := word_of_int f\<rparr>) t"
proof -
  from init_clocks [OF assms, of force] obtain t where
    "on_board N sk A R M B D (m, c\<lparr>sp_latch := sp_reg c CHIPCONFIG_IO_TARGET_PLL 0x191\<rparr>,
        a\<lparr>samplingRate := word_of_int f\<rparr>) t" "aps2_init N force s = (Inl e, t)"
    by auto
  then show ?thesis
    by (intro exI [of _ t] exI [of _ "c\<lparr>sp_latch := sp_reg c CHIPCONFIG_IO_TARGET_PLL 0x191\<rparr>"]) simp
qed

theorem init_needs_clocks_witness:
  "\<exists>t. aps2_init (board_ops eye_readout steady (replicate 16 0)) True (board_state blank_board) = (Inl (Thrown APS2_PLL_LOST_LOCK), t)
    \<and> bd_mem (be_board (net t)) = (\<lambda>a. 0)"
proof -
  have bank: "length (replicate 16 0 :: u32 list) = NUM_STATUS_REGISTERS" by (simp add: const_defs)
  have "clocks_report eye_readout steady (\<lambda>b. b = replicate 16 0) blank_chips emu_obj 600 (Inl (Thrown APS2_PLL_LOST_LOCK))"
    by (rule blank_board_report) (simp add: clocks_verdict_def)
  from init_needs_clocks [OF blank_board_ok [OF bank] this, of True] obtain t c' where
    "aps2_init (board_ops eye_readout steady (replicate 16 0)) True (board_state blank_board) = (Inl (Thrown APS2_PLL_LOST_LOCK), t)"
    "on_board (board_ops eye_readout steady (replicate 16 0)) 0 (- measured) eye_readout steady (\<lambda>b. b = replicate 16 0)
      board_view (\<lambda>a. 0, c', emu_obj\<lparr>samplingRate := word_of_int 600\<rparr>) t" by blast
  then show ?thesis by (auto simp: on_board_def board_at_def stage_def board_view_def)
qed

end
