(* ===== verification/Spec2Isabelle.thy ===== *)
theory Spec2Isabelle
  imports Playback Run_Modes Wire_Properties Receive_Thread Returns Chip_Properties
    Registers Interface_Properties Api_Invariant Session Tool_Properties Bitfiles Settings
    Legacy_Properties Boot Signature Start_Up
begin

text \<open>
  A verification library of libaps2, the driver of the APS2 arbitrary pulse sequencer
  (\<open>src/src/lib\<close>), and of the programs around it (\<open>src/src/util\<close>, \<open>src/src/C++\<close>).

  \<^bold>\<open>The program.\<close> A client calls the C functions of \<open>libaps2.cpp\<close>. They look up the object of class
  \<open>APS2\<close> for a serial (an IP address) in the map \<open>APSs\<close>, call one of its methods, and turn what the
  method throws into a status code. A method of \<open>APS2\<close> (\<open>APS2.cpp\<close>) computes what to write to or
  read from the module's memory-mapped registers, its SDRAM, its EPROM or its SPI chips, makes
  \<open>APS2Datagram\<close>s of it and passes them to the one shared \<open>APS2Ethernet\<close>, which sends them over TCP
  (or, to a module with legacy firmware, as \<open>APS2EthernetPacket\<close>s over UDP), collects and checks
  acknowledges, and receives the answers. A receive thread sorts the UDP packets that come in into
  the device table and the per-module message queues. \<open>Channel\<close> holds waveform and markers of an
  analog output as floats and turns them into 16-bit words.

  \<^bold>\<open>How code becomes definitions.\<close> A method is a computation on an explicit state that ends with a
  value or with an exception and the state reached (\<open>Prelude\<close>: \<open>comp\<close>, \<open>bindM\<close>, \<open>seqM\<close>, \<open>handleM\<close>; \<open>Errors\<close>:
  \<open>meth\<close>). The exceptions (\<open>exn\<close>) are the thrown statuses, the standard library's, \<open>Undefined\<close> for what
  C++ leaves undefined (an index out of range, a null dereference, an uninitialised member) and
  \<open>Diverges\<close> for a loop that runs on; the last two are not caught by \<open>catch (...)\<close>. Integers are
  words of their width; \<open>float\<close> and \<open>double\<close> are bit patterns with IEEE rounding defined on exact
  rationals (\<open>Binary_Float\<close>). The operating system's network is the parameter \<open>net_ops\<close>, a record of
  functions on an abstract network state; files, memory allocation, \<open>tan\<close>, \<open>cos\<close> and the text form of IP
  addresses are the parameter \<open>host_ops\<close>. Neither is assumed to behave well unless a theorem says so.
\<close>

text \<open>
  \<^bold>\<open>Model theories\<close>, in the order of the code's layers:

  \<^item> \<open>Prelude\<close>: computations, a weakest-precondition calculus (\<open>wp_simps\<close>), an invariant calculus
    (\<open>keeps_intros\<close>), a calculus of exceptions that cannot occur (\<open>avoids_intros\<close>), total-correctness
    triples over an abstract view of the state (\<open>triple\<close>), word and list facts.
  \<^item> \<open>Errors\<close>, \<open>Constants\<close>: \<open>APS2_errno.h\<close>, \<open>APS2_enums.h\<close>, \<open>constants.h\<close>.
  \<^item> \<open>Codec\<close>, \<open>Datagram\<close>: byte orders and \<open>APS2Datagram\<close>; the locales \<open>fixed_codec\<close> and \<open>chunking\<close>.
  \<^item> \<open>Texts\<close>, \<open>Packet\<close>: numbers in hexadecimal and decimal text as the streams read and print them;
    \<open>MACAddr\<close> and \<open>APS2EthernetPacket\<close>.
  \<^item> \<open>Binary_Float\<close>, \<open>Float_Facts\<close>, \<open>Channel\<close>: floating point and class \<open>Channel\<close>.
  \<^item> \<open>Ethernet\<close>: class \<open>APS2Ethernet\<close>; the record \<open>link\<close> has its maps \<open>devInfo_\<close>, \<open>msgQueues_\<close>, \<open>tcp_sockets_\<close>.
  \<^item> \<open>APS2_Core\<close>: class \<open>APS2\<close>, its state (record \<open>aps2\<close>; \<open>st\<close> is the interface with one object) and memory access.
  \<^item> \<open>SPI\<close>, \<open>Flash\<close>, \<open>Control\<close>, \<open>Waveform\<close>, \<open>Bringup\<close>: the other methods of \<open>APS2\<close>.
  \<^item> \<open>LibAPS2\<close>: \<open>libaps2.cpp\<close>; the record \<open>lib\<close> is the interface with all objects.
  \<^item> \<open>Console\<close>, \<open>Tools\<close>: the command line tools of \<open>src/src/util\<close> (\<open>program\<close>, \<open>flash\<close>, \<open>reset\<close>, \<open>dac_bist\<close>) and
    what they share (\<open>src/src/C++/helpers.h\<close>), from parsed options to exit code, on the C interface with
    a standard input and the list of what was reported. \<open>Players\<close>: the programs of \<open>src/src/C++\<close>.

  \<^bold>\<open>Theories of properties.\<close>

  \<^item> \<open>Bus\<close>: refinement of a method by an abstract method (\<open>refines\<close>, rules in \<open>refines_intros\<close>) and the
    locale \<open>register_bus\<close>: the laws of word access and what follows from them for registers.
  \<^item> \<open>Device\<close>: the laws a TCP module keeps (\<open>memory_device\<close>: what it stores and which bytes it
    answers), and that \<open>read_memory\<close> and \<open>write_memory\<close> on such a module are a \<open>register_bus\<close>; the
    interpretation \<open>module\<close> gives all methods their abstract bus programs.
  \<^item> \<open>Emulator\<close>: a concrete module with these laws, on which the witnesses run.
  \<^item> \<open>Behaviour\<close>, \<open>Playback\<close>, \<open>Run_Modes\<close>, \<open>Registers\<close>: what the methods do to a module, end to end:
    memory, registers, trigger, run and stop, waveforms, sequences, run modes, channel registers.
  \<^item> \<open>Storage\<close>, \<open>Settings\<close>, \<open>Bitfiles\<close>: the configuration SDRAM and the EPROM of a module (laws
    \<open>dram_laws\<close>, \<open>eprom_laws\<close>: a page is erased as a whole, programming only clears bits), triples for
    erasing, writing and reading them, the settings page, and bitfiles for any medium
    (locale \<open>storage_medium\<close>, interpreted on both).
  \<^item> \<open>Chips\<close>, \<open>Alignment\<close>, \<open>Boot\<close>: the command streams to the chips behind the SPI bus (the interpreter
    \<open>spi_run\<close>, from the comments in \<open>constants.h\<close>; what a chip's register reads back is a parameter), the
    laws of a module that carries them out (\<open>chip_laws\<close>), and on it the sampling rate, the alignment of
    a DAC's LVDS capture and FIFO, and the start-up image in the EPROM.
  \<^item> \<open>Board\<close>, \<open>Start_Up\<close>: a whole module, memory and chips and what it measures (\<open>board_laws\<close>); what is proved
    of one half holds on it through a view (\<open>part_view\<close>). On it the alignment of the DAC clocks, the check
    of the clocks and \<open>init\<close>.
  \<^item> \<open>Signature\<close>: the reference signature of the DAC self test.
  \<^item> \<open>Legacy\<close>, \<open>Legacy_Properties\<close>: the laws of a module with legacy firmware, which takes UDP packets
    and answers into a message queue; its memory is a \<open>register_bus\<close> as well (interpretation \<open>legacy\<close>).
  \<^item> \<open>Session\<close>: from the loaded library to a connected object and back.
  \<^item> \<open>Wire_Properties\<close>: datagrams, packets, acknowledges, received bytes, the text of MAC addresses.
  \<^item> \<open>Sorting\<close>, \<open>Receive_Thread\<close>: the receive handler; the receive thread and the callers as a
    transition system (\<open>thread_step\<close>) with every interleaving, and the sequential model as runs of it.
  \<^item> \<open>Returns\<close>: no loop under the Ethernet interface runs on; when erasing the EPROM ends.
  \<^item> \<open>Chip_Properties\<close>: clock tables, FIFO offset, what the parts of bitfile writing compute.
  \<^item> \<open>Tables\<close>, \<open>Object_Invariant\<close>, \<open>Api_Invariant\<close>, \<open>Interface_Properties\<close>: the invariants of the
    interface's tables and of the module objects under every sequence of exported calls (\<open>api_step\<close>),
    and the translation of exceptions.
  \<^item> \<open>Tool_Properties\<close>: the key stroke loop and the waveform files of the players.
\<close>

text \<open>
  \<^bold>\<open>Loops and bounds.\<close> \<open>dg_chunk\<close> is a \<open>partial_function\<close>: a chunk size of 0 is \<open>None\<close> and any other ends
  (\<open>datagram_chunk_contract\<close>). The polling loop of \<open>receive\<close> is a function with a measure, since every turn
  that does not end it sleeps and so uses up the time-out. The page loop of \<open>erase_flash\<close> has fuel 65536,
  the number of page addresses, so running out means that it came back to its first page
  and goes on forever. The validation of a bitfile has fuel for one turn more than there are words, and
  every turn checks at least one. The clock alignment is bounded by the code's own number of tries, after
  which it gives up silently (\<open>DAC_clock_aligned\<close>). The
  loops of the tools over their input are recursive on it; an input that ends where the code reads on
  is a run that does not end (\<open>Runs_on\<close>). The polling loop of \<open>program\<close> ends only with its writing
  thread, because the task it waits for, \<open>DONE\<close>, is never set (\<open>api_objects_ok\<close>).

  \<^bold>\<open>Assumptions about modules\<close> are laws on the parameter \<open>net_ops\<close>, each shown to hold on an emulator. The
  laws of a legacy module let it answer late, as long as the polls of the waiting caller, whose sleeps
  may take up to twice as long as asked for, still fit into the time-out.

  \<^bold>\<open>Not modelled.\<close> Logging and its settings, terminal colours, the layout of what the tools print; the
  Windows variant of \<open>get_local_IPs\<close>; code that is commented out (the HDF5 files); \<open>DummyAPS\<close>, which the build leaves out and
  which uses a class that does not exist; the vendored option parser, whose results are a parameter of
  the tools, as are \<open>atof\<close> and the random test vectors; the bindings to other languages and the tests, which
  need hardware. The receive thread is sequential in \<open>Ethernet\<close> (it runs whenever a caller waits) and
  concurrent in \<open>Receive_Thread\<close>; the accesses of the maps without a lock are atomic steps there.
\<close>

end
